(* ===== verification/Prelude.thy ===== *)
theory Prelude
  imports Main "HOL-Library.Word"
begin

text \<open>
  Shared vocabulary of the development: bytes, Python strings and exceptions, the result type
  of operations that may raise, and the generic facts the component theories use.

  \<^item> A \<open>bytes\<close> object is a list of 8-bit words, a Python \<open>str\<close> a list of code points, a Python
    \<open>int\<close> an unbounded \<^typ>\<open>int\<close>.
  \<^item> An operation that may raise returns \<open>py_exc + 'a\<close>: \<open>Inl e\<close> is the raised exception,
    \<open>Inr x\<close> the returned value. \<open>res_bind\<close> is sequencing: the first exception wins.
\<close>

section \<open>Types\<close>

type_synonym byte = "8 word"
type_synonym bytes = "byte list"
type_synonym pystr = "nat list"

text \<open>
  The built-in exceptions the code raises or lets escape. Messages are dropped: no handler of
  the program reads them.
\<close>

datatype (plugins only: code) py_exc =
    IndexError
  | StructError
  | OverflowError
  | ValueError
  | TypeError
  | UnicodeDecodeError
  | UnicodeEncodeError
  | RuntimeError
  | IncompleteReadError
  | CancelledError
  | ConnectionLost

type_synonym 'a result = "py_exc + 'a"

section \<open>Named collections\<close>

named_theorems codec_intros \<open>rules that match one write of a serializer with one read of its deserializer\<close>
named_theorems yields_intros \<open>rules that say what the value a reader operation returns satisfies\<close>

section \<open>Sequencing results\<close>

definition res_bind :: "'a result \<Rightarrow> ('a \<Rightarrow> 'b result) \<Rightarrow> 'b result" where
  "res_bind m f = (case m of Inl e \<Rightarrow> Inl e | Inr x \<Rightarrow> f x)"

lemma res_bind_simps [simp]:
  "res_bind (Inl e) f = Inl e"
  "res_bind (Inr x) f = f x"
  by (simp_all add: res_bind_def)

lemma res_bind_eq_Inr [simp]:
  "res_bind m f = Inr y \<longleftrightarrow> (\<exists>x. m = Inr x \<and> f x = Inr y)"
  by (cases m) auto

lemma res_bind_assoc: "res_bind (res_bind m f) g = res_bind m (\<lambda>x. res_bind (f x) g)"
  by (cases m) auto

text \<open>Running a partial conversion of an enumeration: an unknown value is a \<open>ValueError\<close>.\<close>

definition or_raise :: "py_exc \<Rightarrow> 'a option \<Rightarrow> 'a result" where
  "or_raise e x = (case x of None \<Rightarrow> Inl e | Some y \<Rightarrow> Inr y)"

lemma or_raise_simps [simp]:
  "or_raise e None = Inl e"
  "or_raise e (Some y) = Inr y"
  by (simp_all add: or_raise_def)

lemma or_raise_eq_Inr [simp]: "or_raise e x = Inr y \<longleftrightarrow> x = Some y"
  by (cases x) auto

section \<open>Python sequences\<close>

text \<open>
  \<open>xs[i]\<close>: a negative index counts from the end, an index out of range raises.
\<close>

definition py_index :: "'a list \<Rightarrow> int \<Rightarrow> 'a result" where
  "py_index xs i =
     (let n = int (length xs); j = (if i < 0 then i + n else i)
      in if 0 \<le> j \<and> j < n then Inr (xs ! nat j) else Inl IndexError)"

text \<open>
  \<open>xs[a:b]\<close>: bounds count from the end when negative, are clipped to the sequence, and an
  empty range gives an empty sequence; a slice never raises.
\<close>

definition slice_bound :: "nat \<Rightarrow> int \<Rightarrow> nat" where
  "slice_bound n i = nat (max 0 (min (int n) (if i < 0 then i + int n else i)))"

definition py_slice :: "'a list \<Rightarrow> int \<Rightarrow> int \<Rightarrow> 'a list" where
  "py_slice xs a b =
     (let l = slice_bound (length xs) a; h = slice_bound (length xs) b
      in take (h - l) (drop l xs))"

lemma py_index_append [simp]:
  "py_index (pre @ x # post) (int (length pre)) = Inr x"
  by (simp add: py_index_def nth_append)

lemma py_slice_append [simp]:
  "py_slice (pre @ bs @ post) (int (length pre)) (int (length pre) + int (length bs)) = bs"
  by (simp add: py_slice_def slice_bound_def nat_add_distrib)

lemma py_slice_reversed:
  assumes "0 \<le> b" and "b \<le> a"
  shows "py_slice xs a b = []"
  using assms by (simp add: py_slice_def slice_bound_def)

section \<open>Enumerations looked up by value\<close>

text \<open>
  \<open>E(v)\<close> of an \<open>IntEnum\<close> class \<open>E\<close>: the first member whose value is \<open>v\<close>; \<open>None\<close> stands for the
  \<open>ValueError\<close> of an unknown value.
\<close>

definition enum_of_value :: "('e \<Rightarrow> int) \<Rightarrow> 'e list \<Rightarrow> int \<Rightarrow> 'e option" where
  "enum_of_value val members v = find (\<lambda>c. val c = v) members"

text \<open>
  What the code relies on of an \<open>IntEnum\<close>: every member is listed and no two members share a
  value (an alias would make the reverse lookup return another name).
\<close>

locale int_enum =
  fixes val :: "'e \<Rightarrow> int" and members :: "'e list"
  assumes complete: "c \<in> set members"
    and no_alias: "distinct (map val members)"
begin

lemma val_inj: "val c = val d \<Longrightarrow> c = d"
  using complete no_alias by (metis distinct_map inj_onD)

lemma of_value_val [simp]: "enum_of_value val members (val c) = Some c"
proof -
  have "\<exists>d. find (\<lambda>d. val d = val c) members = Some d"
    using complete by (metis (mono_tags, lifting) find_None_iff option.exhaust)
  then obtain d where d: "find (\<lambda>d. val d = val c) members = Some d" ..
  then have "val d = val c" by (auto simp: find_Some_iff)
  then have "d = c" by (rule val_inj)
  with d show ?thesis by (simp add: enum_of_value_def)
qed

lemma of_value_SomeD: "enum_of_value val members v = Some c \<Longrightarrow> val c = v"
  by (auto simp: enum_of_value_def find_Some_iff)

lemma of_value_eq_Some [simp]: "enum_of_value val members v = Some c \<longleftrightarrow> val c = v"
  using of_value_SomeD of_value_val by blast

lemma of_value_None: "enum_of_value val members v = None \<longleftrightarrow> v \<notin> range val"
  by (metis image_iff not_None_eq of_value_SomeD of_value_val rangeI)

end

section \<open>Runs of labelled transition systems\<close>

inductive run :: "('s \<Rightarrow> 'a \<Rightarrow> 's \<Rightarrow> bool) \<Rightarrow> 's \<Rightarrow> 'a list \<Rightarrow> 's \<Rightarrow> bool" for step where
  Nil: "run step s [] s"
| Cons: "step s a s' \<Longrightarrow> run step s' as s'' \<Longrightarrow> run step s (a # as) s''"

inductive_cases run_NilE [elim!]: "run step s [] s'"
inductive_cases run_ConsE [elim!]: "run step s (a # as) s'"

lemma run_append: "run step s (as @ bs) s'' \<longleftrightarrow> (\<exists>s'. run step s as s' \<and> run step s' bs s'')"
proof (induction as arbitrary: s)
  case (Cons a as)
  then show ?case by (simp add: ex_simps) (blast intro: run.intros)
qed (auto intro: run.intros)

lemma run_one [simp]: "run step s [a] s' \<longleftrightarrow> step s a s'"
  by (auto intro: run.intros)

lemma run_snoc: "run step s as s' \<Longrightarrow> step s' a s'' \<Longrightarrow> run step s (as @ [a]) s''"
  using run_append [of step s as "[a]" s''] by auto

text \<open>An invariant is what every step keeps, so what every run keeps.\<close>

locale step_invariant =
  fixes step :: "'s \<Rightarrow> 'a \<Rightarrow> 's \<Rightarrow> bool" and inv :: "'s \<Rightarrow> bool"
  assumes step_inv: "step s a s' \<Longrightarrow> inv s \<Longrightarrow> inv s'"
begin

lemma run_inv: "run step s as s' \<Longrightarrow> inv s \<Longrightarrow> inv s'"
  by (induction rule: run.induct) (auto intro: step_inv)

end

end
