(* ===== verification/Py_Struct.thy ===== *)
theory Py_Struct
  imports Prelude
begin

text \<open>
  The part of Python's \<open>struct\<close> module the program uses: big-endian integers of 1, 2, 4 and 8
  bytes, signed and unsigned. \<open>pack\<close> raises \<open>struct.error\<close> when the integer does not fit the
  format; \<open>unpack_from\<close> raises it when the buffer has too few bytes at the offset. A negative
  offset counts from the end of the buffer and must not let the format cross it.
\<close>

section \<open>Big-endian integers\<close>

fun be_bytes :: "nat \<Rightarrow> int \<Rightarrow> bytes" where
  "be_bytes 0 v = []"
| "be_bytes (Suc n) v = be_bytes n (v div 256) @ [word_of_int v]"

definition be_uint :: "bytes \<Rightarrow> int" where
  "be_uint bs = foldl (\<lambda>acc b. acc * 256 + uint b) 0 bs"

lemma be_bytes_numeral:
  "be_bytes (numeral k) v = be_bytes (pred_numeral k) (v div 256) @ [word_of_int v]"
  by (simp add: numeral_eq_Suc)

lemma be_uint_Nil [simp]: "be_uint [] = 0"
  by (simp add: be_uint_def)

lemma be_uint_snoc [simp]: "be_uint (bs @ [b]) = be_uint bs * 256 + uint b"
  by (simp add: be_uint_def)

lemma length_be_bytes [simp]: "length (be_bytes n v) = n"
  by (induction n arbitrary: v) auto

lemma uint_byte_of_int: "uint (word_of_int v :: byte) = v mod 256"
  by (simp add: uint_word_of_int)

lemma byte_of_int_cong: "u mod 256 = v mod 256 \<Longrightarrow> (word_of_int u :: byte) = word_of_int v"
  by (metis uint_byte_of_int word_uint_eqI)

lemma uint_byte_bounds: "0 \<le> uint (b :: byte) \<and> uint b < 256"
  using uint_lt2p [of b] by simp

lemma be_uint_be_bytes: "be_uint (be_bytes n v) = v mod 256 ^ n"
proof (induction n arbitrary: v)
  case 0
  then show ?case by simp
next
  case (Suc n)
  have "be_uint (be_bytes (Suc n) v) = (v div 256) mod 256 ^ n * 256 + v mod 256"
    by (simp add: Suc.IH uint_byte_of_int)
  also have "\<dots> = v mod (256 * 256 ^ n)"
    by (simp add: zmod_zmult2_eq mult.commute)
  finally show ?case by simp
qed

lemma be_uint_bounds: "0 \<le> be_uint bs \<and> be_uint bs < 256 ^ length bs"
proof (induction bs rule: rev_induct)
  case Nil
  then show ?case by simp
next
  case (snoc b bs)
  then show ?case using uint_byte_bounds [of b] by auto
qed

lemma be_bytes_be_uint: "be_bytes (length bs) (be_uint bs) = bs"
proof (induction bs rule: rev_induct)
  case Nil
  then show ?case by simp
next
  case (snoc b bs)
  have "(be_uint bs * 256 + uint b) div 256 = be_uint bs"
    using uint_byte_bounds [of b] by simp
  moreover have "(word_of_int (be_uint bs * 256 + uint b) :: byte) = b"
    using byte_of_int_cong [of "be_uint bs * 256 + uint b" "uint b"] by simp
  ultimately show ?case using snoc by simp
qed

section \<open>Formats, pack and unpack\<close>

text \<open>\<open>Signed n\<close> and \<open>Unsigned n\<close> are the big-endian formats of \<open>n\<close> bytes: \<open>>b\<close>, \<open>>h\<close>, \<open>>i\<close>, \<open>>q\<close>
  and \<open>>B\<close>, \<open>>H\<close>, \<open>>I\<close>, \<open>>Q\<close>.\<close>

datatype (plugins only: code) format = Signed nat | Unsigned nat

fun fmt_size :: "format \<Rightarrow> nat" where
  "fmt_size (Signed n) = n"
| "fmt_size (Unsigned n) = n"

fun fits :: "format \<Rightarrow> int \<Rightarrow> bool" where
  "fits (Signed n) v \<longleftrightarrow> - (256 ^ n) \<le> 2 * v \<and> 2 * v < 256 ^ n"
| "fits (Unsigned n) v \<longleftrightarrow> 0 \<le> v \<and> v < 256 ^ n"

definition pack :: "format \<Rightarrow> int \<Rightarrow> bytes result" where
  "pack f v = (if fits f v then Inr (be_bytes (fmt_size f) v) else Inl StructError)"

fun decode_int :: "format \<Rightarrow> bytes \<Rightarrow> int" where
  "decode_int (Unsigned n) bs = be_uint bs"
| "decode_int (Signed n) bs =
     (if 2 * be_uint bs < 256 ^ n then be_uint bs else be_uint bs - 256 ^ n)"

text \<open>The bytes of a format at an offset, with the bounds checks of \<open>unpack_from\<close>.\<close>

definition field_at :: "nat \<Rightarrow> bytes \<Rightarrow> int \<Rightarrow> bytes result" where
  "field_at n data offset =
     (if offset < 0 then
        (if offset + int n > 0 \<or> offset + int (length data) < 0 then Inl StructError
         else Inr (take n (drop (nat (offset + int (length data))) data)))
      else if int (length data) - offset < int n then Inl StructError
      else Inr (take n (drop (nat offset) data)))"

definition unpack_from :: "format \<Rightarrow> bytes \<Rightarrow> int \<Rightarrow> int result" where
  "unpack_from f data offset =
     res_bind (field_at (fmt_size f) data offset) (\<lambda>bs. Inr (decode_int f bs))"

text \<open>\<open>Struct.unpack\<close> of a whole buffer, whose length must be exactly the format's.\<close>

definition unpack :: "format \<Rightarrow> bytes \<Rightarrow> int result" where
  "unpack f bs = (if length bs = fmt_size f then Inr (decode_int f bs) else Inl StructError)"

lemma pack_eq_Inr: "pack f v = Inr bs \<longleftrightarrow> fits f v \<and> bs = be_bytes (fmt_size f) v"
  by (auto simp: pack_def)

lemma pack_length: "pack f v = Inr bs \<Longrightarrow> length bs = fmt_size f"
  by (auto simp: pack_eq_Inr)

lemma decode_be_bytes: "fits f v \<Longrightarrow> decode_int f (be_bytes (fmt_size f) v) = v"
proof (induction f v rule: fits.induct)
  case (1 n v)
  show ?case
  proof (cases "0 \<le> v")
    case True
    with 1 have "v mod 256 ^ n = v" by simp
    with 1 show ?thesis by (simp add: be_uint_be_bytes)
  next
    case False
    have "(v + 256 ^ n) mod 256 ^ n = v + 256 ^ n"
      using 1 False by (intro mod_pos_pos_trivial) auto
    then have "v mod 256 ^ n = v + 256 ^ n" by simp
    with 1 show ?thesis by (simp add: be_uint_be_bytes)
  qed
next
  case (2 n v)
  then show ?case by (simp add: be_uint_be_bytes)
qed

lemma even_256_pow: "0 < n \<Longrightarrow> even ((256 :: int) ^ n)"
  by simp

lemma fits_decode: "length bs = fmt_size f \<Longrightarrow> fits f (decode_int f bs)"
  using be_uint_bounds [of bs] by (cases f) auto

lemma be_bytes_decode: "length bs = fmt_size f \<Longrightarrow> be_bytes (fmt_size f) (decode_int f bs) = bs"
proof (cases f)
  case (Signed n)
  assume len: "length bs = fmt_size f"
  have shift: "be_bytes n (v - 256 ^ n) = be_bytes n v" for v :: int
  proof (induction n arbitrary: v)
    case 0
    then show ?case by simp
  next
    case (Suc n)
    have "(v - 256 ^ Suc n) div 256 = v div 256 - 256 ^ n"
      by (simp add: div_diff)
    moreover have "(word_of_int (v - 256 ^ Suc n) :: byte) = word_of_int v"
      by (rule byte_of_int_cong) (simp add: mod_diff_eq [symmetric])
    ultimately show ?case by (simp add: Suc.IH)
  qed
  show ?thesis using Signed len be_bytes_be_uint [of bs] by (auto simp: shift)
next
  case (Unsigned n)
  assume "length bs = fmt_size f"
  then show ?thesis using Unsigned be_bytes_be_uint [of bs] by simp
qed

lemma unpack_pack: "pack f v = Inr bs \<Longrightarrow> unpack f bs = Inr v"
  by (auto simp: pack_eq_Inr unpack_def decode_be_bytes)

lemma pack_unpack: "unpack f bs = Inr v \<Longrightarrow> pack f v = Inr bs"
  by (auto simp: unpack_def pack_def fits_decode be_bytes_decode split: if_splits)

lemma field_at_append [simp]:
  "length bs = n \<Longrightarrow> field_at n (pre @ bs @ post) (int (length pre)) = Inr bs"
  by (simp add: field_at_def)

lemma field_at_length: "field_at n d k = Inr bs \<Longrightarrow> length bs = n"
  by (auto simp: field_at_def split: if_splits)

lemma unpack_from_fits: "unpack_from f d k = Inr v \<Longrightarrow> fits f v"
  by (auto simp: unpack_from_def dest!: field_at_length fits_decode)

lemma unpack_from_pack [simp]:
  "pack f v = Inr bs \<Longrightarrow> unpack_from f (pre @ bs @ post) (int (length pre)) = Inr v"
  by (auto simp: unpack_from_def pack_eq_Inr decode_be_bytes)

text \<open>The bytes of the two widths, spelled out.\<close>

lemma be_bytes_4: "be_bytes 4 v = [word_of_int (v div 2 ^ 24), word_of_int (v div 2 ^ 16), word_of_int (v div 2 ^ 8), word_of_int v]"
  by (simp add: be_bytes_numeral zdiv_zmult2_eq [symmetric])

lemma be_bytes_8: "be_bytes 8 v = [word_of_int (v div 2 ^ 56), word_of_int (v div 2 ^ 48), word_of_int (v div 2 ^ 40),
    word_of_int (v div 2 ^ 32), word_of_int (v div 2 ^ 24), word_of_int (v div 2 ^ 16), word_of_int (v div 2 ^ 8), word_of_int v]"
  by (simp add: be_bytes_numeral zdiv_zmult2_eq [symmetric])

lemma be_uint_explicit:
  "be_uint [a, b, c, d] = uint a * 2 ^ 24 + uint b * 2 ^ 16 + uint c * 2 ^ 8 + uint d"
  "be_uint [a, b, c, d, e, f, g, h] = uint a * 2 ^ 56 + uint b * 2 ^ 48 + uint c * 2 ^ 40 + uint d * 2 ^ 32 +
     uint e * 2 ^ 24 + uint f * 2 ^ 16 + uint g * 2 ^ 8 + uint h"
  by (simp_all add: be_uint_def)

lemma decode_signed:
  assumes "length bs = n" and "0 < n"
  shows "decode_int (Signed n) bs = (be_uint bs + 256 ^ n div 2) mod 256 ^ n - 256 ^ n div 2"
proof -
  have e: "2 * (256 ^ n div 2) = (256 :: int) ^ n" using even_256_pow [OF assms(2)] by simp
  have b: "0 \<le> be_uint bs" "be_uint bs < 256 ^ n" using be_uint_bounds [of bs] assms(1) by simp_all
  show ?thesis
  proof (cases "2 * be_uint bs < 256 ^ n")
    case True
    with b e have "(be_uint bs + 256 ^ n div 2) mod 256 ^ n = be_uint bs + 256 ^ n div 2"
      by (intro mod_pos_pos_trivial) linarith+
    with True show ?thesis by simp
  next
    case False
    with b e have "(be_uint bs - 256 ^ n div 2) mod 256 ^ n = be_uint bs - 256 ^ n div 2"
      by (intro mod_pos_pos_trivial) linarith+
    moreover have "be_uint bs + 256 ^ n div 2 = (be_uint bs - 256 ^ n div 2) + 256 ^ n" using e by linarith
    ultimately have "(be_uint bs + 256 ^ n div 2) mod 256 ^ n = be_uint bs - 256 ^ n div 2"
      by (simp only: mod_add_self2)
    with False e show ?thesis by simp
  qed
qed

section \<open>Structs of several fields\<close>

text \<open>
  \<open>Struct.pack\<close> and \<open>Struct.unpack\<close> of a format with several fields: the fields stand one after
  the other, and \<open>unpack\<close> wants a buffer of exactly the total size.
\<close>

fun pack_all :: "(format \<times> int) list \<Rightarrow> bytes result" where
  "pack_all [] = Inr []"
| "pack_all ((f, v) # fs) =
     res_bind (pack f v) (\<lambda>bs. res_bind (pack_all fs) (\<lambda>rest. Inr (bs @ rest)))"

fun decode_all :: "format list \<Rightarrow> bytes \<Rightarrow> int list" where
  "decode_all [] bs = []"
| "decode_all (f # fs) bs =
     decode_int f (take (fmt_size f) bs) # decode_all fs (drop (fmt_size f) bs)"

definition unpack_all :: "format list \<Rightarrow> bytes \<Rightarrow> int list result" where
  "unpack_all fs bs =
     (if length bs = sum_list (map fmt_size fs) then Inr (decode_all fs bs) else Inl StructError)"

lemma pack_all_length: "pack_all fvs = Inr bs \<Longrightarrow> length bs = sum_list (map (fmt_size \<circ> fst) fvs)"
  by (induction fvs arbitrary: bs) (auto simp: pack_length)

lemma unpack_all_pack_all:
  assumes "pack_all fvs = Inr bs"
  shows "unpack_all (map fst fvs) bs = Inr (map snd fvs)"
proof -
  have "decode_all (map fst fvs) bs = map snd fvs"
    using assms
  proof (induction fvs arbitrary: bs)
    case (Cons fv fvs)
    then show ?case
      by (cases fv) (auto simp: pack_eq_Inr decode_be_bytes)
  qed simp
  with pack_all_length [OF assms] show ?thesis by (simp add: unpack_all_def comp_def)
qed

lemma pack_all_decode_all:
  "length bs = sum_list (map fmt_size fs) \<Longrightarrow> pack_all (zip fs (decode_all fs bs)) = Inr bs"
proof (induction fs arbitrary: bs)
  case (Cons f fs)
  have "pack f (decode_int f (take (fmt_size f) bs)) = Inr (take (fmt_size f) bs)"
    using Cons.prems by (intro pack_unpack) (simp add: unpack_def)
  moreover have "pack_all (zip fs (decode_all fs (drop (fmt_size f) bs))) = Inr (drop (fmt_size f) bs)"
    using Cons.prems by (intro Cons.IH) simp
  ultimately show ?case by simp
qed simp

lemma decode_all_bounds:
  "length bs = sum_list (map fmt_size fs) \<Longrightarrow> list_all2 fits fs (decode_all fs bs)"
  by (induction fs arbitrary: bs) (auto intro!: fits_decode)

end
