(* ===== verification/Constants.thy ===== *)
theory Constants
  imports Prelude
begin

text \<open>
  The protocol constants of \<^verbatim>\<open>constants.py\<close>. Each \<open>IntEnum\<close> is a datatype with one constructor
  per member, in the source's order, a function to the member's integer and the list of members;
  \<open>E(v)\<close> is \<open>enum_of_value\<close> on them. \<open>IntFlag\<close> classes keep any bits (the \<open>KEEP\<close> boundary), so their
  values are the non-negative integers \<open>E(v)\<close> produces.
\<close>

section \<open>IntEnum classes\<close>

datatype (plugins only: code) JdwpTag =
    TAG_ARRAY | TAG_BYTE | TAG_CHAR | TAG_OBJECT | TAG_FLOAT | TAG_DOUBLE | TAG_INT |
    TAG_LONG | TAG_SHORT | TAG_VOID | TAG_BOOLEAN | TAG_STRING | TAG_THREAD |
    TAG_THREAD_GROUP | TAG_CLASS_LOADER | TAG_CLASS_OBJECT

fun tag_value :: "JdwpTag \<Rightarrow> int" where
  "tag_value TAG_ARRAY = 91"
| "tag_value TAG_BYTE = 66"
| "tag_value TAG_CHAR = 67"
| "tag_value TAG_OBJECT = 76"
| "tag_value TAG_FLOAT = 70"
| "tag_value TAG_DOUBLE = 68"
| "tag_value TAG_INT = 73"
| "tag_value TAG_LONG = 74"
| "tag_value TAG_SHORT = 83"
| "tag_value TAG_VOID = 86"
| "tag_value TAG_BOOLEAN = 90"
| "tag_value TAG_STRING = 115"
| "tag_value TAG_THREAD = 116"
| "tag_value TAG_THREAD_GROUP = 103"
| "tag_value TAG_CLASS_LOADER = 108"
| "tag_value TAG_CLASS_OBJECT = 99"

definition tag_members :: "JdwpTag list" where
  "tag_members =
     [TAG_ARRAY, TAG_BYTE, TAG_CHAR, TAG_OBJECT, TAG_FLOAT, TAG_DOUBLE, TAG_INT, TAG_LONG,
      TAG_SHORT, TAG_VOID, TAG_BOOLEAN, TAG_STRING, TAG_THREAD, TAG_THREAD_GROUP,
      TAG_CLASS_LOADER, TAG_CLASS_OBJECT]"

datatype (plugins only: code) JdwpErrorCode =
    ERR_NONE | ERR_INVALID_THREAD | ERR_INVALID_THREAD_GROUP | ERR_INVALID_PRIORITY |
    ERR_THREAD_NOT_SUSPENDED | ERR_THREAD_SUSPENDED | ERR_THREAD_NOT_ALIVE |
    ERR_INVALID_OBJECT | ERR_INVALID_CLASS | ERR_CLASS_NOT_PREPARED | ERR_INVALID_METHODID |
    ERR_INVALID_LOCATION | ERR_INVALID_FIELDID | ERR_INVALID_FRAMEID | ERR_NO_MORE_FRAMES |
    ERR_OPAQUE_FRAME | ERR_NOT_CURRENT_FRAME | ERR_TYPE_MISMATCH | ERR_INVALID_SLOT |
    ERR_DUPLICATE | ERR_NOT_FOUND | ERR_INVALID_MODULE | ERR_INVALID_MONITOR |
    ERR_NOT_MONITOR_OWNER | ERR_INTERRUPT | ERR_INVALID_CLASS_FORMAT |
    ERR_CIRCULAR_CLASS_DEFINITION | ERR_FAILS_VERIFICATION |
    ERR_ADD_METHOD_NOT_IMPLEMENTED | ERR_SCHEMA_CHANGE_NOT_IMPLEMENTED |
    ERR_INVALID_TYPESTATE | ERR_HIERARCHY_CHANGE_NOT_IMPLEMENTED |
    ERR_DELETE_METHOD_NOT_IMPLEMENTED | ERR_UNSUPPORTED_VERSION | ERR_NAMES_DONT_MATCH |
    ERR_CLASS_MODIFIERS_CHANGE_NOT_IMPLEMENTED |
    ERR_METHOD_MODIFIERS_CHANGE_NOT_IMPLEMENTED |
    ERR_CLASS_ATTRIBUTE_CHANGE_NOT_IMPLEMENTED | ERR_NOT_IMPLEMENTED | ERR_NULL_POINTER |
    ERR_ABSENT_INFORMATION | ERR_INVALID_EVENT_TYPE | ERR_ILLEGAL_ARGUMENT |
    ERR_OUT_OF_MEMORY | ERR_ACCESS_DENIED | ERR_VM_DEAD | ERR_INTERNAL |
    ERR_UNATTACHED_THREAD | ERR_INVALID_TAG | ERR_ALREADY_INVOKING | ERR_INVALID_INDEX |
    ERR_INVALID_LENGTH | ERR_INVALID_STRING | ERR_INVALID_CLASS_LOADER | ERR_INVALID_ARRAY |
    ERR_TRANSPORT_LOAD | ERR_TRANSPORT_INIT | ERR_NATIVE_METHOD | ERR_INVALID_COUNT

fun error_value :: "JdwpErrorCode \<Rightarrow> int" where
  "error_value ERR_NONE = 0"
| "error_value ERR_INVALID_THREAD = 10"
| "error_value ERR_INVALID_THREAD_GROUP = 11"
| "error_value ERR_INVALID_PRIORITY = 12"
| "error_value ERR_THREAD_NOT_SUSPENDED = 13"
| "error_value ERR_THREAD_SUSPENDED = 14"
| "error_value ERR_THREAD_NOT_ALIVE = 15"
| "error_value ERR_INVALID_OBJECT = 20"
| "error_value ERR_INVALID_CLASS = 21"
| "error_value ERR_CLASS_NOT_PREPARED = 22"
| "error_value ERR_INVALID_METHODID = 23"
| "error_value ERR_INVALID_LOCATION = 24"
| "error_value ERR_INVALID_FIELDID = 25"
| "error_value ERR_INVALID_FRAMEID = 30"
| "error_value ERR_NO_MORE_FRAMES = 31"
| "error_value ERR_OPAQUE_FRAME = 32"
| "error_value ERR_NOT_CURRENT_FRAME = 33"
| "error_value ERR_TYPE_MISMATCH = 34"
| "error_value ERR_INVALID_SLOT = 35"
| "error_value ERR_DUPLICATE = 40"
| "error_value ERR_NOT_FOUND = 41"
| "error_value ERR_INVALID_MODULE = 42"
| "error_value ERR_INVALID_MONITOR = 50"
| "error_value ERR_NOT_MONITOR_OWNER = 51"
| "error_value ERR_INTERRUPT = 52"
| "error_value ERR_INVALID_CLASS_FORMAT = 60"
| "error_value ERR_CIRCULAR_CLASS_DEFINITION = 61"
| "error_value ERR_FAILS_VERIFICATION = 62"
| "error_value ERR_ADD_METHOD_NOT_IMPLEMENTED = 63"
| "error_value ERR_SCHEMA_CHANGE_NOT_IMPLEMENTED = 64"
| "error_value ERR_INVALID_TYPESTATE = 65"
| "error_value ERR_HIERARCHY_CHANGE_NOT_IMPLEMENTED = 66"
| "error_value ERR_DELETE_METHOD_NOT_IMPLEMENTED = 67"
| "error_value ERR_UNSUPPORTED_VERSION = 68"
| "error_value ERR_NAMES_DONT_MATCH = 69"
| "error_value ERR_CLASS_MODIFIERS_CHANGE_NOT_IMPLEMENTED = 70"
| "error_value ERR_METHOD_MODIFIERS_CHANGE_NOT_IMPLEMENTED = 71"
| "error_value ERR_CLASS_ATTRIBUTE_CHANGE_NOT_IMPLEMENTED = 72"
| "error_value ERR_NOT_IMPLEMENTED = 99"
| "error_value ERR_NULL_POINTER = 100"
| "error_value ERR_ABSENT_INFORMATION = 101"
| "error_value ERR_INVALID_EVENT_TYPE = 102"
| "error_value ERR_ILLEGAL_ARGUMENT = 103"
| "error_value ERR_OUT_OF_MEMORY = 110"
| "error_value ERR_ACCESS_DENIED = 111"
| "error_value ERR_VM_DEAD = 112"
| "error_value ERR_INTERNAL = 113"
| "error_value ERR_UNATTACHED_THREAD = 115"
| "error_value ERR_INVALID_TAG = 500"
| "error_value ERR_ALREADY_INVOKING = 502"
| "error_value ERR_INVALID_INDEX = 503"
| "error_value ERR_INVALID_LENGTH = 504"
| "error_value ERR_INVALID_STRING = 506"
| "error_value ERR_INVALID_CLASS_LOADER = 507"
| "error_value ERR_INVALID_ARRAY = 508"
| "error_value ERR_TRANSPORT_LOAD = 509"
| "error_value ERR_TRANSPORT_INIT = 510"
| "error_value ERR_NATIVE_METHOD = 511"
| "error_value ERR_INVALID_COUNT = 512"

definition error_members :: "JdwpErrorCode list" where
  "error_members =
     [ERR_NONE, ERR_INVALID_THREAD, ERR_INVALID_THREAD_GROUP, ERR_INVALID_PRIORITY,
      ERR_THREAD_NOT_SUSPENDED, ERR_THREAD_SUSPENDED, ERR_THREAD_NOT_ALIVE,
      ERR_INVALID_OBJECT, ERR_INVALID_CLASS, ERR_CLASS_NOT_PREPARED, ERR_INVALID_METHODID,
      ERR_INVALID_LOCATION, ERR_INVALID_FIELDID, ERR_INVALID_FRAMEID, ERR_NO_MORE_FRAMES,
      ERR_OPAQUE_FRAME, ERR_NOT_CURRENT_FRAME, ERR_TYPE_MISMATCH, ERR_INVALID_SLOT,
      ERR_DUPLICATE, ERR_NOT_FOUND, ERR_INVALID_MODULE, ERR_INVALID_MONITOR,
      ERR_NOT_MONITOR_OWNER, ERR_INTERRUPT, ERR_INVALID_CLASS_FORMAT,
      ERR_CIRCULAR_CLASS_DEFINITION, ERR_FAILS_VERIFICATION, ERR_ADD_METHOD_NOT_IMPLEMENTED,
      ERR_SCHEMA_CHANGE_NOT_IMPLEMENTED, ERR_INVALID_TYPESTATE,
      ERR_HIERARCHY_CHANGE_NOT_IMPLEMENTED, ERR_DELETE_METHOD_NOT_IMPLEMENTED,
      ERR_UNSUPPORTED_VERSION, ERR_NAMES_DONT_MATCH,
      ERR_CLASS_MODIFIERS_CHANGE_NOT_IMPLEMENTED,
      ERR_METHOD_MODIFIERS_CHANGE_NOT_IMPLEMENTED,
      ERR_CLASS_ATTRIBUTE_CHANGE_NOT_IMPLEMENTED, ERR_NOT_IMPLEMENTED, ERR_NULL_POINTER,
      ERR_ABSENT_INFORMATION, ERR_INVALID_EVENT_TYPE, ERR_ILLEGAL_ARGUMENT,
      ERR_OUT_OF_MEMORY, ERR_ACCESS_DENIED, ERR_VM_DEAD, ERR_INTERNAL,
      ERR_UNATTACHED_THREAD, ERR_INVALID_TAG, ERR_ALREADY_INVOKING, ERR_INVALID_INDEX,
      ERR_INVALID_LENGTH, ERR_INVALID_STRING, ERR_INVALID_CLASS_LOADER, ERR_INVALID_ARRAY,
      ERR_TRANSPORT_LOAD, ERR_TRANSPORT_INIT, ERR_NATIVE_METHOD, ERR_INVALID_COUNT]"

datatype (plugins only: code) JdwpEventKind =
    EVENT_SINGLE_STEP | EVENT_BREAKPOINT | EVENT_FRAME_POP | EVENT_EXCEPTION |
    EVENT_USER_DEFINED | EVENT_THREAD_START | EVENT_THREAD_DEATH | EVENT_CLASS_PREPARE |
    EVENT_CLASS_UNLOAD | EVENT_CLASS_LOAD | EVENT_FIELD_ACCESS | EVENT_FIELD_MODIFICATION |
    EVENT_EXCEPTION_CATCH | EVENT_METHOD_ENTRY | EVENT_METHOD_EXIT |
    EVENT_METHOD_EXIT_WITH_RETURN_VALUE | EVENT_MONITOR_CONTENDED_ENTER |
    EVENT_MONITOR_CONTENDED_ENTERED | EVENT_MONITOR_WAIT | EVENT_MONITOR_WAITED |
    EVENT_VM_START | EVENT_VM_DEATH

fun event_kind_value :: "JdwpEventKind \<Rightarrow> int" where
  "event_kind_value EVENT_SINGLE_STEP = 1"
| "event_kind_value EVENT_BREAKPOINT = 2"
| "event_kind_value EVENT_FRAME_POP = 3"
| "event_kind_value EVENT_EXCEPTION = 4"
| "event_kind_value EVENT_USER_DEFINED = 5"
| "event_kind_value EVENT_THREAD_START = 6"
| "event_kind_value EVENT_THREAD_DEATH = 7"
| "event_kind_value EVENT_CLASS_PREPARE = 8"
| "event_kind_value EVENT_CLASS_UNLOAD = 9"
| "event_kind_value EVENT_CLASS_LOAD = 10"
| "event_kind_value EVENT_FIELD_ACCESS = 20"
| "event_kind_value EVENT_FIELD_MODIFICATION = 21"
| "event_kind_value EVENT_EXCEPTION_CATCH = 30"
| "event_kind_value EVENT_METHOD_ENTRY = 40"
| "event_kind_value EVENT_METHOD_EXIT = 41"
| "event_kind_value EVENT_METHOD_EXIT_WITH_RETURN_VALUE = 42"
| "event_kind_value EVENT_MONITOR_CONTENDED_ENTER = 43"
| "event_kind_value EVENT_MONITOR_CONTENDED_ENTERED = 44"
| "event_kind_value EVENT_MONITOR_WAIT = 45"
| "event_kind_value EVENT_MONITOR_WAITED = 46"
| "event_kind_value EVENT_VM_START = 90"
| "event_kind_value EVENT_VM_DEATH = 99"

definition event_kind_members :: "JdwpEventKind list" where
  "event_kind_members =
     [EVENT_SINGLE_STEP, EVENT_BREAKPOINT, EVENT_FRAME_POP, EVENT_EXCEPTION,
      EVENT_USER_DEFINED, EVENT_THREAD_START, EVENT_THREAD_DEATH, EVENT_CLASS_PREPARE,
      EVENT_CLASS_UNLOAD, EVENT_CLASS_LOAD, EVENT_FIELD_ACCESS, EVENT_FIELD_MODIFICATION,
      EVENT_EXCEPTION_CATCH, EVENT_METHOD_ENTRY, EVENT_METHOD_EXIT,
      EVENT_METHOD_EXIT_WITH_RETURN_VALUE, EVENT_MONITOR_CONTENDED_ENTER,
      EVENT_MONITOR_CONTENDED_ENTERED, EVENT_MONITOR_WAIT, EVENT_MONITOR_WAITED,
      EVENT_VM_START, EVENT_VM_DEATH]"

datatype (plugins only: code) JdwpSuspendPolicy =
    SUSPEND_NONE | SUSPEND_EVENT_THREAD | SUSPEND_ALL

fun suspend_policy_value :: "JdwpSuspendPolicy \<Rightarrow> int" where
  "suspend_policy_value SUSPEND_NONE = 0"
| "suspend_policy_value SUSPEND_EVENT_THREAD = 1"
| "suspend_policy_value SUSPEND_ALL = 2"

definition suspend_policy_members :: "JdwpSuspendPolicy list" where
  "suspend_policy_members =
     [SUSPEND_NONE, SUSPEND_EVENT_THREAD, SUSPEND_ALL]"

datatype (plugins only: code) JdwpTypeTag =
    TYPE_CLASS | TYPE_INTERFACE | TYPE_ARRAY

fun type_tag_value :: "JdwpTypeTag \<Rightarrow> int" where
  "type_tag_value TYPE_CLASS = 1"
| "type_tag_value TYPE_INTERFACE = 2"
| "type_tag_value TYPE_ARRAY = 3"

definition type_tag_members :: "JdwpTypeTag list" where
  "type_tag_members =
     [TYPE_CLASS, TYPE_INTERFACE, TYPE_ARRAY]"

datatype (plugins only: code) JdwpThreadStatus =
    THREAD_ZOMBIE | THREAD_RUNNING | THREAD_SLEEPING | THREAD_MONITOR | THREAD_WAIT

fun thread_status_value :: "JdwpThreadStatus \<Rightarrow> int" where
  "thread_status_value THREAD_ZOMBIE = 0"
| "thread_status_value THREAD_RUNNING = 1"
| "thread_status_value THREAD_SLEEPING = 2"
| "thread_status_value THREAD_MONITOR = 3"
| "thread_status_value THREAD_WAIT = 4"

definition thread_status_members :: "JdwpThreadStatus list" where
  "thread_status_members =
     [THREAD_ZOMBIE, THREAD_RUNNING, THREAD_SLEEPING, THREAD_MONITOR, THREAD_WAIT]"

datatype (plugins only: code) JdwpSuspendStatus =
    SUSPEND_STATUS_NONE | SUSPEND_STATUS_SUSPENDED

fun suspend_status_value :: "JdwpSuspendStatus \<Rightarrow> int" where
  "suspend_status_value SUSPEND_STATUS_NONE = 0"
| "suspend_status_value SUSPEND_STATUS_SUSPENDED = 1"

definition suspend_status_members :: "JdwpSuspendStatus list" where
  "suspend_status_members =
     [SUSPEND_STATUS_NONE, SUSPEND_STATUS_SUSPENDED]"

section \<open>Lookup by value\<close>

interpretation tag: int_enum tag_value tag_members
proof unfold_locales
  show "c \<in> set tag_members" for c
    by (cases c) (simp_all add: tag_members_def)
  show "distinct (map tag_value tag_members)"
    by (simp add: tag_members_def)
qed

interpretation error: int_enum error_value error_members
proof unfold_locales
  show "c \<in> set error_members" for c
    by (cases c) (simp_all add: error_members_def)
  show "distinct (map error_value error_members)"
    by (simp add: error_members_def)
qed

interpretation event_kind: int_enum event_kind_value event_kind_members
proof unfold_locales
  show "c \<in> set event_kind_members" for c
    by (cases c) (simp_all add: event_kind_members_def)
  show "distinct (map event_kind_value event_kind_members)"
    by (simp add: event_kind_members_def)
qed

interpretation suspend_policy: int_enum suspend_policy_value suspend_policy_members
proof unfold_locales
  show "c \<in> set suspend_policy_members" for c
    by (cases c) (simp_all add: suspend_policy_members_def)
  show "distinct (map suspend_policy_value suspend_policy_members)"
    by (simp add: suspend_policy_members_def)
qed

interpretation type_tag: int_enum type_tag_value type_tag_members
proof unfold_locales
  show "c \<in> set type_tag_members" for c
    by (cases c) (simp_all add: type_tag_members_def)
  show "distinct (map type_tag_value type_tag_members)"
    by (simp add: type_tag_members_def)
qed

interpretation thread_status: int_enum thread_status_value thread_status_members
proof unfold_locales
  show "c \<in> set thread_status_members" for c
    by (cases c) (simp_all add: thread_status_members_def)
  show "distinct (map thread_status_value thread_status_members)"
    by (simp add: thread_status_members_def)
qed

interpretation suspend_status: int_enum suspend_status_value suspend_status_members
proof unfold_locales
  show "c \<in> set suspend_status_members" for c
    by (cases c) (simp_all add: suspend_status_members_def)
  show "distinct (map suspend_status_value suspend_status_members)"
    by (simp add: suspend_status_members_def)
qed

definition JdwpTag_of :: "int \<Rightarrow> JdwpTag option" where
  "JdwpTag_of v = enum_of_value tag_value tag_members v"

definition JdwpErrorCode_of :: "int \<Rightarrow> JdwpErrorCode option" where
  "JdwpErrorCode_of v = enum_of_value error_value error_members v"

definition JdwpEventKind_of :: "int \<Rightarrow> JdwpEventKind option" where
  "JdwpEventKind_of v = enum_of_value event_kind_value event_kind_members v"

definition JdwpSuspendPolicy_of :: "int \<Rightarrow> JdwpSuspendPolicy option" where
  "JdwpSuspendPolicy_of v = enum_of_value suspend_policy_value suspend_policy_members v"

definition JdwpTypeTag_of :: "int \<Rightarrow> JdwpTypeTag option" where
  "JdwpTypeTag_of v = enum_of_value type_tag_value type_tag_members v"

definition JdwpThreadStatus_of :: "int \<Rightarrow> JdwpThreadStatus option" where
  "JdwpThreadStatus_of v = enum_of_value thread_status_value thread_status_members v"

definition JdwpSuspendStatus_of :: "int \<Rightarrow> JdwpSuspendStatus option" where
  "JdwpSuspendStatus_of v = enum_of_value suspend_status_value suspend_status_members v"

lemmas enum_of_defs =
  JdwpTag_of_def JdwpErrorCode_of_def JdwpEventKind_of_def JdwpSuspendPolicy_of_def
  JdwpTypeTag_of_def JdwpThreadStatus_of_def JdwpSuspendStatus_of_def

lemma enum_of_value_simps [simp]:
  "JdwpTag_of (tag_value t) = Some t"
  "JdwpErrorCode_of (error_value e) = Some e"
  "JdwpEventKind_of (event_kind_value k) = Some k"
  "JdwpSuspendPolicy_of (suspend_policy_value p) = Some p"
  "JdwpTypeTag_of (type_tag_value y) = Some y"
  "JdwpThreadStatus_of (thread_status_value h) = Some h"
  "JdwpSuspendStatus_of (suspend_status_value u) = Some u"
  by (simp_all add: enum_of_defs)

text \<open>Every value the protocol sends as one byte fits a byte, so \<open>& 0xFF\<close> loses nothing.\<close>

lemma enum_byte_bounds [simp]:
  "tag_value t mod 256 = tag_value t"
  "event_kind_value k mod 256 = event_kind_value k"
  "suspend_policy_value p mod 256 = suspend_policy_value p"
  "type_tag_value y mod 256 = type_tag_value y"
proof -
  show "tag_value t mod 256 = tag_value t" by (cases t) simp_all
  show "event_kind_value k mod 256 = event_kind_value k" by (cases k) simp_all
  show "suspend_policy_value p mod 256 = suspend_policy_value p" by (cases p) simp_all
  show "type_tag_value y mod 256 = type_tag_value y" by (cases y) simp_all
qed

text \<open>\<open>IntEnum\<close> members compare as their integers; error codes are ordered that way.\<close>

instantiation JdwpErrorCode :: linorder
begin

definition less_eq_JdwpErrorCode :: "JdwpErrorCode \<Rightarrow> JdwpErrorCode \<Rightarrow> bool" where
  "less_eq_JdwpErrorCode c d \<longleftrightarrow> error_value c \<le> error_value d"

definition less_JdwpErrorCode :: "JdwpErrorCode \<Rightarrow> JdwpErrorCode \<Rightarrow> bool" where
  "less_JdwpErrorCode c d \<longleftrightarrow> error_value c < error_value d"

instance
  by standard (auto simp: less_eq_JdwpErrorCode_def less_JdwpErrorCode_def dest: error.val_inj)

end

text \<open>\<open>JdwpTag.is_object\<close>.\<close>

definition is_object :: "JdwpTag \<Rightarrow> bool" where
  "is_object t \<longleftrightarrow>
     t \<in> {TAG_ARRAY, TAG_OBJECT, TAG_STRING, TAG_THREAD, TAG_THREAD_GROUP, TAG_CLASS_LOADER,
          TAG_CLASS_OBJECT}"

text \<open>\<open>JdwpErrorCode.from_int\<close> returns \<open>None\<close> for a code that is not listed.\<close>

definition from_int :: "int \<Rightarrow> JdwpErrorCode option" where
  "from_int v = JdwpErrorCode_of v"

section \<open>IntFlag classes\<close>

text \<open>
  \<open>F(v)\<close> for an \<open>IntFlag\<close> class \<open>F\<close> whose members cover the bits of \<open>all_bits\<close> without a gap: the
  value itself when it is not negative; a negative value is completed to a non-negative one, from
  \<open>all_bits + 1\<close> when it is in range and from the next power of two otherwise. An instance is
  therefore always a non-negative integer.
\<close>

function bit_length :: "nat \<Rightarrow> nat" where
  "bit_length n = (if n = 0 then 0 else Suc (bit_length (n div 2)))"
  by pat_completeness auto
termination
  by (relation "measure id") auto

declare bit_length.simps [simp del]

definition int_flag :: "int \<Rightarrow> int \<Rightarrow> nat" where
  "int_flag all_bits v =
     (if 0 \<le> v then nat v
      else if - all_bits - 1 \<le> v then nat (all_bits + 1 + v)
      else nat (max (all_bits + 1) (2 ^ bit_length (nat (- v))) + v))"

lemma int_flag_nonneg [simp]: "int_flag all_bits (int n) = n"
  by (simp add: int_flag_def)

type_synonym JdwpClassStatus = nat
type_synonym JdwpInvokeOptions = nat

definition JdwpClassStatus_of :: "int \<Rightarrow> JdwpClassStatus" where
  "JdwpClassStatus_of v = int_flag 15 v"

definition JdwpInvokeOptions_of :: "int \<Rightarrow> JdwpInvokeOptions" where
  "JdwpInvokeOptions_of v = int_flag 3 v"

lemma flag_of_int [simp]:
  "JdwpClassStatus_of (int n) = n"
  "JdwpInvokeOptions_of (int n) = n"
  by (simp_all add: JdwpClassStatus_of_def JdwpInvokeOptions_of_def)

section \<open>The handshake\<close>

text \<open>\<^verbatim>\<open>b"JDWP-Handshake"\<close>\<close>

definition HANDSHAKE :: bytes where
  "HANDSHAKE = [0x4A, 0x44, 0x57, 0x50, 0x2D, 0x48, 0x61, 0x6E, 0x64, 0x73, 0x68, 0x61, 0x6B, 0x65]"

end
