(* ===== verification/Py_Float.thy ===== *)
theory Py_Float
  imports Py_Struct Constants
begin

text \<open>
  Python floats as IEEE 754 binary64 bit patterns, and what \<open>struct\<close> does with them: \<open>>d\<close> copies
  the pattern, \<open>>f\<close> rounds it to binary32 (half to even, \<open>OverflowError\<close> when the rounded value
  is not finite) and widens it back exactly. NaN payloads are kept as CPython 3.14 keeps them:
  the payload is truncated to binary32, and a signalling NaN stays signalling when the truncated
  payload is not zero. Patterns are natural numbers; two floats are the same when their
  patterns are.
\<close>

section \<open>Rounding\<close>

text \<open>\<open>m / 2 ^ k\<close> rounded to the nearest integer, ties to the even one.\<close>

definition round_half_even :: "nat \<Rightarrow> nat \<Rightarrow> nat" where
  "round_half_even m k =
     (let q = m div 2 ^ k; r = m mod 2 ^ k
      in if 2 ^ k < 2 * r \<or> (2 * r = 2 ^ k \<and> odd q) then Suc q else q)"

lemma round_half_even_exact: "round_half_even (q * 2 ^ k) k = q"
  by (simp add: round_half_even_def Let_def)

section \<open>Conversions between binary32 and binary64\<close>

definition f32_to_f64 :: "nat \<Rightarrow> nat" where
  "f32_to_f64 u =
     (let s = u div 2 ^ 31; e = u div 2 ^ 23 mod 2 ^ 8; m = u mod 2 ^ 23
      in s * 2 ^ 63 +
         (if e = 255 then 2047 * 2 ^ 52 + m * 2 ^ 29
          else if e \<noteq> 0 then (e + 896) * 2 ^ 52 + m * 2 ^ 29
          else if m = 0 then 0
          else let k = bit_length m - 1
               in (k + 874) * 2 ^ 52 + (m - 2 ^ k) * 2 ^ (52 - k)))"

definition f64_to_f32 :: "nat \<Rightarrow> nat result" where
  "f64_to_f32 u =
     (let s = u div 2 ^ 63; e = u div 2 ^ 52 mod 2 ^ 11; m = u mod 2 ^ 52
      in if e = 2047 then
           (if m = 0 then Inr (s * 2 ^ 31 + 255 * 2 ^ 23)
            else let p = m div 2 ^ 29 mod 2 ^ 22
                 in Inr (s * 2 ^ 31 + 255 * 2 ^ 23 +
                         (if m div 2 ^ 51 = 0 \<and> p \<noteq> 0 then p else 2 ^ 22 + p)))
         else
           let ex = max e 1;
               sig = (if e = 0 then m else 2 ^ 52 + m);
               f = (ex - 897) * 2 ^ 23 + round_half_even sig (max 29 (926 - ex))
           in if 255 * 2 ^ 23 \<le> f then Inl OverflowError else Inr (s * 2 ^ 31 + f))"

text \<open>An \<open>int\<close> where a float is expected: the nearest binary64, \<open>struct.error\<close> when too large.\<close>

definition int_to_f64 :: "int \<Rightarrow> nat result" where
  "int_to_f64 n =
     (let a = nat \<bar>n\<bar>; l = bit_length a;
          sig = (if l \<le> 53 then a * 2 ^ (53 - l) else round_half_even a (l - 53));
          f = (l + 1022) * 2 ^ 52 + (sig - 2 ^ 52)
      in if a = 0 then Inr 0
         else if 2047 * 2 ^ 52 \<le> f then Inl StructError
         else Inr ((if n < 0 then 2 ^ 63 else 0) + f))"

section \<open>Widening is exact: narrowing undoes it\<close>

lemma bit_length_bounds: "0 < n \<Longrightarrow> 0 < bit_length n \<and> 2 ^ (bit_length n - 1) \<le> n \<and> n < 2 ^ bit_length n"
proof (induction n rule: bit_length.induct)
  case (1 n)
  have unfold: "bit_length n = Suc (bit_length (n div 2))"
    using "1.prems" by (subst bit_length.simps) simp
  show ?case
  proof (cases "n div 2 = 0")
    case True
    with "1.prems" have "n = 1" by linarith
    with True show ?thesis unfolding unfold True by (simp add: bit_length.simps [of 0])
  next
    case False
    with 1 have "0 < bit_length (n div 2)" "2 ^ (bit_length (n div 2) - 1) \<le> n div 2"
      "n div 2 < 2 ^ bit_length (n div 2)"
      by auto
    then show ?thesis unfolding unfold by (cases "bit_length (n div 2)") auto
  qed
qed

lemma div_mod_append:
  assumes "m < k"
  shows "(q * k + m) div k = (q :: nat)" and "(q * k + m) mod k = m"
  using assms by auto

text \<open>The fields of a pattern put together from a sign, an exponent and a fraction.\<close>

lemma f64_fields:
  assumes "e < 2048" "m < 2 ^ 52"
  shows "(s * 2 ^ 63 + (e * 2 ^ 52 + m)) div 2 ^ 63 = (s :: nat)"
    and "(s * 2 ^ 63 + (e * 2 ^ 52 + m)) div 2 ^ 52 mod 2 ^ 11 = e"
    and "(s * 2 ^ 63 + (e * 2 ^ 52 + m)) mod 2 ^ 52 = m"
proof -
  have eq: "s * 2 ^ 63 + (e * 2 ^ 52 + m) = (s * 2 ^ 11 + e) * 2 ^ 52 + m" by simp
  have d52: "((s * 2 ^ 11 + e) * 2 ^ 52 + m) div 2 ^ 52 = s * 2 ^ 11 + e"
    by (rule div_mod_append(1) [OF assms(2)])
  have e: "e < 2 ^ 11" using assms(1) by simp
  show "(s * 2 ^ 63 + (e * 2 ^ 52 + m)) mod 2 ^ 52 = m"
    unfolding eq by (rule div_mod_append(2) [OF assms(2)])
  show "(s * 2 ^ 63 + (e * 2 ^ 52 + m)) div 2 ^ 52 mod 2 ^ 11 = e"
    unfolding eq d52 by (rule div_mod_append(2) [OF e])
  have "(x :: nat) div 2 ^ 63 = x div 2 ^ 52 div 2 ^ 11" for x
    by (simp add: div_mult2_eq [symmetric])
  then show "(s * 2 ^ 63 + (e * 2 ^ 52 + m)) div 2 ^ 63 = s"
    unfolding eq d52 by (simp only: eq d52 div_mod_append(1) [OF e])
qed

lemma f32_split:
  assumes "u < 2 ^ 32"
  shows "u = u div 2 ^ 31 * 2 ^ 31 + u div 2 ^ 23 mod 2 ^ 8 * 2 ^ 23 + u mod (2 ^ 23 :: nat)"
proof -
  define a b c where "a = u div 2 ^ 23" and "b = u mod 2 ^ 23" and "c = a div 2 ^ 8"
  have "u = a * 2 ^ 23 + b" unfolding a_def b_def by (simp only: div_mult_mod_eq)
  also have "a = c * 2 ^ 8 + a mod 2 ^ 8" unfolding c_def by (simp only: div_mult_mod_eq)
  finally have "u = (c * 2 ^ 8 + a mod 2 ^ 8) * 2 ^ 23 + b" .
  moreover have "u div 2 ^ 31 = c" by (simp add: a_def c_def div_mult2_eq [symmetric])
  ultimately show ?thesis unfolding a_def [symmetric] b_def [symmetric] by (simp add: algebra_simps)
qed

lemma f64_to_f32_special:
  assumes "m < 2 ^ 52"
  shows "f64_to_f32 (s * 2 ^ 63 + (2047 * 2 ^ 52 + m)) =
     (if m = 0 then Inr (s * 2 ^ 31 + 255 * 2 ^ 23)
      else let p = m div 2 ^ 29 mod 2 ^ 22
           in Inr (s * 2 ^ 31 + 255 * 2 ^ 23 + (if m div 2 ^ 51 = 0 \<and> p \<noteq> 0 then p else 2 ^ 22 + p)))"
proof -
  have e: "(2047 :: nat) < 2048" by simp
  show ?thesis
    by (simp only: f64_to_f32_def Let_def f64_fields [OF e assms] if_True simp_thms)
qed

lemma f64_to_f32_finite:
  assumes e: "0 < e" "e < 2047" and m: "m < 2 ^ 52"
    and r: "round_half_even (2 ^ 52 + m) (max 29 (926 - e)) = r"
    and f: "(e - 897) * 2 ^ 23 + r = f" and fin: "f < 255 * 2 ^ 23"
  shows "f64_to_f32 (s * 2 ^ 63 + (e * 2 ^ 52 + m)) = Inr (s * 2 ^ 31 + f)"
proof -
  have e': "e < 2048" "e \<noteq> 2047" "e \<noteq> 0" "max e 1 = e" using e by simp_all
  have fin': "\<not> 255 * 2 ^ 23 \<le> f" using fin by linarith
  show ?thesis
    by (simp only: f64_to_f32_def Let_def f64_fields [OF e'(1) m] e' if_False if_True r f fin' simp_thms)
qed

lemma narrow_special:
  assumes "m < 2 ^ 23"
  shows "f64_to_f32 (s * 2 ^ 63 + (2047 * 2 ^ 52 + m * 2 ^ 29)) = Inr (s * 2 ^ 31 + 255 * 2 ^ 23 + m)"
proof (cases "m = 0")
  case True
  with f64_to_f32_special [of 0 s] show ?thesis by simp
next
  case False
  have m: "m * 2 ^ 29 < 2 ^ 52" using assms by simp
  have p: "m * 2 ^ 29 div 2 ^ 29 mod 2 ^ 22 = m mod 2 ^ 22" by simp
  have q: "m * 2 ^ 29 div 2 ^ 51 = m div 2 ^ 22"
    using div_mult_mult2 [of "2 ^ 29 :: nat" m "2 ^ 22"] by simp
  have "m div 2 ^ 22 = 0 \<and> m mod 2 ^ 22 = m \<or> m div 2 ^ 22 = 1 \<and> 2 ^ 22 + m mod 2 ^ 22 = m"
  proof (cases "m < 2 ^ 22")
    case False
    then have "m div 2 ^ 22 = 1"
      using assms by (simp add: div_nat_eqI)
    then show ?thesis using div_mult_mod_eq [of m "2 ^ 22"] by simp
  qed simp
  moreover have "m * 2 ^ 29 \<noteq> 0" using False by simp
  ultimately show ?thesis
    unfolding f64_to_f32_special [OF m] Let_def p q
    by (elim disjE conjE) (simp_all only: if_False if_True simp_thms False one_neq_zero)
qed

lemma narrow_normal:
  assumes "0 < e" "e < 255" "m < 2 ^ 23"
  shows "f64_to_f32 (s * 2 ^ 63 + ((e + 896) * 2 ^ 52 + m * 2 ^ 29)) = Inr (s * 2 ^ 31 + (e * 2 ^ 23 + m))"
proof (rule f64_to_f32_finite)
  have "2 ^ 52 + m * 2 ^ 29 = (2 ^ 23 + m) * 2 ^ 29" by simp
  moreover have "max 29 (926 - (e + 896)) = 29" using assms by simp
  ultimately show "round_half_even (2 ^ 52 + m * 2 ^ 29) (max 29 (926 - (e + 896))) = 2 ^ 23 + m"
    by (simp only: round_half_even_exact)
  show "(e + 896 - 897) * 2 ^ 23 + (2 ^ 23 + m) = e * 2 ^ 23 + m"
    using assms by (cases e) simp_all
  show "m * 2 ^ 29 < 2 ^ 52" "e * 2 ^ 23 + m < 255 * 2 ^ 23" "0 < e + 896" "e + 896 < 2047"
    using assms by simp_all
qed

lemma narrow_subnormal:
  assumes "0 < m" "m < 2 ^ 23" and k: "k = bit_length m - 1"
  shows "f64_to_f32 (s * 2 ^ 63 + ((k + 874) * 2 ^ 52 + (m - 2 ^ k) * 2 ^ (52 - k)))
    = Inr (s * 2 ^ 31 + m)"
proof -
  from bit_length_bounds [OF assms(1)] have lo: "2 ^ k \<le> m" and hi: "m < 2 * 2 ^ k"
    unfolding k by (cases "bit_length m"; simp)+
  have "(2 :: nat) ^ k < 2 ^ 23" using lo assms(2) by linarith
  then have k23: "k < 23" by (rule power_less_imp_less_exp [rotated]) simp
  have pow: "(2 :: nat) ^ k * 2 ^ (52 - k) = 2 ^ 52"
    using k23 by (simp flip: power_add)
  have frac: "(m - 2 ^ k) * 2 ^ (52 - k) < 2 ^ 52"
  proof -
    have "(m - 2 ^ k) * 2 ^ (52 - k) < 2 ^ k * 2 ^ (52 - k)" using lo hi by simp
    then show ?thesis unfolding pow .
  qed
  have sig: "2 ^ 52 + (m - 2 ^ k) * 2 ^ (52 - k) = m * 2 ^ (52 - k)"
  proof -
    have "2 ^ 52 + (m - 2 ^ k) * 2 ^ (52 - k) = (2 ^ k + (m - 2 ^ k)) * 2 ^ (52 - k)"
      by (simp only: pow [symmetric] add_mult_distrib)
    then show ?thesis using lo by simp
  qed
  show ?thesis
  proof (rule f64_to_f32_finite)
    have "max 29 (926 - (k + 874)) = 52 - k" using k23 by simp
    then show "round_half_even (2 ^ 52 + (m - 2 ^ k) * 2 ^ (52 - k)) (max 29 (926 - (k + 874))) = m"
      unfolding sig by (simp only: round_half_even_exact)
    show "(k + 874 - 897) * 2 ^ 23 + m = m" "k + 874 < 2047" using k23 by simp_all
    show "0 < k + 874" "m < 255 * 2 ^ 23" using assms(2) by simp_all
  qed (rule frac)
qed

lemma narrow_widen:
  assumes "u < 2 ^ 32"
  shows "f64_to_f32 (f32_to_f64 u) = Inr u"
proof -
  define s e m where "s = u div 2 ^ 31" and "e = u div 2 ^ 23 mod 2 ^ 8" and "m = u mod 2 ^ 23"
  have u: "u = s * 2 ^ 31 + e * 2 ^ 23 + m"
    unfolding s_def e_def m_def using assms by (rule f32_split)
  have m: "m < 2 ^ 23" and e: "e < 256" by (simp_all add: m_def e_def)
  consider "e = 255" | "0 < e" "e < 255" | "e = 0" "m = 0" | "e = 0" "0 < m"
    using e by linarith
  then show ?thesis
  proof cases
    case 1
    then have "f32_to_f64 u = s * 2 ^ 63 + (2047 * 2 ^ 52 + m * 2 ^ 29)"
      by (simp add: f32_to_f64_def Let_def s_def e_def m_def)
    with narrow_special [OF m, of s] 1 u show ?thesis by simp
  next
    case 2
    then have "f32_to_f64 u = s * 2 ^ 63 + ((e + 896) * 2 ^ 52 + m * 2 ^ 29)"
      by (simp add: f32_to_f64_def Let_def s_def e_def m_def)
    with narrow_normal [OF 2 m, of s] u show ?thesis by (simp only: add.assoc)
  next
    case 3
    then have "f32_to_f64 u = s * 2 ^ 63 + (0 * 2 ^ 52 + 0)"
      by (simp add: f32_to_f64_def Let_def s_def e_def m_def)
    with f64_fields [of 0 0 s] 3 u show ?thesis
      by (simp add: f64_to_f32_def Let_def round_half_even_def)
  next
    case 4
    define k where "k = bit_length m - 1"
    from 4 have "f32_to_f64 u = s * 2 ^ 63 + ((k + 874) * 2 ^ 52 + (m - 2 ^ k) * 2 ^ (52 - k))"
      by (simp add: f32_to_f64_def Let_def s_def e_def m_def k_def)
    with narrow_subnormal [OF 4(2) m k_def, of s] 4 u show ?thesis by simp
  qed
qed

lemma f32_to_f64_bound:
  assumes "u < 2 ^ 32"
  shows "f32_to_f64 u < 2 ^ 64"
proof -
  define s e m where "s = u div 2 ^ 31" and "e = u div 2 ^ 23 mod 2 ^ 8" and "m = u mod 2 ^ 23"
  have s: "s < 2" using assms by (simp add: s_def less_mult_imp_div_less)
  have m: "m < 2 ^ 23" and e: "e < 256" by (simp_all add: m_def e_def)
  define k where "k = bit_length m - 1"
  have "(k + 874) * 2 ^ 52 + (m - 2 ^ k) * 2 ^ (52 - k) < 2 ^ 63" if "0 < m"
  proof -
    from bit_length_bounds [OF that] have lo: "2 ^ k \<le> m" and hi: "m < 2 * 2 ^ k"
      unfolding k_def by (cases "bit_length m"; simp)+
    have "(2 :: nat) ^ k < 2 ^ 23" using lo m by linarith
    then have k23: "k < 23" by (rule power_less_imp_less_exp [rotated]) simp
    have "(m - 2 ^ k) * 2 ^ (52 - k) < 2 ^ k * 2 ^ (52 - k)" using lo hi by simp
    also have "\<dots> = 2 ^ 52" using k23 by (simp flip: power_add)
    finally show ?thesis using k23 by simp
  qed
  moreover have "(e + 896) * 2 ^ 52 + m * 2 ^ 29 < 2 ^ 63" "2047 * 2 ^ 52 + m * 2 ^ 29 < (2 :: nat) ^ 63"
    using m e by simp_all
  ultimately show ?thesis using s
    unfolding f32_to_f64_def Let_def s_def [symmetric] e_def [symmetric] m_def [symmetric] k_def [symmetric]
    by auto
qed

end
