(* ===== verification/Spec_Types.thy ===== *)
theory Spec_Types
  imports Py_Struct Py_Float Constants
begin

text \<open>
  \<^verbatim>\<open>spec.py\<close>: the identifier types (all plain integers), the composite values of the protocol,
  and \<open>IdSizesSpec\<close>, which holds for each kind of identifier the \<open>struct\<close> format of the size the
  target VM announced.
\<close>

section \<open>Identifiers\<close>

type_synonym ObjectID = int
type_synonym ReferenceTypeID = int
type_synonym FieldID = int
type_synonym MethodID = int
type_synonym FrameID = int
type_synonym ThreadID = int
type_synonym ThreadGroupID = int
type_synonym StringID = int
type_synonym ClassLoaderID = int
type_synonym ClassObjectID = int
type_synonym InterfaceID = int
type_synonym ClassID = int
type_synonym ArrayTypeID = int
type_synonym ArrayObjectID = int

section \<open>Composite values\<close>

record Location =
  type_tag :: JdwpTypeTag
  class_id :: ReferenceTypeID
  method_id :: MethodID
  index :: int

record TaggedObjectID =
  tag :: JdwpTag
  object_id :: ObjectID

text \<open>
  The Python values a \<open>JdwpValue\<close> carries: its \<open>value\<close> has type \<open>Any\<close>, so nothing ties it to the
  tag. A float is its binary64 pattern.
\<close>

datatype (plugins only: code) py_value = PyNone | PyBool bool | PyInt int | PyFloat "64 word"

record JdwpValue =
  tag :: JdwpTag
  "value" :: py_value

text \<open>
  \<open>operator.index\<close>, as the integer formats of \<open>struct\<close> apply it (a \<open>bool\<close> is an \<open>int\<close>); the float
  conversion of \<open>>f\<close> and \<open>>d\<close>; the truth value.
\<close>

fun index_of :: "py_value \<Rightarrow> int result" where
  "index_of (PyInt n) = Inr n"
| "index_of (PyBool b) = Inr (of_bool b)"
| "index_of _ = Inl StructError"

fun float_of :: "py_value \<Rightarrow> nat result" where
  "float_of (PyFloat x) = Inr (unat x)"
| "float_of (PyInt n) = int_to_f64 n"
| "float_of (PyBool b) = int_to_f64 (of_bool b)"
| "float_of PyNone = Inl StructError"

fun truthy :: "py_value \<Rightarrow> bool" where
  "truthy PyNone = False"
| "truthy (PyBool b) = b"
| "truthy (PyInt n) = (n \<noteq> 0)"
| "truthy (PyFloat x) = (x \<noteq> 0 \<and> unat x \<noteq> 2 ^ 63)"

section \<open>ID sizes\<close>

text \<open>The two precompiled formats \<open>_STRUCT_32\<close> and \<open>_STRUCT_64\<close>.\<close>

datatype (plugins only: code) id_struct = STRUCT_32 | STRUCT_64

fun id_format :: "id_struct \<Rightarrow> format" where
  "id_format STRUCT_32 = Unsigned 4"
| "id_format STRUCT_64 = Unsigned 8"

definition get_struct_for_size :: "int \<Rightarrow> id_struct result" where
  "get_struct_for_size n =
     (if n = 4 then Inr STRUCT_32
      else if n = 8 then Inr STRUCT_64
      else Inl ValueError)"

record IdSizesSpec =
  field_id_struct :: id_struct
  method_id_struct :: id_struct
  object_id_struct :: id_struct
  reference_type_id_struct :: id_struct
  frame_id_struct :: id_struct

definition create :: "int \<Rightarrow> int \<Rightarrow> int \<Rightarrow> int \<Rightarrow> int \<Rightarrow> IdSizesSpec result" where
  "create field_id_size method_id_size object_id_size reference_type_id_size frame_id_size =
     res_bind (get_struct_for_size field_id_size) (\<lambda>f.
     res_bind (get_struct_for_size method_id_size) (\<lambda>m.
     res_bind (get_struct_for_size object_id_size) (\<lambda>ob.
     res_bind (get_struct_for_size reference_type_id_size) (\<lambda>rt.
     res_bind (get_struct_for_size frame_id_size) (\<lambda>fr.
       Inr (IdSizesSpec.make f m ob rt fr))))))"

text \<open>\<open>IdSizesSpec.create()\<close> with its default arguments: all identifiers have eight bytes.\<close>

definition default_spec :: IdSizesSpec where
  "default_spec = IdSizesSpec.make STRUCT_64 STRUCT_64 STRUCT_64 STRUCT_64 STRUCT_64"

lemma create_default: "create 8 8 8 8 8 = Inr default_spec"
  by (simp add: create_def get_struct_for_size_def default_spec_def)

lemma get_struct_for_size_eq_Inr:
  "get_struct_for_size n = Inr s \<longleftrightarrow> n = 4 \<and> s = STRUCT_32 \<or> n = 8 \<and> s = STRUCT_64"
  by (auto simp: get_struct_for_size_def)

lemma get_struct_for_size_ok: "(\<exists>s. get_struct_for_size n = Inr s) \<longleftrightarrow> n \<in> {4, 8}"
  by (auto simp: get_struct_for_size_eq_Inr)

lemma create_ok: "(\<exists>sp. create a b c d e = Inr sp) \<longleftrightarrow> {a, b, c, d, e} \<subseteq> {4, 8}"
  by (auto simp: create_def get_struct_for_size_def split: if_splits)

lemma id_format_size [simp]: "fmt_size (id_format s) \<in> {4, 8}"
  by (cases s) simp_all

end
