(* ===== verification/Py_Utf8.thy ===== *)
theory Py_Utf8
  imports Prelude
begin

text \<open>
  Python's strict UTF-8 codec, which \<open>read_string\<close> and \<open>write_string\<close> use: \<open>str.encode("utf-8")\<close>
  raises on a surrogate, \<open>bytes.decode("utf-8")\<close> raises on a truncated, overlong or stray
  sequence, on an encoded surrogate and above U+10FFFF. A Python string holds no code point above
  U+10FFFF; the encoder raises there too, so that no side condition on strings is needed.
\<close>

section \<open>Encoding\<close>

definition byte_of_nat :: "nat \<Rightarrow> byte" where
  "byte_of_nat n = word_of_nat n"

definition utf8_encode_char :: "nat \<Rightarrow> bytes result" where
  "utf8_encode_char c =
     (if c < 0x80 then Inr [byte_of_nat c]
      else if c < 0x800 then Inr [byte_of_nat (0xC0 + c div 64), byte_of_nat (0x80 + c mod 64)]
      else if 0xD800 \<le> c \<and> c < 0xE000 then Inl UnicodeEncodeError
      else if c < 0x10000 then
        Inr [byte_of_nat (0xE0 + c div 4096), byte_of_nat (0x80 + c div 64 mod 64),
             byte_of_nat (0x80 + c mod 64)]
      else if c < 0x110000 then
        Inr [byte_of_nat (0xF0 + c div 262144), byte_of_nat (0x80 + c div 4096 mod 64),
             byte_of_nat (0x80 + c div 64 mod 64), byte_of_nat (0x80 + c mod 64)]
      else Inl UnicodeEncodeError)"

fun utf8_encode :: "pystr \<Rightarrow> bytes result" where
  "utf8_encode [] = Inr []"
| "utf8_encode (c # cs) =
     res_bind (utf8_encode_char c) (\<lambda>p. res_bind (utf8_encode cs) (\<lambda>ps. Inr (p @ ps)))"

section \<open>Decoding\<close>

definition is_cont :: "byte \<Rightarrow> bool" where
  "is_cont b \<longleftrightarrow> 0x80 \<le> unat b \<and> unat b < 0xC0"

definition cont_bits :: "byte \<Rightarrow> nat" where
  "cont_bits b = unat b - 0x80"

definition utf8_decode_char :: "bytes \<Rightarrow> (nat \<times> bytes) result" where
  "utf8_decode_char bs =
     (case bs of
        [] \<Rightarrow> Inl UnicodeDecodeError
      | b0 # r0 \<Rightarrow>
          if unat b0 < 0x80 then Inr (unat b0, r0)
          else if unat b0 < 0xC2 then Inl UnicodeDecodeError
          else if unat b0 < 0xE0 then
            (case r0 of
               b1 # r1 \<Rightarrow>
                 if is_cont b1 then Inr ((unat b0 - 0xC0) * 64 + cont_bits b1, r1)
                 else Inl UnicodeDecodeError
             | _ \<Rightarrow> Inl UnicodeDecodeError)
          else if unat b0 < 0xF0 then
            (case r0 of
               b1 # b2 # r2 \<Rightarrow>
                 let c = (unat b0 - 0xE0) * 4096 + cont_bits b1 * 64 + cont_bits b2
                 in if is_cont b1 \<and> is_cont b2 \<and> 0x800 \<le> c \<and> \<not> (0xD800 \<le> c \<and> c < 0xE000)
                    then Inr (c, r2) else Inl UnicodeDecodeError
             | _ \<Rightarrow> Inl UnicodeDecodeError)
          else if unat b0 < 0xF5 then
            (case r0 of
               b1 # b2 # b3 # r3 \<Rightarrow>
                 let c = (unat b0 - 0xF0) * 262144 + cont_bits b1 * 4096 + cont_bits b2 * 64
                         + cont_bits b3
                 in if is_cont b1 \<and> is_cont b2 \<and> is_cont b3 \<and> 0x10000 \<le> c \<and> c < 0x110000
                    then Inr (c, r3) else Inl UnicodeDecodeError
             | _ \<Rightarrow> Inl UnicodeDecodeError)
          else Inl UnicodeDecodeError)"

lemma utf8_decode_char_shorter: "utf8_decode_char bs = Inr (c, r) \<Longrightarrow> length r < length bs"
  by (auto simp: utf8_decode_char_def Let_def split: list.splits if_splits)

function utf8_decode :: "bytes \<Rightarrow> pystr result" where
  "utf8_decode bs =
     (if bs = [] then Inr []
      else case utf8_decode_char bs of
             Inl e \<Rightarrow> Inl e
           | Inr (c, r) \<Rightarrow> res_bind (utf8_decode r) (\<lambda>cs. Inr (c # cs)))"
  by pat_completeness auto
termination
  by (relation "measure length") (auto dest: utf8_decode_char_shorter)

declare utf8_decode.simps [simp del]

section \<open>The codec is a bijection between valid strings and valid byte sequences\<close>

lemma unat_byte_of_nat [simp]: "n < 256 \<Longrightarrow> unat (byte_of_nat n) = n"
  by (simp add: byte_of_nat_def unat_of_nat)

lemma byte_of_nat_unat [simp]: "byte_of_nat (unat b) = b"
  by (simp add: byte_of_nat_def)

lemma decode_two:
  assumes "2 \<le> a" "a < 32" "b < 64"
  shows "utf8_decode_char (byte_of_nat (0xC0 + a) # byte_of_nat (0x80 + b) # r) = Inr (a * 64 + b, r)"
proof -
  have "unat (byte_of_nat (0xC0 + a)) = 0xC0 + a" "unat (byte_of_nat (0x80 + b)) = 0x80 + b"
    using assms by simp_all
  with assms show ?thesis by (simp add: utf8_decode_char_def is_cont_def cont_bits_def)
qed

lemma decode_three:
  assumes "a < 16" "b < 64" "d < 64"
    and c: "c = a * 4096 + b * 64 + d" and "0x800 \<le> c" "\<not> (0xD800 \<le> c \<and> c < 0xE000)"
  shows "utf8_decode_char (byte_of_nat (0xE0 + a) # byte_of_nat (0x80 + b) # byte_of_nat (0x80 + d) # r)
    = Inr (c, r)"
proof -
  have "unat (byte_of_nat (0xE0 + a)) = 0xE0 + a" "unat (byte_of_nat (0x80 + b)) = 0x80 + b"
    "unat (byte_of_nat (0x80 + d)) = 0x80 + d"
    using assms(1-3) by simp_all
  with assms show ?thesis
    by (simp only: utf8_decode_char_def is_cont_def cont_bits_def Let_def list.case) simp
qed

lemma decode_four:
  assumes "a < 5" "b < 64" "d < 64" "e < 64"
    and c: "c = a * 262144 + b * 4096 + d * 64 + e" and "0x10000 \<le> c" "c < 0x110000"
  shows "utf8_decode_char (byte_of_nat (0xF0 + a) # byte_of_nat (0x80 + b) # byte_of_nat (0x80 + d)
    # byte_of_nat (0x80 + e) # r) = Inr (c, r)"
proof -
  have "unat (byte_of_nat (0xF0 + a)) = 0xF0 + a" "unat (byte_of_nat (0x80 + b)) = 0x80 + b"
    "unat (byte_of_nat (0x80 + d)) = 0x80 + d" "unat (byte_of_nat (0x80 + e)) = 0x80 + e"
    using assms(1-4) by simp_all
  with assms show ?thesis
    by (simp only: utf8_decode_char_def is_cont_def cont_bits_def Let_def list.case) simp
qed

lemma div_mod_64: "e < 64 \<Longrightarrow> (q * 64 + e) div 64 = (q :: nat)" "e < 64 \<Longrightarrow> (q * 64 + e) mod 64 = (e :: nat)"
  by simp_all

lemma div_4096: "(c :: nat) div 4096 = c div 64 div 64" and div_262144: "c div 262144 = c div 64 div 64 div 64"
  by (simp_all add: div_mult2_eq [symmetric])

lemma split_64_two: "(c :: nat) = c div 4096 * 4096 + c div 64 mod 64 * 64 + c mod 64"
  using div_mult_mod_eq [of c 64] div_mult_mod_eq [of "c div 64" 64] unfolding div_4096 by linarith

lemma split_64_three:
  "(c :: nat) = c div 262144 * 262144 + c div 4096 mod 64 * 4096 + c div 64 mod 64 * 64 + c mod 64"
  using div_mult_mod_eq [of c 64] div_mult_mod_eq [of "c div 64" 64]
    div_mult_mod_eq [of "c div 64 div 64" 64]
  unfolding div_4096 div_262144 by linarith

lemma digits_64:
  assumes c: "c = a * 262144 + b * 4096 + d * 64 + e" and "b < 64" "d < 64" "e < (64 :: nat)"
  shows "c div 262144 = a" "c div 4096 mod 64 = b" "c div 64 mod 64 = d" "c mod 64 = e"
    "c div 4096 = a * 64 + b"
proof -
  have "c = ((a * 64 + b) * 64 + d) * 64 + e" using c by simp
  then have 1: "c div 64 = (a * 64 + b) * 64 + d" "c mod 64 = e"
    using assms(2-) div_mod_64 by metis+
  then have 2: "c div 64 div 64 = a * 64 + b" "c div 64 mod 64 = d"
    using assms(2-) div_mod_64 by metis+
  then have 3: "c div 64 div 64 div 64 = a" "c div 64 div 64 mod 64 = b"
    using assms(2-) div_mod_64 by metis+
  show "c mod 64 = e" "c div 64 mod 64 = d" by (fact 1 2)+
  show "c div 262144 = a" "c div 4096 mod 64 = b" "c div 4096 = a * 64 + b"
    unfolding div_4096 div_262144 by (fact 2 3)+
qed

lemma decode_encode_char:
  assumes "utf8_encode_char c = Inr p"
  shows "utf8_decode_char (p @ r) = Inr (c, r)"
proof -
  consider "c < 0x80" | "0x80 \<le> c" "c < 0x800" | "0x800 \<le> c" "c < 0x10000" | "0x10000 \<le> c"
    by linarith
  then show ?thesis
  proof cases
    case 1
    with assms show ?thesis
      by (auto simp: utf8_encode_char_def utf8_decode_char_def)
  next
    case 2
    then have "c div 64 < 32" "2 \<le> c div 64" by (simp_all add: div_less_iff_less_mult less_eq_div_iff_mult_less_eq)
    from decode_two [OF this(2,1), of "c mod 64" r] 2 assms show ?thesis
      by (auto simp: utf8_encode_char_def)
  next
    case 3
    have "c div 4096 < 16" "c div 64 mod 64 < 64" "c mod 64 < 64" using 3 by simp_all
    from decode_three [OF this split_64_two, of r] 3 assms show ?thesis
      by (auto simp: utf8_encode_char_def split: if_splits)
  next
    case 4
    have lt: "c < 0x110000"
      using assms 4 by (auto simp: utf8_encode_char_def split: if_splits)
    have "c div 262144 < 5" "c div 4096 mod 64 < 64" "c div 64 mod 64 < 64" "c mod 64 < 64"
      using lt by simp_all
    from decode_four [OF this split_64_three 4 lt, of r] 4 lt assms show ?thesis
      by (auto simp: utf8_encode_char_def)
  qed
qed

lemma encode_char_nonempty: "utf8_encode_char c = Inr p \<Longrightarrow> p \<noteq> []"
  by (auto simp: utf8_encode_char_def split: if_splits)

lemma utf8_decode_encode: "utf8_encode s = Inr bs \<Longrightarrow> utf8_decode bs = Inr s"
proof (induction s arbitrary: bs)
  case Nil
  then show ?case by (simp add: utf8_decode.simps)
next
  case (Cons c cs)
  then obtain p ps where p: "utf8_encode_char c = Inr p" and ps: "utf8_encode cs = Inr ps"
    and bs: "bs = p @ ps"
    by auto
  have "utf8_decode_char bs = Inr (c, ps)" using p bs by (simp add: decode_encode_char)
  moreover have "bs \<noteq> []" using encode_char_nonempty [OF p] bs by simp
  ultimately show ?case using Cons.IH [OF ps] by (subst utf8_decode.simps) simp
qed

lemma cont_bits_byte: "is_cont b \<Longrightarrow> byte_of_nat (0x80 + cont_bits b) = b"
  by (simp add: is_cont_def cont_bits_def)

lemma cont_bits_less: "is_cont b \<Longrightarrow> cont_bits b < 64"
  by (auto simp: is_cont_def cont_bits_def)

lemma encode_decode_char:
  assumes "utf8_decode_char bs = Inr (c, r)"
  obtains p where "utf8_encode_char c = Inr p" and "bs = p @ r"
proof -
  from assms obtain b0 r0 where bs: "bs = b0 # r0"
    by (cases bs) (auto simp: utf8_decode_char_def)
  consider "unat b0 < 0x80" | "0xC2 \<le> unat b0" "unat b0 < 0xE0"
    | "0xE0 \<le> unat b0" "unat b0 < 0xF0" | "0xF0 \<le> unat b0" "unat b0 < 0xF5"
    using assms bs by (auto simp: utf8_decode_char_def split: if_splits)
  then have "\<exists>p. utf8_encode_char c = Inr p \<and> bs = p @ r"
  proof cases
    case 1
    with assms bs show ?thesis by (auto simp: utf8_decode_char_def utf8_encode_char_def)
  next
    case 2
    with assms bs obtain b1 where b1: "r0 = b1 # r" "is_cont b1"
      and c: "c = (unat b0 - 0xC0) * 64 + cont_bits b1"
      by (auto simp: utf8_decode_char_def split: list.splits if_splits)
    note lt = cont_bits_less [OF b1(2)]
    from c lt have "c div 64 = unat b0 - 0xC0" "c mod 64 = cont_bits b1" by simp_all
    moreover have "0x80 \<le> c" "c < 0x800" using c 2 lt by linarith+
    ultimately show ?thesis using 2 bs b1 cont_bits_byte [OF b1(2)]
      by (simp add: utf8_encode_char_def)
  next
    case 3
    with assms bs obtain b1 b2 where b: "r0 = b1 # b2 # r" "is_cont b1" "is_cont b2"
      and c: "c = (unat b0 - 0xE0) * 4096 + cont_bits b1 * 64 + cont_bits b2"
      and ok: "0x800 \<le> c" "\<not> (0xD800 \<le> c \<and> c < 0xE000)"
      by (auto simp: utf8_decode_char_def Let_def split: list.splits if_splits)
    note lt = cont_bits_less [OF b(2)] cont_bits_less [OF b(3)]
    have c': "c = 0 * 262144 + (unat b0 - 0xE0) * 4096 + cont_bits b1 * 64 + cont_bits b2"
      using c by simp
    have b0: "unat b0 - 0xE0 < 64" using 3 by linarith
    have "c div 4096 = unat b0 - 0xE0" "c div 64 mod 64 = cont_bits b1" "c mod 64 = cont_bits b2"
      using digits_64 [OF c' b0 lt] by simp_all
    moreover have "c < 0x10000" using c 3 lt by linarith
    ultimately show ?thesis using 3 bs b ok cont_bits_byte [OF b(2)] cont_bits_byte [OF b(3)]
      by (auto simp: utf8_encode_char_def)
  next
    case 4
    with assms bs obtain b1 b2 b3 where b: "r0 = b1 # b2 # b3 # r" "is_cont b1" "is_cont b2" "is_cont b3"
      and c: "c = (unat b0 - 0xF0) * 262144 + cont_bits b1 * 4096 + cont_bits b2 * 64 + cont_bits b3"
      and ok: "0x10000 \<le> c" "c < 0x110000"
      by (auto simp: utf8_decode_char_def Let_def split: list.splits if_splits)
    note lt = cont_bits_less [OF b(2)] cont_bits_less [OF b(3)] cont_bits_less [OF b(4)]
    from digits_64 [OF c lt] show ?thesis
      using 4 bs b ok cont_bits_byte [OF b(2)] cont_bits_byte [OF b(3)] cont_bits_byte [OF b(4)]
      by (auto simp: utf8_encode_char_def)
  qed
  then show thesis using that by blast
qed

lemma utf8_encode_decode: "utf8_decode bs = Inr s \<Longrightarrow> utf8_encode s = Inr bs"
proof (induction bs arbitrary: s rule: utf8_decode.induct)
  case (1 bs)
  show ?case
  proof (cases "bs = []")
    case True
    with "1.prems" show ?thesis by (simp add: utf8_decode.simps)
  next
    case False
    with "1.prems" obtain c r cs where dc: "utf8_decode_char bs = Inr (c, r)"
      and cs: "utf8_decode r = Inr cs" and s: "s = c # cs"
      by (subst (asm) utf8_decode.simps) (auto split: sum.splits)
    obtain p where "utf8_encode_char c = Inr p" and "bs = p @ r"
      using dc by (rule encode_decode_char)
    moreover have "utf8_encode cs = Inr r"
      using "1.IH" False dc cs by blast
    ultimately show ?thesis by (simp add: s)
  qed
qed

end
