(* ===== verification/Io.thy ===== *)
theory Io
  imports Spec_Types Py_Utf8
begin

unbundle bit_operations_syntax

text \<open>
  \<^verbatim>\<open>io.py\<close>: \<open>JdwpReader\<close>, a cursor over a bytes buffer, and \<open>JdwpWriter\<close>, an append-only buffer.
  A reader method takes the reader and returns the value read with the moved reader, or the
  exception; a writer method returns the extended writer. \<open>rbind\<close> and \<open>write_seq\<close> put methods in
  the order the code calls them. The locale \<open>codec\<close> states what a pair of \<open>serialize\<close> and
  \<open>deserialize\<close> methods owes to its callers.
\<close>

section \<open>The reader\<close>

text \<open>
  \<open>array_element_tag\<close> is the attribute \<^verbatim>\<open>array_reference.py\<close> looks for with \<open>getattr\<close>; the class does
  not define it, so it is \<open>None\<close> unless somebody sets it.
\<close>

record JdwpReader =
  data :: bytes
  spec :: IdSizesSpec
  offset :: int
  array_element_tag :: "JdwpTag option"

definition reader_init :: "bytes \<Rightarrow> IdSizesSpec \<Rightarrow> JdwpReader" where
  "reader_init dat sp = \<lparr>data = dat, spec = sp, offset = 0, array_element_tag = None\<rparr>"

type_synonym 'a reader_op = "JdwpReader \<Rightarrow> ('a \<times> JdwpReader) result"

definition rreturn :: "'a \<Rightarrow> 'a reader_op" where
  "rreturn x r = Inr (x, r)"

definition rbind :: "'a reader_op \<Rightarrow> ('a \<Rightarrow> 'b reader_op) \<Rightarrow> 'b reader_op" where
  "rbind m f r = res_bind (m r) (\<lambda>(x, r'). f x r')"

text \<open>A conversion of a value already read, which may raise.\<close>

definition rlift :: "'a result \<Rightarrow> 'a reader_op" where
  "rlift x r = res_bind x (\<lambda>y. Inr (y, r))"

definition remaining :: "JdwpReader \<Rightarrow> int" where
  "remaining r = int (length (data r)) - offset r"

definition read_byte :: "int reader_op" where
  "read_byte r =
     res_bind (py_index (data r) (offset r)) (\<lambda>val.
       Inr (uint val, r\<lparr>offset := offset r + 1\<rparr>))"

definition read_boolean :: "bool reader_op" where
  "read_boolean = rbind read_byte (\<lambda>val. rreturn (val \<noteq> 0))"

text \<open>\<open>struct.unpack_from\<close> at the cursor, which then moves by the format's size.\<close>

definition read_struct :: "format \<Rightarrow> int reader_op" where
  "read_struct f r =
     res_bind (unpack_from f (data r) (offset r)) (\<lambda>val.
       Inr (val, r\<lparr>offset := offset r + int (fmt_size f)\<rparr>))"

definition read_int :: "int reader_op" where
  "read_int = read_struct (Signed 4)"

definition read_long :: "int reader_op" where
  "read_long = read_struct (Signed 8)"

definition read_string :: "pystr reader_op" where
  "read_string = rbind read_int (\<lambda>len r.
     res_bind (utf8_decode (py_slice (data r) (offset r) (offset r + len))) (\<lambda>val.
       Inr (val, r\<lparr>offset := offset r + len\<rparr>)))"

definition read_id :: "id_struct \<Rightarrow> int reader_op" where
  "read_id struct_obj = read_struct (id_format struct_obj)"

definition read_object_id :: "ObjectID reader_op" where
  "read_object_id r = read_id (object_id_struct (spec r)) r"

definition read_reference_type_id :: "ReferenceTypeID reader_op" where
  "read_reference_type_id r = read_id (reference_type_id_struct (spec r)) r"

definition read_field_id :: "FieldID reader_op" where
  "read_field_id r = read_id (field_id_struct (spec r)) r"

definition read_method_id :: "MethodID reader_op" where
  "read_method_id r = read_id (method_id_struct (spec r)) r"

definition read_frame_id :: "FrameID reader_op" where
  "read_frame_id r = read_id (frame_id_struct (spec r)) r"

definition read_thread_id :: "ThreadID reader_op" where
  "read_thread_id = read_object_id"

definition read_thread_group_id :: "ThreadGroupID reader_op" where
  "read_thread_group_id = read_object_id"

definition read_string_id :: "StringID reader_op" where
  "read_string_id = read_object_id"

definition read_class_loader_id :: "ClassLoaderID reader_op" where
  "read_class_loader_id = read_object_id"

definition read_class_object_id :: "ClassObjectID reader_op" where
  "read_class_object_id = read_object_id"

definition read_interface_id :: "InterfaceID reader_op" where
  "read_interface_id = read_object_id"

definition read_class_id :: "ClassID reader_op" where
  "read_class_id = read_reference_type_id"

definition read_array_type_id :: "ArrayTypeID reader_op" where
  "read_array_type_id = read_reference_type_id"

definition read_array_object_id :: "ArrayObjectID reader_op" where
  "read_array_object_id = read_object_id"

text \<open>\<open>E(reader.read_byte())\<close> for an enumeration \<open>E\<close>: an unknown value raises \<open>ValueError\<close>.\<close>

definition read_enum :: "int reader_op \<Rightarrow> (int \<Rightarrow> 'e option) \<Rightarrow> 'e reader_op" where
  "read_enum rd of_val = rbind rd (\<lambda>val. rlift (or_raise ValueError (of_val val)))"

definition read_location :: "Location reader_op" where
  "read_location =
     rbind (read_enum read_byte JdwpTypeTag_of) (\<lambda>type_tag.
     rbind read_reference_type_id (\<lambda>class_id.
     rbind read_method_id (\<lambda>method_id.
     rbind read_long (\<lambda>index.
       rreturn (Location.make type_tag class_id method_id index)))))"

definition read_tagged_object :: "TaggedObjectID reader_op" where
  "read_tagged_object =
     rbind (read_enum read_byte JdwpTag_of) (\<lambda>tag.
     rbind read_object_id (\<lambda>object_id.
       rreturn (TaggedObjectID.make tag object_id)))"

definition read_untagged_value :: "JdwpTag \<Rightarrow> py_value reader_op" where
  "read_untagged_value tg =
     (if is_object tg then rbind read_object_id (\<lambda>val. rreturn (PyInt val))
      else if tg = TAG_BYTE then rbind (read_struct (Signed 1)) (\<lambda>val. rreturn (PyInt val))
      else if tg = TAG_CHAR then rbind (read_struct (Unsigned 2)) (\<lambda>val. rreturn (PyInt val))
      else if tg = TAG_FLOAT then
        rbind (read_struct (Unsigned 4)) (\<lambda>bits.
          rreturn (PyFloat (word_of_nat (f32_to_f64 (nat bits)))))
      else if tg = TAG_DOUBLE then
        rbind (read_struct (Unsigned 8)) (\<lambda>bits. rreturn (PyFloat (word_of_int bits)))
      else if tg = TAG_INT then rbind read_int (\<lambda>val. rreturn (PyInt val))
      else if tg = TAG_LONG then rbind read_long (\<lambda>val. rreturn (PyInt val))
      else if tg = TAG_SHORT then rbind (read_struct (Signed 2)) (\<lambda>val. rreturn (PyInt val))
      else if tg = TAG_VOID then rreturn PyNone
      else if tg = TAG_BOOLEAN then rbind read_boolean (\<lambda>val. rreturn (PyBool val))
      else rlift (Inl ValueError))"

definition read_value :: "JdwpValue reader_op" where
  "read_value =
     rbind (read_enum read_byte JdwpTag_of) (\<lambda>tag.
     rbind (read_untagged_value tag) (\<lambda>val.
       rreturn (JdwpValue.make tag val)))"

text \<open>\<open>[f(reader) for _ in range(n)]\<close>, and the loop over an element count read first; \<open>range\<close> of a
  negative count is empty.\<close>

fun read_n :: "nat \<Rightarrow> 'a reader_op \<Rightarrow> 'a list reader_op" where
  "read_n 0 rd = rreturn []"
| "read_n (Suc n) rd = rbind rd (\<lambda>x. rbind (read_n n rd) (\<lambda>xs. rreturn (x # xs)))"

definition read_counted :: "'a reader_op \<Rightarrow> 'a list reader_op" where
  "read_counted rd = rbind read_int (\<lambda>num. read_n (nat num) rd)"

section \<open>The writer\<close>

record JdwpWriter =
  spec :: IdSizesSpec
  buffer :: bytes

definition writer_init :: "IdSizesSpec \<Rightarrow> JdwpWriter" where
  "writer_init sp = \<lparr>spec = sp, buffer = []\<rparr>"

definition get_bytes :: "JdwpWriter \<Rightarrow> bytes" where
  "get_bytes w = buffer w"

type_synonym writer_op = "JdwpWriter \<Rightarrow> JdwpWriter result"

text \<open>\<open>_buffer.extend\<close> of the bytes a packing produces, when it does not raise.\<close>

definition extend :: "bytes result \<Rightarrow> writer_op" where
  "extend bs w = res_bind bs (\<lambda>b. Inr (w\<lparr>buffer := buffer w @ b\<rparr>))"

fun write_seq :: "writer_op list \<Rightarrow> writer_op" where
  "write_seq [] w = Inr w"
| "write_seq (op # ops) w = res_bind (op w) (write_seq ops)"

definition write_byte :: "int \<Rightarrow> writer_op" where
  "write_byte val = extend (Inr [word_of_int (val AND 0xFF)])"

definition write_boolean :: "bool \<Rightarrow> writer_op" where
  "write_boolean val = extend (Inr [if val then 1 else 0])"

definition write_int :: "int \<Rightarrow> writer_op" where
  "write_int val = extend (pack (Signed 4) val)"

definition write_long :: "int \<Rightarrow> writer_op" where
  "write_long val = extend (pack (Signed 8) val)"

definition write_string :: "pystr \<Rightarrow> writer_op" where
  "write_string val w =
     res_bind (utf8_encode val) (\<lambda>encoded.
       write_seq [write_int (int (length encoded)), extend (Inr encoded)] w)"

definition write_object_id :: "ObjectID \<Rightarrow> writer_op" where
  "write_object_id val w = extend (pack (id_format (object_id_struct (JdwpWriter.spec w))) val) w"

definition write_reference_type_id :: "ReferenceTypeID \<Rightarrow> writer_op" where
  "write_reference_type_id val w =
     extend (pack (id_format (reference_type_id_struct (JdwpWriter.spec w))) val) w"

definition write_field_id :: "FieldID \<Rightarrow> writer_op" where
  "write_field_id val w = extend (pack (id_format (field_id_struct (JdwpWriter.spec w))) val) w"

definition write_method_id :: "MethodID \<Rightarrow> writer_op" where
  "write_method_id val w = extend (pack (id_format (method_id_struct (JdwpWriter.spec w))) val) w"

definition write_frame_id :: "FrameID \<Rightarrow> writer_op" where
  "write_frame_id val w = extend (pack (id_format (frame_id_struct (JdwpWriter.spec w))) val) w"

definition write_thread_id :: "ThreadID \<Rightarrow> writer_op" where
  "write_thread_id val = write_object_id val"

definition write_thread_group_id :: "ThreadGroupID \<Rightarrow> writer_op" where
  "write_thread_group_id val = write_object_id val"

definition write_string_id :: "StringID \<Rightarrow> writer_op" where
  "write_string_id val = write_object_id val"

definition write_class_loader_id :: "ClassLoaderID \<Rightarrow> writer_op" where
  "write_class_loader_id val = write_object_id val"

definition write_class_object_id :: "ClassObjectID \<Rightarrow> writer_op" where
  "write_class_object_id val = write_object_id val"

definition write_interface_id :: "InterfaceID \<Rightarrow> writer_op" where
  "write_interface_id val = write_object_id val"

definition write_class_id :: "ClassID \<Rightarrow> writer_op" where
  "write_class_id val = write_reference_type_id val"

definition write_array_type_id :: "ArrayTypeID \<Rightarrow> writer_op" where
  "write_array_type_id val = write_reference_type_id val"

definition write_array_object_id :: "ArrayObjectID \<Rightarrow> writer_op" where
  "write_array_object_id val = write_object_id val"

definition write_location :: "Location \<Rightarrow> writer_op" where
  "write_location val = write_seq
     [write_byte (type_tag_value (Location.type_tag val)),
      write_reference_type_id (Location.class_id val),
      write_method_id (Location.method_id val),
      write_long (Location.index val)]"

definition write_tagged_object :: "TaggedObjectID \<Rightarrow> writer_op" where
  "write_tagged_object val = write_seq
     [write_byte (tag_value (TaggedObjectID.tag val)),
      write_object_id (TaggedObjectID.object_id val)]"

text \<open>\<open>struct.pack\<close> of a value of any type: integer formats and the two float formats.\<close>

definition pack_value :: "format \<Rightarrow> py_value \<Rightarrow> bytes result" where
  "pack_value f val = res_bind (index_of val) (pack f)"

definition pack_float :: "py_value \<Rightarrow> bytes result" where
  "pack_float val =
     res_bind (float_of val) (\<lambda>d. res_bind (f64_to_f32 d) (\<lambda>bits. Inr (be_bytes 4 (int bits))))"

definition pack_double :: "py_value \<Rightarrow> bytes result" where
  "pack_double val = res_bind (float_of val) (\<lambda>d. Inr (be_bytes 8 (int d)))"

definition write_untagged_value :: "JdwpTag \<Rightarrow> py_value \<Rightarrow> writer_op" where
  "write_untagged_value tg val w =
     (if is_object tg then
        extend (pack_value (id_format (object_id_struct (JdwpWriter.spec w))) val) w
      else if tg = TAG_BYTE then extend (pack_value (Signed 1) val) w
      else if tg = TAG_CHAR then extend (pack_value (Unsigned 2) val) w
      else if tg = TAG_FLOAT then extend (pack_float val) w
      else if tg = TAG_DOUBLE then extend (pack_double val) w
      else if tg = TAG_INT then extend (pack_value (Signed 4) val) w
      else if tg = TAG_LONG then extend (pack_value (Signed 8) val) w
      else if tg = TAG_SHORT then extend (pack_value (Signed 2) val) w
      else if tg = TAG_VOID then Inr w
      else if tg = TAG_BOOLEAN then write_boolean (truthy val) w
      else Inl ValueError)"

definition write_value :: "JdwpValue \<Rightarrow> writer_op" where
  "write_value val = write_seq
     [write_byte (tag_value (JdwpValue.tag val)),
      write_untagged_value (JdwpValue.tag val) (JdwpValue.value val)]"

text \<open>A list written as its length followed by its elements.\<close>

definition write_counted :: "('a \<Rightarrow> writer_op) \<Rightarrow> 'a list \<Rightarrow> writer_op" where
  "write_counted wr xs = write_seq (write_int (int (length xs)) # map wr xs)"

end
