(* ===== verification/Codec.thy ===== *)
theory Codec
  imports Io
begin

text \<open>
  The contract between a \<open>serialize\<close> and a \<open>deserialize\<close> method, and \<^verbatim>\<open>commands/base.py\<close>, which
  relies on it. \<open>paired w rd v\<close> says that whenever the writer operation \<open>w\<close> succeeds, it only
  appends bytes, and that the reader operation \<open>rd\<close> started at those bytes, in any buffer,
  returns \<open>v\<close> and consumes exactly them. The rules in \<open>codec_intros\<close> follow the code: one write
  against one read, in order. The locale \<open>codec\<close> proves once what every message class inherits.
\<close>

section \<open>One write against one read\<close>

definition reads_back :: "IdSizesSpec \<Rightarrow> bytes \<Rightarrow> 'a reader_op \<Rightarrow> 'a \<Rightarrow> bool" where
  "reads_back sp bs rd v \<longleftrightarrow>
     (\<forall>r pre post. JdwpReader.spec r = sp \<and> array_element_tag r = None \<and>
        data r = pre @ bs @ post \<and> offset r = int (length pre) \<longrightarrow>
        rd r = Inr (v, r\<lparr>offset := offset r + int (length bs)\<rparr>))"

definition paired :: "writer_op \<Rightarrow> 'a reader_op \<Rightarrow> 'a \<Rightarrow> bool" where
  "paired w rd v \<longleftrightarrow>
     (\<forall>wr wr'. w wr = Inr wr' \<longrightarrow>
        (\<exists>bs. wr' = wr\<lparr>buffer := buffer wr @ bs\<rparr> \<and> reads_back (JdwpWriter.spec wr) bs rd v))"

lemma reads_backI:
  assumes "\<And>r pre post. \<lbrakk>JdwpReader.spec r = sp; array_element_tag r = None;
      data r = pre @ bs @ post; offset r = int (length pre)\<rbrakk> \<Longrightarrow>
      rd r = Inr (v, r\<lparr>offset := offset r + int (length bs)\<rparr>)"
  shows "reads_back sp bs rd v"
  using assms by (simp add: reads_back_def)

lemma reads_backD:
  assumes "reads_back sp bs rd v" and "JdwpReader.spec r = sp" and "array_element_tag r = None"
    and "data r = pre @ bs @ post" and "offset r = int (length pre)"
  shows "rd r = Inr (v, r\<lparr>offset := offset r + int (length bs)\<rparr>)"
  using assms unfolding reads_back_def by blast

lemma reads_back_return: "reads_back sp [] (rreturn v) v"
  by (rule reads_backI) (simp add: rreturn_def)

lemma reads_back_bind:
  assumes "reads_back sp bs rd x" and "reads_back sp bs' (k x) y"
  shows "reads_back sp (bs @ bs') (rbind rd k) y"
proof (rule reads_backI)
  fix r :: JdwpReader and pre post
  assume r: "JdwpReader.spec r = sp" "array_element_tag r = None"
    "data r = pre @ (bs @ bs') @ post" "offset r = int (length pre)"
  let ?r = "r\<lparr>offset := offset r + int (length bs)\<rparr>"
  have "rd r = Inr (x, ?r)"
    using r by (intro reads_backD [OF assms(1), where post = "bs' @ post"]) simp_all
  moreover have "k x ?r = Inr (y, ?r\<lparr>offset := offset ?r + int (length bs')\<rparr>)"
    using r by (intro reads_backD [OF assms(2), where pre = "pre @ bs"]) simp_all
  ultimately show "rbind rd k r = Inr (y, r\<lparr>offset := offset r + int (length (bs @ bs'))\<rparr>)"
    by (simp add: rbind_def add.assoc)
qed

lemma pairedI:
  assumes "\<And>wr wr'. w wr = Inr wr' \<Longrightarrow>
      \<exists>bs. wr' = wr\<lparr>buffer := buffer wr @ bs\<rparr> \<and> reads_back (JdwpWriter.spec wr) bs rd v"
  shows "paired w rd v"
  using assms by (simp add: paired_def)

lemma pairedE:
  assumes "paired w rd v" and "w wr = Inr wr'"
  obtains bs where "wr' = wr\<lparr>buffer := buffer wr @ bs\<rparr>"
    and "reads_back (JdwpWriter.spec wr) bs rd v"
  using assms unfolding paired_def by blast

lemma paired_Nil [codec_intros]: "u = v \<Longrightarrow> paired (write_seq []) (rreturn u) v"
  by (rule pairedI) (auto intro!: exI [of _ "[]"] reads_back_return)

lemma paired_Cons [codec_intros]:
  assumes "paired w rd x" and "paired (write_seq ws) (k x) y"
  shows "paired (write_seq (w # ws)) (rbind rd k) y"
proof (rule pairedI)
  fix wr wr' assume "write_seq (w # ws) wr = Inr wr'"
  then obtain wr1 where w1: "w wr = Inr wr1" and w2: "write_seq ws wr1 = Inr wr'" by auto
  obtain bs where b: "wr1 = wr\<lparr>buffer := buffer wr @ bs\<rparr>" "reads_back (JdwpWriter.spec wr) bs rd x"
    using assms(1) w1 by (rule pairedE)
  obtain bs' where b': "wr' = wr1\<lparr>buffer := buffer wr1 @ bs'\<rparr>"
      "reads_back (JdwpWriter.spec wr1) bs' (k x) y"
    using assms(2) w2 by (rule pairedE)
  have "wr' = wr\<lparr>buffer := buffer wr @ (bs @ bs')\<rparr>" using b b' by simp
  moreover have "reads_back (JdwpWriter.spec wr) (bs @ bs') (rbind rd k) y"
    using b b' by (auto intro: reads_back_bind)
  ultimately show "\<exists>bs. wr' = wr\<lparr>buffer := buffer wr @ bs\<rparr> \<and>
      reads_back (JdwpWriter.spec wr) bs (rbind rd k) y"
    by blast
qed

lemma reads_back_map:
  assumes "reads_back sp bs rd x"
  shows "reads_back sp bs (rbind rd (\<lambda>x. rreturn (g x))) (g x)"
proof -
  have "reads_back sp (bs @ []) (rbind rd (\<lambda>x. rreturn (g x))) (g x)"
    using assms by (rule reads_back_bind) (rule reads_back_return)
  then show ?thesis by simp
qed

text \<open>A read followed by a total conversion, against the same write.\<close>

lemma paired_map:
  assumes "paired w rd x"
  shows "paired w (rbind rd (\<lambda>x. rreturn (g x))) (g x)"
  using assms unfolding paired_def by (fast intro: reads_back_map)

lemma paired_extend:
  assumes "\<And>wr bs. res wr = Inr bs \<Longrightarrow> reads_back (JdwpWriter.spec wr) bs rd v"
  shows "paired (\<lambda>wr. extend (res wr) wr) rd v"
proof (rule pairedI)
  fix wr wr' assume "extend (res wr) wr = Inr wr'"
  then obtain bs where "res wr = Inr bs" and "wr' = wr\<lparr>buffer := buffer wr @ bs\<rparr>"
    by (auto simp: extend_def)
  then show "\<exists>bs. wr' = wr\<lparr>buffer := buffer wr @ bs\<rparr> \<and> reads_back (JdwpWriter.spec wr) bs rd v"
    using assms by blast
qed

lemma paired_extend_const:
  assumes "\<And>sp bs. res = Inr bs \<Longrightarrow> reads_back sp bs rd v"
  shows "paired (extend res) rd v"
  using assms by (rule paired_extend)

section \<open>The primitive operations\<close>

lemma reads_back_struct: "pack f v = Inr bs \<Longrightarrow> reads_back sp bs (read_struct f) v"
  by (rule reads_backI) (simp add: read_struct_def pack_length)

lemma paired_struct: "paired (extend (pack f v)) (read_struct f) v"
  by (rule paired_extend_const) (rule reads_back_struct)

text \<open>A read at the cursor, with enough bytes left and with too few.\<close>

lemma read_struct_at:
  assumes "length bs = fmt_size f"
  shows "read_struct f (r\<lparr>data := pre @ bs @ post, offset := int (length pre)\<rparr>) =
    Inr (decode_int f bs, r\<lparr>data := pre @ bs @ post, offset := int (length pre) + int (fmt_size f)\<rparr>)"
  using assms by (simp add: read_struct_def unpack_from_def)

lemma read_struct_short:
  assumes "length bs < fmt_size f"
  shows "read_struct f (r\<lparr>data := pre @ bs, offset := int (length pre)\<rparr>) = Inl StructError"
  using assms by (simp add: read_struct_def unpack_from_def field_at_def)

lemma word_of_int_and_255: "(word_of_int (v AND 0xFF) :: byte) = word_of_int v"
proof (rule byte_of_int_cong)
  have "v AND 0xFF = take_bit 8 v" by (simp add: take_bit_eq_mask mask_eq_exp_minus_1)
  then show "(v AND 0xFF) mod 256 = v mod 256" by (simp add: take_bit_eq_mod)
qed

lemma reads_back_byte: "uint b = v \<Longrightarrow> reads_back sp [b] read_byte v"
  by (rule reads_backI) (simp add: read_byte_def)

lemma paired_one_byte:
  assumes "uint b = v"
  shows "paired (extend (Inr [b])) read_byte v"
proof (rule paired_extend_const)
  fix sp bs assume "Inr [b] = (Inr bs :: bytes result)"
  then have "bs = [b]" by simp
  with assms show "reads_back sp bs read_byte v" by (simp only: reads_back_byte)
qed

lemma paired_byte:
  assumes "v mod 256 = v"
  shows "paired (write_byte v) read_byte v"
  unfolding write_byte_def word_of_int_and_255
  by (rule paired_one_byte) (simp only: uint_byte_of_int assms)

lemma paired_boolean [codec_intros]: "paired (write_boolean b) read_boolean b"
proof -
  have "paired (write_boolean b) read_byte (if b then 1 else 0)"
    unfolding write_boolean_def by (rule paired_one_byte) simp
  from paired_map [OF this, of "\<lambda>v. v \<noteq> 0"] show ?thesis
    by (cases b) (simp_all add: read_boolean_def)
qed

lemma paired_int [codec_intros]: "paired (write_int v) read_int v"
  and paired_long [codec_intros]: "paired (write_long v) read_long v"
  unfolding write_int_def read_int_def write_long_def read_long_def by (rule paired_struct)+

lemma paired_id:
  "paired (\<lambda>w. extend (pack (id_format (sel (JdwpWriter.spec w))) v) w)
          (\<lambda>r. read_id (sel (JdwpReader.spec r)) r) v"
proof (rule paired_extend)
  fix wr bs assume "pack (id_format (sel (JdwpWriter.spec wr))) v = Inr bs"
  then have "reads_back (JdwpWriter.spec wr) bs (read_struct (id_format (sel (JdwpWriter.spec wr)))) v"
    by (rule reads_back_struct)
  then show "reads_back (JdwpWriter.spec wr) bs (\<lambda>r. read_id (sel (JdwpReader.spec r)) r) v"
    by (auto simp: reads_back_def read_id_def)
qed

lemmas id_op_defs =
  read_object_id_def read_reference_type_id_def read_field_id_def read_method_id_def read_frame_id_def
  write_object_id_def write_reference_type_id_def write_field_id_def write_method_id_def
  write_frame_id_def

lemmas id_alias_defs =
  read_thread_id_def read_thread_group_id_def read_string_id_def read_class_loader_id_def
  read_class_object_id_def read_interface_id_def read_class_id_def read_array_type_id_def
  read_array_object_id_def
  write_thread_id_def write_thread_group_id_def write_string_id_def write_class_loader_id_def
  write_class_object_id_def write_interface_id_def write_class_id_def write_array_type_id_def
  write_array_object_id_def

lemma paired_id_ops [codec_intros]:
  "paired (write_object_id v) read_object_id v"
  "paired (write_reference_type_id v) read_reference_type_id v"
  "paired (write_field_id v) read_field_id v"
  "paired (write_method_id v) read_method_id v"
  "paired (write_frame_id v) read_frame_id v"
  using paired_id unfolding id_op_defs [abs_def] by blast+

lemma paired_id_aliases [codec_intros]:
  "paired (write_thread_id v) read_thread_id v"
  "paired (write_thread_group_id v) read_thread_group_id v"
  "paired (write_string_id v) read_string_id v"
  "paired (write_class_loader_id v) read_class_loader_id v"
  "paired (write_class_object_id v) read_class_object_id v"
  "paired (write_interface_id v) read_interface_id v"
  "paired (write_class_id v) read_class_id v"
  "paired (write_array_type_id v) read_array_type_id v"
  "paired (write_array_object_id v) read_array_object_id v"
  unfolding id_alias_defs by (rule paired_id_ops)+

lemma paired_string [codec_intros]: "paired (write_string s) read_string s"
proof (rule pairedI)
  fix wr wr' assume wr': "write_string s wr = Inr wr'"
  then obtain enc hd where enc: "utf8_encode s = Inr enc"
    and hd: "pack (Signed 4) (int (length enc)) = Inr hd"
    and wr: "wr' = wr\<lparr>buffer := buffer wr @ (hd @ enc)\<rparr>"
    by (auto simp: write_string_def write_int_def extend_def)
  have "reads_back (JdwpWriter.spec wr) hd read_int (int (length enc))"
    unfolding read_int_def using hd by (rule reads_back_struct)
  moreover have "reads_back (JdwpWriter.spec wr) enc
      (\<lambda>r. res_bind (utf8_decode (py_slice (data r) (offset r) (offset r + int (length enc))))
        (\<lambda>val. Inr (val, r\<lparr>offset := offset r + int (length enc)\<rparr>))) s"
    by (rule reads_backI) (simp add: utf8_decode_encode [OF enc])
  ultimately have "reads_back (JdwpWriter.spec wr) (hd @ enc) read_string s"
    unfolding read_string_def by (rule reads_back_bind)
  with wr show "\<exists>bs. wr' = wr\<lparr>buffer := buffer wr @ bs\<rparr> \<and>
      reads_back (JdwpWriter.spec wr) bs read_string s"
    by blast
qed

text \<open>Enumerations and flags: a value of the type against \<open>E(reader.read_...())\<close>.\<close>

lemma paired_enum:
  assumes "paired w rd (val c)" and "of_val (val c) = Some c"
  shows "paired w (read_enum rd of_val) c"
proof -
  have "reads_back sp bs (read_enum rd of_val) c" if "reads_back sp bs rd (val c)" for sp bs
    using reads_back_bind [OF that, of "[]" "\<lambda>v. rlift (or_raise ValueError (of_val v))" c] assms(2)
    by (simp add: read_enum_def reads_back_def rlift_def)
  with assms(1) show ?thesis unfolding paired_def by blast
qed

lemma paired_enums [codec_intros]:
  "paired (write_byte (tag_value t)) (read_enum read_byte JdwpTag_of) t"
  "paired (write_byte (event_kind_value k)) (read_enum read_byte JdwpEventKind_of) k"
  "paired (write_byte (suspend_policy_value p)) (read_enum read_byte JdwpSuspendPolicy_of) p"
  "paired (write_byte (type_tag_value y)) (read_enum read_byte JdwpTypeTag_of) y"
  "paired (write_int (thread_status_value h)) (read_enum read_int JdwpThreadStatus_of) h"
  "paired (write_int (suspend_status_value u)) (read_enum read_int JdwpSuspendStatus_of) u"
  by (auto intro!: paired_enum paired_byte paired_int)

definition read_flag :: "int reader_op \<Rightarrow> (int \<Rightarrow> nat) \<Rightarrow> nat reader_op" where
  "read_flag rd of_val = rbind rd (\<lambda>val. rreturn (of_val val))"

lemma paired_flags [codec_intros]:
  "paired (write_int (int n)) (read_flag read_int JdwpClassStatus_of) n"
  "paired (write_int (int n)) (read_flag read_int JdwpInvokeOptions_of) n"
  using paired_map [OF paired_int [of "int n"], of JdwpClassStatus_of]
    paired_map [OF paired_int [of "int n"], of JdwpInvokeOptions_of]
  by (simp_all add: read_flag_def)

text \<open>Raw bytes, written and read one at a time.\<close>

definition write_raw_byte :: "byte \<Rightarrow> writer_op" where
  "write_raw_byte b = write_byte (uint b)"

definition read_raw_byte :: "byte reader_op" where
  "read_raw_byte = rbind read_byte (\<lambda>b. rreturn (word_of_int b))"

lemma paired_raw_byte [codec_intros]: "paired (write_raw_byte b) read_raw_byte b"
proof -
  have "uint b mod 256 = uint b" using uint_byte_bounds [of b] by simp
  from paired_map [OF paired_byte [OF this], of "word_of_int :: int \<Rightarrow> byte"] show ?thesis
    by (simp add: write_raw_byte_def read_raw_byte_def word_of_int_uint del: of_int_uint)
qed

section \<open>Lists\<close>

lemma paired_each:
  assumes "\<And>x. x \<in> set xs \<Longrightarrow> paired (wr x) rd x"
  shows "paired (write_seq (map wr xs)) (read_n (length xs) rd) xs"
  using assms
proof (induction xs)
  case Nil
  show ?case by (simp add: paired_Nil [OF refl] del: write_seq.simps)
next
  case (Cons x xs)
  have x: "paired (wr x) rd x" using Cons.prems by simp
  have xs: "paired (write_seq (map wr xs)) (read_n (length xs) rd) xs"
    using Cons by simp
  have "paired (write_seq (wr x # map wr xs))
      (rbind rd (\<lambda>x. rbind (read_n (length xs) rd) (\<lambda>xs. rreturn (x # xs)))) (x # xs)"
    by (rule paired_Cons [OF x]) (rule paired_map [OF xs])
  then show ?case by (simp del: write_seq.simps)
qed

lemma paired_counted [codec_intros]:
  assumes "\<And>x. x \<in> set xs \<Longrightarrow> paired (wr x) rd x"
  shows "paired (write_counted wr xs) (read_counted rd) xs"
  unfolding write_counted_def read_counted_def
  by (rule paired_Cons [OF paired_int]) (use paired_each [OF assms] in simp)

lemma list_all_member: "list_all P xs \<Longrightarrow> x \<in> set xs \<Longrightarrow> P x"
  by (simp add: list_all_iff)

section \<open>Locations, tagged objects and values\<close>

lemma paired_location [codec_intros]: "paired (write_location l) read_location l"
  unfolding write_location_def read_location_def
  by (rule codec_intros)+ (cases l, simp add: Location.make_def)

lemma paired_tagged_object [codec_intros]: "paired (write_tagged_object t) read_tagged_object t"
  unfolding write_tagged_object_def read_tagged_object_def
  by (rule codec_intros)+ (cases t, simp add: TaggedObjectID.make_def)

text \<open>
  The values a tag stands for: what \<open>read_untagged_value\<close> returns. The writer accepts more (a
  \<open>bool\<close> for an integer tag, an \<open>int\<close> for a float tag, anything for \<open>BOOLEAN\<close> and \<open>VOID\<close>, a
  float that binary32 has to round), but those come back as another Python value.
\<close>

definition value_ok :: "JdwpTag \<Rightarrow> py_value \<Rightarrow> bool" where
  "value_ok tg v =
     (case v of
        PyNone \<Rightarrow> tg = TAG_VOID
      | PyBool b \<Rightarrow> tg = TAG_BOOLEAN
      | PyInt n \<Rightarrow> is_object tg \<or> tg \<in> {TAG_BYTE, TAG_CHAR, TAG_INT, TAG_LONG, TAG_SHORT}
      | PyFloat x \<Rightarrow> tg = TAG_DOUBLE \<or>
          tg = TAG_FLOAT \<and> (case f64_to_f32 (unat x) of
              Inl _ \<Rightarrow> False
            | Inr u \<Rightarrow> u < 2 ^ 32 \<and> f32_to_f64 u = unat x))"

definition jdwp_value_ok :: "JdwpValue \<Rightarrow> bool" where
  "jdwp_value_ok v = value_ok (JdwpValue.tag v) (JdwpValue.value v)"

definition byte_ok :: "int \<Rightarrow> bool" where
  "byte_ok v \<longleftrightarrow> 0 \<le> v \<and> v < 256"

lemma paired_byte_ok [codec_intros]: "byte_ok v \<Longrightarrow> paired (write_byte v) read_byte v"
  by (rule paired_byte) (simp add: byte_ok_def)

lemma paired_pack_value:
  "paired (extend (pack_value f (PyInt n))) (rbind (read_struct f) (\<lambda>val. rreturn (PyInt val))) (PyInt n)"
  unfolding pack_value_def by (simp add: paired_map paired_struct)

lemma paired_object_value:
  "paired (\<lambda>w. extend (pack_value (id_format (object_id_struct (JdwpWriter.spec w))) (PyInt n)) w)
     (rbind read_object_id (\<lambda>val. rreturn (PyInt val))) (PyInt n)"
  using paired_map [OF paired_id_ops(1) [of n], of PyInt]
  by (simp add: pack_value_def write_object_id_def [abs_def])

lemma reads_back_float:
  assumes "pack_float (PyFloat x) = Inr bs" and "f64_to_f32 (unat x) = Inr u" and "u < 2 ^ 32"
    and "f32_to_f64 u = unat x"
  shows "reads_back sp bs
    (rbind (read_struct (Unsigned 4)) (\<lambda>bits. rreturn (PyFloat (word_of_nat (f32_to_f64 (nat bits))))))
    (PyFloat x)"
proof -
  have "pack (Unsigned 4) (int u) = Inr bs"
    using assms by (simp add: pack_float_def pack_eq_Inr)
  from reads_back_map [OF reads_back_struct [OF this],
      of sp "\<lambda>b. PyFloat (word_of_nat (f32_to_f64 (nat b)))"]
  show ?thesis by (simp add: assms(4))
qed

lemma reads_back_double:
  assumes "pack_double (PyFloat x) = Inr bs"
  shows "reads_back sp bs
    (rbind (read_struct (Unsigned 8)) (\<lambda>bits. rreturn (PyFloat (word_of_int bits)))) (PyFloat x)"
proof -
  have "uint x < 2 ^ 64" using uint_lt2p [of x] by simp
  then have "pack (Unsigned 8) (int (unat x)) = Inr bs"
    using assms by (simp add: pack_double_def pack_eq_Inr)
  from reads_back_map [OF reads_back_struct [OF this], of sp "\<lambda>b. PyFloat (word_of_int b)"]
  show ?thesis by simp
qed

lemma paired_untagged_value:
  assumes "value_ok tg v"
  shows "paired (write_untagged_value tg v) (read_untagged_value tg) v"
proof (cases v)
  case PyNone
  with assms have "tg = TAG_VOID" by (simp add: value_ok_def)
  with PyNone paired_Nil [OF refl, of PyNone] show ?thesis
    by (simp add: write_untagged_value_def [abs_def] read_untagged_value_def is_object_def paired_def)
next
  case (PyBool b)
  with assms have "tg = TAG_BOOLEAN" by (simp add: value_ok_def)
  with PyBool paired_map [OF paired_boolean [of b], of PyBool] show ?thesis
    by (simp add: write_untagged_value_def [abs_def] read_untagged_value_def is_object_def)
next
  case (PyInt n)
  show ?thesis
  proof (cases "is_object tg")
    case True
    with PyInt paired_object_value show ?thesis
      by (simp add: write_untagged_value_def [abs_def] read_untagged_value_def)
  next
    case False
    with assms PyInt have "tg \<in> {TAG_BYTE, TAG_CHAR, TAG_INT, TAG_LONG, TAG_SHORT}"
      by (simp add: value_ok_def)
    with PyInt show ?thesis
      using paired_pack_value [of _ n]
      by (auto simp: write_untagged_value_def [abs_def] read_untagged_value_def is_object_def
          read_int_def read_long_def)
  qed
next
  case (PyFloat x)
  show ?thesis
  proof (cases "tg = TAG_DOUBLE")
    case True
    with PyFloat show ?thesis
      by (auto simp: write_untagged_value_def [abs_def] read_untagged_value_def is_object_def
          intro!: paired_extend_const reads_back_double)
  next
    case False
    with assms PyFloat obtain u where "tg = TAG_FLOAT" "f64_to_f32 (unat x) = Inr u" "u < 2 ^ 32"
        "f32_to_f64 u = unat x"
      by (auto simp: value_ok_def split: sum.splits)
    with PyFloat show ?thesis
      by (auto simp: write_untagged_value_def [abs_def] read_untagged_value_def is_object_def
          intro!: paired_extend_const reads_back_float)
  qed
qed

lemma paired_value [codec_intros]:
  assumes "jdwp_value_ok v"
  shows "paired (write_value v) read_value v"
  unfolding write_value_def read_value_def
  by (rule codec_intros paired_untagged_value assms [unfolded jdwp_value_ok_def])+
    (cases v, simp add: JdwpValue.make_def)

section \<open>What a reader returns\<close>

text \<open>
  The side conditions of the codec lemmas are exact: whatever a reader operation returns satisfies
  them, so a message that does not is never read back. \<open>yields rd P\<close> is that judgement, with one
  rule per construct in \<open>yields_intros\<close>.
\<close>

definition yields :: "'a reader_op \<Rightarrow> ('a \<Rightarrow> bool) \<Rightarrow> bool" where
  "yields rd P \<longleftrightarrow> (\<forall>r v r'. rd r = Inr (v, r') \<longrightarrow> P v)"

lemma yieldsI: "(\<And>r v r'. rd r = Inr (v, r') \<Longrightarrow> P v) \<Longrightarrow> yields rd P"
  by (simp add: yields_def)

lemma yieldsD: "yields rd P \<Longrightarrow> rd r = Inr (v, r') \<Longrightarrow> P v"
  unfolding yields_def by blast

lemma yields_any: "yields rd (\<lambda>_. True)"
  by (simp add: yields_def)

lemma yields_return: "P x \<Longrightarrow> yields (rreturn x) P"
  by (simp add: yields_def rreturn_def)

lemma yields_bind:
  assumes "yields rd P" and "\<And>x. P x \<Longrightarrow> yields (k x) Q"
  shows "yields (rbind rd k) Q"
  using assms by (fastforce simp: yields_def rbind_def)

lemma yields_struct: "yields (read_struct f) (fits f)"
  by (rule yieldsI) (auto simp: read_struct_def dest: unpack_from_fits)

lemma yields_n: "yields rd P \<Longrightarrow> yields (read_n n rd) (list_all P)"
proof (induction n)
  case (Suc n)
  show ?case unfolding read_n.simps
    by (rule yields_bind [OF Suc.prems], rule yields_bind [OF Suc.IH [OF Suc.prems]], rule yields_return) simp
qed (simp add: yields_return)

lemma yields_counted [yields_intros]: "yields rd P \<Longrightarrow> yields (read_counted rd) (list_all P)"
  unfolding read_counted_def by (rule yields_bind [OF yields_any]) (rule yields_n)

lemma value_ok_float:
  assumes "fits (Unsigned 4) bits"
  shows "value_ok TAG_FLOAT (PyFloat (word_of_nat (f32_to_f64 (nat bits))))"
proof -
  have u: "nat bits < 2 ^ 32" using assms by (simp add: nat_less_iff)
  have "unat (word_of_nat (f32_to_f64 (nat bits)) :: 64 word) = f32_to_f64 (nat bits)"
    using f32_to_f64_bound [OF u] by (simp add: unat_of_nat)
  with u narrow_widen [OF u] show ?thesis by (simp add: value_ok_def)
qed

lemma yields_if: "(b \<Longrightarrow> yields rd P) \<Longrightarrow> (\<not> b \<Longrightarrow> yields rd' P) \<Longrightarrow> yields (if b then rd else rd') P"
  by simp

lemma yields_conv: "(\<And>x. P (g x)) \<Longrightarrow> yields (rbind rd (\<lambda>x. rreturn (g x))) P"
  by (rule yields_bind [OF yields_any]) (rule yields_return)

lemma yields_untagged_value [yields_intros]: "yields (read_untagged_value tg) (value_ok tg)"
proof (cases "tg = TAG_FLOAT")
  case True
  have "yields (rbind (read_struct (Unsigned 4))
      (\<lambda>bits. rreturn (PyFloat (word_of_nat (f32_to_f64 (nat bits)))))) (value_ok TAG_FLOAT)"
    by (rule yields_bind [OF yields_struct]) (rule yields_return, rule value_ok_float)
  with True show ?thesis by (simp add: read_untagged_value_def is_object_def)
next
  case False
  then show ?thesis
    unfolding read_untagged_value_def
    by (intro yields_if yields_conv yields_return)
      (auto simp: value_ok_def yields_def rlift_def)
qed

lemma yields_value [yields_intros]: "yields read_value jdwp_value_ok"
  unfolding read_value_def
  by (rule yields_bind [OF yields_any], rule yields_bind [OF yields_untagged_value], rule yields_return)
    (simp add: jdwp_value_ok_def JdwpValue.make_def)

section \<open>Message classes\<close>

text \<open>The class variables of a \<open>JdwpCommand\<close>; \<open>ALLOWED_ERRORS\<close> has a default.\<close>

record command_class =
  COMMAND_SET :: int
  COMMAND :: int
  ALLOWED_ERRORS :: "JdwpErrorCode set"

definition default_allowed_errors :: "JdwpErrorCode set" where
  "default_allowed_errors = {ERR_NONE}"

text \<open>\<open>to_bytes\<close> and \<open>from_bytes\<close> of \<^verbatim>\<open>commands/base.py\<close>.\<close>

definition to_bytes :: "('a \<Rightarrow> writer_op) \<Rightarrow> 'a \<Rightarrow> IdSizesSpec \<Rightarrow> bytes result" where
  "to_bytes serialize self sp =
     res_bind (serialize self (writer_init sp)) (\<lambda>writer. Inr (get_bytes writer))"

definition from_bytes :: "'a reader_op \<Rightarrow> bytes \<Rightarrow> IdSizesSpec \<Rightarrow> 'a result" where
  "from_bytes deserialize bs sp =
     res_bind (deserialize (reader_init bs sp)) (\<lambda>(self, _). Inr self)"

locale codec =
  fixes serialize :: "'a \<Rightarrow> writer_op"
    and deserialize :: "'a reader_op"
    and ok :: "'a \<Rightarrow> bool"
  assumes pairs: "ok v \<Longrightarrow> paired (serialize v) deserialize v"
begin

text \<open>What \<open>to_bytes\<close> produced reads back as the message, whatever follows it.\<close>

lemma roundtrip:
  assumes "ok v" and "to_bytes serialize v sp = Inr bs"
  shows "from_bytes deserialize (bs @ junk) sp = Inr v"
proof -
  from assms(2) obtain w where w: "serialize v (writer_init sp) = Inr w" and bs: "bs = buffer w"
    by (auto simp: to_bytes_def get_bytes_def)
  obtain bs' where "w = (writer_init sp)\<lparr>buffer := buffer (writer_init sp) @ bs'\<rparr>"
    and rb: "reads_back (JdwpWriter.spec (writer_init sp)) bs' deserialize v"
    using pairs [OF assms(1)] w by (rule pairedE)
  then have "bs' = bs" using bs by (simp add: writer_init_def)
  with rb have "reads_back sp bs deserialize v" by (simp add: writer_init_def)
  then have "deserialize (reader_init (bs @ junk) sp) =
      Inr (v, (reader_init (bs @ junk) sp)\<lparr>offset := offset (reader_init (bs @ junk) sp) + int (length bs)\<rparr>)"
    by (rule reads_backD) (simp_all add: reader_init_def)
  then show ?thesis by (simp add: from_bytes_def)
qed

text \<open>No message is the beginning of another one's bytes, so the encoding is injective.\<close>

lemma prefix_free:
  assumes "ok v" and "ok v'" and "to_bytes serialize v sp = Inr bs"
    and "to_bytes serialize v' sp = Inr (bs @ junk)"
  shows "v' = v \<and> junk = []"
proof -
  have "from_bytes deserialize (bs @ junk) sp = Inr v" using assms(1,3) by (rule roundtrip)
  moreover have "from_bytes deserialize ((bs @ junk) @ []) sp = Inr v'"
    using assms(2,4) by (rule roundtrip)
  ultimately have "v' = v" by simp
  with assms(3,4) show ?thesis by simp
qed

lemma injective:
  "ok v \<Longrightarrow> ok v' \<Longrightarrow> to_bytes serialize v sp = Inr bs \<Longrightarrow> to_bytes serialize v' sp = Inr bs \<Longrightarrow> v' = v"
  using prefix_free [of v v' sp bs "[]"] by simp

text \<open>The element loop a containing message runs.\<close>

lemma pairs_counted:
  "list_all ok xs \<Longrightarrow> paired (write_counted serialize xs) (read_counted deserialize) xs"
  by (rule paired_counted) (simp add: pairs list_all_iff)

end

section \<open>Families of message classes\<close>

text \<open>
  Code that handles messages of many classes calls the methods of whatever class it has: an
  instance of a family is written by its own \<open>serialize\<close> and read by its class's \<open>deserialize\<close>.
\<close>

definition of_class :: "'c reader_op \<Rightarrow> ('c \<Rightarrow> 'obj) \<Rightarrow> 'obj reader_op" where
  "of_class des obj = rbind des (\<lambda>self. rreturn (obj self))"

lemma of_class_codec: "paired w des v \<Longrightarrow> paired w (of_class des obj) (obj v)"
  unfolding of_class_def by (rule paired_map)

lemma of_class_obj: "of_class des obj r = Inr (y, r') \<Longrightarrow> \<exists>x. y = obj x \<and> des r = Inr (x, r')"
  by (auto simp: of_class_def rbind_def rreturn_def)

locale message_family =
  fixes class_of :: "'obj \<Rightarrow> 'cls"
    and serialize :: "'obj \<Rightarrow> writer_op"
    and deserialize :: "'cls \<Rightarrow> 'obj reader_op"
    and ok :: "'obj \<Rightarrow> bool"
  assumes family: "ok v \<Longrightarrow> paired (serialize v) (deserialize (class_of v)) v"
    and class_sound: "deserialize c r = Inr (v, r') \<Longrightarrow> class_of v = c"
    and ok_sound: "deserialize c r = Inr (v, r') \<Longrightarrow> array_element_tag r = None \<Longrightarrow> ok v"
begin

lemma from_bytes_class: "from_bytes (deserialize c) bs sp = Inr v \<Longrightarrow> class_of v = c"
  by (auto simp: from_bytes_def dest: class_sound)

lemma member_codec: "codec serialize (deserialize c) (\<lambda>v. ok v \<and> class_of v = c)"
  by unfold_locales (auto intro: family)

lemma family_roundtrip:
  "ok v \<Longrightarrow> to_bytes serialize v sp = Inr bs \<Longrightarrow>
    from_bytes (deserialize (class_of v)) (bs @ junk) sp = Inr v"
  by (rule codec.roundtrip [OF member_codec]) auto

text \<open>The condition is exact: without it the message does not come back.\<close>

lemma from_bytes_ok: "from_bytes (deserialize c) bs sp = Inr v \<Longrightarrow> ok v"
  by (auto simp: from_bytes_def reader_init_def dest!: ok_sound)

lemma family_roundtrip_iff:
  "to_bytes serialize v sp = Inr bs \<Longrightarrow>
    from_bytes (deserialize (class_of v)) (bs @ junk) sp = Inr v \<longleftrightarrow> ok v"
  using family_roundtrip from_bytes_ok by blast

lemma family_injective:
  "ok v \<Longrightarrow> ok v' \<Longrightarrow> class_of v' = class_of v \<Longrightarrow> to_bytes serialize v sp = Inr bs \<Longrightarrow>
    to_bytes serialize v' sp = Inr bs \<Longrightarrow> v' = v"
  by (rule codec.injective [OF member_codec]) auto

text \<open>The family as a part of a larger one.\<close>

lemma lift_family:
  "ok v \<Longrightarrow> paired (serialize v) (of_class (deserialize (class_of v)) obj) (obj v)"
  by (rule of_class_codec) (rule family)

end

end
