(* ===== verification/Cmd_VM.thy ===== *)
theory Cmd_VM
  imports Codec
begin

text \<open>
  \<^verbatim>\<open>commands/vm.py\<close>:
  the commands of set 1, which query and control the whole target VM.
  Each class is a record, with its \<open>serialize\<close> and \<open>deserialize\<close>; \<open>_class\<close> holds a command's
  class variables. The codec lemma of a class is its round trip, and the interpretation gives it the
  facts of every message class.
\<close>

section \<open>VirtualMachine.Version\<close>

record VersionResponse =
  description :: pystr
  jdwp_major :: int
  jdwp_minor :: int
  vm_version :: pystr
  vm_name :: pystr

definition VersionResponse_serialize :: "VersionResponse \<Rightarrow> writer_op" where
  "VersionResponse_serialize self = write_seq
     [write_string (VersionResponse.description self),
      write_int (VersionResponse.jdwp_major self),
      write_int (VersionResponse.jdwp_minor self),
      write_string (VersionResponse.vm_version self),
      write_string (VersionResponse.vm_name self)]"

definition VersionResponse_deserialize :: "VersionResponse reader_op" where
  "VersionResponse_deserialize =
     rbind read_string (\<lambda>description.
     rbind read_int (\<lambda>jdwp_major.
     rbind read_int (\<lambda>jdwp_minor.
     rbind read_string (\<lambda>vm_version.
     rbind read_string (\<lambda>vm_name.
       rreturn (VersionResponse.make description jdwp_major jdwp_minor vm_version vm_name))))))"

lemma VersionResponse_codec [codec_intros]:
  "paired (VersionResponse_serialize v) VersionResponse_deserialize v"
  unfolding VersionResponse_serialize_def VersionResponse_deserialize_def
  by (rule codec_intros)+ (cases v, simp add: VersionResponse.make_def)

interpretation VersionResponse:
  codec VersionResponse_serialize VersionResponse_deserialize "\<lambda>_. True"
  by unfold_locales (rule VersionResponse_codec)

datatype (plugins only: code) VersionCommand = VersionCommand

definition VersionCommand_class :: command_class where
  "VersionCommand_class = command_class.make 1 1 {ERR_NONE, ERR_VM_DEAD}"

definition VersionCommand_serialize :: "VersionCommand \<Rightarrow> writer_op" where
  "VersionCommand_serialize self = write_seq []"

definition VersionCommand_deserialize :: "VersionCommand reader_op" where
  "VersionCommand_deserialize = rreturn VersionCommand"

lemma VersionCommand_codec [codec_intros]:
  "paired (VersionCommand_serialize v) VersionCommand_deserialize v"
  unfolding VersionCommand_serialize_def VersionCommand_deserialize_def
  by (rule codec_intros)+ (cases v, simp)

interpretation VersionCommand:
  codec VersionCommand_serialize VersionCommand_deserialize "\<lambda>_. True"
  by unfold_locales (rule VersionCommand_codec)

section \<open>VirtualMachine.ClassesBySignature\<close>

record ClassesBySignatureEntry =
  ref_type_tag :: JdwpTypeTag
  type_id :: ReferenceTypeID
  status :: JdwpClassStatus

definition ClassesBySignatureEntry_serialize ::
    "ClassesBySignatureEntry \<Rightarrow> writer_op" where
  "ClassesBySignatureEntry_serialize self = write_seq
     [write_byte (type_tag_value (ClassesBySignatureEntry.ref_type_tag self)),
      write_reference_type_id (ClassesBySignatureEntry.type_id self),
      write_int (int (ClassesBySignatureEntry.status self))]"

definition ClassesBySignatureEntry_deserialize :: "ClassesBySignatureEntry reader_op" where
  "ClassesBySignatureEntry_deserialize =
     rbind (read_enum read_byte JdwpTypeTag_of) (\<lambda>ref_type_tag.
     rbind read_reference_type_id (\<lambda>type_id.
     rbind (read_flag read_int JdwpClassStatus_of) (\<lambda>status.
       rreturn (ClassesBySignatureEntry.make ref_type_tag type_id status))))"

lemma ClassesBySignatureEntry_codec [codec_intros]:
  "paired (ClassesBySignatureEntry_serialize v) ClassesBySignatureEntry_deserialize v"
  unfolding ClassesBySignatureEntry_serialize_def ClassesBySignatureEntry_deserialize_def
  by (rule codec_intros)+ (cases v, simp add: ClassesBySignatureEntry.make_def)

record ClassesBySignatureResponse =
  "classes" :: "ClassesBySignatureEntry list"

definition ClassesBySignatureResponse_serialize ::
    "ClassesBySignatureResponse \<Rightarrow> writer_op" where
  "ClassesBySignatureResponse_serialize self = write_seq
     [write_counted ClassesBySignatureEntry_serialize (ClassesBySignatureResponse.classes self)]"

definition ClassesBySignatureResponse_deserialize :: "ClassesBySignatureResponse reader_op" where
  "ClassesBySignatureResponse_deserialize =
     rbind (read_counted ClassesBySignatureEntry_deserialize) (\<lambda>entries.
       rreturn (ClassesBySignatureResponse.make entries))"

lemma ClassesBySignatureResponse_codec [codec_intros]:
  "paired (ClassesBySignatureResponse_serialize v) ClassesBySignatureResponse_deserialize v"
  unfolding ClassesBySignatureResponse_serialize_def ClassesBySignatureResponse_deserialize_def
  by (rule codec_intros)+ (cases v, simp add: ClassesBySignatureResponse.make_def)

interpretation ClassesBySignatureResponse:
  codec ClassesBySignatureResponse_serialize ClassesBySignatureResponse_deserialize "\<lambda>_.
    True"
  by unfold_locales (rule ClassesBySignatureResponse_codec)

record ClassesBySignatureCommand =
  signature :: pystr

definition ClassesBySignatureCommand_class :: command_class where
  "ClassesBySignatureCommand_class = command_class.make 1 2 {ERR_NONE, ERR_VM_DEAD}"

definition ClassesBySignatureCommand_serialize ::
    "ClassesBySignatureCommand \<Rightarrow> writer_op" where
  "ClassesBySignatureCommand_serialize self = write_seq
     [write_string (ClassesBySignatureCommand.signature self)]"

definition ClassesBySignatureCommand_deserialize :: "ClassesBySignatureCommand reader_op" where
  "ClassesBySignatureCommand_deserialize =
     rbind read_string (\<lambda>signature.
       rreturn (ClassesBySignatureCommand.make signature))"

lemma ClassesBySignatureCommand_codec [codec_intros]:
  "paired (ClassesBySignatureCommand_serialize v) ClassesBySignatureCommand_deserialize v"
  unfolding ClassesBySignatureCommand_serialize_def ClassesBySignatureCommand_deserialize_def
  by (rule codec_intros)+ (cases v, simp add: ClassesBySignatureCommand.make_def)

interpretation ClassesBySignatureCommand:
  codec ClassesBySignatureCommand_serialize ClassesBySignatureCommand_deserialize "\<lambda>_.
    True"
  by unfold_locales (rule ClassesBySignatureCommand_codec)

section \<open>VirtualMachine.AllClasses\<close>

record AllClassesEntry =
  ref_type_tag :: JdwpTypeTag
  type_id :: ReferenceTypeID
  signature :: pystr
  status :: JdwpClassStatus

definition AllClassesEntry_serialize :: "AllClassesEntry \<Rightarrow> writer_op" where
  "AllClassesEntry_serialize self = write_seq
     [write_byte (type_tag_value (AllClassesEntry.ref_type_tag self)),
      write_reference_type_id (AllClassesEntry.type_id self),
      write_string (AllClassesEntry.signature self),
      write_int (int (AllClassesEntry.status self))]"

definition AllClassesEntry_deserialize :: "AllClassesEntry reader_op" where
  "AllClassesEntry_deserialize =
     rbind (read_enum read_byte JdwpTypeTag_of) (\<lambda>ref_type_tag.
     rbind read_reference_type_id (\<lambda>type_id.
     rbind read_string (\<lambda>signature.
     rbind (read_flag read_int JdwpClassStatus_of) (\<lambda>status.
       rreturn (AllClassesEntry.make ref_type_tag type_id signature status)))))"

lemma AllClassesEntry_codec [codec_intros]:
  "paired (AllClassesEntry_serialize v) AllClassesEntry_deserialize v"
  unfolding AllClassesEntry_serialize_def AllClassesEntry_deserialize_def
  by (rule codec_intros)+ (cases v, simp add: AllClassesEntry.make_def)

record AllClassesResponse =
  "classes" :: "AllClassesEntry list"

definition AllClassesResponse_serialize :: "AllClassesResponse \<Rightarrow> writer_op" where
  "AllClassesResponse_serialize self = write_seq
     [write_counted AllClassesEntry_serialize (AllClassesResponse.classes self)]"

definition AllClassesResponse_deserialize :: "AllClassesResponse reader_op" where
  "AllClassesResponse_deserialize =
     rbind (read_counted AllClassesEntry_deserialize) (\<lambda>entries.
       rreturn (AllClassesResponse.make entries))"

lemma AllClassesResponse_codec [codec_intros]:
  "paired (AllClassesResponse_serialize v) AllClassesResponse_deserialize v"
  unfolding AllClassesResponse_serialize_def AllClassesResponse_deserialize_def
  by (rule codec_intros)+ (cases v, simp add: AllClassesResponse.make_def)

interpretation AllClassesResponse:
  codec AllClassesResponse_serialize AllClassesResponse_deserialize "\<lambda>_. True"
  by unfold_locales (rule AllClassesResponse_codec)

datatype (plugins only: code) AllClassesCommand = AllClassesCommand

definition AllClassesCommand_class :: command_class where
  "AllClassesCommand_class = command_class.make 1 3 {ERR_NONE, ERR_VM_DEAD}"

definition AllClassesCommand_serialize :: "AllClassesCommand \<Rightarrow> writer_op" where
  "AllClassesCommand_serialize self = write_seq []"

definition AllClassesCommand_deserialize :: "AllClassesCommand reader_op" where
  "AllClassesCommand_deserialize = rreturn AllClassesCommand"

lemma AllClassesCommand_codec [codec_intros]:
  "paired (AllClassesCommand_serialize v) AllClassesCommand_deserialize v"
  unfolding AllClassesCommand_serialize_def AllClassesCommand_deserialize_def
  by (rule codec_intros)+ (cases v, simp)

interpretation AllClassesCommand:
  codec AllClassesCommand_serialize AllClassesCommand_deserialize "\<lambda>_. True"
  by unfold_locales (rule AllClassesCommand_codec)

section \<open>VirtualMachine.AllThreads\<close>

record AllThreadsResponse =
  threads :: "ThreadID list"

definition AllThreadsResponse_serialize :: "AllThreadsResponse \<Rightarrow> writer_op" where
  "AllThreadsResponse_serialize self = write_seq
     [write_counted write_thread_id (AllThreadsResponse.threads self)]"

definition AllThreadsResponse_deserialize :: "AllThreadsResponse reader_op" where
  "AllThreadsResponse_deserialize =
     rbind (read_counted read_thread_id) (\<lambda>threads.
       rreturn (AllThreadsResponse.make threads))"

lemma AllThreadsResponse_codec [codec_intros]:
  "paired (AllThreadsResponse_serialize v) AllThreadsResponse_deserialize v"
  unfolding AllThreadsResponse_serialize_def AllThreadsResponse_deserialize_def
  by (rule codec_intros)+ (cases v, simp add: AllThreadsResponse.make_def)

interpretation AllThreadsResponse:
  codec AllThreadsResponse_serialize AllThreadsResponse_deserialize "\<lambda>_. True"
  by unfold_locales (rule AllThreadsResponse_codec)

datatype (plugins only: code) AllThreadsCommand = AllThreadsCommand

definition AllThreadsCommand_class :: command_class where
  "AllThreadsCommand_class = command_class.make 1 4 {ERR_NONE, ERR_VM_DEAD}"

definition AllThreadsCommand_serialize :: "AllThreadsCommand \<Rightarrow> writer_op" where
  "AllThreadsCommand_serialize self = write_seq []"

definition AllThreadsCommand_deserialize :: "AllThreadsCommand reader_op" where
  "AllThreadsCommand_deserialize = rreturn AllThreadsCommand"

lemma AllThreadsCommand_codec [codec_intros]:
  "paired (AllThreadsCommand_serialize v) AllThreadsCommand_deserialize v"
  unfolding AllThreadsCommand_serialize_def AllThreadsCommand_deserialize_def
  by (rule codec_intros)+ (cases v, simp)

interpretation AllThreadsCommand:
  codec AllThreadsCommand_serialize AllThreadsCommand_deserialize "\<lambda>_. True"
  by unfold_locales (rule AllThreadsCommand_codec)

section \<open>VirtualMachine.TopLevelThreadGroups\<close>

record TopLevelThreadGroupsResponse =
  groups :: "ThreadGroupID list"

definition TopLevelThreadGroupsResponse_serialize ::
    "TopLevelThreadGroupsResponse \<Rightarrow> writer_op" where
  "TopLevelThreadGroupsResponse_serialize self = write_seq
     [write_counted write_thread_group_id (TopLevelThreadGroupsResponse.groups self)]"

definition TopLevelThreadGroupsResponse_deserialize ::
    "TopLevelThreadGroupsResponse reader_op" where
  "TopLevelThreadGroupsResponse_deserialize =
     rbind (read_counted read_thread_group_id) (\<lambda>groups.
       rreturn (TopLevelThreadGroupsResponse.make groups))"

lemma TopLevelThreadGroupsResponse_codec [codec_intros]:
  "paired (TopLevelThreadGroupsResponse_serialize v) TopLevelThreadGroupsResponse_deserialize v"
  unfolding TopLevelThreadGroupsResponse_serialize_def
    TopLevelThreadGroupsResponse_deserialize_def
  by (rule codec_intros)+ (cases v, simp add: TopLevelThreadGroupsResponse.make_def)

interpretation TopLevelThreadGroupsResponse:
  codec TopLevelThreadGroupsResponse_serialize TopLevelThreadGroupsResponse_deserialize
    "\<lambda>_. True"
  by unfold_locales (rule TopLevelThreadGroupsResponse_codec)

datatype (plugins only: code) TopLevelThreadGroupsCommand = TopLevelThreadGroupsCommand

definition TopLevelThreadGroupsCommand_class :: command_class where
  "TopLevelThreadGroupsCommand_class = command_class.make 1 5 {ERR_NONE, ERR_VM_DEAD}"

definition TopLevelThreadGroupsCommand_serialize ::
    "TopLevelThreadGroupsCommand \<Rightarrow> writer_op" where
  "TopLevelThreadGroupsCommand_serialize self = write_seq []"

definition TopLevelThreadGroupsCommand_deserialize :: "TopLevelThreadGroupsCommand reader_op" where
  "TopLevelThreadGroupsCommand_deserialize = rreturn TopLevelThreadGroupsCommand"

lemma TopLevelThreadGroupsCommand_codec [codec_intros]:
  "paired (TopLevelThreadGroupsCommand_serialize v) TopLevelThreadGroupsCommand_deserialize v"
  unfolding TopLevelThreadGroupsCommand_serialize_def TopLevelThreadGroupsCommand_deserialize_def
  by (rule codec_intros)+ (cases v, simp)

interpretation TopLevelThreadGroupsCommand:
  codec TopLevelThreadGroupsCommand_serialize TopLevelThreadGroupsCommand_deserialize "\<lambda>_.
    True"
  by unfold_locales (rule TopLevelThreadGroupsCommand_codec)

section \<open>VirtualMachine.Dispose\<close>

datatype (plugins only: code) DisposeResponse = DisposeResponse

definition DisposeResponse_serialize :: "DisposeResponse \<Rightarrow> writer_op" where
  "DisposeResponse_serialize self = write_seq []"

definition DisposeResponse_deserialize :: "DisposeResponse reader_op" where
  "DisposeResponse_deserialize = rreturn DisposeResponse"

lemma DisposeResponse_codec [codec_intros]:
  "paired (DisposeResponse_serialize v) DisposeResponse_deserialize v"
  unfolding DisposeResponse_serialize_def DisposeResponse_deserialize_def
  by (rule codec_intros)+ (cases v, simp)

interpretation DisposeResponse:
  codec DisposeResponse_serialize DisposeResponse_deserialize "\<lambda>_. True"
  by unfold_locales (rule DisposeResponse_codec)

datatype (plugins only: code) DisposeCommand = DisposeCommand

definition DisposeCommand_class :: command_class where
  "DisposeCommand_class = command_class.make 1 6 {ERR_NONE}"

definition DisposeCommand_serialize :: "DisposeCommand \<Rightarrow> writer_op" where
  "DisposeCommand_serialize self = write_seq []"

definition DisposeCommand_deserialize :: "DisposeCommand reader_op" where
  "DisposeCommand_deserialize = rreturn DisposeCommand"

lemma DisposeCommand_codec [codec_intros]:
  "paired (DisposeCommand_serialize v) DisposeCommand_deserialize v"
  unfolding DisposeCommand_serialize_def DisposeCommand_deserialize_def
  by (rule codec_intros)+ (cases v, simp)

interpretation DisposeCommand:
  codec DisposeCommand_serialize DisposeCommand_deserialize "\<lambda>_. True"
  by unfold_locales (rule DisposeCommand_codec)

section \<open>VirtualMachine.IDSizes\<close>

record IDSizesResponse =
  field_id_size :: int
  method_id_size :: int
  object_id_size :: int
  reference_type_id_size :: int
  frame_id_size :: int

definition IDSizesResponse_serialize :: "IDSizesResponse \<Rightarrow> writer_op" where
  "IDSizesResponse_serialize self = write_seq
     [write_int (IDSizesResponse.field_id_size self),
      write_int (IDSizesResponse.method_id_size self),
      write_int (IDSizesResponse.object_id_size self),
      write_int (IDSizesResponse.reference_type_id_size self),
      write_int (IDSizesResponse.frame_id_size self)]"

definition IDSizesResponse_deserialize :: "IDSizesResponse reader_op" where
  "IDSizesResponse_deserialize =
     rbind read_int (\<lambda>field_id_size.
     rbind read_int (\<lambda>method_id_size.
     rbind read_int (\<lambda>object_id_size.
     rbind read_int (\<lambda>reference_type_id_size.
     rbind read_int (\<lambda>frame_id_size.
       rreturn (IDSizesResponse.make field_id_size method_id_size object_id_size
         reference_type_id_size frame_id_size))))))"

lemma IDSizesResponse_codec [codec_intros]:
  "paired (IDSizesResponse_serialize v) IDSizesResponse_deserialize v"
  unfolding IDSizesResponse_serialize_def IDSizesResponse_deserialize_def
  by (rule codec_intros)+ (cases v, simp add: IDSizesResponse.make_def)

interpretation IDSizesResponse:
  codec IDSizesResponse_serialize IDSizesResponse_deserialize "\<lambda>_. True"
  by unfold_locales (rule IDSizesResponse_codec)

datatype (plugins only: code) IDSizesCommand = IDSizesCommand

definition IDSizesCommand_class :: command_class where
  "IDSizesCommand_class = command_class.make 1 7 {ERR_NONE, ERR_VM_DEAD}"

definition IDSizesCommand_serialize :: "IDSizesCommand \<Rightarrow> writer_op" where
  "IDSizesCommand_serialize self = write_seq []"

definition IDSizesCommand_deserialize :: "IDSizesCommand reader_op" where
  "IDSizesCommand_deserialize = rreturn IDSizesCommand"

lemma IDSizesCommand_codec [codec_intros]:
  "paired (IDSizesCommand_serialize v) IDSizesCommand_deserialize v"
  unfolding IDSizesCommand_serialize_def IDSizesCommand_deserialize_def
  by (rule codec_intros)+ (cases v, simp)

interpretation IDSizesCommand:
  codec IDSizesCommand_serialize IDSizesCommand_deserialize "\<lambda>_. True"
  by unfold_locales (rule IDSizesCommand_codec)

section \<open>VirtualMachine.Suspend\<close>

datatype (plugins only: code) VM_SuspendResponse = VM_SuspendResponse

definition VM_SuspendResponse_serialize :: "VM_SuspendResponse \<Rightarrow> writer_op" where
  "VM_SuspendResponse_serialize self = write_seq []"

definition VM_SuspendResponse_deserialize :: "VM_SuspendResponse reader_op" where
  "VM_SuspendResponse_deserialize = rreturn VM_SuspendResponse"

lemma VM_SuspendResponse_codec [codec_intros]:
  "paired (VM_SuspendResponse_serialize v) VM_SuspendResponse_deserialize v"
  unfolding VM_SuspendResponse_serialize_def VM_SuspendResponse_deserialize_def
  by (rule codec_intros)+ (cases v, simp)

interpretation VM_SuspendResponse:
  codec VM_SuspendResponse_serialize VM_SuspendResponse_deserialize "\<lambda>_. True"
  by unfold_locales (rule VM_SuspendResponse_codec)

datatype (plugins only: code) VM_SuspendCommand = VM_SuspendCommand

definition VM_SuspendCommand_class :: command_class where
  "VM_SuspendCommand_class = command_class.make 1 8 {ERR_NONE, ERR_VM_DEAD}"

definition VM_SuspendCommand_serialize :: "VM_SuspendCommand \<Rightarrow> writer_op" where
  "VM_SuspendCommand_serialize self = write_seq []"

definition VM_SuspendCommand_deserialize :: "VM_SuspendCommand reader_op" where
  "VM_SuspendCommand_deserialize = rreturn VM_SuspendCommand"

lemma VM_SuspendCommand_codec [codec_intros]:
  "paired (VM_SuspendCommand_serialize v) VM_SuspendCommand_deserialize v"
  unfolding VM_SuspendCommand_serialize_def VM_SuspendCommand_deserialize_def
  by (rule codec_intros)+ (cases v, simp)

interpretation VM_SuspendCommand:
  codec VM_SuspendCommand_serialize VM_SuspendCommand_deserialize "\<lambda>_. True"
  by unfold_locales (rule VM_SuspendCommand_codec)

section \<open>VirtualMachine.Resume\<close>

datatype (plugins only: code) VM_ResumeResponse = VM_ResumeResponse

definition VM_ResumeResponse_serialize :: "VM_ResumeResponse \<Rightarrow> writer_op" where
  "VM_ResumeResponse_serialize self = write_seq []"

definition VM_ResumeResponse_deserialize :: "VM_ResumeResponse reader_op" where
  "VM_ResumeResponse_deserialize = rreturn VM_ResumeResponse"

lemma VM_ResumeResponse_codec [codec_intros]:
  "paired (VM_ResumeResponse_serialize v) VM_ResumeResponse_deserialize v"
  unfolding VM_ResumeResponse_serialize_def VM_ResumeResponse_deserialize_def
  by (rule codec_intros)+ (cases v, simp)

interpretation VM_ResumeResponse:
  codec VM_ResumeResponse_serialize VM_ResumeResponse_deserialize "\<lambda>_. True"
  by unfold_locales (rule VM_ResumeResponse_codec)

datatype (plugins only: code) VM_ResumeCommand = VM_ResumeCommand

definition VM_ResumeCommand_class :: command_class where
  "VM_ResumeCommand_class = command_class.make 1 9 {ERR_NONE}"

definition VM_ResumeCommand_serialize :: "VM_ResumeCommand \<Rightarrow> writer_op" where
  "VM_ResumeCommand_serialize self = write_seq []"

definition VM_ResumeCommand_deserialize :: "VM_ResumeCommand reader_op" where
  "VM_ResumeCommand_deserialize = rreturn VM_ResumeCommand"

lemma VM_ResumeCommand_codec [codec_intros]:
  "paired (VM_ResumeCommand_serialize v) VM_ResumeCommand_deserialize v"
  unfolding VM_ResumeCommand_serialize_def VM_ResumeCommand_deserialize_def
  by (rule codec_intros)+ (cases v, simp)

interpretation VM_ResumeCommand:
  codec VM_ResumeCommand_serialize VM_ResumeCommand_deserialize "\<lambda>_. True"
  by unfold_locales (rule VM_ResumeCommand_codec)

section \<open>VirtualMachine.Exit\<close>

datatype (plugins only: code) ExitResponse = ExitResponse

definition ExitResponse_serialize :: "ExitResponse \<Rightarrow> writer_op" where
  "ExitResponse_serialize self = write_seq []"

definition ExitResponse_deserialize :: "ExitResponse reader_op" where
  "ExitResponse_deserialize = rreturn ExitResponse"

lemma ExitResponse_codec [codec_intros]:
  "paired (ExitResponse_serialize v) ExitResponse_deserialize v"
  unfolding ExitResponse_serialize_def ExitResponse_deserialize_def
  by (rule codec_intros)+ (cases v, simp)

interpretation ExitResponse:
  codec ExitResponse_serialize ExitResponse_deserialize "\<lambda>_. True"
  by unfold_locales (rule ExitResponse_codec)

record ExitCommand =
  exit_code :: int

definition ExitCommand_class :: command_class where
  "ExitCommand_class = command_class.make 1 10 {ERR_NONE}"

definition ExitCommand_serialize :: "ExitCommand \<Rightarrow> writer_op" where
  "ExitCommand_serialize self = write_seq
     [write_int (ExitCommand.exit_code self)]"

definition ExitCommand_deserialize :: "ExitCommand reader_op" where
  "ExitCommand_deserialize =
     rbind read_int (\<lambda>exit_code.
       rreturn (ExitCommand.make exit_code))"

lemma ExitCommand_codec [codec_intros]:
  "paired (ExitCommand_serialize v) ExitCommand_deserialize v"
  unfolding ExitCommand_serialize_def ExitCommand_deserialize_def
  by (rule codec_intros)+ (cases v, simp add: ExitCommand.make_def)

interpretation ExitCommand: codec ExitCommand_serialize ExitCommand_deserialize "\<lambda>_. True"
  by unfold_locales (rule ExitCommand_codec)

section \<open>VirtualMachine.CreateString\<close>

record CreateStringResponse =
  string_object :: StringID

definition CreateStringResponse_serialize :: "CreateStringResponse \<Rightarrow> writer_op" where
  "CreateStringResponse_serialize self = write_seq
     [write_string_id (CreateStringResponse.string_object self)]"

definition CreateStringResponse_deserialize :: "CreateStringResponse reader_op" where
  "CreateStringResponse_deserialize =
     rbind read_string_id (\<lambda>string_object.
       rreturn (CreateStringResponse.make string_object))"

lemma CreateStringResponse_codec [codec_intros]:
  "paired (CreateStringResponse_serialize v) CreateStringResponse_deserialize v"
  unfolding CreateStringResponse_serialize_def CreateStringResponse_deserialize_def
  by (rule codec_intros)+ (cases v, simp add: CreateStringResponse.make_def)

interpretation CreateStringResponse:
  codec CreateStringResponse_serialize CreateStringResponse_deserialize "\<lambda>_. True"
  by unfold_locales (rule CreateStringResponse_codec)

record CreateStringCommand =
  utf :: pystr

definition CreateStringCommand_class :: command_class where
  "CreateStringCommand_class = command_class.make 1 11 {ERR_NONE, ERR_VM_DEAD}"

definition CreateStringCommand_serialize :: "CreateStringCommand \<Rightarrow> writer_op" where
  "CreateStringCommand_serialize self = write_seq
     [write_string (CreateStringCommand.utf self)]"

definition CreateStringCommand_deserialize :: "CreateStringCommand reader_op" where
  "CreateStringCommand_deserialize =
     rbind read_string (\<lambda>utf.
       rreturn (CreateStringCommand.make utf))"

lemma CreateStringCommand_codec [codec_intros]:
  "paired (CreateStringCommand_serialize v) CreateStringCommand_deserialize v"
  unfolding CreateStringCommand_serialize_def CreateStringCommand_deserialize_def
  by (rule codec_intros)+ (cases v, simp add: CreateStringCommand.make_def)

interpretation CreateStringCommand:
  codec CreateStringCommand_serialize CreateStringCommand_deserialize "\<lambda>_. True"
  by unfold_locales (rule CreateStringCommand_codec)

section \<open>VirtualMachine.Capabilities\<close>

record CapabilitiesResponse =
  can_watch_field_modification :: bool
  can_watch_field_access :: bool
  can_get_bytecodes :: bool
  can_get_synthetic_attribute :: bool
  can_get_owned_monitor_info :: bool
  can_get_current_contended_monitor :: bool
  can_get_monitor_info :: bool

definition CapabilitiesResponse_serialize :: "CapabilitiesResponse \<Rightarrow> writer_op" where
  "CapabilitiesResponse_serialize self = write_seq
     [write_boolean (CapabilitiesResponse.can_watch_field_modification self),
      write_boolean (CapabilitiesResponse.can_watch_field_access self),
      write_boolean (CapabilitiesResponse.can_get_bytecodes self),
      write_boolean (CapabilitiesResponse.can_get_synthetic_attribute self),
      write_boolean (CapabilitiesResponse.can_get_owned_monitor_info self),
      write_boolean (CapabilitiesResponse.can_get_current_contended_monitor self),
      write_boolean (CapabilitiesResponse.can_get_monitor_info self)]"

definition CapabilitiesResponse_deserialize :: "CapabilitiesResponse reader_op" where
  "CapabilitiesResponse_deserialize =
     rbind read_boolean (\<lambda>can_watch_field_modification.
     rbind read_boolean (\<lambda>can_watch_field_access.
     rbind read_boolean (\<lambda>can_get_bytecodes.
     rbind read_boolean (\<lambda>can_get_synthetic_attribute.
     rbind read_boolean (\<lambda>can_get_owned_monitor_info.
     rbind read_boolean (\<lambda>can_get_current_contended_monitor.
     rbind read_boolean (\<lambda>can_get_monitor_info.
       rreturn (CapabilitiesResponse.make can_watch_field_modification can_watch_field_access
         can_get_bytecodes can_get_synthetic_attribute can_get_owned_monitor_info
         can_get_current_contended_monitor can_get_monitor_info))))))))"

lemma CapabilitiesResponse_codec [codec_intros]:
  "paired (CapabilitiesResponse_serialize v) CapabilitiesResponse_deserialize v"
  unfolding CapabilitiesResponse_serialize_def CapabilitiesResponse_deserialize_def
  by (rule codec_intros)+ (cases v, simp add: CapabilitiesResponse.make_def)

interpretation CapabilitiesResponse:
  codec CapabilitiesResponse_serialize CapabilitiesResponse_deserialize "\<lambda>_. True"
  by unfold_locales (rule CapabilitiesResponse_codec)

datatype (plugins only: code) CapabilitiesCommand = CapabilitiesCommand

definition CapabilitiesCommand_class :: command_class where
  "CapabilitiesCommand_class = command_class.make 1 12 {ERR_NONE, ERR_VM_DEAD}"

definition CapabilitiesCommand_serialize :: "CapabilitiesCommand \<Rightarrow> writer_op" where
  "CapabilitiesCommand_serialize self = write_seq []"

definition CapabilitiesCommand_deserialize :: "CapabilitiesCommand reader_op" where
  "CapabilitiesCommand_deserialize = rreturn CapabilitiesCommand"

lemma CapabilitiesCommand_codec [codec_intros]:
  "paired (CapabilitiesCommand_serialize v) CapabilitiesCommand_deserialize v"
  unfolding CapabilitiesCommand_serialize_def CapabilitiesCommand_deserialize_def
  by (rule codec_intros)+ (cases v, simp)

interpretation CapabilitiesCommand:
  codec CapabilitiesCommand_serialize CapabilitiesCommand_deserialize "\<lambda>_. True"
  by unfold_locales (rule CapabilitiesCommand_codec)

section \<open>VirtualMachine.ClassPaths\<close>

record ClassPathsResponse =
  base_dir :: pystr
  classpaths :: "pystr list"
  bootclasspaths :: "pystr list"

definition ClassPathsResponse_serialize :: "ClassPathsResponse \<Rightarrow> writer_op" where
  "ClassPathsResponse_serialize self = write_seq
     [write_string (ClassPathsResponse.base_dir self),
      write_counted write_string (ClassPathsResponse.classpaths self),
      write_counted write_string (ClassPathsResponse.bootclasspaths self)]"

definition ClassPathsResponse_deserialize :: "ClassPathsResponse reader_op" where
  "ClassPathsResponse_deserialize =
     rbind read_string (\<lambda>base_dir.
     rbind (read_counted read_string) (\<lambda>classpaths.
     rbind (read_counted read_string) (\<lambda>bootclasspaths.
       rreturn (ClassPathsResponse.make base_dir classpaths bootclasspaths))))"

lemma ClassPathsResponse_codec [codec_intros]:
  "paired (ClassPathsResponse_serialize v) ClassPathsResponse_deserialize v"
  unfolding ClassPathsResponse_serialize_def ClassPathsResponse_deserialize_def
  by (rule codec_intros)+ (cases v, simp add: ClassPathsResponse.make_def)

interpretation ClassPathsResponse:
  codec ClassPathsResponse_serialize ClassPathsResponse_deserialize "\<lambda>_. True"
  by unfold_locales (rule ClassPathsResponse_codec)

datatype (plugins only: code) ClassPathsCommand = ClassPathsCommand

definition ClassPathsCommand_class :: command_class where
  "ClassPathsCommand_class = command_class.make 1 13 {ERR_NONE, ERR_VM_DEAD}"

definition ClassPathsCommand_serialize :: "ClassPathsCommand \<Rightarrow> writer_op" where
  "ClassPathsCommand_serialize self = write_seq []"

definition ClassPathsCommand_deserialize :: "ClassPathsCommand reader_op" where
  "ClassPathsCommand_deserialize = rreturn ClassPathsCommand"

lemma ClassPathsCommand_codec [codec_intros]:
  "paired (ClassPathsCommand_serialize v) ClassPathsCommand_deserialize v"
  unfolding ClassPathsCommand_serialize_def ClassPathsCommand_deserialize_def
  by (rule codec_intros)+ (cases v, simp)

interpretation ClassPathsCommand:
  codec ClassPathsCommand_serialize ClassPathsCommand_deserialize "\<lambda>_. True"
  by unfold_locales (rule ClassPathsCommand_codec)

section \<open>VirtualMachine.DisposeObjects\<close>

record DisposeObjectsRequest =
  object_id :: ObjectID
  ref_cnt :: int

definition DisposeObjectsRequest_serialize :: "DisposeObjectsRequest \<Rightarrow> writer_op" where
  "DisposeObjectsRequest_serialize self = write_seq
     [write_object_id (DisposeObjectsRequest.object_id self),
      write_int (DisposeObjectsRequest.ref_cnt self)]"

definition DisposeObjectsRequest_deserialize :: "DisposeObjectsRequest reader_op" where
  "DisposeObjectsRequest_deserialize =
     rbind read_object_id (\<lambda>object_id.
     rbind read_int (\<lambda>ref_cnt.
       rreturn (DisposeObjectsRequest.make object_id ref_cnt)))"

lemma DisposeObjectsRequest_codec [codec_intros]:
  "paired (DisposeObjectsRequest_serialize v) DisposeObjectsRequest_deserialize v"
  unfolding DisposeObjectsRequest_serialize_def DisposeObjectsRequest_deserialize_def
  by (rule codec_intros)+ (cases v, simp add: DisposeObjectsRequest.make_def)

datatype (plugins only: code) DisposeObjectsResponse = DisposeObjectsResponse

definition DisposeObjectsResponse_serialize ::
    "DisposeObjectsResponse \<Rightarrow> writer_op" where
  "DisposeObjectsResponse_serialize self = write_seq []"

definition DisposeObjectsResponse_deserialize :: "DisposeObjectsResponse reader_op" where
  "DisposeObjectsResponse_deserialize = rreturn DisposeObjectsResponse"

lemma DisposeObjectsResponse_codec [codec_intros]:
  "paired (DisposeObjectsResponse_serialize v) DisposeObjectsResponse_deserialize v"
  unfolding DisposeObjectsResponse_serialize_def DisposeObjectsResponse_deserialize_def
  by (rule codec_intros)+ (cases v, simp)

interpretation DisposeObjectsResponse:
  codec DisposeObjectsResponse_serialize DisposeObjectsResponse_deserialize "\<lambda>_. True"
  by unfold_locales (rule DisposeObjectsResponse_codec)

record DisposeObjectsCommand =
  requests :: "DisposeObjectsRequest list"

definition DisposeObjectsCommand_class :: command_class where
  "DisposeObjectsCommand_class = command_class.make 1 14 {ERR_NONE}"

definition DisposeObjectsCommand_serialize :: "DisposeObjectsCommand \<Rightarrow> writer_op" where
  "DisposeObjectsCommand_serialize self = write_seq
     [write_counted DisposeObjectsRequest_serialize (DisposeObjectsCommand.requests self)]"

definition DisposeObjectsCommand_deserialize :: "DisposeObjectsCommand reader_op" where
  "DisposeObjectsCommand_deserialize =
     rbind (read_counted DisposeObjectsRequest_deserialize) (\<lambda>requests.
       rreturn (DisposeObjectsCommand.make requests))"

lemma DisposeObjectsCommand_codec [codec_intros]:
  "paired (DisposeObjectsCommand_serialize v) DisposeObjectsCommand_deserialize v"
  unfolding DisposeObjectsCommand_serialize_def DisposeObjectsCommand_deserialize_def
  by (rule codec_intros)+ (cases v, simp add: DisposeObjectsCommand.make_def)

interpretation DisposeObjectsCommand:
  codec DisposeObjectsCommand_serialize DisposeObjectsCommand_deserialize "\<lambda>_. True"
  by unfold_locales (rule DisposeObjectsCommand_codec)

section \<open>VirtualMachine.HoldEvents\<close>

datatype (plugins only: code) HoldEventsResponse = HoldEventsResponse

definition HoldEventsResponse_serialize :: "HoldEventsResponse \<Rightarrow> writer_op" where
  "HoldEventsResponse_serialize self = write_seq []"

definition HoldEventsResponse_deserialize :: "HoldEventsResponse reader_op" where
  "HoldEventsResponse_deserialize = rreturn HoldEventsResponse"

lemma HoldEventsResponse_codec [codec_intros]:
  "paired (HoldEventsResponse_serialize v) HoldEventsResponse_deserialize v"
  unfolding HoldEventsResponse_serialize_def HoldEventsResponse_deserialize_def
  by (rule codec_intros)+ (cases v, simp)

interpretation HoldEventsResponse:
  codec HoldEventsResponse_serialize HoldEventsResponse_deserialize "\<lambda>_. True"
  by unfold_locales (rule HoldEventsResponse_codec)

datatype (plugins only: code) HoldEventsCommand = HoldEventsCommand

definition HoldEventsCommand_class :: command_class where
  "HoldEventsCommand_class = command_class.make 1 15 {ERR_NONE}"

definition HoldEventsCommand_serialize :: "HoldEventsCommand \<Rightarrow> writer_op" where
  "HoldEventsCommand_serialize self = write_seq []"

definition HoldEventsCommand_deserialize :: "HoldEventsCommand reader_op" where
  "HoldEventsCommand_deserialize = rreturn HoldEventsCommand"

lemma HoldEventsCommand_codec [codec_intros]:
  "paired (HoldEventsCommand_serialize v) HoldEventsCommand_deserialize v"
  unfolding HoldEventsCommand_serialize_def HoldEventsCommand_deserialize_def
  by (rule codec_intros)+ (cases v, simp)

interpretation HoldEventsCommand:
  codec HoldEventsCommand_serialize HoldEventsCommand_deserialize "\<lambda>_. True"
  by unfold_locales (rule HoldEventsCommand_codec)

section \<open>VirtualMachine.ReleaseEvents\<close>

datatype (plugins only: code) ReleaseEventsResponse = ReleaseEventsResponse

definition ReleaseEventsResponse_serialize :: "ReleaseEventsResponse \<Rightarrow> writer_op" where
  "ReleaseEventsResponse_serialize self = write_seq []"

definition ReleaseEventsResponse_deserialize :: "ReleaseEventsResponse reader_op" where
  "ReleaseEventsResponse_deserialize = rreturn ReleaseEventsResponse"

lemma ReleaseEventsResponse_codec [codec_intros]:
  "paired (ReleaseEventsResponse_serialize v) ReleaseEventsResponse_deserialize v"
  unfolding ReleaseEventsResponse_serialize_def ReleaseEventsResponse_deserialize_def
  by (rule codec_intros)+ (cases v, simp)

interpretation ReleaseEventsResponse:
  codec ReleaseEventsResponse_serialize ReleaseEventsResponse_deserialize "\<lambda>_. True"
  by unfold_locales (rule ReleaseEventsResponse_codec)

datatype (plugins only: code) ReleaseEventsCommand = ReleaseEventsCommand

definition ReleaseEventsCommand_class :: command_class where
  "ReleaseEventsCommand_class = command_class.make 1 16 {ERR_NONE}"

definition ReleaseEventsCommand_serialize :: "ReleaseEventsCommand \<Rightarrow> writer_op" where
  "ReleaseEventsCommand_serialize self = write_seq []"

definition ReleaseEventsCommand_deserialize :: "ReleaseEventsCommand reader_op" where
  "ReleaseEventsCommand_deserialize = rreturn ReleaseEventsCommand"

lemma ReleaseEventsCommand_codec [codec_intros]:
  "paired (ReleaseEventsCommand_serialize v) ReleaseEventsCommand_deserialize v"
  unfolding ReleaseEventsCommand_serialize_def ReleaseEventsCommand_deserialize_def
  by (rule codec_intros)+ (cases v, simp)

interpretation ReleaseEventsCommand:
  codec ReleaseEventsCommand_serialize ReleaseEventsCommand_deserialize "\<lambda>_. True"
  by unfold_locales (rule ReleaseEventsCommand_codec)

section \<open>VirtualMachine.CapabilitiesNew\<close>

record CapabilitiesNewResponse =
  can_watch_field_modification :: bool
  can_watch_field_access :: bool
  can_get_bytecodes :: bool
  can_get_synthetic_attribute :: bool
  can_get_owned_monitor_info :: bool
  can_get_current_contended_monitor :: bool
  can_get_monitor_info :: bool
  can_redefine_classes :: bool
  can_add_method :: bool
  can_unrestrictedly_redefine_classes :: bool
  can_pop_frames :: bool
  can_use_instance_filters :: bool
  can_get_source_debug_extension :: bool
  can_request_vm_death_event :: bool
  can_set_default_stratum :: bool
  can_get_instance_info :: bool
  can_request_monitor_events :: bool
  can_get_monitor_frame_info :: bool
  can_use_source_name_filters :: bool
  can_get_constant_pool :: bool
  can_force_early_return :: bool
  reserved22 :: bool
  reserved23 :: bool
  reserved24 :: bool
  reserved25 :: bool
  reserved26 :: bool
  reserved27 :: bool
  reserved28 :: bool
  reserved29 :: bool
  reserved30 :: bool
  reserved31 :: bool
  reserved32 :: bool

definition CapabilitiesNewResponse_serialize ::
    "CapabilitiesNewResponse \<Rightarrow> writer_op" where
  "CapabilitiesNewResponse_serialize self = write_seq
     [write_boolean (CapabilitiesNewResponse.can_watch_field_modification self),
      write_boolean (CapabilitiesNewResponse.can_watch_field_access self),
      write_boolean (CapabilitiesNewResponse.can_get_bytecodes self),
      write_boolean (CapabilitiesNewResponse.can_get_synthetic_attribute self),
      write_boolean (CapabilitiesNewResponse.can_get_owned_monitor_info self),
      write_boolean (CapabilitiesNewResponse.can_get_current_contended_monitor self),
      write_boolean (CapabilitiesNewResponse.can_get_monitor_info self),
      write_boolean (CapabilitiesNewResponse.can_redefine_classes self),
      write_boolean (CapabilitiesNewResponse.can_add_method self),
      write_boolean (CapabilitiesNewResponse.can_unrestrictedly_redefine_classes self),
      write_boolean (CapabilitiesNewResponse.can_pop_frames self),
      write_boolean (CapabilitiesNewResponse.can_use_instance_filters self),
      write_boolean (CapabilitiesNewResponse.can_get_source_debug_extension self),
      write_boolean (CapabilitiesNewResponse.can_request_vm_death_event self),
      write_boolean (CapabilitiesNewResponse.can_set_default_stratum self),
      write_boolean (CapabilitiesNewResponse.can_get_instance_info self),
      write_boolean (CapabilitiesNewResponse.can_request_monitor_events self),
      write_boolean (CapabilitiesNewResponse.can_get_monitor_frame_info self),
      write_boolean (CapabilitiesNewResponse.can_use_source_name_filters self),
      write_boolean (CapabilitiesNewResponse.can_get_constant_pool self),
      write_boolean (CapabilitiesNewResponse.can_force_early_return self),
      write_boolean (CapabilitiesNewResponse.reserved22 self),
      write_boolean (CapabilitiesNewResponse.reserved23 self),
      write_boolean (CapabilitiesNewResponse.reserved24 self),
      write_boolean (CapabilitiesNewResponse.reserved25 self),
      write_boolean (CapabilitiesNewResponse.reserved26 self),
      write_boolean (CapabilitiesNewResponse.reserved27 self),
      write_boolean (CapabilitiesNewResponse.reserved28 self),
      write_boolean (CapabilitiesNewResponse.reserved29 self),
      write_boolean (CapabilitiesNewResponse.reserved30 self),
      write_boolean (CapabilitiesNewResponse.reserved31 self),
      write_boolean (CapabilitiesNewResponse.reserved32 self)]"

definition CapabilitiesNewResponse_deserialize :: "CapabilitiesNewResponse reader_op" where
  "CapabilitiesNewResponse_deserialize =
     rbind read_boolean (\<lambda>can_watch_field_modification.
     rbind read_boolean (\<lambda>can_watch_field_access.
     rbind read_boolean (\<lambda>can_get_bytecodes.
     rbind read_boolean (\<lambda>can_get_synthetic_attribute.
     rbind read_boolean (\<lambda>can_get_owned_monitor_info.
     rbind read_boolean (\<lambda>can_get_current_contended_monitor.
     rbind read_boolean (\<lambda>can_get_monitor_info.
     rbind read_boolean (\<lambda>can_redefine_classes.
     rbind read_boolean (\<lambda>can_add_method.
     rbind read_boolean (\<lambda>can_unrestrictedly_redefine_classes.
     rbind read_boolean (\<lambda>can_pop_frames.
     rbind read_boolean (\<lambda>can_use_instance_filters.
     rbind read_boolean (\<lambda>can_get_source_debug_extension.
     rbind read_boolean (\<lambda>can_request_vm_death_event.
     rbind read_boolean (\<lambda>can_set_default_stratum.
     rbind read_boolean (\<lambda>can_get_instance_info.
     rbind read_boolean (\<lambda>can_request_monitor_events.
     rbind read_boolean (\<lambda>can_get_monitor_frame_info.
     rbind read_boolean (\<lambda>can_use_source_name_filters.
     rbind read_boolean (\<lambda>can_get_constant_pool.
     rbind read_boolean (\<lambda>can_force_early_return.
     rbind read_boolean (\<lambda>reserved22.
     rbind read_boolean (\<lambda>reserved23.
     rbind read_boolean (\<lambda>reserved24.
     rbind read_boolean (\<lambda>reserved25.
     rbind read_boolean (\<lambda>reserved26.
     rbind read_boolean (\<lambda>reserved27.
     rbind read_boolean (\<lambda>reserved28.
     rbind read_boolean (\<lambda>reserved29.
     rbind read_boolean (\<lambda>reserved30.
     rbind read_boolean (\<lambda>reserved31.
     rbind read_boolean (\<lambda>reserved32.
       rreturn (CapabilitiesNewResponse.make can_watch_field_modification can_watch_field_access
         can_get_bytecodes can_get_synthetic_attribute can_get_owned_monitor_info
         can_get_current_contended_monitor can_get_monitor_info can_redefine_classes
         can_add_method can_unrestrictedly_redefine_classes can_pop_frames
         can_use_instance_filters can_get_source_debug_extension can_request_vm_death_event
         can_set_default_stratum can_get_instance_info can_request_monitor_events
         can_get_monitor_frame_info can_use_source_name_filters can_get_constant_pool
         can_force_early_return reserved22 reserved23 reserved24 reserved25 reserved26
         reserved27 reserved28 reserved29 reserved30 reserved31
         reserved32)))))))))))))))))))))))))))))))))"

lemma CapabilitiesNewResponse_codec [codec_intros]:
  "paired (CapabilitiesNewResponse_serialize v) CapabilitiesNewResponse_deserialize v"
  unfolding CapabilitiesNewResponse_serialize_def CapabilitiesNewResponse_deserialize_def
  by (rule codec_intros)+ (cases v, simp add: CapabilitiesNewResponse.make_def)

interpretation CapabilitiesNewResponse:
  codec CapabilitiesNewResponse_serialize CapabilitiesNewResponse_deserialize "\<lambda>_. True"
  by unfold_locales (rule CapabilitiesNewResponse_codec)

datatype (plugins only: code) CapabilitiesNewCommand = CapabilitiesNewCommand

definition CapabilitiesNewCommand_class :: command_class where
  "CapabilitiesNewCommand_class = command_class.make 1 17 {ERR_NONE, ERR_VM_DEAD}"

definition CapabilitiesNewCommand_serialize ::
    "CapabilitiesNewCommand \<Rightarrow> writer_op" where
  "CapabilitiesNewCommand_serialize self = write_seq []"

definition CapabilitiesNewCommand_deserialize :: "CapabilitiesNewCommand reader_op" where
  "CapabilitiesNewCommand_deserialize = rreturn CapabilitiesNewCommand"

lemma CapabilitiesNewCommand_codec [codec_intros]:
  "paired (CapabilitiesNewCommand_serialize v) CapabilitiesNewCommand_deserialize v"
  unfolding CapabilitiesNewCommand_serialize_def CapabilitiesNewCommand_deserialize_def
  by (rule codec_intros)+ (cases v, simp)

interpretation CapabilitiesNewCommand:
  codec CapabilitiesNewCommand_serialize CapabilitiesNewCommand_deserialize "\<lambda>_. True"
  by unfold_locales (rule CapabilitiesNewCommand_codec)

section \<open>VirtualMachine.RedefineClasses\<close>

record RedefineClassesRequest =
  ref_type :: ReferenceTypeID
  class_bytes :: bytes

definition RedefineClassesRequest_serialize ::
    "RedefineClassesRequest \<Rightarrow> writer_op" where
  "RedefineClassesRequest_serialize self = write_seq
     [write_reference_type_id (RedefineClassesRequest.ref_type self),
      write_counted write_raw_byte (RedefineClassesRequest.class_bytes self)]"

definition RedefineClassesRequest_deserialize :: "RedefineClassesRequest reader_op" where
  "RedefineClassesRequest_deserialize =
     rbind read_reference_type_id (\<lambda>ref_type.
     rbind (read_counted read_raw_byte) (\<lambda>class_bytes.
       rreturn (RedefineClassesRequest.make ref_type class_bytes)))"

lemma RedefineClassesRequest_codec [codec_intros]:
  "paired (RedefineClassesRequest_serialize v) RedefineClassesRequest_deserialize v"
  unfolding RedefineClassesRequest_serialize_def RedefineClassesRequest_deserialize_def
  by (rule codec_intros)+ (cases v, simp add: RedefineClassesRequest.make_def)

datatype (plugins only: code) RedefineClassesResponse = RedefineClassesResponse

definition RedefineClassesResponse_serialize ::
    "RedefineClassesResponse \<Rightarrow> writer_op" where
  "RedefineClassesResponse_serialize self = write_seq []"

definition RedefineClassesResponse_deserialize :: "RedefineClassesResponse reader_op" where
  "RedefineClassesResponse_deserialize = rreturn RedefineClassesResponse"

lemma RedefineClassesResponse_codec [codec_intros]:
  "paired (RedefineClassesResponse_serialize v) RedefineClassesResponse_deserialize v"
  unfolding RedefineClassesResponse_serialize_def RedefineClassesResponse_deserialize_def
  by (rule codec_intros)+ (cases v, simp)

interpretation RedefineClassesResponse:
  codec RedefineClassesResponse_serialize RedefineClassesResponse_deserialize "\<lambda>_. True"
  by unfold_locales (rule RedefineClassesResponse_codec)

record RedefineClassesCommand =
  "classes" :: "RedefineClassesRequest list"

definition RedefineClassesCommand_class :: command_class where
  "RedefineClassesCommand_class = command_class.make 1 18 {ERR_NONE,
     ERR_ADD_METHOD_NOT_IMPLEMENTED, ERR_CIRCULAR_CLASS_DEFINITION,
     ERR_CLASS_ATTRIBUTE_CHANGE_NOT_IMPLEMENTED, ERR_CLASS_MODIFIERS_CHANGE_NOT_IMPLEMENTED,
     ERR_DELETE_METHOD_NOT_IMPLEMENTED, ERR_FAILS_VERIFICATION,
     ERR_HIERARCHY_CHANGE_NOT_IMPLEMENTED, ERR_INVALID_CLASS, ERR_INVALID_CLASS_FORMAT,
     ERR_INVALID_OBJECT, ERR_METHOD_MODIFIERS_CHANGE_NOT_IMPLEMENTED, ERR_NAMES_DONT_MATCH,
     ERR_NOT_IMPLEMENTED, ERR_SCHEMA_CHANGE_NOT_IMPLEMENTED, ERR_UNSUPPORTED_VERSION,
     ERR_VM_DEAD}"

definition RedefineClassesCommand_serialize ::
    "RedefineClassesCommand \<Rightarrow> writer_op" where
  "RedefineClassesCommand_serialize self = write_seq
     [write_counted RedefineClassesRequest_serialize (RedefineClassesCommand.classes self)]"

definition RedefineClassesCommand_deserialize :: "RedefineClassesCommand reader_op" where
  "RedefineClassesCommand_deserialize =
     rbind (read_counted RedefineClassesRequest_deserialize) (\<lambda>classes.
       rreturn (RedefineClassesCommand.make classes))"

lemma RedefineClassesCommand_codec [codec_intros]:
  "paired (RedefineClassesCommand_serialize v) RedefineClassesCommand_deserialize v"
  unfolding RedefineClassesCommand_serialize_def RedefineClassesCommand_deserialize_def
  by (rule codec_intros)+ (cases v, simp add: RedefineClassesCommand.make_def)

interpretation RedefineClassesCommand:
  codec RedefineClassesCommand_serialize RedefineClassesCommand_deserialize "\<lambda>_. True"
  by unfold_locales (rule RedefineClassesCommand_codec)

section \<open>VirtualMachine.SetDefaultStratum\<close>

datatype (plugins only: code) SetDefaultStratumResponse = SetDefaultStratumResponse

definition SetDefaultStratumResponse_serialize ::
    "SetDefaultStratumResponse \<Rightarrow> writer_op" where
  "SetDefaultStratumResponse_serialize self = write_seq []"

definition SetDefaultStratumResponse_deserialize :: "SetDefaultStratumResponse reader_op" where
  "SetDefaultStratumResponse_deserialize = rreturn SetDefaultStratumResponse"

lemma SetDefaultStratumResponse_codec [codec_intros]:
  "paired (SetDefaultStratumResponse_serialize v) SetDefaultStratumResponse_deserialize v"
  unfolding SetDefaultStratumResponse_serialize_def SetDefaultStratumResponse_deserialize_def
  by (rule codec_intros)+ (cases v, simp)

interpretation SetDefaultStratumResponse:
  codec SetDefaultStratumResponse_serialize SetDefaultStratumResponse_deserialize "\<lambda>_.
    True"
  by unfold_locales (rule SetDefaultStratumResponse_codec)

record SetDefaultStratumCommand =
  stratum_id :: pystr

definition SetDefaultStratumCommand_class :: command_class where
  "SetDefaultStratumCommand_class = command_class.make 1 19 {ERR_NONE, ERR_NOT_IMPLEMENTED,
     ERR_VM_DEAD}"

definition SetDefaultStratumCommand_serialize ::
    "SetDefaultStratumCommand \<Rightarrow> writer_op" where
  "SetDefaultStratumCommand_serialize self = write_seq
     [write_string (SetDefaultStratumCommand.stratum_id self)]"

definition SetDefaultStratumCommand_deserialize :: "SetDefaultStratumCommand reader_op" where
  "SetDefaultStratumCommand_deserialize =
     rbind read_string (\<lambda>stratum_id.
       rreturn (SetDefaultStratumCommand.make stratum_id))"

lemma SetDefaultStratumCommand_codec [codec_intros]:
  "paired (SetDefaultStratumCommand_serialize v) SetDefaultStratumCommand_deserialize v"
  unfolding SetDefaultStratumCommand_serialize_def SetDefaultStratumCommand_deserialize_def
  by (rule codec_intros)+ (cases v, simp add: SetDefaultStratumCommand.make_def)

interpretation SetDefaultStratumCommand:
  codec SetDefaultStratumCommand_serialize SetDefaultStratumCommand_deserialize "\<lambda>_. True"
  by unfold_locales (rule SetDefaultStratumCommand_codec)

section \<open>VirtualMachine.AllClassesWithGeneric\<close>

record AllClassesWithGenericEntry =
  ref_type_tag :: JdwpTypeTag
  type_id :: ReferenceTypeID
  signature :: pystr
  generic_signature :: pystr
  status :: JdwpClassStatus

definition AllClassesWithGenericEntry_serialize ::
    "AllClassesWithGenericEntry \<Rightarrow> writer_op" where
  "AllClassesWithGenericEntry_serialize self = write_seq
     [write_byte (type_tag_value (AllClassesWithGenericEntry.ref_type_tag self)),
      write_reference_type_id (AllClassesWithGenericEntry.type_id self),
      write_string (AllClassesWithGenericEntry.signature self),
      write_string (AllClassesWithGenericEntry.generic_signature self),
      write_int (int (AllClassesWithGenericEntry.status self))]"

definition AllClassesWithGenericEntry_deserialize :: "AllClassesWithGenericEntry reader_op" where
  "AllClassesWithGenericEntry_deserialize =
     rbind (read_enum read_byte JdwpTypeTag_of) (\<lambda>ref_type_tag.
     rbind read_reference_type_id (\<lambda>type_id.
     rbind read_string (\<lambda>signature.
     rbind read_string (\<lambda>generic_signature.
     rbind (read_flag read_int JdwpClassStatus_of) (\<lambda>status.
       rreturn (AllClassesWithGenericEntry.make ref_type_tag type_id signature generic_signature
         status))))))"

lemma AllClassesWithGenericEntry_codec [codec_intros]:
  "paired (AllClassesWithGenericEntry_serialize v) AllClassesWithGenericEntry_deserialize v"
  unfolding AllClassesWithGenericEntry_serialize_def AllClassesWithGenericEntry_deserialize_def
  by (rule codec_intros)+ (cases v, simp add: AllClassesWithGenericEntry.make_def)

record AllClassesWithGenericResponse =
  "classes" :: "AllClassesWithGenericEntry list"

definition AllClassesWithGenericResponse_serialize ::
    "AllClassesWithGenericResponse \<Rightarrow> writer_op" where
  "AllClassesWithGenericResponse_serialize self = write_seq
     [write_counted AllClassesWithGenericEntry_serialize (AllClassesWithGenericResponse.classes self)]"

definition AllClassesWithGenericResponse_deserialize ::
    "AllClassesWithGenericResponse reader_op" where
  "AllClassesWithGenericResponse_deserialize =
     rbind (read_counted AllClassesWithGenericEntry_deserialize) (\<lambda>entries.
       rreturn (AllClassesWithGenericResponse.make entries))"

lemma AllClassesWithGenericResponse_codec [codec_intros]:
  "paired (AllClassesWithGenericResponse_serialize v) AllClassesWithGenericResponse_deserialize v"
  unfolding AllClassesWithGenericResponse_serialize_def
    AllClassesWithGenericResponse_deserialize_def
  by (rule codec_intros)+ (cases v, simp add: AllClassesWithGenericResponse.make_def)

interpretation AllClassesWithGenericResponse:
  codec AllClassesWithGenericResponse_serialize AllClassesWithGenericResponse_deserialize
    "\<lambda>_. True"
  by unfold_locales (rule AllClassesWithGenericResponse_codec)

datatype (plugins only: code) AllClassesWithGenericCommand = AllClassesWithGenericCommand

definition AllClassesWithGenericCommand_class :: command_class where
  "AllClassesWithGenericCommand_class = command_class.make 1 20 {ERR_NONE, ERR_VM_DEAD}"

definition AllClassesWithGenericCommand_serialize ::
    "AllClassesWithGenericCommand \<Rightarrow> writer_op" where
  "AllClassesWithGenericCommand_serialize self = write_seq []"

definition AllClassesWithGenericCommand_deserialize ::
    "AllClassesWithGenericCommand reader_op" where
  "AllClassesWithGenericCommand_deserialize = rreturn AllClassesWithGenericCommand"

lemma AllClassesWithGenericCommand_codec [codec_intros]:
  "paired (AllClassesWithGenericCommand_serialize v) AllClassesWithGenericCommand_deserialize v"
  unfolding AllClassesWithGenericCommand_serialize_def
    AllClassesWithGenericCommand_deserialize_def
  by (rule codec_intros)+ (cases v, simp)

interpretation AllClassesWithGenericCommand:
  codec AllClassesWithGenericCommand_serialize AllClassesWithGenericCommand_deserialize
    "\<lambda>_. True"
  by unfold_locales (rule AllClassesWithGenericCommand_codec)

section \<open>VirtualMachine.InstanceCounts\<close>

record InstanceCountsResponse =
  counts :: "int list"

definition InstanceCountsResponse_serialize ::
    "InstanceCountsResponse \<Rightarrow> writer_op" where
  "InstanceCountsResponse_serialize self = write_seq
     [write_counted write_long (InstanceCountsResponse.counts self)]"

definition InstanceCountsResponse_deserialize :: "InstanceCountsResponse reader_op" where
  "InstanceCountsResponse_deserialize =
     rbind (read_counted read_long) (\<lambda>counts.
       rreturn (InstanceCountsResponse.make counts))"

lemma InstanceCountsResponse_codec [codec_intros]:
  "paired (InstanceCountsResponse_serialize v) InstanceCountsResponse_deserialize v"
  unfolding InstanceCountsResponse_serialize_def InstanceCountsResponse_deserialize_def
  by (rule codec_intros)+ (cases v, simp add: InstanceCountsResponse.make_def)

interpretation InstanceCountsResponse:
  codec InstanceCountsResponse_serialize InstanceCountsResponse_deserialize "\<lambda>_. True"
  by unfold_locales (rule InstanceCountsResponse_codec)

record InstanceCountsCommand =
  ref_types :: "ReferenceTypeID list"

definition InstanceCountsCommand_class :: command_class where
  "InstanceCountsCommand_class = command_class.make 1 21 {ERR_NONE, ERR_ILLEGAL_ARGUMENT,
     ERR_NOT_IMPLEMENTED, ERR_VM_DEAD}"

definition InstanceCountsCommand_serialize :: "InstanceCountsCommand \<Rightarrow> writer_op" where
  "InstanceCountsCommand_serialize self = write_seq
     [write_counted write_reference_type_id (InstanceCountsCommand.ref_types self)]"

definition InstanceCountsCommand_deserialize :: "InstanceCountsCommand reader_op" where
  "InstanceCountsCommand_deserialize =
     rbind (read_counted read_reference_type_id) (\<lambda>ref_types.
       rreturn (InstanceCountsCommand.make ref_types))"

lemma InstanceCountsCommand_codec [codec_intros]:
  "paired (InstanceCountsCommand_serialize v) InstanceCountsCommand_deserialize v"
  unfolding InstanceCountsCommand_serialize_def InstanceCountsCommand_deserialize_def
  by (rule codec_intros)+ (cases v, simp add: InstanceCountsCommand.make_def)

interpretation InstanceCountsCommand:
  codec InstanceCountsCommand_serialize InstanceCountsCommand_deserialize "\<lambda>_. True"
  by unfold_locales (rule InstanceCountsCommand_codec)

section \<open>The classes of the module\<close>

text \<open>
  The instances of the module's command classes and the classes themselves, with the methods
  dispatched on them; the same for the responses; and the registrations its decorators make.
\<close>

datatype (plugins only: code) vm_command =
    VersionCommand_obj VersionCommand
  | ClassesBySignatureCommand_obj ClassesBySignatureCommand
  | AllClassesCommand_obj AllClassesCommand
  | AllThreadsCommand_obj AllThreadsCommand
  | TopLevelThreadGroupsCommand_obj TopLevelThreadGroupsCommand
  | DisposeCommand_obj DisposeCommand
  | IDSizesCommand_obj IDSizesCommand
  | VM_SuspendCommand_obj VM_SuspendCommand
  | VM_ResumeCommand_obj VM_ResumeCommand
  | ExitCommand_obj ExitCommand
  | CreateStringCommand_obj CreateStringCommand
  | CapabilitiesCommand_obj CapabilitiesCommand
  | ClassPathsCommand_obj ClassPathsCommand
  | DisposeObjectsCommand_obj DisposeObjectsCommand
  | HoldEventsCommand_obj HoldEventsCommand
  | ReleaseEventsCommand_obj ReleaseEventsCommand
  | CapabilitiesNewCommand_obj CapabilitiesNewCommand
  | RedefineClassesCommand_obj RedefineClassesCommand
  | SetDefaultStratumCommand_obj SetDefaultStratumCommand
  | AllClassesWithGenericCommand_obj AllClassesWithGenericCommand
  | InstanceCountsCommand_obj InstanceCountsCommand

datatype (plugins only: code) vm_command_class =
    VersionCommand_cls
  | ClassesBySignatureCommand_cls
  | AllClassesCommand_cls
  | AllThreadsCommand_cls
  | TopLevelThreadGroupsCommand_cls
  | DisposeCommand_cls
  | IDSizesCommand_cls
  | VM_SuspendCommand_cls
  | VM_ResumeCommand_cls
  | ExitCommand_cls
  | CreateStringCommand_cls
  | CapabilitiesCommand_cls
  | ClassPathsCommand_cls
  | DisposeObjectsCommand_cls
  | HoldEventsCommand_cls
  | ReleaseEventsCommand_cls
  | CapabilitiesNewCommand_cls
  | RedefineClassesCommand_cls
  | SetDefaultStratumCommand_cls
  | AllClassesWithGenericCommand_cls
  | InstanceCountsCommand_cls

primrec vm_command_class_of :: "vm_command \<Rightarrow> vm_command_class" where
  "vm_command_class_of (VersionCommand_obj self) = VersionCommand_cls"
| "vm_command_class_of (ClassesBySignatureCommand_obj self) = ClassesBySignatureCommand_cls"
| "vm_command_class_of (AllClassesCommand_obj self) = AllClassesCommand_cls"
| "vm_command_class_of (AllThreadsCommand_obj self) = AllThreadsCommand_cls"
| "vm_command_class_of (TopLevelThreadGroupsCommand_obj self) = TopLevelThreadGroupsCommand_cls"
| "vm_command_class_of (DisposeCommand_obj self) = DisposeCommand_cls"
| "vm_command_class_of (IDSizesCommand_obj self) = IDSizesCommand_cls"
| "vm_command_class_of (VM_SuspendCommand_obj self) = VM_SuspendCommand_cls"
| "vm_command_class_of (VM_ResumeCommand_obj self) = VM_ResumeCommand_cls"
| "vm_command_class_of (ExitCommand_obj self) = ExitCommand_cls"
| "vm_command_class_of (CreateStringCommand_obj self) = CreateStringCommand_cls"
| "vm_command_class_of (CapabilitiesCommand_obj self) = CapabilitiesCommand_cls"
| "vm_command_class_of (ClassPathsCommand_obj self) = ClassPathsCommand_cls"
| "vm_command_class_of (DisposeObjectsCommand_obj self) = DisposeObjectsCommand_cls"
| "vm_command_class_of (HoldEventsCommand_obj self) = HoldEventsCommand_cls"
| "vm_command_class_of (ReleaseEventsCommand_obj self) = ReleaseEventsCommand_cls"
| "vm_command_class_of (CapabilitiesNewCommand_obj self) = CapabilitiesNewCommand_cls"
| "vm_command_class_of (RedefineClassesCommand_obj self) = RedefineClassesCommand_cls"
| "vm_command_class_of (SetDefaultStratumCommand_obj self) = SetDefaultStratumCommand_cls"
| "vm_command_class_of (AllClassesWithGenericCommand_obj self) = AllClassesWithGenericCommand_cls"
| "vm_command_class_of (InstanceCountsCommand_obj self) = InstanceCountsCommand_cls"

primrec vm_command_vars :: "vm_command_class \<Rightarrow> command_class" where
  "vm_command_vars VersionCommand_cls = VersionCommand_class"
| "vm_command_vars ClassesBySignatureCommand_cls = ClassesBySignatureCommand_class"
| "vm_command_vars AllClassesCommand_cls = AllClassesCommand_class"
| "vm_command_vars AllThreadsCommand_cls = AllThreadsCommand_class"
| "vm_command_vars TopLevelThreadGroupsCommand_cls = TopLevelThreadGroupsCommand_class"
| "vm_command_vars DisposeCommand_cls = DisposeCommand_class"
| "vm_command_vars IDSizesCommand_cls = IDSizesCommand_class"
| "vm_command_vars VM_SuspendCommand_cls = VM_SuspendCommand_class"
| "vm_command_vars VM_ResumeCommand_cls = VM_ResumeCommand_class"
| "vm_command_vars ExitCommand_cls = ExitCommand_class"
| "vm_command_vars CreateStringCommand_cls = CreateStringCommand_class"
| "vm_command_vars CapabilitiesCommand_cls = CapabilitiesCommand_class"
| "vm_command_vars ClassPathsCommand_cls = ClassPathsCommand_class"
| "vm_command_vars DisposeObjectsCommand_cls = DisposeObjectsCommand_class"
| "vm_command_vars HoldEventsCommand_cls = HoldEventsCommand_class"
| "vm_command_vars ReleaseEventsCommand_cls = ReleaseEventsCommand_class"
| "vm_command_vars CapabilitiesNewCommand_cls = CapabilitiesNewCommand_class"
| "vm_command_vars RedefineClassesCommand_cls = RedefineClassesCommand_class"
| "vm_command_vars SetDefaultStratumCommand_cls = SetDefaultStratumCommand_class"
| "vm_command_vars AllClassesWithGenericCommand_cls = AllClassesWithGenericCommand_class"
| "vm_command_vars InstanceCountsCommand_cls = InstanceCountsCommand_class"

primrec vm_command_name :: "vm_command_class \<Rightarrow> string" where
  "vm_command_name VersionCommand_cls = ''VersionCommand''"
| "vm_command_name ClassesBySignatureCommand_cls = ''ClassesBySignatureCommand''"
| "vm_command_name AllClassesCommand_cls = ''AllClassesCommand''"
| "vm_command_name AllThreadsCommand_cls = ''AllThreadsCommand''"
| "vm_command_name TopLevelThreadGroupsCommand_cls = ''TopLevelThreadGroupsCommand''"
| "vm_command_name DisposeCommand_cls = ''DisposeCommand''"
| "vm_command_name IDSizesCommand_cls = ''IDSizesCommand''"
| "vm_command_name VM_SuspendCommand_cls = ''SuspendCommand''"
| "vm_command_name VM_ResumeCommand_cls = ''ResumeCommand''"
| "vm_command_name ExitCommand_cls = ''ExitCommand''"
| "vm_command_name CreateStringCommand_cls = ''CreateStringCommand''"
| "vm_command_name CapabilitiesCommand_cls = ''CapabilitiesCommand''"
| "vm_command_name ClassPathsCommand_cls = ''ClassPathsCommand''"
| "vm_command_name DisposeObjectsCommand_cls = ''DisposeObjectsCommand''"
| "vm_command_name HoldEventsCommand_cls = ''HoldEventsCommand''"
| "vm_command_name ReleaseEventsCommand_cls = ''ReleaseEventsCommand''"
| "vm_command_name CapabilitiesNewCommand_cls = ''CapabilitiesNewCommand''"
| "vm_command_name RedefineClassesCommand_cls = ''RedefineClassesCommand''"
| "vm_command_name SetDefaultStratumCommand_cls = ''SetDefaultStratumCommand''"
| "vm_command_name AllClassesWithGenericCommand_cls = ''AllClassesWithGenericCommand''"
| "vm_command_name InstanceCountsCommand_cls = ''InstanceCountsCommand''"

primrec vm_command_serialize :: "vm_command \<Rightarrow> writer_op" where
  "vm_command_serialize (VersionCommand_obj self) = VersionCommand_serialize self"
| "vm_command_serialize (ClassesBySignatureCommand_obj self) =
     ClassesBySignatureCommand_serialize self"
| "vm_command_serialize (AllClassesCommand_obj self) = AllClassesCommand_serialize self"
| "vm_command_serialize (AllThreadsCommand_obj self) = AllThreadsCommand_serialize self"
| "vm_command_serialize (TopLevelThreadGroupsCommand_obj self) =
     TopLevelThreadGroupsCommand_serialize self"
| "vm_command_serialize (DisposeCommand_obj self) = DisposeCommand_serialize self"
| "vm_command_serialize (IDSizesCommand_obj self) = IDSizesCommand_serialize self"
| "vm_command_serialize (VM_SuspendCommand_obj self) = VM_SuspendCommand_serialize self"
| "vm_command_serialize (VM_ResumeCommand_obj self) = VM_ResumeCommand_serialize self"
| "vm_command_serialize (ExitCommand_obj self) = ExitCommand_serialize self"
| "vm_command_serialize (CreateStringCommand_obj self) = CreateStringCommand_serialize self"
| "vm_command_serialize (CapabilitiesCommand_obj self) = CapabilitiesCommand_serialize self"
| "vm_command_serialize (ClassPathsCommand_obj self) = ClassPathsCommand_serialize self"
| "vm_command_serialize (DisposeObjectsCommand_obj self) = DisposeObjectsCommand_serialize self"
| "vm_command_serialize (HoldEventsCommand_obj self) = HoldEventsCommand_serialize self"
| "vm_command_serialize (ReleaseEventsCommand_obj self) = ReleaseEventsCommand_serialize self"
| "vm_command_serialize (CapabilitiesNewCommand_obj self) = CapabilitiesNewCommand_serialize self"
| "vm_command_serialize (RedefineClassesCommand_obj self) = RedefineClassesCommand_serialize self"
| "vm_command_serialize (SetDefaultStratumCommand_obj self) =
     SetDefaultStratumCommand_serialize self"
| "vm_command_serialize (AllClassesWithGenericCommand_obj self) =
     AllClassesWithGenericCommand_serialize self"
| "vm_command_serialize (InstanceCountsCommand_obj self) = InstanceCountsCommand_serialize self"

primrec vm_command_deserialize :: "vm_command_class \<Rightarrow> vm_command reader_op" where
  "vm_command_deserialize VersionCommand_cls =
     of_class VersionCommand_deserialize VersionCommand_obj"
| "vm_command_deserialize ClassesBySignatureCommand_cls =
     of_class ClassesBySignatureCommand_deserialize ClassesBySignatureCommand_obj"
| "vm_command_deserialize AllClassesCommand_cls =
     of_class AllClassesCommand_deserialize AllClassesCommand_obj"
| "vm_command_deserialize AllThreadsCommand_cls =
     of_class AllThreadsCommand_deserialize AllThreadsCommand_obj"
| "vm_command_deserialize TopLevelThreadGroupsCommand_cls =
     of_class TopLevelThreadGroupsCommand_deserialize TopLevelThreadGroupsCommand_obj"
| "vm_command_deserialize DisposeCommand_cls =
     of_class DisposeCommand_deserialize DisposeCommand_obj"
| "vm_command_deserialize IDSizesCommand_cls =
     of_class IDSizesCommand_deserialize IDSizesCommand_obj"
| "vm_command_deserialize VM_SuspendCommand_cls =
     of_class VM_SuspendCommand_deserialize VM_SuspendCommand_obj"
| "vm_command_deserialize VM_ResumeCommand_cls =
     of_class VM_ResumeCommand_deserialize VM_ResumeCommand_obj"
| "vm_command_deserialize ExitCommand_cls = of_class ExitCommand_deserialize ExitCommand_obj"
| "vm_command_deserialize CreateStringCommand_cls =
     of_class CreateStringCommand_deserialize CreateStringCommand_obj"
| "vm_command_deserialize CapabilitiesCommand_cls =
     of_class CapabilitiesCommand_deserialize CapabilitiesCommand_obj"
| "vm_command_deserialize ClassPathsCommand_cls =
     of_class ClassPathsCommand_deserialize ClassPathsCommand_obj"
| "vm_command_deserialize DisposeObjectsCommand_cls =
     of_class DisposeObjectsCommand_deserialize DisposeObjectsCommand_obj"
| "vm_command_deserialize HoldEventsCommand_cls =
     of_class HoldEventsCommand_deserialize HoldEventsCommand_obj"
| "vm_command_deserialize ReleaseEventsCommand_cls =
     of_class ReleaseEventsCommand_deserialize ReleaseEventsCommand_obj"
| "vm_command_deserialize CapabilitiesNewCommand_cls =
     of_class CapabilitiesNewCommand_deserialize CapabilitiesNewCommand_obj"
| "vm_command_deserialize RedefineClassesCommand_cls =
     of_class RedefineClassesCommand_deserialize RedefineClassesCommand_obj"
| "vm_command_deserialize SetDefaultStratumCommand_cls =
     of_class SetDefaultStratumCommand_deserialize SetDefaultStratumCommand_obj"
| "vm_command_deserialize AllClassesWithGenericCommand_cls =
     of_class AllClassesWithGenericCommand_deserialize AllClassesWithGenericCommand_obj"
| "vm_command_deserialize InstanceCountsCommand_cls =
     of_class InstanceCountsCommand_deserialize InstanceCountsCommand_obj"

interpretation vm_command:
  message_family vm_command_class_of vm_command_serialize vm_command_deserialize "\<lambda>_.
    True"
proof unfold_locales
  fix v
  show "paired (vm_command_serialize v)
      (vm_command_deserialize (vm_command_class_of v)) v"
    by (cases v) (auto intro!: of_class_codec codec_intros)
next
  fix c r v r' assume "vm_command_deserialize c r = Inr (v, r')"
  then show "vm_command_class_of v = c" by (cases c) (auto dest!: of_class_obj)
qed (rule TrueI)

datatype (plugins only: code) vm_response =
    VersionResponse_obj VersionResponse
  | ClassesBySignatureResponse_obj ClassesBySignatureResponse
  | AllClassesResponse_obj AllClassesResponse
  | AllThreadsResponse_obj AllThreadsResponse
  | TopLevelThreadGroupsResponse_obj TopLevelThreadGroupsResponse
  | DisposeResponse_obj DisposeResponse
  | IDSizesResponse_obj IDSizesResponse
  | VM_SuspendResponse_obj VM_SuspendResponse
  | VM_ResumeResponse_obj VM_ResumeResponse
  | ExitResponse_obj ExitResponse
  | CreateStringResponse_obj CreateStringResponse
  | CapabilitiesResponse_obj CapabilitiesResponse
  | ClassPathsResponse_obj ClassPathsResponse
  | DisposeObjectsResponse_obj DisposeObjectsResponse
  | HoldEventsResponse_obj HoldEventsResponse
  | ReleaseEventsResponse_obj ReleaseEventsResponse
  | CapabilitiesNewResponse_obj CapabilitiesNewResponse
  | RedefineClassesResponse_obj RedefineClassesResponse
  | SetDefaultStratumResponse_obj SetDefaultStratumResponse
  | AllClassesWithGenericResponse_obj AllClassesWithGenericResponse
  | InstanceCountsResponse_obj InstanceCountsResponse

datatype (plugins only: code) vm_response_class =
    VersionResponse_cls
  | ClassesBySignatureResponse_cls
  | AllClassesResponse_cls
  | AllThreadsResponse_cls
  | TopLevelThreadGroupsResponse_cls
  | DisposeResponse_cls
  | IDSizesResponse_cls
  | VM_SuspendResponse_cls
  | VM_ResumeResponse_cls
  | ExitResponse_cls
  | CreateStringResponse_cls
  | CapabilitiesResponse_cls
  | ClassPathsResponse_cls
  | DisposeObjectsResponse_cls
  | HoldEventsResponse_cls
  | ReleaseEventsResponse_cls
  | CapabilitiesNewResponse_cls
  | RedefineClassesResponse_cls
  | SetDefaultStratumResponse_cls
  | AllClassesWithGenericResponse_cls
  | InstanceCountsResponse_cls

primrec vm_response_class_of :: "vm_response \<Rightarrow> vm_response_class" where
  "vm_response_class_of (VersionResponse_obj self) = VersionResponse_cls"
| "vm_response_class_of (ClassesBySignatureResponse_obj self) = ClassesBySignatureResponse_cls"
| "vm_response_class_of (AllClassesResponse_obj self) = AllClassesResponse_cls"
| "vm_response_class_of (AllThreadsResponse_obj self) = AllThreadsResponse_cls"
| "vm_response_class_of (TopLevelThreadGroupsResponse_obj self) =
     TopLevelThreadGroupsResponse_cls"
| "vm_response_class_of (DisposeResponse_obj self) = DisposeResponse_cls"
| "vm_response_class_of (IDSizesResponse_obj self) = IDSizesResponse_cls"
| "vm_response_class_of (VM_SuspendResponse_obj self) = VM_SuspendResponse_cls"
| "vm_response_class_of (VM_ResumeResponse_obj self) = VM_ResumeResponse_cls"
| "vm_response_class_of (ExitResponse_obj self) = ExitResponse_cls"
| "vm_response_class_of (CreateStringResponse_obj self) = CreateStringResponse_cls"
| "vm_response_class_of (CapabilitiesResponse_obj self) = CapabilitiesResponse_cls"
| "vm_response_class_of (ClassPathsResponse_obj self) = ClassPathsResponse_cls"
| "vm_response_class_of (DisposeObjectsResponse_obj self) = DisposeObjectsResponse_cls"
| "vm_response_class_of (HoldEventsResponse_obj self) = HoldEventsResponse_cls"
| "vm_response_class_of (ReleaseEventsResponse_obj self) = ReleaseEventsResponse_cls"
| "vm_response_class_of (CapabilitiesNewResponse_obj self) = CapabilitiesNewResponse_cls"
| "vm_response_class_of (RedefineClassesResponse_obj self) = RedefineClassesResponse_cls"
| "vm_response_class_of (SetDefaultStratumResponse_obj self) = SetDefaultStratumResponse_cls"
| "vm_response_class_of (AllClassesWithGenericResponse_obj self) =
     AllClassesWithGenericResponse_cls"
| "vm_response_class_of (InstanceCountsResponse_obj self) = InstanceCountsResponse_cls"

primrec vm_response_serialize :: "vm_response \<Rightarrow> writer_op" where
  "vm_response_serialize (VersionResponse_obj self) = VersionResponse_serialize self"
| "vm_response_serialize (ClassesBySignatureResponse_obj self) =
     ClassesBySignatureResponse_serialize self"
| "vm_response_serialize (AllClassesResponse_obj self) = AllClassesResponse_serialize self"
| "vm_response_serialize (AllThreadsResponse_obj self) = AllThreadsResponse_serialize self"
| "vm_response_serialize (TopLevelThreadGroupsResponse_obj self) =
     TopLevelThreadGroupsResponse_serialize self"
| "vm_response_serialize (DisposeResponse_obj self) = DisposeResponse_serialize self"
| "vm_response_serialize (IDSizesResponse_obj self) = IDSizesResponse_serialize self"
| "vm_response_serialize (VM_SuspendResponse_obj self) = VM_SuspendResponse_serialize self"
| "vm_response_serialize (VM_ResumeResponse_obj self) = VM_ResumeResponse_serialize self"
| "vm_response_serialize (ExitResponse_obj self) = ExitResponse_serialize self"
| "vm_response_serialize (CreateStringResponse_obj self) = CreateStringResponse_serialize self"
| "vm_response_serialize (CapabilitiesResponse_obj self) = CapabilitiesResponse_serialize self"
| "vm_response_serialize (ClassPathsResponse_obj self) = ClassPathsResponse_serialize self"
| "vm_response_serialize (DisposeObjectsResponse_obj self) =
     DisposeObjectsResponse_serialize self"
| "vm_response_serialize (HoldEventsResponse_obj self) = HoldEventsResponse_serialize self"
| "vm_response_serialize (ReleaseEventsResponse_obj self) = ReleaseEventsResponse_serialize self"
| "vm_response_serialize (CapabilitiesNewResponse_obj self) =
     CapabilitiesNewResponse_serialize self"
| "vm_response_serialize (RedefineClassesResponse_obj self) =
     RedefineClassesResponse_serialize self"
| "vm_response_serialize (SetDefaultStratumResponse_obj self) =
     SetDefaultStratumResponse_serialize self"
| "vm_response_serialize (AllClassesWithGenericResponse_obj self) =
     AllClassesWithGenericResponse_serialize self"
| "vm_response_serialize (InstanceCountsResponse_obj self) =
     InstanceCountsResponse_serialize self"

primrec vm_response_deserialize :: "vm_response_class \<Rightarrow> vm_response reader_op" where
  "vm_response_deserialize VersionResponse_cls =
     of_class VersionResponse_deserialize VersionResponse_obj"
| "vm_response_deserialize ClassesBySignatureResponse_cls =
     of_class ClassesBySignatureResponse_deserialize ClassesBySignatureResponse_obj"
| "vm_response_deserialize AllClassesResponse_cls =
     of_class AllClassesResponse_deserialize AllClassesResponse_obj"
| "vm_response_deserialize AllThreadsResponse_cls =
     of_class AllThreadsResponse_deserialize AllThreadsResponse_obj"
| "vm_response_deserialize TopLevelThreadGroupsResponse_cls =
     of_class TopLevelThreadGroupsResponse_deserialize TopLevelThreadGroupsResponse_obj"
| "vm_response_deserialize DisposeResponse_cls =
     of_class DisposeResponse_deserialize DisposeResponse_obj"
| "vm_response_deserialize IDSizesResponse_cls =
     of_class IDSizesResponse_deserialize IDSizesResponse_obj"
| "vm_response_deserialize VM_SuspendResponse_cls =
     of_class VM_SuspendResponse_deserialize VM_SuspendResponse_obj"
| "vm_response_deserialize VM_ResumeResponse_cls =
     of_class VM_ResumeResponse_deserialize VM_ResumeResponse_obj"
| "vm_response_deserialize ExitResponse_cls = of_class ExitResponse_deserialize ExitResponse_obj"
| "vm_response_deserialize CreateStringResponse_cls =
     of_class CreateStringResponse_deserialize CreateStringResponse_obj"
| "vm_response_deserialize CapabilitiesResponse_cls =
     of_class CapabilitiesResponse_deserialize CapabilitiesResponse_obj"
| "vm_response_deserialize ClassPathsResponse_cls =
     of_class ClassPathsResponse_deserialize ClassPathsResponse_obj"
| "vm_response_deserialize DisposeObjectsResponse_cls =
     of_class DisposeObjectsResponse_deserialize DisposeObjectsResponse_obj"
| "vm_response_deserialize HoldEventsResponse_cls =
     of_class HoldEventsResponse_deserialize HoldEventsResponse_obj"
| "vm_response_deserialize ReleaseEventsResponse_cls =
     of_class ReleaseEventsResponse_deserialize ReleaseEventsResponse_obj"
| "vm_response_deserialize CapabilitiesNewResponse_cls =
     of_class CapabilitiesNewResponse_deserialize CapabilitiesNewResponse_obj"
| "vm_response_deserialize RedefineClassesResponse_cls =
     of_class RedefineClassesResponse_deserialize RedefineClassesResponse_obj"
| "vm_response_deserialize SetDefaultStratumResponse_cls =
     of_class SetDefaultStratumResponse_deserialize SetDefaultStratumResponse_obj"
| "vm_response_deserialize AllClassesWithGenericResponse_cls =
     of_class AllClassesWithGenericResponse_deserialize AllClassesWithGenericResponse_obj"
| "vm_response_deserialize InstanceCountsResponse_cls =
     of_class InstanceCountsResponse_deserialize InstanceCountsResponse_obj"

interpretation vm_response:
  message_family vm_response_class_of vm_response_serialize vm_response_deserialize "\<lambda>_.
    True"
proof unfold_locales
  fix v
  show "paired (vm_response_serialize v)
      (vm_response_deserialize (vm_response_class_of v)) v"
    by (cases v) (auto intro!: of_class_codec codec_intros)
next
  fix c r v r' assume "vm_response_deserialize c r = Inr (v, r')"
  then show "vm_response_class_of v = c" by (cases c) (auto dest!: of_class_obj)
qed (rule TrueI)

definition vm_registrations ::
    "(vm_response_class option \<times> vm_command_class) list" where
  "vm_registrations =
    [(Some VersionResponse_cls, VersionCommand_cls),
     (Some ClassesBySignatureResponse_cls, ClassesBySignatureCommand_cls),
     (Some AllClassesResponse_cls, AllClassesCommand_cls),
     (Some AllThreadsResponse_cls, AllThreadsCommand_cls),
     (Some TopLevelThreadGroupsResponse_cls, TopLevelThreadGroupsCommand_cls),
     (Some DisposeResponse_cls, DisposeCommand_cls),
     (Some IDSizesResponse_cls, IDSizesCommand_cls),
     (Some VM_SuspendResponse_cls, VM_SuspendCommand_cls),
     (Some VM_ResumeResponse_cls, VM_ResumeCommand_cls),
     (Some ExitResponse_cls, ExitCommand_cls),
     (Some CreateStringResponse_cls, CreateStringCommand_cls),
     (Some CapabilitiesResponse_cls, CapabilitiesCommand_cls),
     (Some ClassPathsResponse_cls, ClassPathsCommand_cls),
     (Some DisposeObjectsResponse_cls, DisposeObjectsCommand_cls),
     (Some HoldEventsResponse_cls, HoldEventsCommand_cls),
     (Some ReleaseEventsResponse_cls, ReleaseEventsCommand_cls),
     (Some CapabilitiesNewResponse_cls, CapabilitiesNewCommand_cls),
     (Some RedefineClassesResponse_cls, RedefineClassesCommand_cls),
     (Some SetDefaultStratumResponse_cls, SetDefaultStratumCommand_cls),
     (Some AllClassesWithGenericResponse_cls, AllClassesWithGenericCommand_cls),
     (Some InstanceCountsResponse_cls, InstanceCountsCommand_cls)]"

lemma vm_registered:
  "c \<in> snd ` set vm_registrations" "(None, c) \<notin> set vm_registrations"
  by (cases c, simp_all add: vm_registrations_def)

end
