(* ===== verification/Cmd_Reference_Type.thy ===== *)
theory Cmd_Reference_Type
  imports Codec
begin

text \<open>
  \<^verbatim>\<open>commands/reference_type.py\<close>:
  the commands of set 2, which describe loaded reference types.
  Each class is a record, with its \<open>serialize\<close> and \<open>deserialize\<close>; \<open>_class\<close> holds a command's
  class variables. The codec lemma of a class is its round trip, and the interpretation gives it the
  facts of every message class.
\<close>

section \<open>ReferenceType.Signature\<close>

record SignatureResponse =
  signature :: pystr

definition SignatureResponse_serialize :: "SignatureResponse \<Rightarrow> writer_op" where
  "SignatureResponse_serialize self = write_seq
     [write_string (SignatureResponse.signature self)]"

definition SignatureResponse_deserialize :: "SignatureResponse reader_op" where
  "SignatureResponse_deserialize =
     rbind read_string (\<lambda>signature.
       rreturn (SignatureResponse.make signature))"

lemma SignatureResponse_codec [codec_intros]:
  "paired (SignatureResponse_serialize v) SignatureResponse_deserialize v"
  unfolding SignatureResponse_serialize_def SignatureResponse_deserialize_def
  by (rule codec_intros)+ (cases v, simp add: SignatureResponse.make_def)

interpretation SignatureResponse:
  codec SignatureResponse_serialize SignatureResponse_deserialize "\<lambda>_. True"
  by unfold_locales (rule SignatureResponse_codec)

record SignatureCommand =
  ref_type :: ReferenceTypeID

definition SignatureCommand_class :: command_class where
  "SignatureCommand_class = command_class.make 2 1 {ERR_NONE, ERR_INVALID_CLASS,
     ERR_INVALID_OBJECT, ERR_VM_DEAD}"

definition SignatureCommand_serialize :: "SignatureCommand \<Rightarrow> writer_op" where
  "SignatureCommand_serialize self = write_seq
     [write_reference_type_id (SignatureCommand.ref_type self)]"

definition SignatureCommand_deserialize :: "SignatureCommand reader_op" where
  "SignatureCommand_deserialize =
     rbind read_reference_type_id (\<lambda>ref_type.
       rreturn (SignatureCommand.make ref_type))"

lemma SignatureCommand_codec [codec_intros]:
  "paired (SignatureCommand_serialize v) SignatureCommand_deserialize v"
  unfolding SignatureCommand_serialize_def SignatureCommand_deserialize_def
  by (rule codec_intros)+ (cases v, simp add: SignatureCommand.make_def)

interpretation SignatureCommand:
  codec SignatureCommand_serialize SignatureCommand_deserialize "\<lambda>_. True"
  by unfold_locales (rule SignatureCommand_codec)

section \<open>ReferenceType.ClassLoader\<close>

record ClassLoaderResponse =
  class_loader :: ClassLoaderID

definition ClassLoaderResponse_serialize :: "ClassLoaderResponse \<Rightarrow> writer_op" where
  "ClassLoaderResponse_serialize self = write_seq
     [write_class_loader_id (ClassLoaderResponse.class_loader self)]"

definition ClassLoaderResponse_deserialize :: "ClassLoaderResponse reader_op" where
  "ClassLoaderResponse_deserialize =
     rbind read_class_loader_id (\<lambda>class_loader.
       rreturn (ClassLoaderResponse.make class_loader))"

lemma ClassLoaderResponse_codec [codec_intros]:
  "paired (ClassLoaderResponse_serialize v) ClassLoaderResponse_deserialize v"
  unfolding ClassLoaderResponse_serialize_def ClassLoaderResponse_deserialize_def
  by (rule codec_intros)+ (cases v, simp add: ClassLoaderResponse.make_def)

interpretation ClassLoaderResponse:
  codec ClassLoaderResponse_serialize ClassLoaderResponse_deserialize "\<lambda>_. True"
  by unfold_locales (rule ClassLoaderResponse_codec)

record ClassLoaderCommand =
  ref_type :: ReferenceTypeID

definition ClassLoaderCommand_class :: command_class where
  "ClassLoaderCommand_class = command_class.make 2 2 {ERR_NONE, ERR_INVALID_CLASS,
     ERR_INVALID_OBJECT, ERR_VM_DEAD}"

definition ClassLoaderCommand_serialize :: "ClassLoaderCommand \<Rightarrow> writer_op" where
  "ClassLoaderCommand_serialize self = write_seq
     [write_reference_type_id (ClassLoaderCommand.ref_type self)]"

definition ClassLoaderCommand_deserialize :: "ClassLoaderCommand reader_op" where
  "ClassLoaderCommand_deserialize =
     rbind read_reference_type_id (\<lambda>ref_type.
       rreturn (ClassLoaderCommand.make ref_type))"

lemma ClassLoaderCommand_codec [codec_intros]:
  "paired (ClassLoaderCommand_serialize v) ClassLoaderCommand_deserialize v"
  unfolding ClassLoaderCommand_serialize_def ClassLoaderCommand_deserialize_def
  by (rule codec_intros)+ (cases v, simp add: ClassLoaderCommand.make_def)

interpretation ClassLoaderCommand:
  codec ClassLoaderCommand_serialize ClassLoaderCommand_deserialize "\<lambda>_. True"
  by unfold_locales (rule ClassLoaderCommand_codec)

section \<open>ReferenceType.Modifiers\<close>

record ModifiersResponse =
  mod_bits :: int

definition ModifiersResponse_serialize :: "ModifiersResponse \<Rightarrow> writer_op" where
  "ModifiersResponse_serialize self = write_seq
     [write_int (ModifiersResponse.mod_bits self)]"

definition ModifiersResponse_deserialize :: "ModifiersResponse reader_op" where
  "ModifiersResponse_deserialize =
     rbind read_int (\<lambda>mod_bits.
       rreturn (ModifiersResponse.make mod_bits))"

lemma ModifiersResponse_codec [codec_intros]:
  "paired (ModifiersResponse_serialize v) ModifiersResponse_deserialize v"
  unfolding ModifiersResponse_serialize_def ModifiersResponse_deserialize_def
  by (rule codec_intros)+ (cases v, simp add: ModifiersResponse.make_def)

interpretation ModifiersResponse:
  codec ModifiersResponse_serialize ModifiersResponse_deserialize "\<lambda>_. True"
  by unfold_locales (rule ModifiersResponse_codec)

record ModifiersCommand =
  ref_type :: ReferenceTypeID

definition ModifiersCommand_class :: command_class where
  "ModifiersCommand_class = command_class.make 2 3 {ERR_NONE, ERR_INVALID_CLASS,
     ERR_INVALID_OBJECT, ERR_VM_DEAD}"

definition ModifiersCommand_serialize :: "ModifiersCommand \<Rightarrow> writer_op" where
  "ModifiersCommand_serialize self = write_seq
     [write_reference_type_id (ModifiersCommand.ref_type self)]"

definition ModifiersCommand_deserialize :: "ModifiersCommand reader_op" where
  "ModifiersCommand_deserialize =
     rbind read_reference_type_id (\<lambda>ref_type.
       rreturn (ModifiersCommand.make ref_type))"

lemma ModifiersCommand_codec [codec_intros]:
  "paired (ModifiersCommand_serialize v) ModifiersCommand_deserialize v"
  unfolding ModifiersCommand_serialize_def ModifiersCommand_deserialize_def
  by (rule codec_intros)+ (cases v, simp add: ModifiersCommand.make_def)

interpretation ModifiersCommand:
  codec ModifiersCommand_serialize ModifiersCommand_deserialize "\<lambda>_. True"
  by unfold_locales (rule ModifiersCommand_codec)

section \<open>ReferenceType.Fields\<close>

record FieldsEntry =
  field_id :: FieldID
  name :: pystr
  signature :: pystr
  mod_bits :: int

definition FieldsEntry_serialize :: "FieldsEntry \<Rightarrow> writer_op" where
  "FieldsEntry_serialize self = write_seq
     [write_field_id (FieldsEntry.field_id self),
      write_string (FieldsEntry.name self),
      write_string (FieldsEntry.signature self),
      write_int (FieldsEntry.mod_bits self)]"

definition FieldsEntry_deserialize :: "FieldsEntry reader_op" where
  "FieldsEntry_deserialize =
     rbind read_field_id (\<lambda>field_id.
     rbind read_string (\<lambda>name.
     rbind read_string (\<lambda>signature.
     rbind read_int (\<lambda>mod_bits.
       rreturn (FieldsEntry.make field_id name signature mod_bits)))))"

lemma FieldsEntry_codec [codec_intros]:
  "paired (FieldsEntry_serialize v) FieldsEntry_deserialize v"
  unfolding FieldsEntry_serialize_def FieldsEntry_deserialize_def
  by (rule codec_intros)+ (cases v, simp add: FieldsEntry.make_def)

record FieldsResponse =
  fields' :: "FieldsEntry list"

definition FieldsResponse_serialize :: "FieldsResponse \<Rightarrow> writer_op" where
  "FieldsResponse_serialize self = write_seq
     [write_counted FieldsEntry_serialize (FieldsResponse.fields' self)]"

definition FieldsResponse_deserialize :: "FieldsResponse reader_op" where
  "FieldsResponse_deserialize =
     rbind (read_counted FieldsEntry_deserialize) (\<lambda>fields'.
       rreturn (FieldsResponse.make fields'))"

lemma FieldsResponse_codec [codec_intros]:
  "paired (FieldsResponse_serialize v) FieldsResponse_deserialize v"
  unfolding FieldsResponse_serialize_def FieldsResponse_deserialize_def
  by (rule codec_intros)+ (cases v, simp add: FieldsResponse.make_def)

interpretation FieldsResponse:
  codec FieldsResponse_serialize FieldsResponse_deserialize "\<lambda>_. True"
  by unfold_locales (rule FieldsResponse_codec)

record FieldsCommand =
  ref_type :: ReferenceTypeID

definition FieldsCommand_class :: command_class where
  "FieldsCommand_class = command_class.make 2 4 {ERR_NONE, ERR_CLASS_NOT_PREPARED,
     ERR_INVALID_CLASS, ERR_INVALID_OBJECT, ERR_VM_DEAD}"

definition FieldsCommand_serialize :: "FieldsCommand \<Rightarrow> writer_op" where
  "FieldsCommand_serialize self = write_seq
     [write_reference_type_id (FieldsCommand.ref_type self)]"

definition FieldsCommand_deserialize :: "FieldsCommand reader_op" where
  "FieldsCommand_deserialize =
     rbind read_reference_type_id (\<lambda>ref_type.
       rreturn (FieldsCommand.make ref_type))"

lemma FieldsCommand_codec [codec_intros]:
  "paired (FieldsCommand_serialize v) FieldsCommand_deserialize v"
  unfolding FieldsCommand_serialize_def FieldsCommand_deserialize_def
  by (rule codec_intros)+ (cases v, simp add: FieldsCommand.make_def)

interpretation FieldsCommand:
  codec FieldsCommand_serialize FieldsCommand_deserialize "\<lambda>_. True"
  by unfold_locales (rule FieldsCommand_codec)

section \<open>ReferenceType.Methods\<close>

record MethodsEntry =
  method_id :: MethodID
  name :: pystr
  signature :: pystr
  mod_bits :: int

definition MethodsEntry_serialize :: "MethodsEntry \<Rightarrow> writer_op" where
  "MethodsEntry_serialize self = write_seq
     [write_method_id (MethodsEntry.method_id self),
      write_string (MethodsEntry.name self),
      write_string (MethodsEntry.signature self),
      write_int (MethodsEntry.mod_bits self)]"

definition MethodsEntry_deserialize :: "MethodsEntry reader_op" where
  "MethodsEntry_deserialize =
     rbind read_method_id (\<lambda>method_id.
     rbind read_string (\<lambda>name.
     rbind read_string (\<lambda>signature.
     rbind read_int (\<lambda>mod_bits.
       rreturn (MethodsEntry.make method_id name signature mod_bits)))))"

lemma MethodsEntry_codec [codec_intros]:
  "paired (MethodsEntry_serialize v) MethodsEntry_deserialize v"
  unfolding MethodsEntry_serialize_def MethodsEntry_deserialize_def
  by (rule codec_intros)+ (cases v, simp add: MethodsEntry.make_def)

record MethodsResponse =
  methods :: "MethodsEntry list"

definition MethodsResponse_serialize :: "MethodsResponse \<Rightarrow> writer_op" where
  "MethodsResponse_serialize self = write_seq
     [write_counted MethodsEntry_serialize (MethodsResponse.methods self)]"

definition MethodsResponse_deserialize :: "MethodsResponse reader_op" where
  "MethodsResponse_deserialize =
     rbind (read_counted MethodsEntry_deserialize) (\<lambda>methods.
       rreturn (MethodsResponse.make methods))"

lemma MethodsResponse_codec [codec_intros]:
  "paired (MethodsResponse_serialize v) MethodsResponse_deserialize v"
  unfolding MethodsResponse_serialize_def MethodsResponse_deserialize_def
  by (rule codec_intros)+ (cases v, simp add: MethodsResponse.make_def)

interpretation MethodsResponse:
  codec MethodsResponse_serialize MethodsResponse_deserialize "\<lambda>_. True"
  by unfold_locales (rule MethodsResponse_codec)

record MethodsCommand =
  ref_type :: ReferenceTypeID

definition MethodsCommand_class :: command_class where
  "MethodsCommand_class = command_class.make 2 5 {ERR_NONE, ERR_CLASS_NOT_PREPARED,
     ERR_INVALID_CLASS, ERR_INVALID_OBJECT, ERR_VM_DEAD}"

definition MethodsCommand_serialize :: "MethodsCommand \<Rightarrow> writer_op" where
  "MethodsCommand_serialize self = write_seq
     [write_reference_type_id (MethodsCommand.ref_type self)]"

definition MethodsCommand_deserialize :: "MethodsCommand reader_op" where
  "MethodsCommand_deserialize =
     rbind read_reference_type_id (\<lambda>ref_type.
       rreturn (MethodsCommand.make ref_type))"

lemma MethodsCommand_codec [codec_intros]:
  "paired (MethodsCommand_serialize v) MethodsCommand_deserialize v"
  unfolding MethodsCommand_serialize_def MethodsCommand_deserialize_def
  by (rule codec_intros)+ (cases v, simp add: MethodsCommand.make_def)

interpretation MethodsCommand:
  codec MethodsCommand_serialize MethodsCommand_deserialize "\<lambda>_. True"
  by unfold_locales (rule MethodsCommand_codec)

section \<open>ReferenceType.GetValues\<close>

record ReferenceType_GetValuesResponse =
  "values" :: "JdwpValue list"

definition ReferenceType_GetValuesResponse_serialize ::
    "ReferenceType_GetValuesResponse \<Rightarrow> writer_op" where
  "ReferenceType_GetValuesResponse_serialize self = write_seq
     [write_counted write_value (ReferenceType_GetValuesResponse.values self)]"

definition ReferenceType_GetValuesResponse_deserialize ::
    "ReferenceType_GetValuesResponse reader_op" where
  "ReferenceType_GetValuesResponse_deserialize =
     rbind (read_counted read_value) (\<lambda>values.
       rreturn (ReferenceType_GetValuesResponse.make values))"

definition ReferenceType_GetValuesResponse_ok ::
    "ReferenceType_GetValuesResponse \<Rightarrow> bool" where
  "ReferenceType_GetValuesResponse_ok v \<longleftrightarrow> list_all jdwp_value_ok
     (ReferenceType_GetValuesResponse.values v)"

lemma ReferenceType_GetValuesResponse_codec [codec_intros]:
  assumes "ReferenceType_GetValuesResponse_ok v"
  shows "paired (ReferenceType_GetValuesResponse_serialize v)
    ReferenceType_GetValuesResponse_deserialize v"
  unfolding ReferenceType_GetValuesResponse_serialize_def
    ReferenceType_GetValuesResponse_deserialize_def
  by (insert assms [unfolded ReferenceType_GetValuesResponse_ok_def],
      (erule conjE | rule codec_intros | assumption | erule (1) list_all_member)+)
    (cases v, simp add: ReferenceType_GetValuesResponse.make_def)

lemma ReferenceType_GetValuesResponse_yields [yields_intros]: "yields ReferenceType_GetValuesResponse_deserialize ReferenceType_GetValuesResponse_ok"
  unfolding ReferenceType_GetValuesResponse_deserialize_def
  by ((rule yields_intros | rule yields_bind yields_return | rule yields_any)+)
    (simp add: ReferenceType_GetValuesResponse_ok_def ReferenceType_GetValuesResponse.make_def)

interpretation ReferenceType_GetValuesResponse:
  codec ReferenceType_GetValuesResponse_serialize ReferenceType_GetValuesResponse_deserialize
    ReferenceType_GetValuesResponse_ok
  by unfold_locales (rule ReferenceType_GetValuesResponse_codec)

record ReferenceType_GetValuesCommand =
  ref_type :: ReferenceTypeID
  fields' :: "FieldID list"

definition ReferenceType_GetValuesCommand_class :: command_class where
  "ReferenceType_GetValuesCommand_class = command_class.make 2 6 {ERR_NONE, ERR_INVALID_CLASS,
     ERR_INVALID_FIELDID, ERR_INVALID_OBJECT, ERR_VM_DEAD}"

definition ReferenceType_GetValuesCommand_serialize ::
    "ReferenceType_GetValuesCommand \<Rightarrow> writer_op" where
  "ReferenceType_GetValuesCommand_serialize self = write_seq
     [write_reference_type_id (ReferenceType_GetValuesCommand.ref_type self),
      write_counted write_field_id (ReferenceType_GetValuesCommand.fields' self)]"

definition ReferenceType_GetValuesCommand_deserialize ::
    "ReferenceType_GetValuesCommand reader_op" where
  "ReferenceType_GetValuesCommand_deserialize =
     rbind read_reference_type_id (\<lambda>ref_type.
     rbind (read_counted read_field_id) (\<lambda>fields'.
       rreturn (ReferenceType_GetValuesCommand.make ref_type fields')))"

lemma ReferenceType_GetValuesCommand_codec [codec_intros]:
  "paired (ReferenceType_GetValuesCommand_serialize v) ReferenceType_GetValuesCommand_deserialize
    v"
  unfolding ReferenceType_GetValuesCommand_serialize_def
    ReferenceType_GetValuesCommand_deserialize_def
  by (rule codec_intros)+ (cases v, simp add: ReferenceType_GetValuesCommand.make_def)

interpretation ReferenceType_GetValuesCommand:
  codec ReferenceType_GetValuesCommand_serialize ReferenceType_GetValuesCommand_deserialize
    "\<lambda>_. True"
  by unfold_locales (rule ReferenceType_GetValuesCommand_codec)

section \<open>ReferenceType.SourceFile\<close>

record SourceFileResponse =
  source_file :: pystr

definition SourceFileResponse_serialize :: "SourceFileResponse \<Rightarrow> writer_op" where
  "SourceFileResponse_serialize self = write_seq
     [write_string (SourceFileResponse.source_file self)]"

definition SourceFileResponse_deserialize :: "SourceFileResponse reader_op" where
  "SourceFileResponse_deserialize =
     rbind read_string (\<lambda>source_file.
       rreturn (SourceFileResponse.make source_file))"

lemma SourceFileResponse_codec [codec_intros]:
  "paired (SourceFileResponse_serialize v) SourceFileResponse_deserialize v"
  unfolding SourceFileResponse_serialize_def SourceFileResponse_deserialize_def
  by (rule codec_intros)+ (cases v, simp add: SourceFileResponse.make_def)

interpretation SourceFileResponse:
  codec SourceFileResponse_serialize SourceFileResponse_deserialize "\<lambda>_. True"
  by unfold_locales (rule SourceFileResponse_codec)

record SourceFileCommand =
  ref_type :: ReferenceTypeID

definition SourceFileCommand_class :: command_class where
  "SourceFileCommand_class = command_class.make 2 7 {ERR_NONE, ERR_ABSENT_INFORMATION,
     ERR_INVALID_CLASS, ERR_INVALID_OBJECT, ERR_VM_DEAD}"

definition SourceFileCommand_serialize :: "SourceFileCommand \<Rightarrow> writer_op" where
  "SourceFileCommand_serialize self = write_seq
     [write_reference_type_id (SourceFileCommand.ref_type self)]"

definition SourceFileCommand_deserialize :: "SourceFileCommand reader_op" where
  "SourceFileCommand_deserialize =
     rbind read_reference_type_id (\<lambda>ref_type.
       rreturn (SourceFileCommand.make ref_type))"

lemma SourceFileCommand_codec [codec_intros]:
  "paired (SourceFileCommand_serialize v) SourceFileCommand_deserialize v"
  unfolding SourceFileCommand_serialize_def SourceFileCommand_deserialize_def
  by (rule codec_intros)+ (cases v, simp add: SourceFileCommand.make_def)

interpretation SourceFileCommand:
  codec SourceFileCommand_serialize SourceFileCommand_deserialize "\<lambda>_. True"
  by unfold_locales (rule SourceFileCommand_codec)

section \<open>ReferenceType.NestedTypes\<close>

record NestedTypesEntry =
  ref_type_tag :: JdwpTypeTag
  type_id :: ReferenceTypeID

definition NestedTypesEntry_serialize :: "NestedTypesEntry \<Rightarrow> writer_op" where
  "NestedTypesEntry_serialize self = write_seq
     [write_byte (type_tag_value (NestedTypesEntry.ref_type_tag self)),
      write_reference_type_id (NestedTypesEntry.type_id self)]"

definition NestedTypesEntry_deserialize :: "NestedTypesEntry reader_op" where
  "NestedTypesEntry_deserialize =
     rbind (read_enum read_byte JdwpTypeTag_of) (\<lambda>ref_type_tag.
     rbind read_reference_type_id (\<lambda>type_id.
       rreturn (NestedTypesEntry.make ref_type_tag type_id)))"

lemma NestedTypesEntry_codec [codec_intros]:
  "paired (NestedTypesEntry_serialize v) NestedTypesEntry_deserialize v"
  unfolding NestedTypesEntry_serialize_def NestedTypesEntry_deserialize_def
  by (rule codec_intros)+ (cases v, simp add: NestedTypesEntry.make_def)

record NestedTypesResponse =
  nested_types :: "NestedTypesEntry list"

definition NestedTypesResponse_serialize :: "NestedTypesResponse \<Rightarrow> writer_op" where
  "NestedTypesResponse_serialize self = write_seq
     [write_counted NestedTypesEntry_serialize (NestedTypesResponse.nested_types self)]"

definition NestedTypesResponse_deserialize :: "NestedTypesResponse reader_op" where
  "NestedTypesResponse_deserialize =
     rbind (read_counted NestedTypesEntry_deserialize) (\<lambda>nested_types.
       rreturn (NestedTypesResponse.make nested_types))"

lemma NestedTypesResponse_codec [codec_intros]:
  "paired (NestedTypesResponse_serialize v) NestedTypesResponse_deserialize v"
  unfolding NestedTypesResponse_serialize_def NestedTypesResponse_deserialize_def
  by (rule codec_intros)+ (cases v, simp add: NestedTypesResponse.make_def)

interpretation NestedTypesResponse:
  codec NestedTypesResponse_serialize NestedTypesResponse_deserialize "\<lambda>_. True"
  by unfold_locales (rule NestedTypesResponse_codec)

record NestedTypesCommand =
  ref_type :: ReferenceTypeID

definition NestedTypesCommand_class :: command_class where
  "NestedTypesCommand_class = command_class.make 2 8 {ERR_NONE, ERR_INVALID_CLASS,
     ERR_INVALID_OBJECT, ERR_VM_DEAD}"

definition NestedTypesCommand_serialize :: "NestedTypesCommand \<Rightarrow> writer_op" where
  "NestedTypesCommand_serialize self = write_seq
     [write_reference_type_id (NestedTypesCommand.ref_type self)]"

definition NestedTypesCommand_deserialize :: "NestedTypesCommand reader_op" where
  "NestedTypesCommand_deserialize =
     rbind read_reference_type_id (\<lambda>ref_type.
       rreturn (NestedTypesCommand.make ref_type))"

lemma NestedTypesCommand_codec [codec_intros]:
  "paired (NestedTypesCommand_serialize v) NestedTypesCommand_deserialize v"
  unfolding NestedTypesCommand_serialize_def NestedTypesCommand_deserialize_def
  by (rule codec_intros)+ (cases v, simp add: NestedTypesCommand.make_def)

interpretation NestedTypesCommand:
  codec NestedTypesCommand_serialize NestedTypesCommand_deserialize "\<lambda>_. True"
  by unfold_locales (rule NestedTypesCommand_codec)

section \<open>ReferenceType.Status\<close>

record ReferenceType_StatusResponse =
  status :: JdwpClassStatus

definition ReferenceType_StatusResponse_serialize ::
    "ReferenceType_StatusResponse \<Rightarrow> writer_op" where
  "ReferenceType_StatusResponse_serialize self = write_seq
     [write_int (int (ReferenceType_StatusResponse.status self))]"

definition ReferenceType_StatusResponse_deserialize ::
    "ReferenceType_StatusResponse reader_op" where
  "ReferenceType_StatusResponse_deserialize =
     rbind (read_flag read_int JdwpClassStatus_of) (\<lambda>status.
       rreturn (ReferenceType_StatusResponse.make status))"

lemma ReferenceType_StatusResponse_codec [codec_intros]:
  "paired (ReferenceType_StatusResponse_serialize v) ReferenceType_StatusResponse_deserialize v"
  unfolding ReferenceType_StatusResponse_serialize_def
    ReferenceType_StatusResponse_deserialize_def
  by (rule codec_intros)+ (cases v, simp add: ReferenceType_StatusResponse.make_def)

interpretation ReferenceType_StatusResponse:
  codec ReferenceType_StatusResponse_serialize ReferenceType_StatusResponse_deserialize
    "\<lambda>_. True"
  by unfold_locales (rule ReferenceType_StatusResponse_codec)

record ReferenceType_StatusCommand =
  ref_type :: ReferenceTypeID

definition ReferenceType_StatusCommand_class :: command_class where
  "ReferenceType_StatusCommand_class = command_class.make 2 9 {ERR_NONE, ERR_INVALID_CLASS,
     ERR_INVALID_OBJECT, ERR_VM_DEAD}"

definition ReferenceType_StatusCommand_serialize ::
    "ReferenceType_StatusCommand \<Rightarrow> writer_op" where
  "ReferenceType_StatusCommand_serialize self = write_seq
     [write_reference_type_id (ReferenceType_StatusCommand.ref_type self)]"

definition ReferenceType_StatusCommand_deserialize :: "ReferenceType_StatusCommand reader_op" where
  "ReferenceType_StatusCommand_deserialize =
     rbind read_reference_type_id (\<lambda>ref_type.
       rreturn (ReferenceType_StatusCommand.make ref_type))"

lemma ReferenceType_StatusCommand_codec [codec_intros]:
  "paired (ReferenceType_StatusCommand_serialize v) ReferenceType_StatusCommand_deserialize v"
  unfolding ReferenceType_StatusCommand_serialize_def ReferenceType_StatusCommand_deserialize_def
  by (rule codec_intros)+ (cases v, simp add: ReferenceType_StatusCommand.make_def)

interpretation ReferenceType_StatusCommand:
  codec ReferenceType_StatusCommand_serialize ReferenceType_StatusCommand_deserialize "\<lambda>_.
    True"
  by unfold_locales (rule ReferenceType_StatusCommand_codec)

section \<open>ReferenceType.Interfaces\<close>

record InterfacesResponse =
  interfaces :: "InterfaceID list"

definition InterfacesResponse_serialize :: "InterfacesResponse \<Rightarrow> writer_op" where
  "InterfacesResponse_serialize self = write_seq
     [write_counted write_interface_id (InterfacesResponse.interfaces self)]"

definition InterfacesResponse_deserialize :: "InterfacesResponse reader_op" where
  "InterfacesResponse_deserialize =
     rbind (read_counted read_interface_id) (\<lambda>interfaces.
       rreturn (InterfacesResponse.make interfaces))"

lemma InterfacesResponse_codec [codec_intros]:
  "paired (InterfacesResponse_serialize v) InterfacesResponse_deserialize v"
  unfolding InterfacesResponse_serialize_def InterfacesResponse_deserialize_def
  by (rule codec_intros)+ (cases v, simp add: InterfacesResponse.make_def)

interpretation InterfacesResponse:
  codec InterfacesResponse_serialize InterfacesResponse_deserialize "\<lambda>_. True"
  by unfold_locales (rule InterfacesResponse_codec)

record InterfacesCommand =
  ref_type :: ReferenceTypeID

definition InterfacesCommand_class :: command_class where
  "InterfacesCommand_class = command_class.make 2 10 {ERR_NONE, ERR_INVALID_CLASS,
     ERR_INVALID_OBJECT, ERR_VM_DEAD}"

definition InterfacesCommand_serialize :: "InterfacesCommand \<Rightarrow> writer_op" where
  "InterfacesCommand_serialize self = write_seq
     [write_reference_type_id (InterfacesCommand.ref_type self)]"

definition InterfacesCommand_deserialize :: "InterfacesCommand reader_op" where
  "InterfacesCommand_deserialize =
     rbind read_reference_type_id (\<lambda>ref_type.
       rreturn (InterfacesCommand.make ref_type))"

lemma InterfacesCommand_codec [codec_intros]:
  "paired (InterfacesCommand_serialize v) InterfacesCommand_deserialize v"
  unfolding InterfacesCommand_serialize_def InterfacesCommand_deserialize_def
  by (rule codec_intros)+ (cases v, simp add: InterfacesCommand.make_def)

interpretation InterfacesCommand:
  codec InterfacesCommand_serialize InterfacesCommand_deserialize "\<lambda>_. True"
  by unfold_locales (rule InterfacesCommand_codec)

section \<open>ReferenceType.ClassObject\<close>

record ClassObjectResponse =
  class_object :: ClassObjectID

definition ClassObjectResponse_serialize :: "ClassObjectResponse \<Rightarrow> writer_op" where
  "ClassObjectResponse_serialize self = write_seq
     [write_class_object_id (ClassObjectResponse.class_object self)]"

definition ClassObjectResponse_deserialize :: "ClassObjectResponse reader_op" where
  "ClassObjectResponse_deserialize =
     rbind read_class_object_id (\<lambda>class_object.
       rreturn (ClassObjectResponse.make class_object))"

lemma ClassObjectResponse_codec [codec_intros]:
  "paired (ClassObjectResponse_serialize v) ClassObjectResponse_deserialize v"
  unfolding ClassObjectResponse_serialize_def ClassObjectResponse_deserialize_def
  by (rule codec_intros)+ (cases v, simp add: ClassObjectResponse.make_def)

interpretation ClassObjectResponse:
  codec ClassObjectResponse_serialize ClassObjectResponse_deserialize "\<lambda>_. True"
  by unfold_locales (rule ClassObjectResponse_codec)

record ClassObjectCommand =
  ref_type :: ReferenceTypeID

definition ClassObjectCommand_class :: command_class where
  "ClassObjectCommand_class = command_class.make 2 11 {ERR_NONE, ERR_INVALID_CLASS,
     ERR_INVALID_OBJECT, ERR_VM_DEAD}"

definition ClassObjectCommand_serialize :: "ClassObjectCommand \<Rightarrow> writer_op" where
  "ClassObjectCommand_serialize self = write_seq
     [write_reference_type_id (ClassObjectCommand.ref_type self)]"

definition ClassObjectCommand_deserialize :: "ClassObjectCommand reader_op" where
  "ClassObjectCommand_deserialize =
     rbind read_reference_type_id (\<lambda>ref_type.
       rreturn (ClassObjectCommand.make ref_type))"

lemma ClassObjectCommand_codec [codec_intros]:
  "paired (ClassObjectCommand_serialize v) ClassObjectCommand_deserialize v"
  unfolding ClassObjectCommand_serialize_def ClassObjectCommand_deserialize_def
  by (rule codec_intros)+ (cases v, simp add: ClassObjectCommand.make_def)

interpretation ClassObjectCommand:
  codec ClassObjectCommand_serialize ClassObjectCommand_deserialize "\<lambda>_. True"
  by unfold_locales (rule ClassObjectCommand_codec)

section \<open>ReferenceType.SourceDebugExtension\<close>

record SourceDebugExtensionResponse =
  extension :: pystr

definition SourceDebugExtensionResponse_serialize ::
    "SourceDebugExtensionResponse \<Rightarrow> writer_op" where
  "SourceDebugExtensionResponse_serialize self = write_seq
     [write_string (SourceDebugExtensionResponse.extension self)]"

definition SourceDebugExtensionResponse_deserialize ::
    "SourceDebugExtensionResponse reader_op" where
  "SourceDebugExtensionResponse_deserialize =
     rbind read_string (\<lambda>extension.
       rreturn (SourceDebugExtensionResponse.make extension))"

lemma SourceDebugExtensionResponse_codec [codec_intros]:
  "paired (SourceDebugExtensionResponse_serialize v) SourceDebugExtensionResponse_deserialize v"
  unfolding SourceDebugExtensionResponse_serialize_def
    SourceDebugExtensionResponse_deserialize_def
  by (rule codec_intros)+ (cases v, simp add: SourceDebugExtensionResponse.make_def)

interpretation SourceDebugExtensionResponse:
  codec SourceDebugExtensionResponse_serialize SourceDebugExtensionResponse_deserialize
    "\<lambda>_. True"
  by unfold_locales (rule SourceDebugExtensionResponse_codec)

record SourceDebugExtensionCommand =
  ref_type :: ReferenceTypeID

definition SourceDebugExtensionCommand_class :: command_class where
  "SourceDebugExtensionCommand_class = command_class.make 2 12 {ERR_NONE,
     ERR_ABSENT_INFORMATION, ERR_INVALID_CLASS, ERR_INVALID_OBJECT, ERR_NOT_IMPLEMENTED,
     ERR_VM_DEAD}"

definition SourceDebugExtensionCommand_serialize ::
    "SourceDebugExtensionCommand \<Rightarrow> writer_op" where
  "SourceDebugExtensionCommand_serialize self = write_seq
     [write_reference_type_id (SourceDebugExtensionCommand.ref_type self)]"

definition SourceDebugExtensionCommand_deserialize :: "SourceDebugExtensionCommand reader_op" where
  "SourceDebugExtensionCommand_deserialize =
     rbind read_reference_type_id (\<lambda>ref_type.
       rreturn (SourceDebugExtensionCommand.make ref_type))"

lemma SourceDebugExtensionCommand_codec [codec_intros]:
  "paired (SourceDebugExtensionCommand_serialize v) SourceDebugExtensionCommand_deserialize v"
  unfolding SourceDebugExtensionCommand_serialize_def SourceDebugExtensionCommand_deserialize_def
  by (rule codec_intros)+ (cases v, simp add: SourceDebugExtensionCommand.make_def)

interpretation SourceDebugExtensionCommand:
  codec SourceDebugExtensionCommand_serialize SourceDebugExtensionCommand_deserialize "\<lambda>_.
    True"
  by unfold_locales (rule SourceDebugExtensionCommand_codec)

section \<open>ReferenceType.SignatureWithGeneric\<close>

record SignatureWithGenericResponse =
  signature :: pystr
  generic_signature :: pystr

definition SignatureWithGenericResponse_serialize ::
    "SignatureWithGenericResponse \<Rightarrow> writer_op" where
  "SignatureWithGenericResponse_serialize self = write_seq
     [write_string (SignatureWithGenericResponse.signature self),
      write_string (SignatureWithGenericResponse.generic_signature self)]"

definition SignatureWithGenericResponse_deserialize ::
    "SignatureWithGenericResponse reader_op" where
  "SignatureWithGenericResponse_deserialize =
     rbind read_string (\<lambda>signature.
     rbind read_string (\<lambda>generic_signature.
       rreturn (SignatureWithGenericResponse.make signature generic_signature)))"

lemma SignatureWithGenericResponse_codec [codec_intros]:
  "paired (SignatureWithGenericResponse_serialize v) SignatureWithGenericResponse_deserialize v"
  unfolding SignatureWithGenericResponse_serialize_def
    SignatureWithGenericResponse_deserialize_def
  by (rule codec_intros)+ (cases v, simp add: SignatureWithGenericResponse.make_def)

interpretation SignatureWithGenericResponse:
  codec SignatureWithGenericResponse_serialize SignatureWithGenericResponse_deserialize
    "\<lambda>_. True"
  by unfold_locales (rule SignatureWithGenericResponse_codec)

record SignatureWithGenericCommand =
  ref_type :: ReferenceTypeID

definition SignatureWithGenericCommand_class :: command_class where
  "SignatureWithGenericCommand_class = command_class.make 2 13 {ERR_NONE, ERR_INVALID_CLASS,
     ERR_INVALID_OBJECT, ERR_VM_DEAD}"

definition SignatureWithGenericCommand_serialize ::
    "SignatureWithGenericCommand \<Rightarrow> writer_op" where
  "SignatureWithGenericCommand_serialize self = write_seq
     [write_reference_type_id (SignatureWithGenericCommand.ref_type self)]"

definition SignatureWithGenericCommand_deserialize :: "SignatureWithGenericCommand reader_op" where
  "SignatureWithGenericCommand_deserialize =
     rbind read_reference_type_id (\<lambda>ref_type.
       rreturn (SignatureWithGenericCommand.make ref_type))"

lemma SignatureWithGenericCommand_codec [codec_intros]:
  "paired (SignatureWithGenericCommand_serialize v) SignatureWithGenericCommand_deserialize v"
  unfolding SignatureWithGenericCommand_serialize_def SignatureWithGenericCommand_deserialize_def
  by (rule codec_intros)+ (cases v, simp add: SignatureWithGenericCommand.make_def)

interpretation SignatureWithGenericCommand:
  codec SignatureWithGenericCommand_serialize SignatureWithGenericCommand_deserialize "\<lambda>_.
    True"
  by unfold_locales (rule SignatureWithGenericCommand_codec)

section \<open>ReferenceType.FieldsWithGeneric\<close>

record FieldsWithGenericEntry =
  field_id :: FieldID
  name :: pystr
  signature :: pystr
  generic_signature :: pystr
  mod_bits :: int

definition FieldsWithGenericEntry_serialize ::
    "FieldsWithGenericEntry \<Rightarrow> writer_op" where
  "FieldsWithGenericEntry_serialize self = write_seq
     [write_field_id (FieldsWithGenericEntry.field_id self),
      write_string (FieldsWithGenericEntry.name self),
      write_string (FieldsWithGenericEntry.signature self),
      write_string (FieldsWithGenericEntry.generic_signature self),
      write_int (FieldsWithGenericEntry.mod_bits self)]"

definition FieldsWithGenericEntry_deserialize :: "FieldsWithGenericEntry reader_op" where
  "FieldsWithGenericEntry_deserialize =
     rbind read_field_id (\<lambda>field_id.
     rbind read_string (\<lambda>name.
     rbind read_string (\<lambda>signature.
     rbind read_string (\<lambda>generic_signature.
     rbind read_int (\<lambda>mod_bits.
       rreturn (FieldsWithGenericEntry.make field_id name signature generic_signature
         mod_bits))))))"

lemma FieldsWithGenericEntry_codec [codec_intros]:
  "paired (FieldsWithGenericEntry_serialize v) FieldsWithGenericEntry_deserialize v"
  unfolding FieldsWithGenericEntry_serialize_def FieldsWithGenericEntry_deserialize_def
  by (rule codec_intros)+ (cases v, simp add: FieldsWithGenericEntry.make_def)

record FieldsWithGenericResponse =
  fields' :: "FieldsWithGenericEntry list"

definition FieldsWithGenericResponse_serialize ::
    "FieldsWithGenericResponse \<Rightarrow> writer_op" where
  "FieldsWithGenericResponse_serialize self = write_seq
     [write_counted FieldsWithGenericEntry_serialize (FieldsWithGenericResponse.fields' self)]"

definition FieldsWithGenericResponse_deserialize :: "FieldsWithGenericResponse reader_op" where
  "FieldsWithGenericResponse_deserialize =
     rbind (read_counted FieldsWithGenericEntry_deserialize) (\<lambda>fields'.
       rreturn (FieldsWithGenericResponse.make fields'))"

lemma FieldsWithGenericResponse_codec [codec_intros]:
  "paired (FieldsWithGenericResponse_serialize v) FieldsWithGenericResponse_deserialize v"
  unfolding FieldsWithGenericResponse_serialize_def FieldsWithGenericResponse_deserialize_def
  by (rule codec_intros)+ (cases v, simp add: FieldsWithGenericResponse.make_def)

interpretation FieldsWithGenericResponse:
  codec FieldsWithGenericResponse_serialize FieldsWithGenericResponse_deserialize "\<lambda>_.
    True"
  by unfold_locales (rule FieldsWithGenericResponse_codec)

record FieldsWithGenericCommand =
  ref_type :: ReferenceTypeID

definition FieldsWithGenericCommand_class :: command_class where
  "FieldsWithGenericCommand_class = command_class.make 2 14 {ERR_NONE, ERR_CLASS_NOT_PREPARED,
     ERR_INVALID_CLASS, ERR_INVALID_OBJECT, ERR_VM_DEAD}"

definition FieldsWithGenericCommand_serialize ::
    "FieldsWithGenericCommand \<Rightarrow> writer_op" where
  "FieldsWithGenericCommand_serialize self = write_seq
     [write_reference_type_id (FieldsWithGenericCommand.ref_type self)]"

definition FieldsWithGenericCommand_deserialize :: "FieldsWithGenericCommand reader_op" where
  "FieldsWithGenericCommand_deserialize =
     rbind read_reference_type_id (\<lambda>ref_type.
       rreturn (FieldsWithGenericCommand.make ref_type))"

lemma FieldsWithGenericCommand_codec [codec_intros]:
  "paired (FieldsWithGenericCommand_serialize v) FieldsWithGenericCommand_deserialize v"
  unfolding FieldsWithGenericCommand_serialize_def FieldsWithGenericCommand_deserialize_def
  by (rule codec_intros)+ (cases v, simp add: FieldsWithGenericCommand.make_def)

interpretation FieldsWithGenericCommand:
  codec FieldsWithGenericCommand_serialize FieldsWithGenericCommand_deserialize "\<lambda>_. True"
  by unfold_locales (rule FieldsWithGenericCommand_codec)

section \<open>ReferenceType.MethodsWithGeneric\<close>

record MethodsWithGenericEntry =
  method_id :: MethodID
  name :: pystr
  signature :: pystr
  generic_signature :: pystr
  mod_bits :: int

definition MethodsWithGenericEntry_serialize ::
    "MethodsWithGenericEntry \<Rightarrow> writer_op" where
  "MethodsWithGenericEntry_serialize self = write_seq
     [write_method_id (MethodsWithGenericEntry.method_id self),
      write_string (MethodsWithGenericEntry.name self),
      write_string (MethodsWithGenericEntry.signature self),
      write_string (MethodsWithGenericEntry.generic_signature self),
      write_int (MethodsWithGenericEntry.mod_bits self)]"

definition MethodsWithGenericEntry_deserialize :: "MethodsWithGenericEntry reader_op" where
  "MethodsWithGenericEntry_deserialize =
     rbind read_method_id (\<lambda>method_id.
     rbind read_string (\<lambda>name.
     rbind read_string (\<lambda>signature.
     rbind read_string (\<lambda>generic_signature.
     rbind read_int (\<lambda>mod_bits.
       rreturn (MethodsWithGenericEntry.make method_id name signature generic_signature
         mod_bits))))))"

lemma MethodsWithGenericEntry_codec [codec_intros]:
  "paired (MethodsWithGenericEntry_serialize v) MethodsWithGenericEntry_deserialize v"
  unfolding MethodsWithGenericEntry_serialize_def MethodsWithGenericEntry_deserialize_def
  by (rule codec_intros)+ (cases v, simp add: MethodsWithGenericEntry.make_def)

record MethodsWithGenericResponse =
  methods :: "MethodsWithGenericEntry list"

definition MethodsWithGenericResponse_serialize ::
    "MethodsWithGenericResponse \<Rightarrow> writer_op" where
  "MethodsWithGenericResponse_serialize self = write_seq
     [write_counted MethodsWithGenericEntry_serialize (MethodsWithGenericResponse.methods self)]"

definition MethodsWithGenericResponse_deserialize :: "MethodsWithGenericResponse reader_op" where
  "MethodsWithGenericResponse_deserialize =
     rbind (read_counted MethodsWithGenericEntry_deserialize) (\<lambda>methods.
       rreturn (MethodsWithGenericResponse.make methods))"

lemma MethodsWithGenericResponse_codec [codec_intros]:
  "paired (MethodsWithGenericResponse_serialize v) MethodsWithGenericResponse_deserialize v"
  unfolding MethodsWithGenericResponse_serialize_def MethodsWithGenericResponse_deserialize_def
  by (rule codec_intros)+ (cases v, simp add: MethodsWithGenericResponse.make_def)

interpretation MethodsWithGenericResponse:
  codec MethodsWithGenericResponse_serialize MethodsWithGenericResponse_deserialize "\<lambda>_.
    True"
  by unfold_locales (rule MethodsWithGenericResponse_codec)

record MethodsWithGenericCommand =
  ref_type :: ReferenceTypeID

definition MethodsWithGenericCommand_class :: command_class where
  "MethodsWithGenericCommand_class = command_class.make 2 15 {ERR_NONE, ERR_CLASS_NOT_PREPARED,
     ERR_INVALID_CLASS, ERR_INVALID_OBJECT, ERR_VM_DEAD}"

definition MethodsWithGenericCommand_serialize ::
    "MethodsWithGenericCommand \<Rightarrow> writer_op" where
  "MethodsWithGenericCommand_serialize self = write_seq
     [write_reference_type_id (MethodsWithGenericCommand.ref_type self)]"

definition MethodsWithGenericCommand_deserialize :: "MethodsWithGenericCommand reader_op" where
  "MethodsWithGenericCommand_deserialize =
     rbind read_reference_type_id (\<lambda>ref_type.
       rreturn (MethodsWithGenericCommand.make ref_type))"

lemma MethodsWithGenericCommand_codec [codec_intros]:
  "paired (MethodsWithGenericCommand_serialize v) MethodsWithGenericCommand_deserialize v"
  unfolding MethodsWithGenericCommand_serialize_def MethodsWithGenericCommand_deserialize_def
  by (rule codec_intros)+ (cases v, simp add: MethodsWithGenericCommand.make_def)

interpretation MethodsWithGenericCommand:
  codec MethodsWithGenericCommand_serialize MethodsWithGenericCommand_deserialize "\<lambda>_.
    True"
  by unfold_locales (rule MethodsWithGenericCommand_codec)

section \<open>ReferenceType.Instances\<close>

record InstancesResponse =
  instances :: "TaggedObjectID list"

definition InstancesResponse_serialize :: "InstancesResponse \<Rightarrow> writer_op" where
  "InstancesResponse_serialize self = write_seq
     [write_counted write_tagged_object (InstancesResponse.instances self)]"

definition InstancesResponse_deserialize :: "InstancesResponse reader_op" where
  "InstancesResponse_deserialize =
     rbind (read_counted read_tagged_object) (\<lambda>instances.
       rreturn (InstancesResponse.make instances))"

lemma InstancesResponse_codec [codec_intros]:
  "paired (InstancesResponse_serialize v) InstancesResponse_deserialize v"
  unfolding InstancesResponse_serialize_def InstancesResponse_deserialize_def
  by (rule codec_intros)+ (cases v, simp add: InstancesResponse.make_def)

interpretation InstancesResponse:
  codec InstancesResponse_serialize InstancesResponse_deserialize "\<lambda>_. True"
  by unfold_locales (rule InstancesResponse_codec)

record InstancesCommand =
  ref_type :: ReferenceTypeID
  max_instances :: int

definition InstancesCommand_class :: command_class where
  "InstancesCommand_class = command_class.make 2 16 {ERR_NONE, ERR_ILLEGAL_ARGUMENT,
     ERR_INVALID_CLASS, ERR_INVALID_OBJECT, ERR_NOT_IMPLEMENTED, ERR_VM_DEAD}"

definition InstancesCommand_serialize :: "InstancesCommand \<Rightarrow> writer_op" where
  "InstancesCommand_serialize self = write_seq
     [write_reference_type_id (InstancesCommand.ref_type self),
      write_int (InstancesCommand.max_instances self)]"

definition InstancesCommand_deserialize :: "InstancesCommand reader_op" where
  "InstancesCommand_deserialize =
     rbind read_reference_type_id (\<lambda>ref_type.
     rbind read_int (\<lambda>max_instances.
       rreturn (InstancesCommand.make ref_type max_instances)))"

lemma InstancesCommand_codec [codec_intros]:
  "paired (InstancesCommand_serialize v) InstancesCommand_deserialize v"
  unfolding InstancesCommand_serialize_def InstancesCommand_deserialize_def
  by (rule codec_intros)+ (cases v, simp add: InstancesCommand.make_def)

interpretation InstancesCommand:
  codec InstancesCommand_serialize InstancesCommand_deserialize "\<lambda>_. True"
  by unfold_locales (rule InstancesCommand_codec)

section \<open>ReferenceType.ClassFileVersion\<close>

record ClassFileVersionResponse =
  major_version :: int
  minor_version :: int

definition ClassFileVersionResponse_serialize ::
    "ClassFileVersionResponse \<Rightarrow> writer_op" where
  "ClassFileVersionResponse_serialize self = write_seq
     [write_int (ClassFileVersionResponse.major_version self),
      write_int (ClassFileVersionResponse.minor_version self)]"

definition ClassFileVersionResponse_deserialize :: "ClassFileVersionResponse reader_op" where
  "ClassFileVersionResponse_deserialize =
     rbind read_int (\<lambda>major_version.
     rbind read_int (\<lambda>minor_version.
       rreturn (ClassFileVersionResponse.make major_version minor_version)))"

lemma ClassFileVersionResponse_codec [codec_intros]:
  "paired (ClassFileVersionResponse_serialize v) ClassFileVersionResponse_deserialize v"
  unfolding ClassFileVersionResponse_serialize_def ClassFileVersionResponse_deserialize_def
  by (rule codec_intros)+ (cases v, simp add: ClassFileVersionResponse.make_def)

interpretation ClassFileVersionResponse:
  codec ClassFileVersionResponse_serialize ClassFileVersionResponse_deserialize "\<lambda>_. True"
  by unfold_locales (rule ClassFileVersionResponse_codec)

record ClassFileVersionCommand =
  ref_type :: ReferenceTypeID

definition ClassFileVersionCommand_class :: command_class where
  "ClassFileVersionCommand_class = command_class.make 2 17 {ERR_NONE, ERR_ABSENT_INFORMATION,
     ERR_INVALID_CLASS, ERR_INVALID_OBJECT, ERR_VM_DEAD}"

definition ClassFileVersionCommand_serialize ::
    "ClassFileVersionCommand \<Rightarrow> writer_op" where
  "ClassFileVersionCommand_serialize self = write_seq
     [write_reference_type_id (ClassFileVersionCommand.ref_type self)]"

definition ClassFileVersionCommand_deserialize :: "ClassFileVersionCommand reader_op" where
  "ClassFileVersionCommand_deserialize =
     rbind read_reference_type_id (\<lambda>ref_type.
       rreturn (ClassFileVersionCommand.make ref_type))"

lemma ClassFileVersionCommand_codec [codec_intros]:
  "paired (ClassFileVersionCommand_serialize v) ClassFileVersionCommand_deserialize v"
  unfolding ClassFileVersionCommand_serialize_def ClassFileVersionCommand_deserialize_def
  by (rule codec_intros)+ (cases v, simp add: ClassFileVersionCommand.make_def)

interpretation ClassFileVersionCommand:
  codec ClassFileVersionCommand_serialize ClassFileVersionCommand_deserialize "\<lambda>_. True"
  by unfold_locales (rule ClassFileVersionCommand_codec)

section \<open>ReferenceType.ConstantPool\<close>

record ConstantPoolResponse =
  bytes :: bytes

definition ConstantPoolResponse_serialize :: "ConstantPoolResponse \<Rightarrow> writer_op" where
  "ConstantPoolResponse_serialize self = write_seq
     [write_counted write_raw_byte (ConstantPoolResponse.bytes self)]"

definition ConstantPoolResponse_deserialize :: "ConstantPoolResponse reader_op" where
  "ConstantPoolResponse_deserialize =
     rbind (read_counted read_raw_byte) (\<lambda>b.
       rreturn (ConstantPoolResponse.make b))"

lemma ConstantPoolResponse_codec [codec_intros]:
  "paired (ConstantPoolResponse_serialize v) ConstantPoolResponse_deserialize v"
  unfolding ConstantPoolResponse_serialize_def ConstantPoolResponse_deserialize_def
  by (rule codec_intros)+ (cases v, simp add: ConstantPoolResponse.make_def)

interpretation ConstantPoolResponse:
  codec ConstantPoolResponse_serialize ConstantPoolResponse_deserialize "\<lambda>_. True"
  by unfold_locales (rule ConstantPoolResponse_codec)

record ConstantPoolCommand =
  ref_type :: ReferenceTypeID

definition ConstantPoolCommand_class :: command_class where
  "ConstantPoolCommand_class = command_class.make 2 18 {ERR_NONE, ERR_ABSENT_INFORMATION,
     ERR_INVALID_CLASS, ERR_INVALID_OBJECT, ERR_NOT_IMPLEMENTED, ERR_VM_DEAD}"

definition ConstantPoolCommand_serialize :: "ConstantPoolCommand \<Rightarrow> writer_op" where
  "ConstantPoolCommand_serialize self = write_seq
     [write_reference_type_id (ConstantPoolCommand.ref_type self)]"

definition ConstantPoolCommand_deserialize :: "ConstantPoolCommand reader_op" where
  "ConstantPoolCommand_deserialize =
     rbind read_reference_type_id (\<lambda>ref_type.
       rreturn (ConstantPoolCommand.make ref_type))"

lemma ConstantPoolCommand_codec [codec_intros]:
  "paired (ConstantPoolCommand_serialize v) ConstantPoolCommand_deserialize v"
  unfolding ConstantPoolCommand_serialize_def ConstantPoolCommand_deserialize_def
  by (rule codec_intros)+ (cases v, simp add: ConstantPoolCommand.make_def)

interpretation ConstantPoolCommand:
  codec ConstantPoolCommand_serialize ConstantPoolCommand_deserialize "\<lambda>_. True"
  by unfold_locales (rule ConstantPoolCommand_codec)

section \<open>The classes of the module\<close>

text \<open>
  The instances of the module's command classes and the classes themselves, with the methods
  dispatched on them; the same for the responses; and the registrations its decorators make.
\<close>

datatype (plugins only: code) reference_type_command =
    SignatureCommand_obj SignatureCommand
  | ClassLoaderCommand_obj ClassLoaderCommand
  | ModifiersCommand_obj ModifiersCommand
  | FieldsCommand_obj FieldsCommand
  | MethodsCommand_obj MethodsCommand
  | ReferenceType_GetValuesCommand_obj ReferenceType_GetValuesCommand
  | SourceFileCommand_obj SourceFileCommand
  | NestedTypesCommand_obj NestedTypesCommand
  | ReferenceType_StatusCommand_obj ReferenceType_StatusCommand
  | InterfacesCommand_obj InterfacesCommand
  | ClassObjectCommand_obj ClassObjectCommand
  | SourceDebugExtensionCommand_obj SourceDebugExtensionCommand
  | SignatureWithGenericCommand_obj SignatureWithGenericCommand
  | FieldsWithGenericCommand_obj FieldsWithGenericCommand
  | MethodsWithGenericCommand_obj MethodsWithGenericCommand
  | InstancesCommand_obj InstancesCommand
  | ClassFileVersionCommand_obj ClassFileVersionCommand
  | ConstantPoolCommand_obj ConstantPoolCommand

datatype (plugins only: code) reference_type_command_class =
    SignatureCommand_cls
  | ClassLoaderCommand_cls
  | ModifiersCommand_cls
  | FieldsCommand_cls
  | MethodsCommand_cls
  | ReferenceType_GetValuesCommand_cls
  | SourceFileCommand_cls
  | NestedTypesCommand_cls
  | ReferenceType_StatusCommand_cls
  | InterfacesCommand_cls
  | ClassObjectCommand_cls
  | SourceDebugExtensionCommand_cls
  | SignatureWithGenericCommand_cls
  | FieldsWithGenericCommand_cls
  | MethodsWithGenericCommand_cls
  | InstancesCommand_cls
  | ClassFileVersionCommand_cls
  | ConstantPoolCommand_cls

primrec reference_type_command_class_of :: "reference_type_command \<Rightarrow> reference_type_command_class" where
  "reference_type_command_class_of (SignatureCommand_obj self) = SignatureCommand_cls"
| "reference_type_command_class_of (ClassLoaderCommand_obj self) = ClassLoaderCommand_cls"
| "reference_type_command_class_of (ModifiersCommand_obj self) = ModifiersCommand_cls"
| "reference_type_command_class_of (FieldsCommand_obj self) = FieldsCommand_cls"
| "reference_type_command_class_of (MethodsCommand_obj self) = MethodsCommand_cls"
| "reference_type_command_class_of (ReferenceType_GetValuesCommand_obj self) =
     ReferenceType_GetValuesCommand_cls"
| "reference_type_command_class_of (SourceFileCommand_obj self) = SourceFileCommand_cls"
| "reference_type_command_class_of (NestedTypesCommand_obj self) = NestedTypesCommand_cls"
| "reference_type_command_class_of (ReferenceType_StatusCommand_obj self) =
     ReferenceType_StatusCommand_cls"
| "reference_type_command_class_of (InterfacesCommand_obj self) = InterfacesCommand_cls"
| "reference_type_command_class_of (ClassObjectCommand_obj self) = ClassObjectCommand_cls"
| "reference_type_command_class_of (SourceDebugExtensionCommand_obj self) =
     SourceDebugExtensionCommand_cls"
| "reference_type_command_class_of (SignatureWithGenericCommand_obj self) =
     SignatureWithGenericCommand_cls"
| "reference_type_command_class_of (FieldsWithGenericCommand_obj self) =
     FieldsWithGenericCommand_cls"
| "reference_type_command_class_of (MethodsWithGenericCommand_obj self) =
     MethodsWithGenericCommand_cls"
| "reference_type_command_class_of (InstancesCommand_obj self) = InstancesCommand_cls"
| "reference_type_command_class_of (ClassFileVersionCommand_obj self) =
     ClassFileVersionCommand_cls"
| "reference_type_command_class_of (ConstantPoolCommand_obj self) = ConstantPoolCommand_cls"

primrec reference_type_command_vars :: "reference_type_command_class \<Rightarrow> command_class" where
  "reference_type_command_vars SignatureCommand_cls = SignatureCommand_class"
| "reference_type_command_vars ClassLoaderCommand_cls = ClassLoaderCommand_class"
| "reference_type_command_vars ModifiersCommand_cls = ModifiersCommand_class"
| "reference_type_command_vars FieldsCommand_cls = FieldsCommand_class"
| "reference_type_command_vars MethodsCommand_cls = MethodsCommand_class"
| "reference_type_command_vars ReferenceType_GetValuesCommand_cls =
     ReferenceType_GetValuesCommand_class"
| "reference_type_command_vars SourceFileCommand_cls = SourceFileCommand_class"
| "reference_type_command_vars NestedTypesCommand_cls = NestedTypesCommand_class"
| "reference_type_command_vars ReferenceType_StatusCommand_cls =
     ReferenceType_StatusCommand_class"
| "reference_type_command_vars InterfacesCommand_cls = InterfacesCommand_class"
| "reference_type_command_vars ClassObjectCommand_cls = ClassObjectCommand_class"
| "reference_type_command_vars SourceDebugExtensionCommand_cls =
     SourceDebugExtensionCommand_class"
| "reference_type_command_vars SignatureWithGenericCommand_cls =
     SignatureWithGenericCommand_class"
| "reference_type_command_vars FieldsWithGenericCommand_cls = FieldsWithGenericCommand_class"
| "reference_type_command_vars MethodsWithGenericCommand_cls = MethodsWithGenericCommand_class"
| "reference_type_command_vars InstancesCommand_cls = InstancesCommand_class"
| "reference_type_command_vars ClassFileVersionCommand_cls = ClassFileVersionCommand_class"
| "reference_type_command_vars ConstantPoolCommand_cls = ConstantPoolCommand_class"

primrec reference_type_command_name :: "reference_type_command_class \<Rightarrow> string" where
  "reference_type_command_name SignatureCommand_cls = ''SignatureCommand''"
| "reference_type_command_name ClassLoaderCommand_cls = ''ClassLoaderCommand''"
| "reference_type_command_name ModifiersCommand_cls = ''ModifiersCommand''"
| "reference_type_command_name FieldsCommand_cls = ''FieldsCommand''"
| "reference_type_command_name MethodsCommand_cls = ''MethodsCommand''"
| "reference_type_command_name ReferenceType_GetValuesCommand_cls = ''GetValuesCommand''"
| "reference_type_command_name SourceFileCommand_cls = ''SourceFileCommand''"
| "reference_type_command_name NestedTypesCommand_cls = ''NestedTypesCommand''"
| "reference_type_command_name ReferenceType_StatusCommand_cls = ''StatusCommand''"
| "reference_type_command_name InterfacesCommand_cls = ''InterfacesCommand''"
| "reference_type_command_name ClassObjectCommand_cls = ''ClassObjectCommand''"
| "reference_type_command_name SourceDebugExtensionCommand_cls = ''SourceDebugExtensionCommand''"
| "reference_type_command_name SignatureWithGenericCommand_cls = ''SignatureWithGenericCommand''"
| "reference_type_command_name FieldsWithGenericCommand_cls = ''FieldsWithGenericCommand''"
| "reference_type_command_name MethodsWithGenericCommand_cls = ''MethodsWithGenericCommand''"
| "reference_type_command_name InstancesCommand_cls = ''InstancesCommand''"
| "reference_type_command_name ClassFileVersionCommand_cls = ''ClassFileVersionCommand''"
| "reference_type_command_name ConstantPoolCommand_cls = ''ConstantPoolCommand''"

primrec reference_type_command_serialize :: "reference_type_command \<Rightarrow> writer_op" where
  "reference_type_command_serialize (SignatureCommand_obj self) = SignatureCommand_serialize self"
| "reference_type_command_serialize (ClassLoaderCommand_obj self) =
     ClassLoaderCommand_serialize self"
| "reference_type_command_serialize (ModifiersCommand_obj self) = ModifiersCommand_serialize self"
| "reference_type_command_serialize (FieldsCommand_obj self) = FieldsCommand_serialize self"
| "reference_type_command_serialize (MethodsCommand_obj self) = MethodsCommand_serialize self"
| "reference_type_command_serialize (ReferenceType_GetValuesCommand_obj self) =
     ReferenceType_GetValuesCommand_serialize self"
| "reference_type_command_serialize (SourceFileCommand_obj self) =
     SourceFileCommand_serialize self"
| "reference_type_command_serialize (NestedTypesCommand_obj self) =
     NestedTypesCommand_serialize self"
| "reference_type_command_serialize (ReferenceType_StatusCommand_obj self) =
     ReferenceType_StatusCommand_serialize self"
| "reference_type_command_serialize (InterfacesCommand_obj self) =
     InterfacesCommand_serialize self"
| "reference_type_command_serialize (ClassObjectCommand_obj self) =
     ClassObjectCommand_serialize self"
| "reference_type_command_serialize (SourceDebugExtensionCommand_obj self) =
     SourceDebugExtensionCommand_serialize self"
| "reference_type_command_serialize (SignatureWithGenericCommand_obj self) =
     SignatureWithGenericCommand_serialize self"
| "reference_type_command_serialize (FieldsWithGenericCommand_obj self) =
     FieldsWithGenericCommand_serialize self"
| "reference_type_command_serialize (MethodsWithGenericCommand_obj self) =
     MethodsWithGenericCommand_serialize self"
| "reference_type_command_serialize (InstancesCommand_obj self) = InstancesCommand_serialize self"
| "reference_type_command_serialize (ClassFileVersionCommand_obj self) =
     ClassFileVersionCommand_serialize self"
| "reference_type_command_serialize (ConstantPoolCommand_obj self) =
     ConstantPoolCommand_serialize self"

primrec reference_type_command_deserialize :: "reference_type_command_class \<Rightarrow> reference_type_command reader_op" where
  "reference_type_command_deserialize SignatureCommand_cls =
     of_class SignatureCommand_deserialize SignatureCommand_obj"
| "reference_type_command_deserialize ClassLoaderCommand_cls =
     of_class ClassLoaderCommand_deserialize ClassLoaderCommand_obj"
| "reference_type_command_deserialize ModifiersCommand_cls =
     of_class ModifiersCommand_deserialize ModifiersCommand_obj"
| "reference_type_command_deserialize FieldsCommand_cls =
     of_class FieldsCommand_deserialize FieldsCommand_obj"
| "reference_type_command_deserialize MethodsCommand_cls =
     of_class MethodsCommand_deserialize MethodsCommand_obj"
| "reference_type_command_deserialize ReferenceType_GetValuesCommand_cls =
     of_class ReferenceType_GetValuesCommand_deserialize ReferenceType_GetValuesCommand_obj"
| "reference_type_command_deserialize SourceFileCommand_cls =
     of_class SourceFileCommand_deserialize SourceFileCommand_obj"
| "reference_type_command_deserialize NestedTypesCommand_cls =
     of_class NestedTypesCommand_deserialize NestedTypesCommand_obj"
| "reference_type_command_deserialize ReferenceType_StatusCommand_cls =
     of_class ReferenceType_StatusCommand_deserialize ReferenceType_StatusCommand_obj"
| "reference_type_command_deserialize InterfacesCommand_cls =
     of_class InterfacesCommand_deserialize InterfacesCommand_obj"
| "reference_type_command_deserialize ClassObjectCommand_cls =
     of_class ClassObjectCommand_deserialize ClassObjectCommand_obj"
| "reference_type_command_deserialize SourceDebugExtensionCommand_cls =
     of_class SourceDebugExtensionCommand_deserialize SourceDebugExtensionCommand_obj"
| "reference_type_command_deserialize SignatureWithGenericCommand_cls =
     of_class SignatureWithGenericCommand_deserialize SignatureWithGenericCommand_obj"
| "reference_type_command_deserialize FieldsWithGenericCommand_cls =
     of_class FieldsWithGenericCommand_deserialize FieldsWithGenericCommand_obj"
| "reference_type_command_deserialize MethodsWithGenericCommand_cls =
     of_class MethodsWithGenericCommand_deserialize MethodsWithGenericCommand_obj"
| "reference_type_command_deserialize InstancesCommand_cls =
     of_class InstancesCommand_deserialize InstancesCommand_obj"
| "reference_type_command_deserialize ClassFileVersionCommand_cls =
     of_class ClassFileVersionCommand_deserialize ClassFileVersionCommand_obj"
| "reference_type_command_deserialize ConstantPoolCommand_cls =
     of_class ConstantPoolCommand_deserialize ConstantPoolCommand_obj"

interpretation reference_type_command:
  message_family reference_type_command_class_of reference_type_command_serialize
    reference_type_command_deserialize "\<lambda>_. True"
proof unfold_locales
  fix v
  show "paired (reference_type_command_serialize v)
      (reference_type_command_deserialize (reference_type_command_class_of v)) v"
    by (cases v) (auto intro!: of_class_codec codec_intros)
next
  fix c r v r' assume "reference_type_command_deserialize c r = Inr (v, r')"
  then show "reference_type_command_class_of v = c" by (cases c) (auto dest!: of_class_obj)
qed (rule TrueI)

datatype (plugins only: code) reference_type_response =
    SignatureResponse_obj SignatureResponse
  | ClassLoaderResponse_obj ClassLoaderResponse
  | ModifiersResponse_obj ModifiersResponse
  | FieldsResponse_obj FieldsResponse
  | MethodsResponse_obj MethodsResponse
  | ReferenceType_GetValuesResponse_obj ReferenceType_GetValuesResponse
  | SourceFileResponse_obj SourceFileResponse
  | NestedTypesResponse_obj NestedTypesResponse
  | ReferenceType_StatusResponse_obj ReferenceType_StatusResponse
  | InterfacesResponse_obj InterfacesResponse
  | ClassObjectResponse_obj ClassObjectResponse
  | SourceDebugExtensionResponse_obj SourceDebugExtensionResponse
  | SignatureWithGenericResponse_obj SignatureWithGenericResponse
  | FieldsWithGenericResponse_obj FieldsWithGenericResponse
  | MethodsWithGenericResponse_obj MethodsWithGenericResponse
  | InstancesResponse_obj InstancesResponse
  | ClassFileVersionResponse_obj ClassFileVersionResponse
  | ConstantPoolResponse_obj ConstantPoolResponse

datatype (plugins only: code) reference_type_response_class =
    SignatureResponse_cls
  | ClassLoaderResponse_cls
  | ModifiersResponse_cls
  | FieldsResponse_cls
  | MethodsResponse_cls
  | ReferenceType_GetValuesResponse_cls
  | SourceFileResponse_cls
  | NestedTypesResponse_cls
  | ReferenceType_StatusResponse_cls
  | InterfacesResponse_cls
  | ClassObjectResponse_cls
  | SourceDebugExtensionResponse_cls
  | SignatureWithGenericResponse_cls
  | FieldsWithGenericResponse_cls
  | MethodsWithGenericResponse_cls
  | InstancesResponse_cls
  | ClassFileVersionResponse_cls
  | ConstantPoolResponse_cls

primrec reference_type_response_class_of :: "reference_type_response \<Rightarrow> reference_type_response_class" where
  "reference_type_response_class_of (SignatureResponse_obj self) = SignatureResponse_cls"
| "reference_type_response_class_of (ClassLoaderResponse_obj self) = ClassLoaderResponse_cls"
| "reference_type_response_class_of (ModifiersResponse_obj self) = ModifiersResponse_cls"
| "reference_type_response_class_of (FieldsResponse_obj self) = FieldsResponse_cls"
| "reference_type_response_class_of (MethodsResponse_obj self) = MethodsResponse_cls"
| "reference_type_response_class_of (ReferenceType_GetValuesResponse_obj self) =
     ReferenceType_GetValuesResponse_cls"
| "reference_type_response_class_of (SourceFileResponse_obj self) = SourceFileResponse_cls"
| "reference_type_response_class_of (NestedTypesResponse_obj self) = NestedTypesResponse_cls"
| "reference_type_response_class_of (ReferenceType_StatusResponse_obj self) =
     ReferenceType_StatusResponse_cls"
| "reference_type_response_class_of (InterfacesResponse_obj self) = InterfacesResponse_cls"
| "reference_type_response_class_of (ClassObjectResponse_obj self) = ClassObjectResponse_cls"
| "reference_type_response_class_of (SourceDebugExtensionResponse_obj self) =
     SourceDebugExtensionResponse_cls"
| "reference_type_response_class_of (SignatureWithGenericResponse_obj self) =
     SignatureWithGenericResponse_cls"
| "reference_type_response_class_of (FieldsWithGenericResponse_obj self) =
     FieldsWithGenericResponse_cls"
| "reference_type_response_class_of (MethodsWithGenericResponse_obj self) =
     MethodsWithGenericResponse_cls"
| "reference_type_response_class_of (InstancesResponse_obj self) = InstancesResponse_cls"
| "reference_type_response_class_of (ClassFileVersionResponse_obj self) =
     ClassFileVersionResponse_cls"
| "reference_type_response_class_of (ConstantPoolResponse_obj self) = ConstantPoolResponse_cls"

primrec reference_type_response_serialize :: "reference_type_response \<Rightarrow> writer_op" where
  "reference_type_response_serialize (SignatureResponse_obj self) =
     SignatureResponse_serialize self"
| "reference_type_response_serialize (ClassLoaderResponse_obj self) =
     ClassLoaderResponse_serialize self"
| "reference_type_response_serialize (ModifiersResponse_obj self) =
     ModifiersResponse_serialize self"
| "reference_type_response_serialize (FieldsResponse_obj self) = FieldsResponse_serialize self"
| "reference_type_response_serialize (MethodsResponse_obj self) = MethodsResponse_serialize self"
| "reference_type_response_serialize (ReferenceType_GetValuesResponse_obj self) =
     ReferenceType_GetValuesResponse_serialize self"
| "reference_type_response_serialize (SourceFileResponse_obj self) =
     SourceFileResponse_serialize self"
| "reference_type_response_serialize (NestedTypesResponse_obj self) =
     NestedTypesResponse_serialize self"
| "reference_type_response_serialize (ReferenceType_StatusResponse_obj self) =
     ReferenceType_StatusResponse_serialize self"
| "reference_type_response_serialize (InterfacesResponse_obj self) =
     InterfacesResponse_serialize self"
| "reference_type_response_serialize (ClassObjectResponse_obj self) =
     ClassObjectResponse_serialize self"
| "reference_type_response_serialize (SourceDebugExtensionResponse_obj self) =
     SourceDebugExtensionResponse_serialize self"
| "reference_type_response_serialize (SignatureWithGenericResponse_obj self) =
     SignatureWithGenericResponse_serialize self"
| "reference_type_response_serialize (FieldsWithGenericResponse_obj self) =
     FieldsWithGenericResponse_serialize self"
| "reference_type_response_serialize (MethodsWithGenericResponse_obj self) =
     MethodsWithGenericResponse_serialize self"
| "reference_type_response_serialize (InstancesResponse_obj self) =
     InstancesResponse_serialize self"
| "reference_type_response_serialize (ClassFileVersionResponse_obj self) =
     ClassFileVersionResponse_serialize self"
| "reference_type_response_serialize (ConstantPoolResponse_obj self) =
     ConstantPoolResponse_serialize self"

primrec reference_type_response_deserialize :: "reference_type_response_class \<Rightarrow> reference_type_response reader_op" where
  "reference_type_response_deserialize SignatureResponse_cls =
     of_class SignatureResponse_deserialize SignatureResponse_obj"
| "reference_type_response_deserialize ClassLoaderResponse_cls =
     of_class ClassLoaderResponse_deserialize ClassLoaderResponse_obj"
| "reference_type_response_deserialize ModifiersResponse_cls =
     of_class ModifiersResponse_deserialize ModifiersResponse_obj"
| "reference_type_response_deserialize FieldsResponse_cls =
     of_class FieldsResponse_deserialize FieldsResponse_obj"
| "reference_type_response_deserialize MethodsResponse_cls =
     of_class MethodsResponse_deserialize MethodsResponse_obj"
| "reference_type_response_deserialize ReferenceType_GetValuesResponse_cls =
     of_class ReferenceType_GetValuesResponse_deserialize ReferenceType_GetValuesResponse_obj"
| "reference_type_response_deserialize SourceFileResponse_cls =
     of_class SourceFileResponse_deserialize SourceFileResponse_obj"
| "reference_type_response_deserialize NestedTypesResponse_cls =
     of_class NestedTypesResponse_deserialize NestedTypesResponse_obj"
| "reference_type_response_deserialize ReferenceType_StatusResponse_cls =
     of_class ReferenceType_StatusResponse_deserialize ReferenceType_StatusResponse_obj"
| "reference_type_response_deserialize InterfacesResponse_cls =
     of_class InterfacesResponse_deserialize InterfacesResponse_obj"
| "reference_type_response_deserialize ClassObjectResponse_cls =
     of_class ClassObjectResponse_deserialize ClassObjectResponse_obj"
| "reference_type_response_deserialize SourceDebugExtensionResponse_cls =
     of_class SourceDebugExtensionResponse_deserialize SourceDebugExtensionResponse_obj"
| "reference_type_response_deserialize SignatureWithGenericResponse_cls =
     of_class SignatureWithGenericResponse_deserialize SignatureWithGenericResponse_obj"
| "reference_type_response_deserialize FieldsWithGenericResponse_cls =
     of_class FieldsWithGenericResponse_deserialize FieldsWithGenericResponse_obj"
| "reference_type_response_deserialize MethodsWithGenericResponse_cls =
     of_class MethodsWithGenericResponse_deserialize MethodsWithGenericResponse_obj"
| "reference_type_response_deserialize InstancesResponse_cls =
     of_class InstancesResponse_deserialize InstancesResponse_obj"
| "reference_type_response_deserialize ClassFileVersionResponse_cls =
     of_class ClassFileVersionResponse_deserialize ClassFileVersionResponse_obj"
| "reference_type_response_deserialize ConstantPoolResponse_cls =
     of_class ConstantPoolResponse_deserialize ConstantPoolResponse_obj"

primrec reference_type_response_ok :: "reference_type_response \<Rightarrow> bool" where
  "reference_type_response_ok (SignatureResponse_obj self) = True"
| "reference_type_response_ok (ClassLoaderResponse_obj self) = True"
| "reference_type_response_ok (ModifiersResponse_obj self) = True"
| "reference_type_response_ok (FieldsResponse_obj self) = True"
| "reference_type_response_ok (MethodsResponse_obj self) = True"
| "reference_type_response_ok (ReferenceType_GetValuesResponse_obj self) =
     ReferenceType_GetValuesResponse_ok self"
| "reference_type_response_ok (SourceFileResponse_obj self) = True"
| "reference_type_response_ok (NestedTypesResponse_obj self) = True"
| "reference_type_response_ok (ReferenceType_StatusResponse_obj self) = True"
| "reference_type_response_ok (InterfacesResponse_obj self) = True"
| "reference_type_response_ok (ClassObjectResponse_obj self) = True"
| "reference_type_response_ok (SourceDebugExtensionResponse_obj self) = True"
| "reference_type_response_ok (SignatureWithGenericResponse_obj self) = True"
| "reference_type_response_ok (FieldsWithGenericResponse_obj self) = True"
| "reference_type_response_ok (MethodsWithGenericResponse_obj self) = True"
| "reference_type_response_ok (InstancesResponse_obj self) = True"
| "reference_type_response_ok (ClassFileVersionResponse_obj self) = True"
| "reference_type_response_ok (ConstantPoolResponse_obj self) = True"

interpretation reference_type_response:
  message_family reference_type_response_class_of reference_type_response_serialize
    reference_type_response_deserialize reference_type_response_ok
proof unfold_locales
  fix v assume "reference_type_response_ok v"
  then show "paired (reference_type_response_serialize v)
      (reference_type_response_deserialize (reference_type_response_class_of v)) v"
    by (cases v) (auto intro!: of_class_codec codec_intros)
next
  fix c r v r' assume "reference_type_response_deserialize c r = Inr (v, r')"
  then show "reference_type_response_class_of v = c" by (cases c) (auto dest!: of_class_obj)
next
  fix c r v r' assume "reference_type_response_deserialize c r = Inr (v, r')" and "array_element_tag r = None"
  then show "reference_type_response_ok v"
    by (cases c) (auto dest!: of_class_obj dest: ReferenceType_GetValuesResponse_yields [THEN yieldsD])
qed

definition reference_type_registrations ::
    "(reference_type_response_class option \<times> reference_type_command_class) list" where
  "reference_type_registrations =
    [(Some SignatureResponse_cls, SignatureCommand_cls),
     (Some ClassLoaderResponse_cls, ClassLoaderCommand_cls),
     (Some ModifiersResponse_cls, ModifiersCommand_cls),
     (Some FieldsResponse_cls, FieldsCommand_cls),
     (Some MethodsResponse_cls, MethodsCommand_cls),
     (Some ReferenceType_GetValuesResponse_cls, ReferenceType_GetValuesCommand_cls),
     (Some SourceFileResponse_cls, SourceFileCommand_cls),
     (Some NestedTypesResponse_cls, NestedTypesCommand_cls),
     (Some ReferenceType_StatusResponse_cls, ReferenceType_StatusCommand_cls),
     (Some InterfacesResponse_cls, InterfacesCommand_cls),
     (Some ClassObjectResponse_cls, ClassObjectCommand_cls),
     (Some SourceDebugExtensionResponse_cls, SourceDebugExtensionCommand_cls),
     (Some SignatureWithGenericResponse_cls, SignatureWithGenericCommand_cls),
     (Some FieldsWithGenericResponse_cls, FieldsWithGenericCommand_cls),
     (Some MethodsWithGenericResponse_cls, MethodsWithGenericCommand_cls),
     (Some InstancesResponse_cls, InstancesCommand_cls),
     (Some ClassFileVersionResponse_cls, ClassFileVersionCommand_cls),
     (Some ConstantPoolResponse_cls, ConstantPoolCommand_cls)]"

lemma reference_type_registered:
  "c \<in> snd ` set reference_type_registrations" "(None, c) \<notin> set reference_type_registrations"
  by (cases c, simp_all add: reference_type_registrations_def)

end
