(* ===== verification/Cmd_Class_Type.thy ===== *)
theory Cmd_Class_Type
  imports Codec
begin

text \<open>
  \<^verbatim>\<open>commands/class_type.py\<close>:
  the commands of set 3, on classes: superclass, static fields, static methods,
  construction.
  Each class is a record, with its \<open>serialize\<close> and \<open>deserialize\<close>; \<open>_class\<close> holds a command's
  class variables. The codec lemma of a class is its round trip, and the interpretation gives it the
  facts of every message class.
\<close>

section \<open>ClassType.Superclass\<close>

record SuperclassResponse =
  superclass :: ClassID

definition SuperclassResponse_serialize :: "SuperclassResponse \<Rightarrow> writer_op" where
  "SuperclassResponse_serialize self = write_seq
     [write_class_id (SuperclassResponse.superclass self)]"

definition SuperclassResponse_deserialize :: "SuperclassResponse reader_op" where
  "SuperclassResponse_deserialize =
     rbind read_class_id (\<lambda>superclass.
       rreturn (SuperclassResponse.make superclass))"

lemma SuperclassResponse_codec [codec_intros]:
  "paired (SuperclassResponse_serialize v) SuperclassResponse_deserialize v"
  unfolding SuperclassResponse_serialize_def SuperclassResponse_deserialize_def
  by (rule codec_intros)+ (cases v, simp add: SuperclassResponse.make_def)

interpretation SuperclassResponse:
  codec SuperclassResponse_serialize SuperclassResponse_deserialize "\<lambda>_. True"
  by unfold_locales (rule SuperclassResponse_codec)

record SuperclassCommand =
  clazz :: ClassID

definition SuperclassCommand_class :: command_class where
  "SuperclassCommand_class = command_class.make 3 1 {ERR_NONE, ERR_INVALID_CLASS,
     ERR_INVALID_OBJECT, ERR_VM_DEAD}"

definition SuperclassCommand_serialize :: "SuperclassCommand \<Rightarrow> writer_op" where
  "SuperclassCommand_serialize self = write_seq
     [write_class_id (SuperclassCommand.clazz self)]"

definition SuperclassCommand_deserialize :: "SuperclassCommand reader_op" where
  "SuperclassCommand_deserialize =
     rbind read_class_id (\<lambda>clazz.
       rreturn (SuperclassCommand.make clazz))"

lemma SuperclassCommand_codec [codec_intros]:
  "paired (SuperclassCommand_serialize v) SuperclassCommand_deserialize v"
  unfolding SuperclassCommand_serialize_def SuperclassCommand_deserialize_def
  by (rule codec_intros)+ (cases v, simp add: SuperclassCommand.make_def)

interpretation SuperclassCommand:
  codec SuperclassCommand_serialize SuperclassCommand_deserialize "\<lambda>_. True"
  by unfold_locales (rule SuperclassCommand_codec)

section \<open>ClassType.SetValues\<close>

record ClassType_SetValuesRequestSlot =
  field_id :: FieldID
  "value" :: JdwpValue

definition ClassType_SetValuesRequestSlot_serialize ::
    "ClassType_SetValuesRequestSlot \<Rightarrow> writer_op" where
  "ClassType_SetValuesRequestSlot_serialize self = write_seq
     [write_field_id (ClassType_SetValuesRequestSlot.field_id self),
      write_value (ClassType_SetValuesRequestSlot.value self)]"

definition ClassType_SetValuesRequestSlot_deserialize ::
    "ClassType_SetValuesRequestSlot reader_op" where
  "ClassType_SetValuesRequestSlot_deserialize =
     rbind read_field_id (\<lambda>field_id.
     rbind read_value (\<lambda>value.
       rreturn (ClassType_SetValuesRequestSlot.make field_id value)))"

definition ClassType_SetValuesRequestSlot_ok ::
    "ClassType_SetValuesRequestSlot \<Rightarrow> bool" where
  "ClassType_SetValuesRequestSlot_ok v \<longleftrightarrow> jdwp_value_ok
     (ClassType_SetValuesRequestSlot.value v)"

lemma ClassType_SetValuesRequestSlot_codec [codec_intros]:
  assumes "ClassType_SetValuesRequestSlot_ok v"
  shows "paired (ClassType_SetValuesRequestSlot_serialize v)
    ClassType_SetValuesRequestSlot_deserialize v"
  unfolding ClassType_SetValuesRequestSlot_serialize_def
    ClassType_SetValuesRequestSlot_deserialize_def
  by (insert assms [unfolded ClassType_SetValuesRequestSlot_ok_def],
      (erule conjE | rule codec_intros | assumption | erule (1) list_all_member)+)
    (cases v, simp add: ClassType_SetValuesRequestSlot.make_def)

lemma ClassType_SetValuesRequestSlot_yields [yields_intros]: "yields ClassType_SetValuesRequestSlot_deserialize ClassType_SetValuesRequestSlot_ok"
  unfolding ClassType_SetValuesRequestSlot_deserialize_def
  by ((rule yields_intros | rule yields_bind yields_return | rule yields_any)+)
    (simp add: ClassType_SetValuesRequestSlot_ok_def ClassType_SetValuesRequestSlot.make_def)

datatype (plugins only: code) ClassType_SetValuesResponse = ClassType_SetValuesResponse

definition ClassType_SetValuesResponse_serialize ::
    "ClassType_SetValuesResponse \<Rightarrow> writer_op" where
  "ClassType_SetValuesResponse_serialize self = write_seq []"

definition ClassType_SetValuesResponse_deserialize :: "ClassType_SetValuesResponse reader_op" where
  "ClassType_SetValuesResponse_deserialize = rreturn ClassType_SetValuesResponse"

lemma ClassType_SetValuesResponse_codec [codec_intros]:
  "paired (ClassType_SetValuesResponse_serialize v) ClassType_SetValuesResponse_deserialize v"
  unfolding ClassType_SetValuesResponse_serialize_def ClassType_SetValuesResponse_deserialize_def
  by (rule codec_intros)+ (cases v, simp)

interpretation ClassType_SetValuesResponse:
  codec ClassType_SetValuesResponse_serialize ClassType_SetValuesResponse_deserialize "\<lambda>_.
    True"
  by unfold_locales (rule ClassType_SetValuesResponse_codec)

record ClassType_SetValuesCommand =
  clazz :: ClassID
  slots :: "ClassType_SetValuesRequestSlot list"

definition ClassType_SetValuesCommand_class :: command_class where
  "ClassType_SetValuesCommand_class = command_class.make 3 2 {ERR_NONE, ERR_CLASS_NOT_PREPARED,
     ERR_INVALID_CLASS, ERR_INVALID_FIELDID, ERR_INVALID_OBJECT, ERR_VM_DEAD}"

definition ClassType_SetValuesCommand_serialize ::
    "ClassType_SetValuesCommand \<Rightarrow> writer_op" where
  "ClassType_SetValuesCommand_serialize self = write_seq
     [write_class_id (ClassType_SetValuesCommand.clazz self),
      write_counted ClassType_SetValuesRequestSlot_serialize (ClassType_SetValuesCommand.slots self)]"

definition ClassType_SetValuesCommand_deserialize :: "ClassType_SetValuesCommand reader_op" where
  "ClassType_SetValuesCommand_deserialize =
     rbind read_class_id (\<lambda>clazz.
     rbind (read_counted ClassType_SetValuesRequestSlot_deserialize) (\<lambda>slots.
       rreturn (ClassType_SetValuesCommand.make clazz slots)))"

definition ClassType_SetValuesCommand_ok :: "ClassType_SetValuesCommand \<Rightarrow> bool" where
  "ClassType_SetValuesCommand_ok v \<longleftrightarrow> list_all
     ClassType_SetValuesRequestSlot_ok (ClassType_SetValuesCommand.slots v)"

lemma ClassType_SetValuesCommand_codec [codec_intros]:
  assumes "ClassType_SetValuesCommand_ok v"
  shows "paired (ClassType_SetValuesCommand_serialize v) ClassType_SetValuesCommand_deserialize v"
  unfolding ClassType_SetValuesCommand_serialize_def ClassType_SetValuesCommand_deserialize_def
  by (insert assms [unfolded ClassType_SetValuesCommand_ok_def],
      (erule conjE | rule codec_intros | assumption | erule (1) list_all_member)+)
    (cases v, simp add: ClassType_SetValuesCommand.make_def)

lemma ClassType_SetValuesCommand_yields [yields_intros]: "yields ClassType_SetValuesCommand_deserialize ClassType_SetValuesCommand_ok"
  unfolding ClassType_SetValuesCommand_deserialize_def
  by ((rule yields_intros | rule yields_bind yields_return | rule yields_any)+)
    (simp add: ClassType_SetValuesCommand_ok_def ClassType_SetValuesCommand.make_def)

interpretation ClassType_SetValuesCommand:
  codec ClassType_SetValuesCommand_serialize ClassType_SetValuesCommand_deserialize
    ClassType_SetValuesCommand_ok
  by unfold_locales (rule ClassType_SetValuesCommand_codec)

section \<open>ClassType.InvokeMethod\<close>

record ClassType_InvokeMethodResponse =
  return_value :: JdwpValue
  "exception" :: TaggedObjectID

definition ClassType_InvokeMethodResponse_serialize ::
    "ClassType_InvokeMethodResponse \<Rightarrow> writer_op" where
  "ClassType_InvokeMethodResponse_serialize self = write_seq
     [write_value (ClassType_InvokeMethodResponse.return_value self),
      write_tagged_object (ClassType_InvokeMethodResponse.exception self)]"

definition ClassType_InvokeMethodResponse_deserialize ::
    "ClassType_InvokeMethodResponse reader_op" where
  "ClassType_InvokeMethodResponse_deserialize =
     rbind read_value (\<lambda>return_value.
     rbind read_tagged_object (\<lambda>exception.
       rreturn (ClassType_InvokeMethodResponse.make return_value exception)))"

definition ClassType_InvokeMethodResponse_ok ::
    "ClassType_InvokeMethodResponse \<Rightarrow> bool" where
  "ClassType_InvokeMethodResponse_ok v \<longleftrightarrow> jdwp_value_ok
     (ClassType_InvokeMethodResponse.return_value v)"

lemma ClassType_InvokeMethodResponse_codec [codec_intros]:
  assumes "ClassType_InvokeMethodResponse_ok v"
  shows "paired (ClassType_InvokeMethodResponse_serialize v)
    ClassType_InvokeMethodResponse_deserialize v"
  unfolding ClassType_InvokeMethodResponse_serialize_def
    ClassType_InvokeMethodResponse_deserialize_def
  by (insert assms [unfolded ClassType_InvokeMethodResponse_ok_def],
      (erule conjE | rule codec_intros | assumption | erule (1) list_all_member)+)
    (cases v, simp add: ClassType_InvokeMethodResponse.make_def)

lemma ClassType_InvokeMethodResponse_yields [yields_intros]: "yields ClassType_InvokeMethodResponse_deserialize ClassType_InvokeMethodResponse_ok"
  unfolding ClassType_InvokeMethodResponse_deserialize_def
  by ((rule yields_intros | rule yields_bind yields_return | rule yields_any)+)
    (simp add: ClassType_InvokeMethodResponse_ok_def ClassType_InvokeMethodResponse.make_def)

interpretation ClassType_InvokeMethodResponse:
  codec ClassType_InvokeMethodResponse_serialize ClassType_InvokeMethodResponse_deserialize
    ClassType_InvokeMethodResponse_ok
  by unfold_locales (rule ClassType_InvokeMethodResponse_codec)

record ClassType_InvokeMethodCommand =
  clazz :: ClassID
  thread :: ThreadID
  "method" :: MethodID
  arguments :: "JdwpValue list"
  options :: JdwpInvokeOptions

definition ClassType_InvokeMethodCommand_class :: command_class where
  "ClassType_InvokeMethodCommand_class = command_class.make 3 3 {ERR_NONE, ERR_INVALID_CLASS,
     ERR_INVALID_METHODID, ERR_INVALID_OBJECT, ERR_INVALID_THREAD, ERR_THREAD_NOT_SUSPENDED,
     ERR_VM_DEAD}"

definition ClassType_InvokeMethodCommand_serialize ::
    "ClassType_InvokeMethodCommand \<Rightarrow> writer_op" where
  "ClassType_InvokeMethodCommand_serialize self = write_seq
     [write_class_id (ClassType_InvokeMethodCommand.clazz self),
      write_thread_id (ClassType_InvokeMethodCommand.thread self),
      write_method_id (ClassType_InvokeMethodCommand.method self),
      write_counted write_value (ClassType_InvokeMethodCommand.arguments self),
      write_int (int (ClassType_InvokeMethodCommand.options self))]"

definition ClassType_InvokeMethodCommand_deserialize ::
    "ClassType_InvokeMethodCommand reader_op" where
  "ClassType_InvokeMethodCommand_deserialize =
     rbind read_class_id (\<lambda>clazz.
     rbind read_thread_id (\<lambda>thread.
     rbind read_method_id (\<lambda>method.
     rbind (read_counted read_value) (\<lambda>arguments.
     rbind (read_flag read_int JdwpInvokeOptions_of) (\<lambda>options.
       rreturn (ClassType_InvokeMethodCommand.make clazz thread method arguments options))))))"

definition ClassType_InvokeMethodCommand_ok ::
    "ClassType_InvokeMethodCommand \<Rightarrow> bool" where
  "ClassType_InvokeMethodCommand_ok v \<longleftrightarrow> list_all jdwp_value_ok
     (ClassType_InvokeMethodCommand.arguments v)"

lemma ClassType_InvokeMethodCommand_codec [codec_intros]:
  assumes "ClassType_InvokeMethodCommand_ok v"
  shows "paired (ClassType_InvokeMethodCommand_serialize v)
    ClassType_InvokeMethodCommand_deserialize v"
  unfolding ClassType_InvokeMethodCommand_serialize_def
    ClassType_InvokeMethodCommand_deserialize_def
  by (insert assms [unfolded ClassType_InvokeMethodCommand_ok_def],
      (erule conjE | rule codec_intros | assumption | erule (1) list_all_member)+)
    (cases v, simp add: ClassType_InvokeMethodCommand.make_def)

lemma ClassType_InvokeMethodCommand_yields [yields_intros]: "yields ClassType_InvokeMethodCommand_deserialize ClassType_InvokeMethodCommand_ok"
  unfolding ClassType_InvokeMethodCommand_deserialize_def
  by ((rule yields_intros | rule yields_bind yields_return | rule yields_any)+)
    (simp add: ClassType_InvokeMethodCommand_ok_def ClassType_InvokeMethodCommand.make_def)

interpretation ClassType_InvokeMethodCommand:
  codec ClassType_InvokeMethodCommand_serialize ClassType_InvokeMethodCommand_deserialize
    ClassType_InvokeMethodCommand_ok
  by unfold_locales (rule ClassType_InvokeMethodCommand_codec)

section \<open>ClassType.NewInstance\<close>

record ClassType_NewInstanceResponse =
  new_object :: TaggedObjectID
  "exception" :: TaggedObjectID

definition ClassType_NewInstanceResponse_serialize ::
    "ClassType_NewInstanceResponse \<Rightarrow> writer_op" where
  "ClassType_NewInstanceResponse_serialize self = write_seq
     [write_tagged_object (ClassType_NewInstanceResponse.new_object self),
      write_tagged_object (ClassType_NewInstanceResponse.exception self)]"

definition ClassType_NewInstanceResponse_deserialize ::
    "ClassType_NewInstanceResponse reader_op" where
  "ClassType_NewInstanceResponse_deserialize =
     rbind read_tagged_object (\<lambda>new_object.
     rbind read_tagged_object (\<lambda>exception.
       rreturn (ClassType_NewInstanceResponse.make new_object exception)))"

lemma ClassType_NewInstanceResponse_codec [codec_intros]:
  "paired (ClassType_NewInstanceResponse_serialize v) ClassType_NewInstanceResponse_deserialize v"
  unfolding ClassType_NewInstanceResponse_serialize_def
    ClassType_NewInstanceResponse_deserialize_def
  by (rule codec_intros)+ (cases v, simp add: ClassType_NewInstanceResponse.make_def)

interpretation ClassType_NewInstanceResponse:
  codec ClassType_NewInstanceResponse_serialize ClassType_NewInstanceResponse_deserialize
    "\<lambda>_. True"
  by unfold_locales (rule ClassType_NewInstanceResponse_codec)

record ClassType_NewInstanceCommand =
  clazz :: ClassID
  thread :: ThreadID
  "method" :: MethodID
  arguments :: "JdwpValue list"
  options :: JdwpInvokeOptions

definition ClassType_NewInstanceCommand_class :: command_class where
  "ClassType_NewInstanceCommand_class = command_class.make 3 4 {ERR_NONE, ERR_INVALID_CLASS,
     ERR_INVALID_METHODID, ERR_INVALID_OBJECT, ERR_INVALID_THREAD, ERR_THREAD_NOT_SUSPENDED,
     ERR_VM_DEAD}"

definition ClassType_NewInstanceCommand_serialize ::
    "ClassType_NewInstanceCommand \<Rightarrow> writer_op" where
  "ClassType_NewInstanceCommand_serialize self = write_seq
     [write_class_id (ClassType_NewInstanceCommand.clazz self),
      write_thread_id (ClassType_NewInstanceCommand.thread self),
      write_method_id (ClassType_NewInstanceCommand.method self),
      write_counted write_value (ClassType_NewInstanceCommand.arguments self),
      write_int (int (ClassType_NewInstanceCommand.options self))]"

definition ClassType_NewInstanceCommand_deserialize ::
    "ClassType_NewInstanceCommand reader_op" where
  "ClassType_NewInstanceCommand_deserialize =
     rbind read_class_id (\<lambda>clazz.
     rbind read_thread_id (\<lambda>thread.
     rbind read_method_id (\<lambda>method.
     rbind (read_counted read_value) (\<lambda>arguments.
     rbind (read_flag read_int JdwpInvokeOptions_of) (\<lambda>options.
       rreturn (ClassType_NewInstanceCommand.make clazz thread method arguments options))))))"

definition ClassType_NewInstanceCommand_ok ::
    "ClassType_NewInstanceCommand \<Rightarrow> bool" where
  "ClassType_NewInstanceCommand_ok v \<longleftrightarrow> list_all jdwp_value_ok
     (ClassType_NewInstanceCommand.arguments v)"

lemma ClassType_NewInstanceCommand_codec [codec_intros]:
  assumes "ClassType_NewInstanceCommand_ok v"
  shows "paired (ClassType_NewInstanceCommand_serialize v)
    ClassType_NewInstanceCommand_deserialize v"
  unfolding ClassType_NewInstanceCommand_serialize_def
    ClassType_NewInstanceCommand_deserialize_def
  by (insert assms [unfolded ClassType_NewInstanceCommand_ok_def],
      (erule conjE | rule codec_intros | assumption | erule (1) list_all_member)+)
    (cases v, simp add: ClassType_NewInstanceCommand.make_def)

lemma ClassType_NewInstanceCommand_yields [yields_intros]: "yields ClassType_NewInstanceCommand_deserialize ClassType_NewInstanceCommand_ok"
  unfolding ClassType_NewInstanceCommand_deserialize_def
  by ((rule yields_intros | rule yields_bind yields_return | rule yields_any)+)
    (simp add: ClassType_NewInstanceCommand_ok_def ClassType_NewInstanceCommand.make_def)

interpretation ClassType_NewInstanceCommand:
  codec ClassType_NewInstanceCommand_serialize ClassType_NewInstanceCommand_deserialize
    ClassType_NewInstanceCommand_ok
  by unfold_locales (rule ClassType_NewInstanceCommand_codec)

section \<open>The classes of the module\<close>

text \<open>
  The instances of the module's command classes and the classes themselves, with the methods
  dispatched on them; the same for the responses; and the registrations its decorators make.
\<close>

datatype (plugins only: code) class_type_command =
    SuperclassCommand_obj SuperclassCommand
  | ClassType_SetValuesCommand_obj ClassType_SetValuesCommand
  | ClassType_InvokeMethodCommand_obj ClassType_InvokeMethodCommand
  | ClassType_NewInstanceCommand_obj ClassType_NewInstanceCommand

datatype (plugins only: code) class_type_command_class =
    SuperclassCommand_cls
  | ClassType_SetValuesCommand_cls
  | ClassType_InvokeMethodCommand_cls
  | ClassType_NewInstanceCommand_cls

primrec class_type_command_class_of :: "class_type_command \<Rightarrow> class_type_command_class" where
  "class_type_command_class_of (SuperclassCommand_obj self) = SuperclassCommand_cls"
| "class_type_command_class_of (ClassType_SetValuesCommand_obj self) =
     ClassType_SetValuesCommand_cls"
| "class_type_command_class_of (ClassType_InvokeMethodCommand_obj self) =
     ClassType_InvokeMethodCommand_cls"
| "class_type_command_class_of (ClassType_NewInstanceCommand_obj self) =
     ClassType_NewInstanceCommand_cls"

primrec class_type_command_vars :: "class_type_command_class \<Rightarrow> command_class" where
  "class_type_command_vars SuperclassCommand_cls = SuperclassCommand_class"
| "class_type_command_vars ClassType_SetValuesCommand_cls = ClassType_SetValuesCommand_class"
| "class_type_command_vars ClassType_InvokeMethodCommand_cls =
     ClassType_InvokeMethodCommand_class"
| "class_type_command_vars ClassType_NewInstanceCommand_cls = ClassType_NewInstanceCommand_class"

primrec class_type_command_name :: "class_type_command_class \<Rightarrow> string" where
  "class_type_command_name SuperclassCommand_cls = ''SuperclassCommand''"
| "class_type_command_name ClassType_SetValuesCommand_cls = ''SetValuesCommand''"
| "class_type_command_name ClassType_InvokeMethodCommand_cls = ''InvokeMethodCommand''"
| "class_type_command_name ClassType_NewInstanceCommand_cls = ''NewInstanceCommand''"

primrec class_type_command_serialize :: "class_type_command \<Rightarrow> writer_op" where
  "class_type_command_serialize (SuperclassCommand_obj self) = SuperclassCommand_serialize self"
| "class_type_command_serialize (ClassType_SetValuesCommand_obj self) =
     ClassType_SetValuesCommand_serialize self"
| "class_type_command_serialize (ClassType_InvokeMethodCommand_obj self) =
     ClassType_InvokeMethodCommand_serialize self"
| "class_type_command_serialize (ClassType_NewInstanceCommand_obj self) =
     ClassType_NewInstanceCommand_serialize self"

primrec class_type_command_deserialize :: "class_type_command_class \<Rightarrow> class_type_command reader_op" where
  "class_type_command_deserialize SuperclassCommand_cls =
     of_class SuperclassCommand_deserialize SuperclassCommand_obj"
| "class_type_command_deserialize ClassType_SetValuesCommand_cls =
     of_class ClassType_SetValuesCommand_deserialize ClassType_SetValuesCommand_obj"
| "class_type_command_deserialize ClassType_InvokeMethodCommand_cls =
     of_class ClassType_InvokeMethodCommand_deserialize ClassType_InvokeMethodCommand_obj"
| "class_type_command_deserialize ClassType_NewInstanceCommand_cls =
     of_class ClassType_NewInstanceCommand_deserialize ClassType_NewInstanceCommand_obj"

primrec class_type_command_ok :: "class_type_command \<Rightarrow> bool" where
  "class_type_command_ok (SuperclassCommand_obj self) = True"
| "class_type_command_ok (ClassType_SetValuesCommand_obj self) =
     ClassType_SetValuesCommand_ok self"
| "class_type_command_ok (ClassType_InvokeMethodCommand_obj self) =
     ClassType_InvokeMethodCommand_ok self"
| "class_type_command_ok (ClassType_NewInstanceCommand_obj self) =
     ClassType_NewInstanceCommand_ok self"

interpretation class_type_command:
  message_family class_type_command_class_of class_type_command_serialize
    class_type_command_deserialize class_type_command_ok
proof unfold_locales
  fix v assume "class_type_command_ok v"
  then show "paired (class_type_command_serialize v)
      (class_type_command_deserialize (class_type_command_class_of v)) v"
    by (cases v) (auto intro!: of_class_codec codec_intros)
next
  fix c r v r' assume "class_type_command_deserialize c r = Inr (v, r')"
  then show "class_type_command_class_of v = c" by (cases c) (auto dest!: of_class_obj)
next
  fix c r v r' assume "class_type_command_deserialize c r = Inr (v, r')" and "array_element_tag r = None"
  then show "class_type_command_ok v"
    by (cases c) (auto dest!: of_class_obj dest: ClassType_SetValuesCommand_yields [THEN yieldsD]
        ClassType_InvokeMethodCommand_yields [THEN yieldsD]
        ClassType_NewInstanceCommand_yields [THEN yieldsD])
qed

datatype (plugins only: code) class_type_response =
    SuperclassResponse_obj SuperclassResponse
  | ClassType_SetValuesResponse_obj ClassType_SetValuesResponse
  | ClassType_InvokeMethodResponse_obj ClassType_InvokeMethodResponse
  | ClassType_NewInstanceResponse_obj ClassType_NewInstanceResponse

datatype (plugins only: code) class_type_response_class =
    SuperclassResponse_cls
  | ClassType_SetValuesResponse_cls
  | ClassType_InvokeMethodResponse_cls
  | ClassType_NewInstanceResponse_cls

primrec class_type_response_class_of :: "class_type_response \<Rightarrow> class_type_response_class" where
  "class_type_response_class_of (SuperclassResponse_obj self) = SuperclassResponse_cls"
| "class_type_response_class_of (ClassType_SetValuesResponse_obj self) =
     ClassType_SetValuesResponse_cls"
| "class_type_response_class_of (ClassType_InvokeMethodResponse_obj self) =
     ClassType_InvokeMethodResponse_cls"
| "class_type_response_class_of (ClassType_NewInstanceResponse_obj self) =
     ClassType_NewInstanceResponse_cls"

primrec class_type_response_serialize :: "class_type_response \<Rightarrow> writer_op" where
  "class_type_response_serialize (SuperclassResponse_obj self) =
     SuperclassResponse_serialize self"
| "class_type_response_serialize (ClassType_SetValuesResponse_obj self) =
     ClassType_SetValuesResponse_serialize self"
| "class_type_response_serialize (ClassType_InvokeMethodResponse_obj self) =
     ClassType_InvokeMethodResponse_serialize self"
| "class_type_response_serialize (ClassType_NewInstanceResponse_obj self) =
     ClassType_NewInstanceResponse_serialize self"

primrec class_type_response_deserialize :: "class_type_response_class \<Rightarrow> class_type_response reader_op" where
  "class_type_response_deserialize SuperclassResponse_cls =
     of_class SuperclassResponse_deserialize SuperclassResponse_obj"
| "class_type_response_deserialize ClassType_SetValuesResponse_cls =
     of_class ClassType_SetValuesResponse_deserialize ClassType_SetValuesResponse_obj"
| "class_type_response_deserialize ClassType_InvokeMethodResponse_cls =
     of_class ClassType_InvokeMethodResponse_deserialize ClassType_InvokeMethodResponse_obj"
| "class_type_response_deserialize ClassType_NewInstanceResponse_cls =
     of_class ClassType_NewInstanceResponse_deserialize ClassType_NewInstanceResponse_obj"

primrec class_type_response_ok :: "class_type_response \<Rightarrow> bool" where
  "class_type_response_ok (SuperclassResponse_obj self) = True"
| "class_type_response_ok (ClassType_SetValuesResponse_obj self) = True"
| "class_type_response_ok (ClassType_InvokeMethodResponse_obj self) =
     ClassType_InvokeMethodResponse_ok self"
| "class_type_response_ok (ClassType_NewInstanceResponse_obj self) = True"

interpretation class_type_response:
  message_family class_type_response_class_of class_type_response_serialize
    class_type_response_deserialize class_type_response_ok
proof unfold_locales
  fix v assume "class_type_response_ok v"
  then show "paired (class_type_response_serialize v)
      (class_type_response_deserialize (class_type_response_class_of v)) v"
    by (cases v) (auto intro!: of_class_codec codec_intros)
next
  fix c r v r' assume "class_type_response_deserialize c r = Inr (v, r')"
  then show "class_type_response_class_of v = c" by (cases c) (auto dest!: of_class_obj)
next
  fix c r v r' assume "class_type_response_deserialize c r = Inr (v, r')" and "array_element_tag r = None"
  then show "class_type_response_ok v"
    by (cases c) (auto dest!: of_class_obj dest: ClassType_InvokeMethodResponse_yields [THEN yieldsD])
qed

definition class_type_registrations ::
    "(class_type_response_class option \<times> class_type_command_class) list" where
  "class_type_registrations =
    [(Some SuperclassResponse_cls, SuperclassCommand_cls),
     (Some ClassType_SetValuesResponse_cls, ClassType_SetValuesCommand_cls),
     (Some ClassType_InvokeMethodResponse_cls, ClassType_InvokeMethodCommand_cls),
     (Some ClassType_NewInstanceResponse_cls, ClassType_NewInstanceCommand_cls)]"

lemma class_type_registered:
  "c \<in> snd ` set class_type_registrations" "(None, c) \<notin> set class_type_registrations"
  by (cases c, simp_all add: class_type_registrations_def)

end
