(* ===== verification/Cmd_Array_Type.thy ===== *)
theory Cmd_Array_Type
  imports Codec
begin

text \<open>
  \<^verbatim>\<open>commands/array_type.py\<close>:
  the command of set 4, which creates arrays.
  Each class is a record, with its \<open>serialize\<close> and \<open>deserialize\<close>; \<open>_class\<close> holds a command's
  class variables. The codec lemma of a class is its round trip, and the interpretation gives it the
  facts of every message class.
\<close>

section \<open>ArrayType.NewInstance\<close>

record ArrayType_NewInstanceResponse =
  new_array :: ArrayObjectID

definition ArrayType_NewInstanceResponse_serialize ::
    "ArrayType_NewInstanceResponse \<Rightarrow> writer_op" where
  "ArrayType_NewInstanceResponse_serialize self = write_seq
     [write_array_object_id (ArrayType_NewInstanceResponse.new_array self)]"

definition ArrayType_NewInstanceResponse_deserialize ::
    "ArrayType_NewInstanceResponse reader_op" where
  "ArrayType_NewInstanceResponse_deserialize =
     rbind read_array_object_id (\<lambda>new_array.
       rreturn (ArrayType_NewInstanceResponse.make new_array))"

lemma ArrayType_NewInstanceResponse_codec [codec_intros]:
  "paired (ArrayType_NewInstanceResponse_serialize v) ArrayType_NewInstanceResponse_deserialize v"
  unfolding ArrayType_NewInstanceResponse_serialize_def
    ArrayType_NewInstanceResponse_deserialize_def
  by (rule codec_intros)+ (cases v, simp add: ArrayType_NewInstanceResponse.make_def)

interpretation ArrayType_NewInstanceResponse:
  codec ArrayType_NewInstanceResponse_serialize ArrayType_NewInstanceResponse_deserialize
    "\<lambda>_. True"
  by unfold_locales (rule ArrayType_NewInstanceResponse_codec)

record ArrayType_NewInstanceCommand =
  arr_type :: ArrayTypeID
  length' :: int

definition ArrayType_NewInstanceCommand_class :: command_class where
  "ArrayType_NewInstanceCommand_class = command_class.make 4 1 {ERR_NONE, ERR_INVALID_ARRAY,
     ERR_INVALID_OBJECT, ERR_VM_DEAD}"

definition ArrayType_NewInstanceCommand_serialize ::
    "ArrayType_NewInstanceCommand \<Rightarrow> writer_op" where
  "ArrayType_NewInstanceCommand_serialize self = write_seq
     [write_array_type_id (ArrayType_NewInstanceCommand.arr_type self),
      write_int (ArrayType_NewInstanceCommand.length' self)]"

definition ArrayType_NewInstanceCommand_deserialize ::
    "ArrayType_NewInstanceCommand reader_op" where
  "ArrayType_NewInstanceCommand_deserialize =
     rbind read_array_type_id (\<lambda>arr_type.
     rbind read_int (\<lambda>length'.
       rreturn (ArrayType_NewInstanceCommand.make arr_type length')))"

lemma ArrayType_NewInstanceCommand_codec [codec_intros]:
  "paired (ArrayType_NewInstanceCommand_serialize v) ArrayType_NewInstanceCommand_deserialize v"
  unfolding ArrayType_NewInstanceCommand_serialize_def
    ArrayType_NewInstanceCommand_deserialize_def
  by (rule codec_intros)+ (cases v, simp add: ArrayType_NewInstanceCommand.make_def)

interpretation ArrayType_NewInstanceCommand:
  codec ArrayType_NewInstanceCommand_serialize ArrayType_NewInstanceCommand_deserialize
    "\<lambda>_. True"
  by unfold_locales (rule ArrayType_NewInstanceCommand_codec)

section \<open>The classes of the module\<close>

text \<open>
  The instances of the module's command classes and the classes themselves, with the methods
  dispatched on them; the same for the responses; and the registrations its decorators make.
\<close>

datatype (plugins only: code) array_type_command =
    ArrayType_NewInstanceCommand_obj ArrayType_NewInstanceCommand

datatype (plugins only: code) array_type_command_class =
    ArrayType_NewInstanceCommand_cls

primrec array_type_command_class_of :: "array_type_command \<Rightarrow> array_type_command_class" where
  "array_type_command_class_of (ArrayType_NewInstanceCommand_obj self) =
     ArrayType_NewInstanceCommand_cls"

primrec array_type_command_vars :: "array_type_command_class \<Rightarrow> command_class" where
  "array_type_command_vars ArrayType_NewInstanceCommand_cls = ArrayType_NewInstanceCommand_class"

primrec array_type_command_name :: "array_type_command_class \<Rightarrow> string" where
  "array_type_command_name ArrayType_NewInstanceCommand_cls = ''NewInstanceCommand''"

primrec array_type_command_serialize :: "array_type_command \<Rightarrow> writer_op" where
  "array_type_command_serialize (ArrayType_NewInstanceCommand_obj self) =
     ArrayType_NewInstanceCommand_serialize self"

primrec array_type_command_deserialize :: "array_type_command_class \<Rightarrow> array_type_command reader_op" where
  "array_type_command_deserialize ArrayType_NewInstanceCommand_cls =
     of_class ArrayType_NewInstanceCommand_deserialize ArrayType_NewInstanceCommand_obj"

interpretation array_type_command:
  message_family array_type_command_class_of array_type_command_serialize
    array_type_command_deserialize "\<lambda>_. True"
proof unfold_locales
  fix v
  show "paired (array_type_command_serialize v)
      (array_type_command_deserialize (array_type_command_class_of v)) v"
    by (cases v) (auto intro!: of_class_codec codec_intros)
next
  fix c r v r' assume "array_type_command_deserialize c r = Inr (v, r')"
  then show "array_type_command_class_of v = c" by (cases c) (auto dest!: of_class_obj)
qed (rule TrueI)

datatype (plugins only: code) array_type_response =
    ArrayType_NewInstanceResponse_obj ArrayType_NewInstanceResponse

datatype (plugins only: code) array_type_response_class =
    ArrayType_NewInstanceResponse_cls

primrec array_type_response_class_of :: "array_type_response \<Rightarrow> array_type_response_class" where
  "array_type_response_class_of (ArrayType_NewInstanceResponse_obj self) =
     ArrayType_NewInstanceResponse_cls"

primrec array_type_response_serialize :: "array_type_response \<Rightarrow> writer_op" where
  "array_type_response_serialize (ArrayType_NewInstanceResponse_obj self) =
     ArrayType_NewInstanceResponse_serialize self"

primrec array_type_response_deserialize :: "array_type_response_class \<Rightarrow> array_type_response reader_op" where
  "array_type_response_deserialize ArrayType_NewInstanceResponse_cls =
     of_class ArrayType_NewInstanceResponse_deserialize ArrayType_NewInstanceResponse_obj"

interpretation array_type_response:
  message_family array_type_response_class_of array_type_response_serialize
    array_type_response_deserialize "\<lambda>_. True"
proof unfold_locales
  fix v
  show "paired (array_type_response_serialize v)
      (array_type_response_deserialize (array_type_response_class_of v)) v"
    by (cases v) (auto intro!: of_class_codec codec_intros)
next
  fix c r v r' assume "array_type_response_deserialize c r = Inr (v, r')"
  then show "array_type_response_class_of v = c" by (cases c) (auto dest!: of_class_obj)
qed (rule TrueI)

definition array_type_registrations ::
    "(array_type_response_class option \<times> array_type_command_class) list" where
  "array_type_registrations =
    [(Some ArrayType_NewInstanceResponse_cls, ArrayType_NewInstanceCommand_cls)]"

lemma array_type_registered:
  "c \<in> snd ` set array_type_registrations" "(None, c) \<notin> set array_type_registrations"
  by (cases c, simp_all add: array_type_registrations_def)

end
