(* ===== verification/Cmd_Interface_Type.thy ===== *)
theory Cmd_Interface_Type
  imports Codec
begin

text \<open>
  \<^verbatim>\<open>commands/interface_type.py\<close>:
  the command of set 5, which invokes static interface methods.
  Each class is a record, with its \<open>serialize\<close> and \<open>deserialize\<close>; \<open>_class\<close> holds a command's
  class variables. The codec lemma of a class is its round trip, and the interpretation gives it the
  facts of every message class.
\<close>

section \<open>InterfaceType.InvokeMethod\<close>

record InterfaceType_InvokeMethodResponse =
  return_value :: JdwpValue
  "exception" :: TaggedObjectID

definition InterfaceType_InvokeMethodResponse_serialize ::
    "InterfaceType_InvokeMethodResponse \<Rightarrow> writer_op" where
  "InterfaceType_InvokeMethodResponse_serialize self = write_seq
     [write_value (InterfaceType_InvokeMethodResponse.return_value self),
      write_tagged_object (InterfaceType_InvokeMethodResponse.exception self)]"

definition InterfaceType_InvokeMethodResponse_deserialize ::
    "InterfaceType_InvokeMethodResponse reader_op" where
  "InterfaceType_InvokeMethodResponse_deserialize =
     rbind read_value (\<lambda>return_value.
     rbind read_tagged_object (\<lambda>exception.
       rreturn (InterfaceType_InvokeMethodResponse.make return_value exception)))"

definition InterfaceType_InvokeMethodResponse_ok ::
    "InterfaceType_InvokeMethodResponse \<Rightarrow> bool" where
  "InterfaceType_InvokeMethodResponse_ok v \<longleftrightarrow> jdwp_value_ok
     (InterfaceType_InvokeMethodResponse.return_value v)"

lemma InterfaceType_InvokeMethodResponse_codec [codec_intros]:
  assumes "InterfaceType_InvokeMethodResponse_ok v"
  shows "paired (InterfaceType_InvokeMethodResponse_serialize v)
    InterfaceType_InvokeMethodResponse_deserialize v"
  unfolding InterfaceType_InvokeMethodResponse_serialize_def
    InterfaceType_InvokeMethodResponse_deserialize_def
  by (insert assms [unfolded InterfaceType_InvokeMethodResponse_ok_def],
      (erule conjE | rule codec_intros | assumption | erule (1) list_all_member)+)
    (cases v, simp add: InterfaceType_InvokeMethodResponse.make_def)

lemma InterfaceType_InvokeMethodResponse_yields [yields_intros]: "yields InterfaceType_InvokeMethodResponse_deserialize InterfaceType_InvokeMethodResponse_ok"
  unfolding InterfaceType_InvokeMethodResponse_deserialize_def
  by ((rule yields_intros | rule yields_bind yields_return | rule yields_any)+)
    (simp add: InterfaceType_InvokeMethodResponse_ok_def InterfaceType_InvokeMethodResponse.make_def)

interpretation InterfaceType_InvokeMethodResponse:
  codec InterfaceType_InvokeMethodResponse_serialize
    InterfaceType_InvokeMethodResponse_deserialize InterfaceType_InvokeMethodResponse_ok
  by unfold_locales (rule InterfaceType_InvokeMethodResponse_codec)

record InterfaceType_InvokeMethodCommand =
  clazz :: InterfaceID
  thread :: ThreadID
  "method" :: MethodID
  arguments :: "JdwpValue list"
  options :: JdwpInvokeOptions

definition InterfaceType_InvokeMethodCommand_class :: command_class where
  "InterfaceType_InvokeMethodCommand_class = command_class.make 5 1 {ERR_NONE,
     ERR_INVALID_CLASS, ERR_INVALID_METHODID, ERR_INVALID_OBJECT, ERR_INVALID_THREAD,
     ERR_THREAD_NOT_SUSPENDED, ERR_VM_DEAD}"

definition InterfaceType_InvokeMethodCommand_serialize ::
    "InterfaceType_InvokeMethodCommand \<Rightarrow> writer_op" where
  "InterfaceType_InvokeMethodCommand_serialize self = write_seq
     [write_interface_id (InterfaceType_InvokeMethodCommand.clazz self),
      write_thread_id (InterfaceType_InvokeMethodCommand.thread self),
      write_method_id (InterfaceType_InvokeMethodCommand.method self),
      write_counted write_value (InterfaceType_InvokeMethodCommand.arguments self),
      write_int (int (InterfaceType_InvokeMethodCommand.options self))]"

definition InterfaceType_InvokeMethodCommand_deserialize ::
    "InterfaceType_InvokeMethodCommand reader_op" where
  "InterfaceType_InvokeMethodCommand_deserialize =
     rbind read_interface_id (\<lambda>clazz.
     rbind read_thread_id (\<lambda>thread.
     rbind read_method_id (\<lambda>method.
     rbind (read_counted read_value) (\<lambda>arguments.
     rbind (read_flag read_int JdwpInvokeOptions_of) (\<lambda>options.
       rreturn (InterfaceType_InvokeMethodCommand.make clazz thread method arguments
         options))))))"

definition InterfaceType_InvokeMethodCommand_ok ::
    "InterfaceType_InvokeMethodCommand \<Rightarrow> bool" where
  "InterfaceType_InvokeMethodCommand_ok v \<longleftrightarrow> list_all jdwp_value_ok
     (InterfaceType_InvokeMethodCommand.arguments v)"

lemma InterfaceType_InvokeMethodCommand_codec [codec_intros]:
  assumes "InterfaceType_InvokeMethodCommand_ok v"
  shows "paired (InterfaceType_InvokeMethodCommand_serialize v)
    InterfaceType_InvokeMethodCommand_deserialize v"
  unfolding InterfaceType_InvokeMethodCommand_serialize_def
    InterfaceType_InvokeMethodCommand_deserialize_def
  by (insert assms [unfolded InterfaceType_InvokeMethodCommand_ok_def],
      (erule conjE | rule codec_intros | assumption | erule (1) list_all_member)+)
    (cases v, simp add: InterfaceType_InvokeMethodCommand.make_def)

lemma InterfaceType_InvokeMethodCommand_yields [yields_intros]: "yields InterfaceType_InvokeMethodCommand_deserialize InterfaceType_InvokeMethodCommand_ok"
  unfolding InterfaceType_InvokeMethodCommand_deserialize_def
  by ((rule yields_intros | rule yields_bind yields_return | rule yields_any)+)
    (simp add: InterfaceType_InvokeMethodCommand_ok_def InterfaceType_InvokeMethodCommand.make_def)

interpretation InterfaceType_InvokeMethodCommand:
  codec InterfaceType_InvokeMethodCommand_serialize InterfaceType_InvokeMethodCommand_deserialize
    InterfaceType_InvokeMethodCommand_ok
  by unfold_locales (rule InterfaceType_InvokeMethodCommand_codec)

section \<open>The classes of the module\<close>

text \<open>
  The instances of the module's command classes and the classes themselves, with the methods
  dispatched on them; the same for the responses; and the registrations its decorators make.
\<close>

datatype (plugins only: code) interface_type_command =
    InterfaceType_InvokeMethodCommand_obj InterfaceType_InvokeMethodCommand

datatype (plugins only: code) interface_type_command_class =
    InterfaceType_InvokeMethodCommand_cls

primrec interface_type_command_class_of :: "interface_type_command \<Rightarrow> interface_type_command_class" where
  "interface_type_command_class_of (InterfaceType_InvokeMethodCommand_obj self) =
     InterfaceType_InvokeMethodCommand_cls"

primrec interface_type_command_vars :: "interface_type_command_class \<Rightarrow> command_class" where
  "interface_type_command_vars InterfaceType_InvokeMethodCommand_cls =
     InterfaceType_InvokeMethodCommand_class"

primrec interface_type_command_name :: "interface_type_command_class \<Rightarrow> string" where
  "interface_type_command_name InterfaceType_InvokeMethodCommand_cls = ''InvokeMethodCommand''"

primrec interface_type_command_serialize :: "interface_type_command \<Rightarrow> writer_op" where
  "interface_type_command_serialize (InterfaceType_InvokeMethodCommand_obj self) =
     InterfaceType_InvokeMethodCommand_serialize self"

primrec interface_type_command_deserialize :: "interface_type_command_class \<Rightarrow> interface_type_command reader_op" where
  "interface_type_command_deserialize InterfaceType_InvokeMethodCommand_cls =
     of_class InterfaceType_InvokeMethodCommand_deserialize InterfaceType_InvokeMethodCommand_obj"

primrec interface_type_command_ok :: "interface_type_command \<Rightarrow> bool" where
  "interface_type_command_ok (InterfaceType_InvokeMethodCommand_obj self) =
     InterfaceType_InvokeMethodCommand_ok self"

interpretation interface_type_command:
  message_family interface_type_command_class_of interface_type_command_serialize
    interface_type_command_deserialize interface_type_command_ok
proof unfold_locales
  fix v assume "interface_type_command_ok v"
  then show "paired (interface_type_command_serialize v)
      (interface_type_command_deserialize (interface_type_command_class_of v)) v"
    by (cases v) (auto intro!: of_class_codec codec_intros)
next
  fix c r v r' assume "interface_type_command_deserialize c r = Inr (v, r')"
  then show "interface_type_command_class_of v = c" by (cases c) (auto dest!: of_class_obj)
next
  fix c r v r' assume "interface_type_command_deserialize c r = Inr (v, r')" and "array_element_tag r = None"
  then show "interface_type_command_ok v"
    by (cases c) (auto dest!: of_class_obj dest: InterfaceType_InvokeMethodCommand_yields [THEN yieldsD])
qed

datatype (plugins only: code) interface_type_response =
    InterfaceType_InvokeMethodResponse_obj InterfaceType_InvokeMethodResponse

datatype (plugins only: code) interface_type_response_class =
    InterfaceType_InvokeMethodResponse_cls

primrec interface_type_response_class_of :: "interface_type_response \<Rightarrow> interface_type_response_class" where
  "interface_type_response_class_of (InterfaceType_InvokeMethodResponse_obj self) =
     InterfaceType_InvokeMethodResponse_cls"

primrec interface_type_response_serialize :: "interface_type_response \<Rightarrow> writer_op" where
  "interface_type_response_serialize (InterfaceType_InvokeMethodResponse_obj self) =
     InterfaceType_InvokeMethodResponse_serialize self"

primrec interface_type_response_deserialize :: "interface_type_response_class \<Rightarrow> interface_type_response reader_op" where
  "interface_type_response_deserialize InterfaceType_InvokeMethodResponse_cls =
     of_class InterfaceType_InvokeMethodResponse_deserialize InterfaceType_InvokeMethodResponse_obj"

primrec interface_type_response_ok :: "interface_type_response \<Rightarrow> bool" where
  "interface_type_response_ok (InterfaceType_InvokeMethodResponse_obj self) =
     InterfaceType_InvokeMethodResponse_ok self"

interpretation interface_type_response:
  message_family interface_type_response_class_of interface_type_response_serialize
    interface_type_response_deserialize interface_type_response_ok
proof unfold_locales
  fix v assume "interface_type_response_ok v"
  then show "paired (interface_type_response_serialize v)
      (interface_type_response_deserialize (interface_type_response_class_of v)) v"
    by (cases v) (auto intro!: of_class_codec codec_intros)
next
  fix c r v r' assume "interface_type_response_deserialize c r = Inr (v, r')"
  then show "interface_type_response_class_of v = c" by (cases c) (auto dest!: of_class_obj)
next
  fix c r v r' assume "interface_type_response_deserialize c r = Inr (v, r')" and "array_element_tag r = None"
  then show "interface_type_response_ok v"
    by (cases c) (auto dest!: of_class_obj dest: InterfaceType_InvokeMethodResponse_yields [THEN yieldsD])
qed

definition interface_type_registrations ::
    "(interface_type_response_class option \<times> interface_type_command_class) list" where
  "interface_type_registrations =
    [(Some InterfaceType_InvokeMethodResponse_cls, InterfaceType_InvokeMethodCommand_cls)]"

lemma interface_type_registered:
  "c \<in> snd ` set interface_type_registrations" "(None, c) \<notin> set interface_type_registrations"
  by (cases c, simp_all add: interface_type_registrations_def)

end
