(* ===== verification/Cmd_Class_Object_Reference.thy ===== *)
theory Cmd_Class_Object_Reference
  imports Codec
begin

text \<open>
  \<^verbatim>\<open>commands/class_object_reference.py\<close>:
  the command of set 17, which maps a class object to its type.
  Each class is a record, with its \<open>serialize\<close> and \<open>deserialize\<close>; \<open>_class\<close> holds a command's
  class variables. The codec lemma of a class is its round trip, and the interpretation gives it the
  facts of every message class.
\<close>

section \<open>ClassObjectReference.ReflectedType\<close>

record ReflectedTypeResponse =
  ref_type_tag :: JdwpTypeTag
  type_id :: ReferenceTypeID

definition ReflectedTypeResponse_serialize :: "ReflectedTypeResponse \<Rightarrow> writer_op" where
  "ReflectedTypeResponse_serialize self = write_seq
     [write_byte (type_tag_value (ReflectedTypeResponse.ref_type_tag self)),
      write_reference_type_id (ReflectedTypeResponse.type_id self)]"

definition ReflectedTypeResponse_deserialize :: "ReflectedTypeResponse reader_op" where
  "ReflectedTypeResponse_deserialize =
     rbind (read_enum read_byte JdwpTypeTag_of) (\<lambda>ref_type_tag.
     rbind read_reference_type_id (\<lambda>type_id.
       rreturn (ReflectedTypeResponse.make ref_type_tag type_id)))"

lemma ReflectedTypeResponse_codec [codec_intros]:
  "paired (ReflectedTypeResponse_serialize v) ReflectedTypeResponse_deserialize v"
  unfolding ReflectedTypeResponse_serialize_def ReflectedTypeResponse_deserialize_def
  by (rule codec_intros)+ (cases v, simp add: ReflectedTypeResponse.make_def)

interpretation ReflectedTypeResponse:
  codec ReflectedTypeResponse_serialize ReflectedTypeResponse_deserialize "\<lambda>_. True"
  by unfold_locales (rule ReflectedTypeResponse_codec)

record ReflectedTypeCommand =
  class_object :: ObjectID

definition ReflectedTypeCommand_class :: command_class where
  "ReflectedTypeCommand_class = command_class.make 17 1 {ERR_NONE, ERR_INVALID_OBJECT,
     ERR_VM_DEAD}"

definition ReflectedTypeCommand_serialize :: "ReflectedTypeCommand \<Rightarrow> writer_op" where
  "ReflectedTypeCommand_serialize self = write_seq
     [write_object_id (ReflectedTypeCommand.class_object self)]"

definition ReflectedTypeCommand_deserialize :: "ReflectedTypeCommand reader_op" where
  "ReflectedTypeCommand_deserialize =
     rbind read_object_id (\<lambda>class_object.
       rreturn (ReflectedTypeCommand.make class_object))"

lemma ReflectedTypeCommand_codec [codec_intros]:
  "paired (ReflectedTypeCommand_serialize v) ReflectedTypeCommand_deserialize v"
  unfolding ReflectedTypeCommand_serialize_def ReflectedTypeCommand_deserialize_def
  by (rule codec_intros)+ (cases v, simp add: ReflectedTypeCommand.make_def)

interpretation ReflectedTypeCommand:
  codec ReflectedTypeCommand_serialize ReflectedTypeCommand_deserialize "\<lambda>_. True"
  by unfold_locales (rule ReflectedTypeCommand_codec)

section \<open>The classes of the module\<close>

text \<open>
  The instances of the module's command classes and the classes themselves, with the methods
  dispatched on them; the same for the responses; and the registrations its decorators make.
\<close>

datatype (plugins only: code) class_object_reference_command =
    ReflectedTypeCommand_obj ReflectedTypeCommand

datatype (plugins only: code) class_object_reference_command_class =
    ReflectedTypeCommand_cls

primrec class_object_reference_command_class_of :: "class_object_reference_command \<Rightarrow> class_object_reference_command_class" where
  "class_object_reference_command_class_of (ReflectedTypeCommand_obj self) =
     ReflectedTypeCommand_cls"

primrec class_object_reference_command_vars :: "class_object_reference_command_class \<Rightarrow> command_class" where
  "class_object_reference_command_vars ReflectedTypeCommand_cls = ReflectedTypeCommand_class"

primrec class_object_reference_command_name :: "class_object_reference_command_class \<Rightarrow> string" where
  "class_object_reference_command_name ReflectedTypeCommand_cls = ''ReflectedTypeCommand''"

primrec class_object_reference_command_serialize :: "class_object_reference_command \<Rightarrow> writer_op" where
  "class_object_reference_command_serialize (ReflectedTypeCommand_obj self) =
     ReflectedTypeCommand_serialize self"

primrec class_object_reference_command_deserialize :: "class_object_reference_command_class \<Rightarrow> class_object_reference_command reader_op" where
  "class_object_reference_command_deserialize ReflectedTypeCommand_cls =
     of_class ReflectedTypeCommand_deserialize ReflectedTypeCommand_obj"

interpretation class_object_reference_command:
  message_family class_object_reference_command_class_of class_object_reference_command_serialize
    class_object_reference_command_deserialize "\<lambda>_. True"
proof unfold_locales
  fix v
  show "paired (class_object_reference_command_serialize v)
      (class_object_reference_command_deserialize (class_object_reference_command_class_of v)) v"
    by (cases v) (auto intro!: of_class_codec codec_intros)
next
  fix c r v r' assume "class_object_reference_command_deserialize c r = Inr (v, r')"
  then show "class_object_reference_command_class_of v = c" by (cases c) (auto dest!: of_class_obj)
qed (rule TrueI)

datatype (plugins only: code) class_object_reference_response =
    ReflectedTypeResponse_obj ReflectedTypeResponse

datatype (plugins only: code) class_object_reference_response_class =
    ReflectedTypeResponse_cls

primrec class_object_reference_response_class_of :: "class_object_reference_response \<Rightarrow> class_object_reference_response_class" where
  "class_object_reference_response_class_of (ReflectedTypeResponse_obj self) =
     ReflectedTypeResponse_cls"

primrec class_object_reference_response_serialize :: "class_object_reference_response \<Rightarrow> writer_op" where
  "class_object_reference_response_serialize (ReflectedTypeResponse_obj self) =
     ReflectedTypeResponse_serialize self"

primrec class_object_reference_response_deserialize :: "class_object_reference_response_class \<Rightarrow> class_object_reference_response reader_op" where
  "class_object_reference_response_deserialize ReflectedTypeResponse_cls =
     of_class ReflectedTypeResponse_deserialize ReflectedTypeResponse_obj"

interpretation class_object_reference_response:
  message_family class_object_reference_response_class_of
    class_object_reference_response_serialize class_object_reference_response_deserialize
    "\<lambda>_. True"
proof unfold_locales
  fix v
  show "paired (class_object_reference_response_serialize v)
      (class_object_reference_response_deserialize (class_object_reference_response_class_of v)) v"
    by (cases v) (auto intro!: of_class_codec codec_intros)
next
  fix c r v r' assume "class_object_reference_response_deserialize c r = Inr (v, r')"
  then show "class_object_reference_response_class_of v = c" by (cases c) (auto dest!: of_class_obj)
qed (rule TrueI)

definition class_object_reference_registrations ::
    "(class_object_reference_response_class option \<times> class_object_reference_command_class) list" where
  "class_object_reference_registrations =
    [(Some ReflectedTypeResponse_cls, ReflectedTypeCommand_cls)]"

lemma class_object_reference_registered:
  "c \<in> snd ` set class_object_reference_registrations" "(None, c) \<notin> set class_object_reference_registrations"
  by (cases c, simp_all add: class_object_reference_registrations_def)

end
