(* ===== verification/Cmd_Stack_Frame.thy ===== *)
theory Cmd_Stack_Frame
  imports Codec
begin

text \<open>
  \<^verbatim>\<open>commands/stack_frame.py\<close>:
  the commands of set 16, on stack frames.
  Each class is a record, with its \<open>serialize\<close> and \<open>deserialize\<close>; \<open>_class\<close> holds a command's
  class variables. The codec lemma of a class is its round trip, and the interpretation gives it the
  facts of every message class.
\<close>

section \<open>StackFrame.GetValues\<close>

record GetValuesRequestSlot =
  slot :: int
  sig_byte :: JdwpTag

definition GetValuesRequestSlot_serialize :: "GetValuesRequestSlot \<Rightarrow> writer_op" where
  "GetValuesRequestSlot_serialize self = write_seq
     [write_int (GetValuesRequestSlot.slot self),
      write_byte (tag_value (GetValuesRequestSlot.sig_byte self))]"

definition GetValuesRequestSlot_deserialize :: "GetValuesRequestSlot reader_op" where
  "GetValuesRequestSlot_deserialize =
     rbind read_int (\<lambda>slot.
     rbind (read_enum read_byte JdwpTag_of) (\<lambda>sig_byte.
       rreturn (GetValuesRequestSlot.make slot sig_byte)))"

lemma GetValuesRequestSlot_codec [codec_intros]:
  "paired (GetValuesRequestSlot_serialize v) GetValuesRequestSlot_deserialize v"
  unfolding GetValuesRequestSlot_serialize_def GetValuesRequestSlot_deserialize_def
  by (rule codec_intros)+ (cases v, simp add: GetValuesRequestSlot.make_def)

record StackFrame_GetValuesResponse =
  "values" :: "JdwpValue list"

definition StackFrame_GetValuesResponse_serialize ::
    "StackFrame_GetValuesResponse \<Rightarrow> writer_op" where
  "StackFrame_GetValuesResponse_serialize self = write_seq
     [write_counted write_value (StackFrame_GetValuesResponse.values self)]"

definition StackFrame_GetValuesResponse_deserialize ::
    "StackFrame_GetValuesResponse reader_op" where
  "StackFrame_GetValuesResponse_deserialize =
     rbind (read_counted read_value) (\<lambda>values.
       rreturn (StackFrame_GetValuesResponse.make values))"

definition StackFrame_GetValuesResponse_ok ::
    "StackFrame_GetValuesResponse \<Rightarrow> bool" where
  "StackFrame_GetValuesResponse_ok v \<longleftrightarrow> list_all jdwp_value_ok
     (StackFrame_GetValuesResponse.values v)"

lemma StackFrame_GetValuesResponse_codec [codec_intros]:
  assumes "StackFrame_GetValuesResponse_ok v"
  shows "paired (StackFrame_GetValuesResponse_serialize v)
    StackFrame_GetValuesResponse_deserialize v"
  unfolding StackFrame_GetValuesResponse_serialize_def
    StackFrame_GetValuesResponse_deserialize_def
  by (insert assms [unfolded StackFrame_GetValuesResponse_ok_def],
      (erule conjE | rule codec_intros | assumption | erule (1) list_all_member)+)
    (cases v, simp add: StackFrame_GetValuesResponse.make_def)

lemma StackFrame_GetValuesResponse_yields [yields_intros]: "yields StackFrame_GetValuesResponse_deserialize StackFrame_GetValuesResponse_ok"
  unfolding StackFrame_GetValuesResponse_deserialize_def
  by ((rule yields_intros | rule yields_bind yields_return | rule yields_any)+)
    (simp add: StackFrame_GetValuesResponse_ok_def StackFrame_GetValuesResponse.make_def)

interpretation StackFrame_GetValuesResponse:
  codec StackFrame_GetValuesResponse_serialize StackFrame_GetValuesResponse_deserialize
    StackFrame_GetValuesResponse_ok
  by unfold_locales (rule StackFrame_GetValuesResponse_codec)

record StackFrame_GetValuesCommand =
  thread :: ThreadID
  frame :: FrameID
  slots :: "GetValuesRequestSlot list"

definition StackFrame_GetValuesCommand_class :: command_class where
  "StackFrame_GetValuesCommand_class = command_class.make 16 1 {ERR_NONE, ERR_INVALID_FRAMEID,
     ERR_INVALID_OBJECT, ERR_INVALID_SLOT, ERR_INVALID_THREAD, ERR_VM_DEAD}"

definition StackFrame_GetValuesCommand_serialize ::
    "StackFrame_GetValuesCommand \<Rightarrow> writer_op" where
  "StackFrame_GetValuesCommand_serialize self = write_seq
     [write_thread_id (StackFrame_GetValuesCommand.thread self),
      write_frame_id (StackFrame_GetValuesCommand.frame self),
      write_counted GetValuesRequestSlot_serialize (StackFrame_GetValuesCommand.slots self)]"

definition StackFrame_GetValuesCommand_deserialize :: "StackFrame_GetValuesCommand reader_op" where
  "StackFrame_GetValuesCommand_deserialize =
     rbind read_thread_id (\<lambda>thread.
     rbind read_frame_id (\<lambda>frame.
     rbind (read_counted GetValuesRequestSlot_deserialize) (\<lambda>slots.
       rreturn (StackFrame_GetValuesCommand.make thread frame slots))))"

lemma StackFrame_GetValuesCommand_codec [codec_intros]:
  "paired (StackFrame_GetValuesCommand_serialize v) StackFrame_GetValuesCommand_deserialize v"
  unfolding StackFrame_GetValuesCommand_serialize_def StackFrame_GetValuesCommand_deserialize_def
  by (rule codec_intros)+ (cases v, simp add: StackFrame_GetValuesCommand.make_def)

interpretation StackFrame_GetValuesCommand:
  codec StackFrame_GetValuesCommand_serialize StackFrame_GetValuesCommand_deserialize "\<lambda>_.
    True"
  by unfold_locales (rule StackFrame_GetValuesCommand_codec)

section \<open>StackFrame.SetValues\<close>

record StackFrame_SetValuesRequestSlot =
  slot :: int
  "value" :: JdwpValue

definition StackFrame_SetValuesRequestSlot_serialize ::
    "StackFrame_SetValuesRequestSlot \<Rightarrow> writer_op" where
  "StackFrame_SetValuesRequestSlot_serialize self = write_seq
     [write_int (StackFrame_SetValuesRequestSlot.slot self),
      write_value (StackFrame_SetValuesRequestSlot.value self)]"

definition StackFrame_SetValuesRequestSlot_deserialize ::
    "StackFrame_SetValuesRequestSlot reader_op" where
  "StackFrame_SetValuesRequestSlot_deserialize =
     rbind read_int (\<lambda>slot.
     rbind read_value (\<lambda>value.
       rreturn (StackFrame_SetValuesRequestSlot.make slot value)))"

definition StackFrame_SetValuesRequestSlot_ok ::
    "StackFrame_SetValuesRequestSlot \<Rightarrow> bool" where
  "StackFrame_SetValuesRequestSlot_ok v \<longleftrightarrow> jdwp_value_ok
     (StackFrame_SetValuesRequestSlot.value v)"

lemma StackFrame_SetValuesRequestSlot_codec [codec_intros]:
  assumes "StackFrame_SetValuesRequestSlot_ok v"
  shows "paired (StackFrame_SetValuesRequestSlot_serialize v)
    StackFrame_SetValuesRequestSlot_deserialize v"
  unfolding StackFrame_SetValuesRequestSlot_serialize_def
    StackFrame_SetValuesRequestSlot_deserialize_def
  by (insert assms [unfolded StackFrame_SetValuesRequestSlot_ok_def],
      (erule conjE | rule codec_intros | assumption | erule (1) list_all_member)+)
    (cases v, simp add: StackFrame_SetValuesRequestSlot.make_def)

lemma StackFrame_SetValuesRequestSlot_yields [yields_intros]: "yields StackFrame_SetValuesRequestSlot_deserialize StackFrame_SetValuesRequestSlot_ok"
  unfolding StackFrame_SetValuesRequestSlot_deserialize_def
  by ((rule yields_intros | rule yields_bind yields_return | rule yields_any)+)
    (simp add: StackFrame_SetValuesRequestSlot_ok_def StackFrame_SetValuesRequestSlot.make_def)

datatype (plugins only: code) StackFrame_SetValuesResponse = StackFrame_SetValuesResponse

definition StackFrame_SetValuesResponse_serialize ::
    "StackFrame_SetValuesResponse \<Rightarrow> writer_op" where
  "StackFrame_SetValuesResponse_serialize self = write_seq []"

definition StackFrame_SetValuesResponse_deserialize ::
    "StackFrame_SetValuesResponse reader_op" where
  "StackFrame_SetValuesResponse_deserialize = rreturn StackFrame_SetValuesResponse"

lemma StackFrame_SetValuesResponse_codec [codec_intros]:
  "paired (StackFrame_SetValuesResponse_serialize v) StackFrame_SetValuesResponse_deserialize v"
  unfolding StackFrame_SetValuesResponse_serialize_def
    StackFrame_SetValuesResponse_deserialize_def
  by (rule codec_intros)+ (cases v, simp)

interpretation StackFrame_SetValuesResponse:
  codec StackFrame_SetValuesResponse_serialize StackFrame_SetValuesResponse_deserialize
    "\<lambda>_. True"
  by unfold_locales (rule StackFrame_SetValuesResponse_codec)

record StackFrame_SetValuesCommand =
  thread :: ThreadID
  frame :: FrameID
  slots :: "StackFrame_SetValuesRequestSlot list"

definition StackFrame_SetValuesCommand_class :: command_class where
  "StackFrame_SetValuesCommand_class = command_class.make 16 2 {ERR_NONE, ERR_INVALID_FRAMEID,
     ERR_INVALID_OBJECT, ERR_INVALID_THREAD, ERR_OPAQUE_FRAME, ERR_VM_DEAD}"

definition StackFrame_SetValuesCommand_serialize ::
    "StackFrame_SetValuesCommand \<Rightarrow> writer_op" where
  "StackFrame_SetValuesCommand_serialize self = write_seq
     [write_thread_id (StackFrame_SetValuesCommand.thread self),
      write_frame_id (StackFrame_SetValuesCommand.frame self),
      write_counted StackFrame_SetValuesRequestSlot_serialize (StackFrame_SetValuesCommand.slots self)]"

definition StackFrame_SetValuesCommand_deserialize :: "StackFrame_SetValuesCommand reader_op" where
  "StackFrame_SetValuesCommand_deserialize =
     rbind read_thread_id (\<lambda>thread.
     rbind read_frame_id (\<lambda>frame.
     rbind (read_counted StackFrame_SetValuesRequestSlot_deserialize) (\<lambda>slots.
       rreturn (StackFrame_SetValuesCommand.make thread frame slots))))"

definition StackFrame_SetValuesCommand_ok :: "StackFrame_SetValuesCommand \<Rightarrow> bool" where
  "StackFrame_SetValuesCommand_ok v \<longleftrightarrow> list_all
     StackFrame_SetValuesRequestSlot_ok (StackFrame_SetValuesCommand.slots v)"

lemma StackFrame_SetValuesCommand_codec [codec_intros]:
  assumes "StackFrame_SetValuesCommand_ok v"
  shows "paired (StackFrame_SetValuesCommand_serialize v) StackFrame_SetValuesCommand_deserialize
    v"
  unfolding StackFrame_SetValuesCommand_serialize_def StackFrame_SetValuesCommand_deserialize_def
  by (insert assms [unfolded StackFrame_SetValuesCommand_ok_def],
      (erule conjE | rule codec_intros | assumption | erule (1) list_all_member)+)
    (cases v, simp add: StackFrame_SetValuesCommand.make_def)

lemma StackFrame_SetValuesCommand_yields [yields_intros]: "yields StackFrame_SetValuesCommand_deserialize StackFrame_SetValuesCommand_ok"
  unfolding StackFrame_SetValuesCommand_deserialize_def
  by ((rule yields_intros | rule yields_bind yields_return | rule yields_any)+)
    (simp add: StackFrame_SetValuesCommand_ok_def StackFrame_SetValuesCommand.make_def)

interpretation StackFrame_SetValuesCommand:
  codec StackFrame_SetValuesCommand_serialize StackFrame_SetValuesCommand_deserialize
    StackFrame_SetValuesCommand_ok
  by unfold_locales (rule StackFrame_SetValuesCommand_codec)

section \<open>StackFrame.ThisObject\<close>

record ThisObjectResponse =
  this_object :: TaggedObjectID

definition ThisObjectResponse_serialize :: "ThisObjectResponse \<Rightarrow> writer_op" where
  "ThisObjectResponse_serialize self = write_seq
     [write_tagged_object (ThisObjectResponse.this_object self)]"

definition ThisObjectResponse_deserialize :: "ThisObjectResponse reader_op" where
  "ThisObjectResponse_deserialize =
     rbind read_tagged_object (\<lambda>this_object.
       rreturn (ThisObjectResponse.make this_object))"

lemma ThisObjectResponse_codec [codec_intros]:
  "paired (ThisObjectResponse_serialize v) ThisObjectResponse_deserialize v"
  unfolding ThisObjectResponse_serialize_def ThisObjectResponse_deserialize_def
  by (rule codec_intros)+ (cases v, simp add: ThisObjectResponse.make_def)

interpretation ThisObjectResponse:
  codec ThisObjectResponse_serialize ThisObjectResponse_deserialize "\<lambda>_. True"
  by unfold_locales (rule ThisObjectResponse_codec)

record ThisObjectCommand =
  thread :: ThreadID
  frame :: FrameID

definition ThisObjectCommand_class :: command_class where
  "ThisObjectCommand_class = command_class.make 16 3 {ERR_NONE, ERR_INVALID_FRAMEID,
     ERR_INVALID_OBJECT, ERR_INVALID_THREAD, ERR_VM_DEAD}"

definition ThisObjectCommand_serialize :: "ThisObjectCommand \<Rightarrow> writer_op" where
  "ThisObjectCommand_serialize self = write_seq
     [write_thread_id (ThisObjectCommand.thread self),
      write_frame_id (ThisObjectCommand.frame self)]"

definition ThisObjectCommand_deserialize :: "ThisObjectCommand reader_op" where
  "ThisObjectCommand_deserialize =
     rbind read_thread_id (\<lambda>thread.
     rbind read_frame_id (\<lambda>frame.
       rreturn (ThisObjectCommand.make thread frame)))"

lemma ThisObjectCommand_codec [codec_intros]:
  "paired (ThisObjectCommand_serialize v) ThisObjectCommand_deserialize v"
  unfolding ThisObjectCommand_serialize_def ThisObjectCommand_deserialize_def
  by (rule codec_intros)+ (cases v, simp add: ThisObjectCommand.make_def)

interpretation ThisObjectCommand:
  codec ThisObjectCommand_serialize ThisObjectCommand_deserialize "\<lambda>_. True"
  by unfold_locales (rule ThisObjectCommand_codec)

section \<open>StackFrame.PopFrames\<close>

datatype (plugins only: code) PopFramesResponse = PopFramesResponse

definition PopFramesResponse_serialize :: "PopFramesResponse \<Rightarrow> writer_op" where
  "PopFramesResponse_serialize self = write_seq []"

definition PopFramesResponse_deserialize :: "PopFramesResponse reader_op" where
  "PopFramesResponse_deserialize = rreturn PopFramesResponse"

lemma PopFramesResponse_codec [codec_intros]:
  "paired (PopFramesResponse_serialize v) PopFramesResponse_deserialize v"
  unfolding PopFramesResponse_serialize_def PopFramesResponse_deserialize_def
  by (rule codec_intros)+ (cases v, simp)

interpretation PopFramesResponse:
  codec PopFramesResponse_serialize PopFramesResponse_deserialize "\<lambda>_. True"
  by unfold_locales (rule PopFramesResponse_codec)

record PopFramesCommand =
  thread :: ThreadID
  frame :: FrameID

definition PopFramesCommand_class :: command_class where
  "PopFramesCommand_class = command_class.make 16 4 {ERR_NONE, ERR_INVALID_FRAMEID,
     ERR_INVALID_OBJECT, ERR_INVALID_THREAD, ERR_NOT_IMPLEMENTED, ERR_NO_MORE_FRAMES,
     ERR_OPAQUE_FRAME, ERR_THREAD_NOT_SUSPENDED, ERR_VM_DEAD}"

definition PopFramesCommand_serialize :: "PopFramesCommand \<Rightarrow> writer_op" where
  "PopFramesCommand_serialize self = write_seq
     [write_thread_id (PopFramesCommand.thread self),
      write_frame_id (PopFramesCommand.frame self)]"

definition PopFramesCommand_deserialize :: "PopFramesCommand reader_op" where
  "PopFramesCommand_deserialize =
     rbind read_thread_id (\<lambda>thread.
     rbind read_frame_id (\<lambda>frame.
       rreturn (PopFramesCommand.make thread frame)))"

lemma PopFramesCommand_codec [codec_intros]:
  "paired (PopFramesCommand_serialize v) PopFramesCommand_deserialize v"
  unfolding PopFramesCommand_serialize_def PopFramesCommand_deserialize_def
  by (rule codec_intros)+ (cases v, simp add: PopFramesCommand.make_def)

interpretation PopFramesCommand:
  codec PopFramesCommand_serialize PopFramesCommand_deserialize "\<lambda>_. True"
  by unfold_locales (rule PopFramesCommand_codec)

section \<open>The classes of the module\<close>

text \<open>
  The instances of the module's command classes and the classes themselves, with the methods
  dispatched on them; the same for the responses; and the registrations its decorators make.
\<close>

datatype (plugins only: code) stack_frame_command =
    StackFrame_GetValuesCommand_obj StackFrame_GetValuesCommand
  | StackFrame_SetValuesCommand_obj StackFrame_SetValuesCommand
  | ThisObjectCommand_obj ThisObjectCommand
  | PopFramesCommand_obj PopFramesCommand

datatype (plugins only: code) stack_frame_command_class =
    StackFrame_GetValuesCommand_cls
  | StackFrame_SetValuesCommand_cls
  | ThisObjectCommand_cls
  | PopFramesCommand_cls

primrec stack_frame_command_class_of :: "stack_frame_command \<Rightarrow> stack_frame_command_class" where
  "stack_frame_command_class_of (StackFrame_GetValuesCommand_obj self) =
     StackFrame_GetValuesCommand_cls"
| "stack_frame_command_class_of (StackFrame_SetValuesCommand_obj self) =
     StackFrame_SetValuesCommand_cls"
| "stack_frame_command_class_of (ThisObjectCommand_obj self) = ThisObjectCommand_cls"
| "stack_frame_command_class_of (PopFramesCommand_obj self) = PopFramesCommand_cls"

primrec stack_frame_command_vars :: "stack_frame_command_class \<Rightarrow> command_class" where
  "stack_frame_command_vars StackFrame_GetValuesCommand_cls = StackFrame_GetValuesCommand_class"
| "stack_frame_command_vars StackFrame_SetValuesCommand_cls = StackFrame_SetValuesCommand_class"
| "stack_frame_command_vars ThisObjectCommand_cls = ThisObjectCommand_class"
| "stack_frame_command_vars PopFramesCommand_cls = PopFramesCommand_class"

primrec stack_frame_command_name :: "stack_frame_command_class \<Rightarrow> string" where
  "stack_frame_command_name StackFrame_GetValuesCommand_cls = ''GetValuesCommand''"
| "stack_frame_command_name StackFrame_SetValuesCommand_cls = ''SetValuesCommand''"
| "stack_frame_command_name ThisObjectCommand_cls = ''ThisObjectCommand''"
| "stack_frame_command_name PopFramesCommand_cls = ''PopFramesCommand''"

primrec stack_frame_command_serialize :: "stack_frame_command \<Rightarrow> writer_op" where
  "stack_frame_command_serialize (StackFrame_GetValuesCommand_obj self) =
     StackFrame_GetValuesCommand_serialize self"
| "stack_frame_command_serialize (StackFrame_SetValuesCommand_obj self) =
     StackFrame_SetValuesCommand_serialize self"
| "stack_frame_command_serialize (ThisObjectCommand_obj self) = ThisObjectCommand_serialize self"
| "stack_frame_command_serialize (PopFramesCommand_obj self) = PopFramesCommand_serialize self"

primrec stack_frame_command_deserialize :: "stack_frame_command_class \<Rightarrow> stack_frame_command reader_op" where
  "stack_frame_command_deserialize StackFrame_GetValuesCommand_cls =
     of_class StackFrame_GetValuesCommand_deserialize StackFrame_GetValuesCommand_obj"
| "stack_frame_command_deserialize StackFrame_SetValuesCommand_cls =
     of_class StackFrame_SetValuesCommand_deserialize StackFrame_SetValuesCommand_obj"
| "stack_frame_command_deserialize ThisObjectCommand_cls =
     of_class ThisObjectCommand_deserialize ThisObjectCommand_obj"
| "stack_frame_command_deserialize PopFramesCommand_cls =
     of_class PopFramesCommand_deserialize PopFramesCommand_obj"

primrec stack_frame_command_ok :: "stack_frame_command \<Rightarrow> bool" where
  "stack_frame_command_ok (StackFrame_GetValuesCommand_obj self) = True"
| "stack_frame_command_ok (StackFrame_SetValuesCommand_obj self) =
     StackFrame_SetValuesCommand_ok self"
| "stack_frame_command_ok (ThisObjectCommand_obj self) = True"
| "stack_frame_command_ok (PopFramesCommand_obj self) = True"

interpretation stack_frame_command:
  message_family stack_frame_command_class_of stack_frame_command_serialize
    stack_frame_command_deserialize stack_frame_command_ok
proof unfold_locales
  fix v assume "stack_frame_command_ok v"
  then show "paired (stack_frame_command_serialize v)
      (stack_frame_command_deserialize (stack_frame_command_class_of v)) v"
    by (cases v) (auto intro!: of_class_codec codec_intros)
next
  fix c r v r' assume "stack_frame_command_deserialize c r = Inr (v, r')"
  then show "stack_frame_command_class_of v = c" by (cases c) (auto dest!: of_class_obj)
next
  fix c r v r' assume "stack_frame_command_deserialize c r = Inr (v, r')" and "array_element_tag r = None"
  then show "stack_frame_command_ok v"
    by (cases c) (auto dest!: of_class_obj dest: StackFrame_SetValuesCommand_yields [THEN yieldsD])
qed

datatype (plugins only: code) stack_frame_response =
    StackFrame_GetValuesResponse_obj StackFrame_GetValuesResponse
  | StackFrame_SetValuesResponse_obj StackFrame_SetValuesResponse
  | ThisObjectResponse_obj ThisObjectResponse
  | PopFramesResponse_obj PopFramesResponse

datatype (plugins only: code) stack_frame_response_class =
    StackFrame_GetValuesResponse_cls
  | StackFrame_SetValuesResponse_cls
  | ThisObjectResponse_cls
  | PopFramesResponse_cls

primrec stack_frame_response_class_of :: "stack_frame_response \<Rightarrow> stack_frame_response_class" where
  "stack_frame_response_class_of (StackFrame_GetValuesResponse_obj self) =
     StackFrame_GetValuesResponse_cls"
| "stack_frame_response_class_of (StackFrame_SetValuesResponse_obj self) =
     StackFrame_SetValuesResponse_cls"
| "stack_frame_response_class_of (ThisObjectResponse_obj self) = ThisObjectResponse_cls"
| "stack_frame_response_class_of (PopFramesResponse_obj self) = PopFramesResponse_cls"

primrec stack_frame_response_serialize :: "stack_frame_response \<Rightarrow> writer_op" where
  "stack_frame_response_serialize (StackFrame_GetValuesResponse_obj self) =
     StackFrame_GetValuesResponse_serialize self"
| "stack_frame_response_serialize (StackFrame_SetValuesResponse_obj self) =
     StackFrame_SetValuesResponse_serialize self"
| "stack_frame_response_serialize (ThisObjectResponse_obj self) =
     ThisObjectResponse_serialize self"
| "stack_frame_response_serialize (PopFramesResponse_obj self) = PopFramesResponse_serialize self"

primrec stack_frame_response_deserialize :: "stack_frame_response_class \<Rightarrow> stack_frame_response reader_op" where
  "stack_frame_response_deserialize StackFrame_GetValuesResponse_cls =
     of_class StackFrame_GetValuesResponse_deserialize StackFrame_GetValuesResponse_obj"
| "stack_frame_response_deserialize StackFrame_SetValuesResponse_cls =
     of_class StackFrame_SetValuesResponse_deserialize StackFrame_SetValuesResponse_obj"
| "stack_frame_response_deserialize ThisObjectResponse_cls =
     of_class ThisObjectResponse_deserialize ThisObjectResponse_obj"
| "stack_frame_response_deserialize PopFramesResponse_cls =
     of_class PopFramesResponse_deserialize PopFramesResponse_obj"

primrec stack_frame_response_ok :: "stack_frame_response \<Rightarrow> bool" where
  "stack_frame_response_ok (StackFrame_GetValuesResponse_obj self) =
     StackFrame_GetValuesResponse_ok self"
| "stack_frame_response_ok (StackFrame_SetValuesResponse_obj self) = True"
| "stack_frame_response_ok (ThisObjectResponse_obj self) = True"
| "stack_frame_response_ok (PopFramesResponse_obj self) = True"

interpretation stack_frame_response:
  message_family stack_frame_response_class_of stack_frame_response_serialize
    stack_frame_response_deserialize stack_frame_response_ok
proof unfold_locales
  fix v assume "stack_frame_response_ok v"
  then show "paired (stack_frame_response_serialize v)
      (stack_frame_response_deserialize (stack_frame_response_class_of v)) v"
    by (cases v) (auto intro!: of_class_codec codec_intros)
next
  fix c r v r' assume "stack_frame_response_deserialize c r = Inr (v, r')"
  then show "stack_frame_response_class_of v = c" by (cases c) (auto dest!: of_class_obj)
next
  fix c r v r' assume "stack_frame_response_deserialize c r = Inr (v, r')" and "array_element_tag r = None"
  then show "stack_frame_response_ok v"
    by (cases c) (auto dest!: of_class_obj dest: StackFrame_GetValuesResponse_yields [THEN yieldsD])
qed

definition stack_frame_registrations ::
    "(stack_frame_response_class option \<times> stack_frame_command_class) list" where
  "stack_frame_registrations =
    [(Some StackFrame_GetValuesResponse_cls, StackFrame_GetValuesCommand_cls),
     (Some StackFrame_SetValuesResponse_cls, StackFrame_SetValuesCommand_cls),
     (Some ThisObjectResponse_cls, ThisObjectCommand_cls),
     (Some PopFramesResponse_cls, PopFramesCommand_cls)]"

lemma stack_frame_registered:
  "c \<in> snd ` set stack_frame_registrations" "(None, c) \<notin> set stack_frame_registrations"
  by (cases c, simp_all add: stack_frame_registrations_def)

end
