(* ===== verification/Cmd_Method.thy ===== *)
theory Cmd_Method
  imports Codec
begin

text \<open>
  \<^verbatim>\<open>commands/method.py\<close>:
  the commands of set 6: line tables, variable tables and bytecodes of methods.
  Each class is a record, with its \<open>serialize\<close> and \<open>deserialize\<close>; \<open>_class\<close> holds a command's
  class variables. The codec lemma of a class is its round trip, and the interpretation gives it the
  facts of every message class.
\<close>

section \<open>Method.LineTable\<close>

record LineTableEntry =
  code_index :: int
  line_number :: int

definition LineTableEntry_serialize :: "LineTableEntry \<Rightarrow> writer_op" where
  "LineTableEntry_serialize self = write_seq
     [write_long (LineTableEntry.code_index self),
      write_int (LineTableEntry.line_number self)]"

definition LineTableEntry_deserialize :: "LineTableEntry reader_op" where
  "LineTableEntry_deserialize =
     rbind read_long (\<lambda>code_index.
     rbind read_int (\<lambda>line_number.
       rreturn (LineTableEntry.make code_index line_number)))"

lemma LineTableEntry_codec [codec_intros]:
  "paired (LineTableEntry_serialize v) LineTableEntry_deserialize v"
  unfolding LineTableEntry_serialize_def LineTableEntry_deserialize_def
  by (rule codec_intros)+ (cases v, simp add: LineTableEntry.make_def)

record LineTableResponse =
  start_code_index :: int
  end_code_index :: int
  "lines" :: "LineTableEntry list"

definition LineTableResponse_serialize :: "LineTableResponse \<Rightarrow> writer_op" where
  "LineTableResponse_serialize self = write_seq
     [write_long (LineTableResponse.start_code_index self),
      write_long (LineTableResponse.end_code_index self),
      write_counted LineTableEntry_serialize (LineTableResponse.lines self)]"

definition LineTableResponse_deserialize :: "LineTableResponse reader_op" where
  "LineTableResponse_deserialize =
     rbind read_long (\<lambda>start_code_index.
     rbind read_long (\<lambda>end_code_index.
     rbind (read_counted LineTableEntry_deserialize) (\<lambda>lines.
       rreturn (LineTableResponse.make start_code_index end_code_index lines))))"

lemma LineTableResponse_codec [codec_intros]:
  "paired (LineTableResponse_serialize v) LineTableResponse_deserialize v"
  unfolding LineTableResponse_serialize_def LineTableResponse_deserialize_def
  by (rule codec_intros)+ (cases v, simp add: LineTableResponse.make_def)

interpretation LineTableResponse:
  codec LineTableResponse_serialize LineTableResponse_deserialize "\<lambda>_. True"
  by unfold_locales (rule LineTableResponse_codec)

record LineTableCommand =
  ref_type :: ReferenceTypeID
  "method" :: MethodID

definition LineTableCommand_class :: command_class where
  "LineTableCommand_class = command_class.make 6 1 {ERR_NONE, ERR_INVALID_CLASS,
     ERR_INVALID_METHODID, ERR_INVALID_OBJECT, ERR_VM_DEAD}"

definition LineTableCommand_serialize :: "LineTableCommand \<Rightarrow> writer_op" where
  "LineTableCommand_serialize self = write_seq
     [write_reference_type_id (LineTableCommand.ref_type self),
      write_method_id (LineTableCommand.method self)]"

definition LineTableCommand_deserialize :: "LineTableCommand reader_op" where
  "LineTableCommand_deserialize =
     rbind read_reference_type_id (\<lambda>ref_type.
     rbind read_method_id (\<lambda>method.
       rreturn (LineTableCommand.make ref_type method)))"

lemma LineTableCommand_codec [codec_intros]:
  "paired (LineTableCommand_serialize v) LineTableCommand_deserialize v"
  unfolding LineTableCommand_serialize_def LineTableCommand_deserialize_def
  by (rule codec_intros)+ (cases v, simp add: LineTableCommand.make_def)

interpretation LineTableCommand:
  codec LineTableCommand_serialize LineTableCommand_deserialize "\<lambda>_. True"
  by unfold_locales (rule LineTableCommand_codec)

section \<open>Method.VariableTable\<close>

record VariableTableEntry =
  code_index :: int
  name :: pystr
  signature :: pystr
  length' :: int
  slot :: int

definition VariableTableEntry_serialize :: "VariableTableEntry \<Rightarrow> writer_op" where
  "VariableTableEntry_serialize self = write_seq
     [write_long (VariableTableEntry.code_index self),
      write_string (VariableTableEntry.name self),
      write_string (VariableTableEntry.signature self),
      write_int (VariableTableEntry.length' self),
      write_int (VariableTableEntry.slot self)]"

definition VariableTableEntry_deserialize :: "VariableTableEntry reader_op" where
  "VariableTableEntry_deserialize =
     rbind read_long (\<lambda>code_index.
     rbind read_string (\<lambda>name.
     rbind read_string (\<lambda>signature.
     rbind read_int (\<lambda>length'.
     rbind read_int (\<lambda>slot.
       rreturn (VariableTableEntry.make code_index name signature length' slot))))))"

lemma VariableTableEntry_codec [codec_intros]:
  "paired (VariableTableEntry_serialize v) VariableTableEntry_deserialize v"
  unfolding VariableTableEntry_serialize_def VariableTableEntry_deserialize_def
  by (rule codec_intros)+ (cases v, simp add: VariableTableEntry.make_def)

record VariableTableResponse =
  arg_cnt :: int
  slots :: "VariableTableEntry list"

definition VariableTableResponse_serialize :: "VariableTableResponse \<Rightarrow> writer_op" where
  "VariableTableResponse_serialize self = write_seq
     [write_int (VariableTableResponse.arg_cnt self),
      write_counted VariableTableEntry_serialize (VariableTableResponse.slots self)]"

definition VariableTableResponse_deserialize :: "VariableTableResponse reader_op" where
  "VariableTableResponse_deserialize =
     rbind read_int (\<lambda>arg_cnt.
     rbind (read_counted VariableTableEntry_deserialize) (\<lambda>slots.
       rreturn (VariableTableResponse.make arg_cnt slots)))"

lemma VariableTableResponse_codec [codec_intros]:
  "paired (VariableTableResponse_serialize v) VariableTableResponse_deserialize v"
  unfolding VariableTableResponse_serialize_def VariableTableResponse_deserialize_def
  by (rule codec_intros)+ (cases v, simp add: VariableTableResponse.make_def)

interpretation VariableTableResponse:
  codec VariableTableResponse_serialize VariableTableResponse_deserialize "\<lambda>_. True"
  by unfold_locales (rule VariableTableResponse_codec)

record VariableTableCommand =
  ref_type :: ReferenceTypeID
  "method" :: MethodID

definition VariableTableCommand_class :: command_class where
  "VariableTableCommand_class = command_class.make 6 2 {ERR_NONE, ERR_ABSENT_INFORMATION,
     ERR_INVALID_CLASS, ERR_INVALID_METHODID, ERR_INVALID_OBJECT, ERR_VM_DEAD}"

definition VariableTableCommand_serialize :: "VariableTableCommand \<Rightarrow> writer_op" where
  "VariableTableCommand_serialize self = write_seq
     [write_reference_type_id (VariableTableCommand.ref_type self),
      write_method_id (VariableTableCommand.method self)]"

definition VariableTableCommand_deserialize :: "VariableTableCommand reader_op" where
  "VariableTableCommand_deserialize =
     rbind read_reference_type_id (\<lambda>ref_type.
     rbind read_method_id (\<lambda>method.
       rreturn (VariableTableCommand.make ref_type method)))"

lemma VariableTableCommand_codec [codec_intros]:
  "paired (VariableTableCommand_serialize v) VariableTableCommand_deserialize v"
  unfolding VariableTableCommand_serialize_def VariableTableCommand_deserialize_def
  by (rule codec_intros)+ (cases v, simp add: VariableTableCommand.make_def)

interpretation VariableTableCommand:
  codec VariableTableCommand_serialize VariableTableCommand_deserialize "\<lambda>_. True"
  by unfold_locales (rule VariableTableCommand_codec)

section \<open>Method.Bytecodes\<close>

record BytecodesResponse =
  bytecodes :: bytes

definition BytecodesResponse_serialize :: "BytecodesResponse \<Rightarrow> writer_op" where
  "BytecodesResponse_serialize self = write_seq
     [write_counted write_raw_byte (BytecodesResponse.bytecodes self)]"

definition BytecodesResponse_deserialize :: "BytecodesResponse reader_op" where
  "BytecodesResponse_deserialize =
     rbind (read_counted read_raw_byte) (\<lambda>b.
       rreturn (BytecodesResponse.make b))"

lemma BytecodesResponse_codec [codec_intros]:
  "paired (BytecodesResponse_serialize v) BytecodesResponse_deserialize v"
  unfolding BytecodesResponse_serialize_def BytecodesResponse_deserialize_def
  by (rule codec_intros)+ (cases v, simp add: BytecodesResponse.make_def)

interpretation BytecodesResponse:
  codec BytecodesResponse_serialize BytecodesResponse_deserialize "\<lambda>_. True"
  by unfold_locales (rule BytecodesResponse_codec)

record BytecodesCommand =
  ref_type :: ReferenceTypeID
  "method" :: MethodID

definition BytecodesCommand_class :: command_class where
  "BytecodesCommand_class = command_class.make 6 3 {ERR_NONE, ERR_INVALID_CLASS,
     ERR_INVALID_METHODID, ERR_INVALID_OBJECT, ERR_NOT_IMPLEMENTED, ERR_VM_DEAD}"

definition BytecodesCommand_serialize :: "BytecodesCommand \<Rightarrow> writer_op" where
  "BytecodesCommand_serialize self = write_seq
     [write_reference_type_id (BytecodesCommand.ref_type self),
      write_method_id (BytecodesCommand.method self)]"

definition BytecodesCommand_deserialize :: "BytecodesCommand reader_op" where
  "BytecodesCommand_deserialize =
     rbind read_reference_type_id (\<lambda>ref_type.
     rbind read_method_id (\<lambda>method.
       rreturn (BytecodesCommand.make ref_type method)))"

lemma BytecodesCommand_codec [codec_intros]:
  "paired (BytecodesCommand_serialize v) BytecodesCommand_deserialize v"
  unfolding BytecodesCommand_serialize_def BytecodesCommand_deserialize_def
  by (rule codec_intros)+ (cases v, simp add: BytecodesCommand.make_def)

interpretation BytecodesCommand:
  codec BytecodesCommand_serialize BytecodesCommand_deserialize "\<lambda>_. True"
  by unfold_locales (rule BytecodesCommand_codec)

section \<open>Method.IsObsolete\<close>

record IsObsoleteResponse =
  is_obsolete :: bool

definition IsObsoleteResponse_serialize :: "IsObsoleteResponse \<Rightarrow> writer_op" where
  "IsObsoleteResponse_serialize self = write_seq
     [write_boolean (IsObsoleteResponse.is_obsolete self)]"

definition IsObsoleteResponse_deserialize :: "IsObsoleteResponse reader_op" where
  "IsObsoleteResponse_deserialize =
     rbind read_boolean (\<lambda>is_obsolete.
       rreturn (IsObsoleteResponse.make is_obsolete))"

lemma IsObsoleteResponse_codec [codec_intros]:
  "paired (IsObsoleteResponse_serialize v) IsObsoleteResponse_deserialize v"
  unfolding IsObsoleteResponse_serialize_def IsObsoleteResponse_deserialize_def
  by (rule codec_intros)+ (cases v, simp add: IsObsoleteResponse.make_def)

interpretation IsObsoleteResponse:
  codec IsObsoleteResponse_serialize IsObsoleteResponse_deserialize "\<lambda>_. True"
  by unfold_locales (rule IsObsoleteResponse_codec)

record IsObsoleteCommand =
  ref_type :: ReferenceTypeID
  "method" :: MethodID

definition IsObsoleteCommand_class :: command_class where
  "IsObsoleteCommand_class = command_class.make 6 4 {ERR_NONE, ERR_INVALID_CLASS,
     ERR_INVALID_METHODID, ERR_INVALID_OBJECT, ERR_NOT_IMPLEMENTED, ERR_VM_DEAD}"

definition IsObsoleteCommand_serialize :: "IsObsoleteCommand \<Rightarrow> writer_op" where
  "IsObsoleteCommand_serialize self = write_seq
     [write_reference_type_id (IsObsoleteCommand.ref_type self),
      write_method_id (IsObsoleteCommand.method self)]"

definition IsObsoleteCommand_deserialize :: "IsObsoleteCommand reader_op" where
  "IsObsoleteCommand_deserialize =
     rbind read_reference_type_id (\<lambda>ref_type.
     rbind read_method_id (\<lambda>method.
       rreturn (IsObsoleteCommand.make ref_type method)))"

lemma IsObsoleteCommand_codec [codec_intros]:
  "paired (IsObsoleteCommand_serialize v) IsObsoleteCommand_deserialize v"
  unfolding IsObsoleteCommand_serialize_def IsObsoleteCommand_deserialize_def
  by (rule codec_intros)+ (cases v, simp add: IsObsoleteCommand.make_def)

interpretation IsObsoleteCommand:
  codec IsObsoleteCommand_serialize IsObsoleteCommand_deserialize "\<lambda>_. True"
  by unfold_locales (rule IsObsoleteCommand_codec)

section \<open>Method.VariableTableWithGeneric\<close>

record VariableTableWithGenericEntry =
  code_index :: int
  name :: pystr
  signature :: pystr
  generic_signature :: pystr
  length' :: int
  slot :: int

definition VariableTableWithGenericEntry_serialize ::
    "VariableTableWithGenericEntry \<Rightarrow> writer_op" where
  "VariableTableWithGenericEntry_serialize self = write_seq
     [write_long (VariableTableWithGenericEntry.code_index self),
      write_string (VariableTableWithGenericEntry.name self),
      write_string (VariableTableWithGenericEntry.signature self),
      write_string (VariableTableWithGenericEntry.generic_signature self),
      write_int (VariableTableWithGenericEntry.length' self),
      write_int (VariableTableWithGenericEntry.slot self)]"

definition VariableTableWithGenericEntry_deserialize ::
    "VariableTableWithGenericEntry reader_op" where
  "VariableTableWithGenericEntry_deserialize =
     rbind read_long (\<lambda>code_index.
     rbind read_string (\<lambda>name.
     rbind read_string (\<lambda>signature.
     rbind read_string (\<lambda>generic_signature.
     rbind read_int (\<lambda>length'.
     rbind read_int (\<lambda>slot.
       rreturn (VariableTableWithGenericEntry.make code_index name signature generic_signature
         length' slot)))))))"

lemma VariableTableWithGenericEntry_codec [codec_intros]:
  "paired (VariableTableWithGenericEntry_serialize v) VariableTableWithGenericEntry_deserialize v"
  unfolding VariableTableWithGenericEntry_serialize_def
    VariableTableWithGenericEntry_deserialize_def
  by (rule codec_intros)+ (cases v, simp add: VariableTableWithGenericEntry.make_def)

record VariableTableWithGenericResponse =
  arg_cnt :: int
  slots :: "VariableTableWithGenericEntry list"

definition VariableTableWithGenericResponse_serialize ::
    "VariableTableWithGenericResponse \<Rightarrow> writer_op" where
  "VariableTableWithGenericResponse_serialize self = write_seq
     [write_int (VariableTableWithGenericResponse.arg_cnt self),
      write_counted VariableTableWithGenericEntry_serialize (VariableTableWithGenericResponse.slots self)]"

definition VariableTableWithGenericResponse_deserialize ::
    "VariableTableWithGenericResponse reader_op" where
  "VariableTableWithGenericResponse_deserialize =
     rbind read_int (\<lambda>arg_cnt.
     rbind (read_counted VariableTableWithGenericEntry_deserialize) (\<lambda>slots.
       rreturn (VariableTableWithGenericResponse.make arg_cnt slots)))"

lemma VariableTableWithGenericResponse_codec [codec_intros]:
  "paired (VariableTableWithGenericResponse_serialize v)
    VariableTableWithGenericResponse_deserialize v"
  unfolding VariableTableWithGenericResponse_serialize_def
    VariableTableWithGenericResponse_deserialize_def
  by (rule codec_intros)+ (cases v, simp add: VariableTableWithGenericResponse.make_def)

interpretation VariableTableWithGenericResponse:
  codec VariableTableWithGenericResponse_serialize VariableTableWithGenericResponse_deserialize
    "\<lambda>_. True"
  by unfold_locales (rule VariableTableWithGenericResponse_codec)

record VariableTableWithGenericCommand =
  ref_type :: ReferenceTypeID
  "method" :: MethodID

definition VariableTableWithGenericCommand_class :: command_class where
  "VariableTableWithGenericCommand_class = command_class.make 6 5 {ERR_NONE,
     ERR_ABSENT_INFORMATION, ERR_INVALID_CLASS, ERR_INVALID_METHODID, ERR_INVALID_OBJECT,
     ERR_VM_DEAD}"

definition VariableTableWithGenericCommand_serialize ::
    "VariableTableWithGenericCommand \<Rightarrow> writer_op" where
  "VariableTableWithGenericCommand_serialize self = write_seq
     [write_reference_type_id (VariableTableWithGenericCommand.ref_type self),
      write_method_id (VariableTableWithGenericCommand.method self)]"

definition VariableTableWithGenericCommand_deserialize ::
    "VariableTableWithGenericCommand reader_op" where
  "VariableTableWithGenericCommand_deserialize =
     rbind read_reference_type_id (\<lambda>ref_type.
     rbind read_method_id (\<lambda>method.
       rreturn (VariableTableWithGenericCommand.make ref_type method)))"

lemma VariableTableWithGenericCommand_codec [codec_intros]:
  "paired (VariableTableWithGenericCommand_serialize v)
    VariableTableWithGenericCommand_deserialize v"
  unfolding VariableTableWithGenericCommand_serialize_def
    VariableTableWithGenericCommand_deserialize_def
  by (rule codec_intros)+ (cases v, simp add: VariableTableWithGenericCommand.make_def)

interpretation VariableTableWithGenericCommand:
  codec VariableTableWithGenericCommand_serialize VariableTableWithGenericCommand_deserialize
    "\<lambda>_. True"
  by unfold_locales (rule VariableTableWithGenericCommand_codec)

section \<open>The classes of the module\<close>

text \<open>
  The instances of the module's command classes and the classes themselves, with the methods
  dispatched on them; the same for the responses; and the registrations its decorators make.
\<close>

datatype (plugins only: code) method_command =
    LineTableCommand_obj LineTableCommand
  | VariableTableCommand_obj VariableTableCommand
  | BytecodesCommand_obj BytecodesCommand
  | IsObsoleteCommand_obj IsObsoleteCommand
  | VariableTableWithGenericCommand_obj VariableTableWithGenericCommand

datatype (plugins only: code) method_command_class =
    LineTableCommand_cls
  | VariableTableCommand_cls
  | BytecodesCommand_cls
  | IsObsoleteCommand_cls
  | VariableTableWithGenericCommand_cls

primrec method_command_class_of :: "method_command \<Rightarrow> method_command_class" where
  "method_command_class_of (LineTableCommand_obj self) = LineTableCommand_cls"
| "method_command_class_of (VariableTableCommand_obj self) = VariableTableCommand_cls"
| "method_command_class_of (BytecodesCommand_obj self) = BytecodesCommand_cls"
| "method_command_class_of (IsObsoleteCommand_obj self) = IsObsoleteCommand_cls"
| "method_command_class_of (VariableTableWithGenericCommand_obj self) =
     VariableTableWithGenericCommand_cls"

primrec method_command_vars :: "method_command_class \<Rightarrow> command_class" where
  "method_command_vars LineTableCommand_cls = LineTableCommand_class"
| "method_command_vars VariableTableCommand_cls = VariableTableCommand_class"
| "method_command_vars BytecodesCommand_cls = BytecodesCommand_class"
| "method_command_vars IsObsoleteCommand_cls = IsObsoleteCommand_class"
| "method_command_vars VariableTableWithGenericCommand_cls =
     VariableTableWithGenericCommand_class"

primrec method_command_name :: "method_command_class \<Rightarrow> string" where
  "method_command_name LineTableCommand_cls = ''LineTableCommand''"
| "method_command_name VariableTableCommand_cls = ''VariableTableCommand''"
| "method_command_name BytecodesCommand_cls = ''BytecodesCommand''"
| "method_command_name IsObsoleteCommand_cls = ''IsObsoleteCommand''"
| "method_command_name VariableTableWithGenericCommand_cls = ''VariableTableWithGenericCommand''"

primrec method_command_serialize :: "method_command \<Rightarrow> writer_op" where
  "method_command_serialize (LineTableCommand_obj self) = LineTableCommand_serialize self"
| "method_command_serialize (VariableTableCommand_obj self) = VariableTableCommand_serialize self"
| "method_command_serialize (BytecodesCommand_obj self) = BytecodesCommand_serialize self"
| "method_command_serialize (IsObsoleteCommand_obj self) = IsObsoleteCommand_serialize self"
| "method_command_serialize (VariableTableWithGenericCommand_obj self) =
     VariableTableWithGenericCommand_serialize self"

primrec method_command_deserialize :: "method_command_class \<Rightarrow> method_command reader_op" where
  "method_command_deserialize LineTableCommand_cls =
     of_class LineTableCommand_deserialize LineTableCommand_obj"
| "method_command_deserialize VariableTableCommand_cls =
     of_class VariableTableCommand_deserialize VariableTableCommand_obj"
| "method_command_deserialize BytecodesCommand_cls =
     of_class BytecodesCommand_deserialize BytecodesCommand_obj"
| "method_command_deserialize IsObsoleteCommand_cls =
     of_class IsObsoleteCommand_deserialize IsObsoleteCommand_obj"
| "method_command_deserialize VariableTableWithGenericCommand_cls =
     of_class VariableTableWithGenericCommand_deserialize VariableTableWithGenericCommand_obj"

interpretation method_command:
  message_family method_command_class_of method_command_serialize method_command_deserialize
    "\<lambda>_. True"
proof unfold_locales
  fix v
  show "paired (method_command_serialize v)
      (method_command_deserialize (method_command_class_of v)) v"
    by (cases v) (auto intro!: of_class_codec codec_intros)
next
  fix c r v r' assume "method_command_deserialize c r = Inr (v, r')"
  then show "method_command_class_of v = c" by (cases c) (auto dest!: of_class_obj)
qed (rule TrueI)

datatype (plugins only: code) method_response =
    LineTableResponse_obj LineTableResponse
  | VariableTableResponse_obj VariableTableResponse
  | BytecodesResponse_obj BytecodesResponse
  | IsObsoleteResponse_obj IsObsoleteResponse
  | VariableTableWithGenericResponse_obj VariableTableWithGenericResponse

datatype (plugins only: code) method_response_class =
    LineTableResponse_cls
  | VariableTableResponse_cls
  | BytecodesResponse_cls
  | IsObsoleteResponse_cls
  | VariableTableWithGenericResponse_cls

primrec method_response_class_of :: "method_response \<Rightarrow> method_response_class" where
  "method_response_class_of (LineTableResponse_obj self) = LineTableResponse_cls"
| "method_response_class_of (VariableTableResponse_obj self) = VariableTableResponse_cls"
| "method_response_class_of (BytecodesResponse_obj self) = BytecodesResponse_cls"
| "method_response_class_of (IsObsoleteResponse_obj self) = IsObsoleteResponse_cls"
| "method_response_class_of (VariableTableWithGenericResponse_obj self) =
     VariableTableWithGenericResponse_cls"

primrec method_response_serialize :: "method_response \<Rightarrow> writer_op" where
  "method_response_serialize (LineTableResponse_obj self) = LineTableResponse_serialize self"
| "method_response_serialize (VariableTableResponse_obj self) =
     VariableTableResponse_serialize self"
| "method_response_serialize (BytecodesResponse_obj self) = BytecodesResponse_serialize self"
| "method_response_serialize (IsObsoleteResponse_obj self) = IsObsoleteResponse_serialize self"
| "method_response_serialize (VariableTableWithGenericResponse_obj self) =
     VariableTableWithGenericResponse_serialize self"

primrec method_response_deserialize :: "method_response_class \<Rightarrow> method_response reader_op" where
  "method_response_deserialize LineTableResponse_cls =
     of_class LineTableResponse_deserialize LineTableResponse_obj"
| "method_response_deserialize VariableTableResponse_cls =
     of_class VariableTableResponse_deserialize VariableTableResponse_obj"
| "method_response_deserialize BytecodesResponse_cls =
     of_class BytecodesResponse_deserialize BytecodesResponse_obj"
| "method_response_deserialize IsObsoleteResponse_cls =
     of_class IsObsoleteResponse_deserialize IsObsoleteResponse_obj"
| "method_response_deserialize VariableTableWithGenericResponse_cls =
     of_class VariableTableWithGenericResponse_deserialize VariableTableWithGenericResponse_obj"

interpretation method_response:
  message_family method_response_class_of method_response_serialize method_response_deserialize
    "\<lambda>_. True"
proof unfold_locales
  fix v
  show "paired (method_response_serialize v)
      (method_response_deserialize (method_response_class_of v)) v"
    by (cases v) (auto intro!: of_class_codec codec_intros)
next
  fix c r v r' assume "method_response_deserialize c r = Inr (v, r')"
  then show "method_response_class_of v = c" by (cases c) (auto dest!: of_class_obj)
qed (rule TrueI)

definition method_registrations ::
    "(method_response_class option \<times> method_command_class) list" where
  "method_registrations =
    [(Some LineTableResponse_cls, LineTableCommand_cls),
     (Some VariableTableResponse_cls, VariableTableCommand_cls),
     (Some BytecodesResponse_cls, BytecodesCommand_cls),
     (Some IsObsoleteResponse_cls, IsObsoleteCommand_cls),
     (Some VariableTableWithGenericResponse_cls, VariableTableWithGenericCommand_cls)]"

lemma method_registered:
  "c \<in> snd ` set method_registrations" "(None, c) \<notin> set method_registrations"
  by (cases c, simp_all add: method_registrations_def)

end
