(* ===== verification/Cmd_Object_Reference.thy ===== *)
theory Cmd_Object_Reference
  imports Codec
begin

text \<open>
  \<^verbatim>\<open>commands/object_reference.py\<close>:
  the commands of set 9, on objects: fields, monitors, invocation, collection control.
  Each class is a record, with its \<open>serialize\<close> and \<open>deserialize\<close>; \<open>_class\<close> holds a command's
  class variables. The codec lemma of a class is its round trip, and the interpretation gives it the
  facts of every message class.
\<close>

section \<open>ObjectReference.ReferenceType\<close>

record ReferenceTypeResponse =
  ref_type_tag :: JdwpTypeTag
  type_id :: ReferenceTypeID

definition ReferenceTypeResponse_serialize :: "ReferenceTypeResponse \<Rightarrow> writer_op" where
  "ReferenceTypeResponse_serialize self = write_seq
     [write_byte (type_tag_value (ReferenceTypeResponse.ref_type_tag self)),
      write_reference_type_id (ReferenceTypeResponse.type_id self)]"

definition ReferenceTypeResponse_deserialize :: "ReferenceTypeResponse reader_op" where
  "ReferenceTypeResponse_deserialize =
     rbind (read_enum read_byte JdwpTypeTag_of) (\<lambda>ref_type_tag.
     rbind read_reference_type_id (\<lambda>type_id.
       rreturn (ReferenceTypeResponse.make ref_type_tag type_id)))"

lemma ReferenceTypeResponse_codec [codec_intros]:
  "paired (ReferenceTypeResponse_serialize v) ReferenceTypeResponse_deserialize v"
  unfolding ReferenceTypeResponse_serialize_def ReferenceTypeResponse_deserialize_def
  by (rule codec_intros)+ (cases v, simp add: ReferenceTypeResponse.make_def)

interpretation ReferenceTypeResponse:
  codec ReferenceTypeResponse_serialize ReferenceTypeResponse_deserialize "\<lambda>_. True"
  by unfold_locales (rule ReferenceTypeResponse_codec)

record ReferenceTypeCommand =
  object :: ObjectID

definition ReferenceTypeCommand_class :: command_class where
  "ReferenceTypeCommand_class = command_class.make 9 1 {ERR_NONE, ERR_INVALID_OBJECT,
     ERR_VM_DEAD}"

definition ReferenceTypeCommand_serialize :: "ReferenceTypeCommand \<Rightarrow> writer_op" where
  "ReferenceTypeCommand_serialize self = write_seq
     [write_object_id (ReferenceTypeCommand.object self)]"

definition ReferenceTypeCommand_deserialize :: "ReferenceTypeCommand reader_op" where
  "ReferenceTypeCommand_deserialize =
     rbind read_object_id (\<lambda>object.
       rreturn (ReferenceTypeCommand.make object))"

lemma ReferenceTypeCommand_codec [codec_intros]:
  "paired (ReferenceTypeCommand_serialize v) ReferenceTypeCommand_deserialize v"
  unfolding ReferenceTypeCommand_serialize_def ReferenceTypeCommand_deserialize_def
  by (rule codec_intros)+ (cases v, simp add: ReferenceTypeCommand.make_def)

interpretation ReferenceTypeCommand:
  codec ReferenceTypeCommand_serialize ReferenceTypeCommand_deserialize "\<lambda>_. True"
  by unfold_locales (rule ReferenceTypeCommand_codec)

section \<open>ObjectReference.GetValues\<close>

record ObjectReference_GetValuesResponse =
  "values" :: "JdwpValue list"

definition ObjectReference_GetValuesResponse_serialize ::
    "ObjectReference_GetValuesResponse \<Rightarrow> writer_op" where
  "ObjectReference_GetValuesResponse_serialize self = write_seq
     [write_counted write_value (ObjectReference_GetValuesResponse.values self)]"

definition ObjectReference_GetValuesResponse_deserialize ::
    "ObjectReference_GetValuesResponse reader_op" where
  "ObjectReference_GetValuesResponse_deserialize =
     rbind (read_counted read_value) (\<lambda>values.
       rreturn (ObjectReference_GetValuesResponse.make values))"

definition ObjectReference_GetValuesResponse_ok ::
    "ObjectReference_GetValuesResponse \<Rightarrow> bool" where
  "ObjectReference_GetValuesResponse_ok v \<longleftrightarrow> list_all jdwp_value_ok
     (ObjectReference_GetValuesResponse.values v)"

lemma ObjectReference_GetValuesResponse_codec [codec_intros]:
  assumes "ObjectReference_GetValuesResponse_ok v"
  shows "paired (ObjectReference_GetValuesResponse_serialize v)
    ObjectReference_GetValuesResponse_deserialize v"
  unfolding ObjectReference_GetValuesResponse_serialize_def
    ObjectReference_GetValuesResponse_deserialize_def
  by (insert assms [unfolded ObjectReference_GetValuesResponse_ok_def],
      (erule conjE | rule codec_intros | assumption | erule (1) list_all_member)+)
    (cases v, simp add: ObjectReference_GetValuesResponse.make_def)

lemma ObjectReference_GetValuesResponse_yields [yields_intros]: "yields ObjectReference_GetValuesResponse_deserialize ObjectReference_GetValuesResponse_ok"
  unfolding ObjectReference_GetValuesResponse_deserialize_def
  by ((rule yields_intros | rule yields_bind yields_return | rule yields_any)+)
    (simp add: ObjectReference_GetValuesResponse_ok_def ObjectReference_GetValuesResponse.make_def)

interpretation ObjectReference_GetValuesResponse:
  codec ObjectReference_GetValuesResponse_serialize ObjectReference_GetValuesResponse_deserialize
    ObjectReference_GetValuesResponse_ok
  by unfold_locales (rule ObjectReference_GetValuesResponse_codec)

record ObjectReference_GetValuesCommand =
  object :: ObjectID
  fields' :: "FieldID list"

definition ObjectReference_GetValuesCommand_class :: command_class where
  "ObjectReference_GetValuesCommand_class = command_class.make 9 2 {ERR_NONE,
     ERR_INVALID_FIELDID, ERR_INVALID_OBJECT, ERR_VM_DEAD}"

definition ObjectReference_GetValuesCommand_serialize ::
    "ObjectReference_GetValuesCommand \<Rightarrow> writer_op" where
  "ObjectReference_GetValuesCommand_serialize self = write_seq
     [write_object_id (ObjectReference_GetValuesCommand.object self),
      write_counted write_field_id (ObjectReference_GetValuesCommand.fields' self)]"

definition ObjectReference_GetValuesCommand_deserialize ::
    "ObjectReference_GetValuesCommand reader_op" where
  "ObjectReference_GetValuesCommand_deserialize =
     rbind read_object_id (\<lambda>object.
     rbind (read_counted read_field_id) (\<lambda>fields'.
       rreturn (ObjectReference_GetValuesCommand.make object fields')))"

lemma ObjectReference_GetValuesCommand_codec [codec_intros]:
  "paired (ObjectReference_GetValuesCommand_serialize v)
    ObjectReference_GetValuesCommand_deserialize v"
  unfolding ObjectReference_GetValuesCommand_serialize_def
    ObjectReference_GetValuesCommand_deserialize_def
  by (rule codec_intros)+ (cases v, simp add: ObjectReference_GetValuesCommand.make_def)

interpretation ObjectReference_GetValuesCommand:
  codec ObjectReference_GetValuesCommand_serialize ObjectReference_GetValuesCommand_deserialize
    "\<lambda>_. True"
  by unfold_locales (rule ObjectReference_GetValuesCommand_codec)

section \<open>ObjectReference.SetValues\<close>

record ObjectReference_SetValuesRequestSlot =
  field_id :: FieldID
  "value" :: JdwpValue

definition ObjectReference_SetValuesRequestSlot_serialize ::
    "ObjectReference_SetValuesRequestSlot \<Rightarrow> writer_op" where
  "ObjectReference_SetValuesRequestSlot_serialize self = write_seq
     [write_field_id (ObjectReference_SetValuesRequestSlot.field_id self),
      write_value (ObjectReference_SetValuesRequestSlot.value self)]"

definition ObjectReference_SetValuesRequestSlot_deserialize ::
    "ObjectReference_SetValuesRequestSlot reader_op" where
  "ObjectReference_SetValuesRequestSlot_deserialize =
     rbind read_field_id (\<lambda>field_id.
     rbind read_value (\<lambda>value.
       rreturn (ObjectReference_SetValuesRequestSlot.make field_id value)))"

definition ObjectReference_SetValuesRequestSlot_ok ::
    "ObjectReference_SetValuesRequestSlot \<Rightarrow> bool" where
  "ObjectReference_SetValuesRequestSlot_ok v \<longleftrightarrow> jdwp_value_ok
     (ObjectReference_SetValuesRequestSlot.value v)"

lemma ObjectReference_SetValuesRequestSlot_codec [codec_intros]:
  assumes "ObjectReference_SetValuesRequestSlot_ok v"
  shows "paired (ObjectReference_SetValuesRequestSlot_serialize v)
    ObjectReference_SetValuesRequestSlot_deserialize v"
  unfolding ObjectReference_SetValuesRequestSlot_serialize_def
    ObjectReference_SetValuesRequestSlot_deserialize_def
  by (insert assms [unfolded ObjectReference_SetValuesRequestSlot_ok_def],
      (erule conjE | rule codec_intros | assumption | erule (1) list_all_member)+)
    (cases v, simp add: ObjectReference_SetValuesRequestSlot.make_def)

lemma ObjectReference_SetValuesRequestSlot_yields [yields_intros]: "yields ObjectReference_SetValuesRequestSlot_deserialize ObjectReference_SetValuesRequestSlot_ok"
  unfolding ObjectReference_SetValuesRequestSlot_deserialize_def
  by ((rule yields_intros | rule yields_bind yields_return | rule yields_any)+)
    (simp add: ObjectReference_SetValuesRequestSlot_ok_def ObjectReference_SetValuesRequestSlot.make_def)

datatype (plugins only: code) ObjectReference_SetValuesResponse = ObjectReference_SetValuesResponse

definition ObjectReference_SetValuesResponse_serialize ::
    "ObjectReference_SetValuesResponse \<Rightarrow> writer_op" where
  "ObjectReference_SetValuesResponse_serialize self = write_seq []"

definition ObjectReference_SetValuesResponse_deserialize ::
    "ObjectReference_SetValuesResponse reader_op" where
  "ObjectReference_SetValuesResponse_deserialize = rreturn ObjectReference_SetValuesResponse"

lemma ObjectReference_SetValuesResponse_codec [codec_intros]:
  "paired (ObjectReference_SetValuesResponse_serialize v)
    ObjectReference_SetValuesResponse_deserialize v"
  unfolding ObjectReference_SetValuesResponse_serialize_def
    ObjectReference_SetValuesResponse_deserialize_def
  by (rule codec_intros)+ (cases v, simp)

interpretation ObjectReference_SetValuesResponse:
  codec ObjectReference_SetValuesResponse_serialize ObjectReference_SetValuesResponse_deserialize
    "\<lambda>_. True"
  by unfold_locales (rule ObjectReference_SetValuesResponse_codec)

record ObjectReference_SetValuesCommand =
  object :: ObjectID
  slots :: "ObjectReference_SetValuesRequestSlot list"

definition ObjectReference_SetValuesCommand_class :: command_class where
  "ObjectReference_SetValuesCommand_class = command_class.make 9 3 {ERR_NONE,
     ERR_INVALID_FIELDID, ERR_INVALID_OBJECT, ERR_VM_DEAD}"

definition ObjectReference_SetValuesCommand_serialize ::
    "ObjectReference_SetValuesCommand \<Rightarrow> writer_op" where
  "ObjectReference_SetValuesCommand_serialize self = write_seq
     [write_object_id (ObjectReference_SetValuesCommand.object self),
      write_counted ObjectReference_SetValuesRequestSlot_serialize (ObjectReference_SetValuesCommand.slots self)]"

definition ObjectReference_SetValuesCommand_deserialize ::
    "ObjectReference_SetValuesCommand reader_op" where
  "ObjectReference_SetValuesCommand_deserialize =
     rbind read_object_id (\<lambda>object.
     rbind (read_counted ObjectReference_SetValuesRequestSlot_deserialize) (\<lambda>slots.
       rreturn (ObjectReference_SetValuesCommand.make object slots)))"

definition ObjectReference_SetValuesCommand_ok ::
    "ObjectReference_SetValuesCommand \<Rightarrow> bool" where
  "ObjectReference_SetValuesCommand_ok v \<longleftrightarrow> list_all
     ObjectReference_SetValuesRequestSlot_ok (ObjectReference_SetValuesCommand.slots v)"

lemma ObjectReference_SetValuesCommand_codec [codec_intros]:
  assumes "ObjectReference_SetValuesCommand_ok v"
  shows "paired (ObjectReference_SetValuesCommand_serialize v)
    ObjectReference_SetValuesCommand_deserialize v"
  unfolding ObjectReference_SetValuesCommand_serialize_def
    ObjectReference_SetValuesCommand_deserialize_def
  by (insert assms [unfolded ObjectReference_SetValuesCommand_ok_def],
      (erule conjE | rule codec_intros | assumption | erule (1) list_all_member)+)
    (cases v, simp add: ObjectReference_SetValuesCommand.make_def)

lemma ObjectReference_SetValuesCommand_yields [yields_intros]: "yields ObjectReference_SetValuesCommand_deserialize ObjectReference_SetValuesCommand_ok"
  unfolding ObjectReference_SetValuesCommand_deserialize_def
  by ((rule yields_intros | rule yields_bind yields_return | rule yields_any)+)
    (simp add: ObjectReference_SetValuesCommand_ok_def ObjectReference_SetValuesCommand.make_def)

interpretation ObjectReference_SetValuesCommand:
  codec ObjectReference_SetValuesCommand_serialize ObjectReference_SetValuesCommand_deserialize
    ObjectReference_SetValuesCommand_ok
  by unfold_locales (rule ObjectReference_SetValuesCommand_codec)

section \<open>ObjectReference.MonitorInfo\<close>

record MonitorInfoResponse =
  owner :: ThreadID
  entry_count :: int
  waiters :: "ThreadID list"

definition MonitorInfoResponse_serialize :: "MonitorInfoResponse \<Rightarrow> writer_op" where
  "MonitorInfoResponse_serialize self = write_seq
     [write_thread_id (MonitorInfoResponse.owner self),
      write_int (MonitorInfoResponse.entry_count self),
      write_counted write_thread_id (MonitorInfoResponse.waiters self)]"

definition MonitorInfoResponse_deserialize :: "MonitorInfoResponse reader_op" where
  "MonitorInfoResponse_deserialize =
     rbind read_thread_id (\<lambda>owner.
     rbind read_int (\<lambda>entry_count.
     rbind (read_counted read_thread_id) (\<lambda>waiters.
       rreturn (MonitorInfoResponse.make owner entry_count waiters))))"

lemma MonitorInfoResponse_codec [codec_intros]:
  "paired (MonitorInfoResponse_serialize v) MonitorInfoResponse_deserialize v"
  unfolding MonitorInfoResponse_serialize_def MonitorInfoResponse_deserialize_def
  by (rule codec_intros)+ (cases v, simp add: MonitorInfoResponse.make_def)

interpretation MonitorInfoResponse:
  codec MonitorInfoResponse_serialize MonitorInfoResponse_deserialize "\<lambda>_. True"
  by unfold_locales (rule MonitorInfoResponse_codec)

record MonitorInfoCommand =
  object :: ObjectID

definition MonitorInfoCommand_class :: command_class where
  "MonitorInfoCommand_class = command_class.make 9 5 {ERR_NONE, ERR_INVALID_OBJECT,
     ERR_NOT_IMPLEMENTED, ERR_VM_DEAD}"

definition MonitorInfoCommand_serialize :: "MonitorInfoCommand \<Rightarrow> writer_op" where
  "MonitorInfoCommand_serialize self = write_seq
     [write_object_id (MonitorInfoCommand.object self)]"

definition MonitorInfoCommand_deserialize :: "MonitorInfoCommand reader_op" where
  "MonitorInfoCommand_deserialize =
     rbind read_object_id (\<lambda>object.
       rreturn (MonitorInfoCommand.make object))"

lemma MonitorInfoCommand_codec [codec_intros]:
  "paired (MonitorInfoCommand_serialize v) MonitorInfoCommand_deserialize v"
  unfolding MonitorInfoCommand_serialize_def MonitorInfoCommand_deserialize_def
  by (rule codec_intros)+ (cases v, simp add: MonitorInfoCommand.make_def)

interpretation MonitorInfoCommand:
  codec MonitorInfoCommand_serialize MonitorInfoCommand_deserialize "\<lambda>_. True"
  by unfold_locales (rule MonitorInfoCommand_codec)

section \<open>ObjectReference.InvokeMethod\<close>

record ObjectReference_InvokeMethodResponse =
  return_value :: JdwpValue
  "exception" :: TaggedObjectID

definition ObjectReference_InvokeMethodResponse_serialize ::
    "ObjectReference_InvokeMethodResponse \<Rightarrow> writer_op" where
  "ObjectReference_InvokeMethodResponse_serialize self = write_seq
     [write_value (ObjectReference_InvokeMethodResponse.return_value self),
      write_tagged_object (ObjectReference_InvokeMethodResponse.exception self)]"

definition ObjectReference_InvokeMethodResponse_deserialize ::
    "ObjectReference_InvokeMethodResponse reader_op" where
  "ObjectReference_InvokeMethodResponse_deserialize =
     rbind read_value (\<lambda>return_value.
     rbind read_tagged_object (\<lambda>exception.
       rreturn (ObjectReference_InvokeMethodResponse.make return_value exception)))"

definition ObjectReference_InvokeMethodResponse_ok ::
    "ObjectReference_InvokeMethodResponse \<Rightarrow> bool" where
  "ObjectReference_InvokeMethodResponse_ok v \<longleftrightarrow> jdwp_value_ok
     (ObjectReference_InvokeMethodResponse.return_value v)"

lemma ObjectReference_InvokeMethodResponse_codec [codec_intros]:
  assumes "ObjectReference_InvokeMethodResponse_ok v"
  shows "paired (ObjectReference_InvokeMethodResponse_serialize v)
    ObjectReference_InvokeMethodResponse_deserialize v"
  unfolding ObjectReference_InvokeMethodResponse_serialize_def
    ObjectReference_InvokeMethodResponse_deserialize_def
  by (insert assms [unfolded ObjectReference_InvokeMethodResponse_ok_def],
      (erule conjE | rule codec_intros | assumption | erule (1) list_all_member)+)
    (cases v, simp add: ObjectReference_InvokeMethodResponse.make_def)

lemma ObjectReference_InvokeMethodResponse_yields [yields_intros]: "yields ObjectReference_InvokeMethodResponse_deserialize ObjectReference_InvokeMethodResponse_ok"
  unfolding ObjectReference_InvokeMethodResponse_deserialize_def
  by ((rule yields_intros | rule yields_bind yields_return | rule yields_any)+)
    (simp add: ObjectReference_InvokeMethodResponse_ok_def ObjectReference_InvokeMethodResponse.make_def)

interpretation ObjectReference_InvokeMethodResponse:
  codec ObjectReference_InvokeMethodResponse_serialize
    ObjectReference_InvokeMethodResponse_deserialize ObjectReference_InvokeMethodResponse_ok
  by unfold_locales (rule ObjectReference_InvokeMethodResponse_codec)

record ObjectReference_InvokeMethodCommand =
  object :: ObjectID
  thread :: ThreadID
  clazz :: ClassID
  "method" :: MethodID
  arguments :: "JdwpValue list"
  options :: JdwpInvokeOptions

definition ObjectReference_InvokeMethodCommand_class :: command_class where
  "ObjectReference_InvokeMethodCommand_class = command_class.make 9 6 {ERR_NONE,
     ERR_INVALID_CLASS, ERR_INVALID_METHODID, ERR_INVALID_OBJECT, ERR_INVALID_THREAD,
     ERR_THREAD_NOT_SUSPENDED, ERR_VM_DEAD}"

definition ObjectReference_InvokeMethodCommand_serialize ::
    "ObjectReference_InvokeMethodCommand \<Rightarrow> writer_op" where
  "ObjectReference_InvokeMethodCommand_serialize self = write_seq
     [write_object_id (ObjectReference_InvokeMethodCommand.object self),
      write_thread_id (ObjectReference_InvokeMethodCommand.thread self),
      write_class_id (ObjectReference_InvokeMethodCommand.clazz self),
      write_method_id (ObjectReference_InvokeMethodCommand.method self),
      write_counted write_value (ObjectReference_InvokeMethodCommand.arguments self),
      write_int (int (ObjectReference_InvokeMethodCommand.options self))]"

definition ObjectReference_InvokeMethodCommand_deserialize ::
    "ObjectReference_InvokeMethodCommand reader_op" where
  "ObjectReference_InvokeMethodCommand_deserialize =
     rbind read_object_id (\<lambda>object.
     rbind read_thread_id (\<lambda>thread.
     rbind read_class_id (\<lambda>clazz.
     rbind read_method_id (\<lambda>method.
     rbind (read_counted read_value) (\<lambda>arguments.
     rbind (read_flag read_int JdwpInvokeOptions_of) (\<lambda>options.
       rreturn (ObjectReference_InvokeMethodCommand.make object thread clazz method arguments
         options)))))))"

definition ObjectReference_InvokeMethodCommand_ok ::
    "ObjectReference_InvokeMethodCommand \<Rightarrow> bool" where
  "ObjectReference_InvokeMethodCommand_ok v \<longleftrightarrow> list_all jdwp_value_ok
     (ObjectReference_InvokeMethodCommand.arguments v)"

lemma ObjectReference_InvokeMethodCommand_codec [codec_intros]:
  assumes "ObjectReference_InvokeMethodCommand_ok v"
  shows "paired (ObjectReference_InvokeMethodCommand_serialize v)
    ObjectReference_InvokeMethodCommand_deserialize v"
  unfolding ObjectReference_InvokeMethodCommand_serialize_def
    ObjectReference_InvokeMethodCommand_deserialize_def
  by (insert assms [unfolded ObjectReference_InvokeMethodCommand_ok_def],
      (erule conjE | rule codec_intros | assumption | erule (1) list_all_member)+)
    (cases v, simp add: ObjectReference_InvokeMethodCommand.make_def)

lemma ObjectReference_InvokeMethodCommand_yields [yields_intros]: "yields ObjectReference_InvokeMethodCommand_deserialize ObjectReference_InvokeMethodCommand_ok"
  unfolding ObjectReference_InvokeMethodCommand_deserialize_def
  by ((rule yields_intros | rule yields_bind yields_return | rule yields_any)+)
    (simp add: ObjectReference_InvokeMethodCommand_ok_def ObjectReference_InvokeMethodCommand.make_def)

interpretation ObjectReference_InvokeMethodCommand:
  codec ObjectReference_InvokeMethodCommand_serialize
    ObjectReference_InvokeMethodCommand_deserialize ObjectReference_InvokeMethodCommand_ok
  by unfold_locales (rule ObjectReference_InvokeMethodCommand_codec)

section \<open>ObjectReference.DisableCollection\<close>

datatype (plugins only: code) DisableCollectionResponse = DisableCollectionResponse

definition DisableCollectionResponse_serialize ::
    "DisableCollectionResponse \<Rightarrow> writer_op" where
  "DisableCollectionResponse_serialize self = write_seq []"

definition DisableCollectionResponse_deserialize :: "DisableCollectionResponse reader_op" where
  "DisableCollectionResponse_deserialize = rreturn DisableCollectionResponse"

lemma DisableCollectionResponse_codec [codec_intros]:
  "paired (DisableCollectionResponse_serialize v) DisableCollectionResponse_deserialize v"
  unfolding DisableCollectionResponse_serialize_def DisableCollectionResponse_deserialize_def
  by (rule codec_intros)+ (cases v, simp)

interpretation DisableCollectionResponse:
  codec DisableCollectionResponse_serialize DisableCollectionResponse_deserialize "\<lambda>_.
    True"
  by unfold_locales (rule DisableCollectionResponse_codec)

record DisableCollectionCommand =
  object :: ObjectID

definition DisableCollectionCommand_class :: command_class where
  "DisableCollectionCommand_class = command_class.make 9 7 {ERR_NONE, ERR_INVALID_OBJECT,
     ERR_VM_DEAD}"

definition DisableCollectionCommand_serialize ::
    "DisableCollectionCommand \<Rightarrow> writer_op" where
  "DisableCollectionCommand_serialize self = write_seq
     [write_object_id (DisableCollectionCommand.object self)]"

definition DisableCollectionCommand_deserialize :: "DisableCollectionCommand reader_op" where
  "DisableCollectionCommand_deserialize =
     rbind read_object_id (\<lambda>object.
       rreturn (DisableCollectionCommand.make object))"

lemma DisableCollectionCommand_codec [codec_intros]:
  "paired (DisableCollectionCommand_serialize v) DisableCollectionCommand_deserialize v"
  unfolding DisableCollectionCommand_serialize_def DisableCollectionCommand_deserialize_def
  by (rule codec_intros)+ (cases v, simp add: DisableCollectionCommand.make_def)

interpretation DisableCollectionCommand:
  codec DisableCollectionCommand_serialize DisableCollectionCommand_deserialize "\<lambda>_. True"
  by unfold_locales (rule DisableCollectionCommand_codec)

section \<open>ObjectReference.EnableCollection\<close>

datatype (plugins only: code) EnableCollectionResponse = EnableCollectionResponse

definition EnableCollectionResponse_serialize ::
    "EnableCollectionResponse \<Rightarrow> writer_op" where
  "EnableCollectionResponse_serialize self = write_seq []"

definition EnableCollectionResponse_deserialize :: "EnableCollectionResponse reader_op" where
  "EnableCollectionResponse_deserialize = rreturn EnableCollectionResponse"

lemma EnableCollectionResponse_codec [codec_intros]:
  "paired (EnableCollectionResponse_serialize v) EnableCollectionResponse_deserialize v"
  unfolding EnableCollectionResponse_serialize_def EnableCollectionResponse_deserialize_def
  by (rule codec_intros)+ (cases v, simp)

interpretation EnableCollectionResponse:
  codec EnableCollectionResponse_serialize EnableCollectionResponse_deserialize "\<lambda>_. True"
  by unfold_locales (rule EnableCollectionResponse_codec)

record EnableCollectionCommand =
  object :: ObjectID

definition EnableCollectionCommand_class :: command_class where
  "EnableCollectionCommand_class = command_class.make 9 8 {ERR_NONE, ERR_VM_DEAD}"

definition EnableCollectionCommand_serialize ::
    "EnableCollectionCommand \<Rightarrow> writer_op" where
  "EnableCollectionCommand_serialize self = write_seq
     [write_object_id (EnableCollectionCommand.object self)]"

definition EnableCollectionCommand_deserialize :: "EnableCollectionCommand reader_op" where
  "EnableCollectionCommand_deserialize =
     rbind read_object_id (\<lambda>object.
       rreturn (EnableCollectionCommand.make object))"

lemma EnableCollectionCommand_codec [codec_intros]:
  "paired (EnableCollectionCommand_serialize v) EnableCollectionCommand_deserialize v"
  unfolding EnableCollectionCommand_serialize_def EnableCollectionCommand_deserialize_def
  by (rule codec_intros)+ (cases v, simp add: EnableCollectionCommand.make_def)

interpretation EnableCollectionCommand:
  codec EnableCollectionCommand_serialize EnableCollectionCommand_deserialize "\<lambda>_. True"
  by unfold_locales (rule EnableCollectionCommand_codec)

section \<open>ObjectReference.IsCollected\<close>

record IsCollectedResponse =
  is_collected :: bool

definition IsCollectedResponse_serialize :: "IsCollectedResponse \<Rightarrow> writer_op" where
  "IsCollectedResponse_serialize self = write_seq
     [write_boolean (IsCollectedResponse.is_collected self)]"

definition IsCollectedResponse_deserialize :: "IsCollectedResponse reader_op" where
  "IsCollectedResponse_deserialize =
     rbind read_boolean (\<lambda>is_collected.
       rreturn (IsCollectedResponse.make is_collected))"

lemma IsCollectedResponse_codec [codec_intros]:
  "paired (IsCollectedResponse_serialize v) IsCollectedResponse_deserialize v"
  unfolding IsCollectedResponse_serialize_def IsCollectedResponse_deserialize_def
  by (rule codec_intros)+ (cases v, simp add: IsCollectedResponse.make_def)

interpretation IsCollectedResponse:
  codec IsCollectedResponse_serialize IsCollectedResponse_deserialize "\<lambda>_. True"
  by unfold_locales (rule IsCollectedResponse_codec)

record IsCollectedCommand =
  object :: ObjectID

definition IsCollectedCommand_class :: command_class where
  "IsCollectedCommand_class = command_class.make 9 9 {ERR_NONE, ERR_INVALID_OBJECT,
     ERR_VM_DEAD}"

definition IsCollectedCommand_serialize :: "IsCollectedCommand \<Rightarrow> writer_op" where
  "IsCollectedCommand_serialize self = write_seq
     [write_object_id (IsCollectedCommand.object self)]"

definition IsCollectedCommand_deserialize :: "IsCollectedCommand reader_op" where
  "IsCollectedCommand_deserialize =
     rbind read_object_id (\<lambda>object.
       rreturn (IsCollectedCommand.make object))"

lemma IsCollectedCommand_codec [codec_intros]:
  "paired (IsCollectedCommand_serialize v) IsCollectedCommand_deserialize v"
  unfolding IsCollectedCommand_serialize_def IsCollectedCommand_deserialize_def
  by (rule codec_intros)+ (cases v, simp add: IsCollectedCommand.make_def)

interpretation IsCollectedCommand:
  codec IsCollectedCommand_serialize IsCollectedCommand_deserialize "\<lambda>_. True"
  by unfold_locales (rule IsCollectedCommand_codec)

section \<open>ObjectReference.ReferringObjects\<close>

record ReferringObjectsResponse =
  referring_objects :: "TaggedObjectID list"

definition ReferringObjectsResponse_serialize ::
    "ReferringObjectsResponse \<Rightarrow> writer_op" where
  "ReferringObjectsResponse_serialize self = write_seq
     [write_counted write_tagged_object (ReferringObjectsResponse.referring_objects self)]"

definition ReferringObjectsResponse_deserialize :: "ReferringObjectsResponse reader_op" where
  "ReferringObjectsResponse_deserialize =
     rbind (read_counted read_tagged_object) (\<lambda>referring_objects.
       rreturn (ReferringObjectsResponse.make referring_objects))"

lemma ReferringObjectsResponse_codec [codec_intros]:
  "paired (ReferringObjectsResponse_serialize v) ReferringObjectsResponse_deserialize v"
  unfolding ReferringObjectsResponse_serialize_def ReferringObjectsResponse_deserialize_def
  by (rule codec_intros)+ (cases v, simp add: ReferringObjectsResponse.make_def)

interpretation ReferringObjectsResponse:
  codec ReferringObjectsResponse_serialize ReferringObjectsResponse_deserialize "\<lambda>_. True"
  by unfold_locales (rule ReferringObjectsResponse_codec)

record ReferringObjectsCommand =
  object :: ObjectID
  max_referrers :: int

definition ReferringObjectsCommand_class :: command_class where
  "ReferringObjectsCommand_class = command_class.make 9 10 {ERR_NONE, ERR_ILLEGAL_ARGUMENT,
     ERR_INVALID_OBJECT, ERR_NOT_IMPLEMENTED, ERR_VM_DEAD}"

definition ReferringObjectsCommand_serialize ::
    "ReferringObjectsCommand \<Rightarrow> writer_op" where
  "ReferringObjectsCommand_serialize self = write_seq
     [write_object_id (ReferringObjectsCommand.object self),
      write_int (ReferringObjectsCommand.max_referrers self)]"

definition ReferringObjectsCommand_deserialize :: "ReferringObjectsCommand reader_op" where
  "ReferringObjectsCommand_deserialize =
     rbind read_object_id (\<lambda>object.
     rbind read_int (\<lambda>max_referrers.
       rreturn (ReferringObjectsCommand.make object max_referrers)))"

lemma ReferringObjectsCommand_codec [codec_intros]:
  "paired (ReferringObjectsCommand_serialize v) ReferringObjectsCommand_deserialize v"
  unfolding ReferringObjectsCommand_serialize_def ReferringObjectsCommand_deserialize_def
  by (rule codec_intros)+ (cases v, simp add: ReferringObjectsCommand.make_def)

interpretation ReferringObjectsCommand:
  codec ReferringObjectsCommand_serialize ReferringObjectsCommand_deserialize "\<lambda>_. True"
  by unfold_locales (rule ReferringObjectsCommand_codec)

section \<open>The classes of the module\<close>

text \<open>
  The instances of the module's command classes and the classes themselves, with the methods
  dispatched on them; the same for the responses; and the registrations its decorators make.
\<close>

datatype (plugins only: code) object_reference_command =
    ReferenceTypeCommand_obj ReferenceTypeCommand
  | ObjectReference_GetValuesCommand_obj ObjectReference_GetValuesCommand
  | ObjectReference_SetValuesCommand_obj ObjectReference_SetValuesCommand
  | MonitorInfoCommand_obj MonitorInfoCommand
  | ObjectReference_InvokeMethodCommand_obj ObjectReference_InvokeMethodCommand
  | DisableCollectionCommand_obj DisableCollectionCommand
  | EnableCollectionCommand_obj EnableCollectionCommand
  | IsCollectedCommand_obj IsCollectedCommand
  | ReferringObjectsCommand_obj ReferringObjectsCommand

datatype (plugins only: code) object_reference_command_class =
    ReferenceTypeCommand_cls
  | ObjectReference_GetValuesCommand_cls
  | ObjectReference_SetValuesCommand_cls
  | MonitorInfoCommand_cls
  | ObjectReference_InvokeMethodCommand_cls
  | DisableCollectionCommand_cls
  | EnableCollectionCommand_cls
  | IsCollectedCommand_cls
  | ReferringObjectsCommand_cls

primrec object_reference_command_class_of :: "object_reference_command \<Rightarrow> object_reference_command_class" where
  "object_reference_command_class_of (ReferenceTypeCommand_obj self) = ReferenceTypeCommand_cls"
| "object_reference_command_class_of (ObjectReference_GetValuesCommand_obj self) =
     ObjectReference_GetValuesCommand_cls"
| "object_reference_command_class_of (ObjectReference_SetValuesCommand_obj self) =
     ObjectReference_SetValuesCommand_cls"
| "object_reference_command_class_of (MonitorInfoCommand_obj self) = MonitorInfoCommand_cls"
| "object_reference_command_class_of (ObjectReference_InvokeMethodCommand_obj self) =
     ObjectReference_InvokeMethodCommand_cls"
| "object_reference_command_class_of (DisableCollectionCommand_obj self) =
     DisableCollectionCommand_cls"
| "object_reference_command_class_of (EnableCollectionCommand_obj self) =
     EnableCollectionCommand_cls"
| "object_reference_command_class_of (IsCollectedCommand_obj self) = IsCollectedCommand_cls"
| "object_reference_command_class_of (ReferringObjectsCommand_obj self) =
     ReferringObjectsCommand_cls"

primrec object_reference_command_vars :: "object_reference_command_class \<Rightarrow> command_class" where
  "object_reference_command_vars ReferenceTypeCommand_cls = ReferenceTypeCommand_class"
| "object_reference_command_vars ObjectReference_GetValuesCommand_cls =
     ObjectReference_GetValuesCommand_class"
| "object_reference_command_vars ObjectReference_SetValuesCommand_cls =
     ObjectReference_SetValuesCommand_class"
| "object_reference_command_vars MonitorInfoCommand_cls = MonitorInfoCommand_class"
| "object_reference_command_vars ObjectReference_InvokeMethodCommand_cls =
     ObjectReference_InvokeMethodCommand_class"
| "object_reference_command_vars DisableCollectionCommand_cls = DisableCollectionCommand_class"
| "object_reference_command_vars EnableCollectionCommand_cls = EnableCollectionCommand_class"
| "object_reference_command_vars IsCollectedCommand_cls = IsCollectedCommand_class"
| "object_reference_command_vars ReferringObjectsCommand_cls = ReferringObjectsCommand_class"

primrec object_reference_command_name :: "object_reference_command_class \<Rightarrow> string" where
  "object_reference_command_name ReferenceTypeCommand_cls = ''ReferenceTypeCommand''"
| "object_reference_command_name ObjectReference_GetValuesCommand_cls = ''GetValuesCommand''"
| "object_reference_command_name ObjectReference_SetValuesCommand_cls = ''SetValuesCommand''"
| "object_reference_command_name MonitorInfoCommand_cls = ''MonitorInfoCommand''"
| "object_reference_command_name ObjectReference_InvokeMethodCommand_cls =
     ''InvokeMethodCommand''"
| "object_reference_command_name DisableCollectionCommand_cls = ''DisableCollectionCommand''"
| "object_reference_command_name EnableCollectionCommand_cls = ''EnableCollectionCommand''"
| "object_reference_command_name IsCollectedCommand_cls = ''IsCollectedCommand''"
| "object_reference_command_name ReferringObjectsCommand_cls = ''ReferringObjectsCommand''"

primrec object_reference_command_serialize :: "object_reference_command \<Rightarrow> writer_op" where
  "object_reference_command_serialize (ReferenceTypeCommand_obj self) =
     ReferenceTypeCommand_serialize self"
| "object_reference_command_serialize (ObjectReference_GetValuesCommand_obj self) =
     ObjectReference_GetValuesCommand_serialize self"
| "object_reference_command_serialize (ObjectReference_SetValuesCommand_obj self) =
     ObjectReference_SetValuesCommand_serialize self"
| "object_reference_command_serialize (MonitorInfoCommand_obj self) =
     MonitorInfoCommand_serialize self"
| "object_reference_command_serialize (ObjectReference_InvokeMethodCommand_obj self) =
     ObjectReference_InvokeMethodCommand_serialize self"
| "object_reference_command_serialize (DisableCollectionCommand_obj self) =
     DisableCollectionCommand_serialize self"
| "object_reference_command_serialize (EnableCollectionCommand_obj self) =
     EnableCollectionCommand_serialize self"
| "object_reference_command_serialize (IsCollectedCommand_obj self) =
     IsCollectedCommand_serialize self"
| "object_reference_command_serialize (ReferringObjectsCommand_obj self) =
     ReferringObjectsCommand_serialize self"

primrec object_reference_command_deserialize :: "object_reference_command_class \<Rightarrow> object_reference_command reader_op" where
  "object_reference_command_deserialize ReferenceTypeCommand_cls =
     of_class ReferenceTypeCommand_deserialize ReferenceTypeCommand_obj"
| "object_reference_command_deserialize ObjectReference_GetValuesCommand_cls =
     of_class ObjectReference_GetValuesCommand_deserialize ObjectReference_GetValuesCommand_obj"
| "object_reference_command_deserialize ObjectReference_SetValuesCommand_cls =
     of_class ObjectReference_SetValuesCommand_deserialize ObjectReference_SetValuesCommand_obj"
| "object_reference_command_deserialize MonitorInfoCommand_cls =
     of_class MonitorInfoCommand_deserialize MonitorInfoCommand_obj"
| "object_reference_command_deserialize ObjectReference_InvokeMethodCommand_cls =
     of_class ObjectReference_InvokeMethodCommand_deserialize ObjectReference_InvokeMethodCommand_obj"
| "object_reference_command_deserialize DisableCollectionCommand_cls =
     of_class DisableCollectionCommand_deserialize DisableCollectionCommand_obj"
| "object_reference_command_deserialize EnableCollectionCommand_cls =
     of_class EnableCollectionCommand_deserialize EnableCollectionCommand_obj"
| "object_reference_command_deserialize IsCollectedCommand_cls =
     of_class IsCollectedCommand_deserialize IsCollectedCommand_obj"
| "object_reference_command_deserialize ReferringObjectsCommand_cls =
     of_class ReferringObjectsCommand_deserialize ReferringObjectsCommand_obj"

primrec object_reference_command_ok :: "object_reference_command \<Rightarrow> bool" where
  "object_reference_command_ok (ReferenceTypeCommand_obj self) = True"
| "object_reference_command_ok (ObjectReference_GetValuesCommand_obj self) = True"
| "object_reference_command_ok (ObjectReference_SetValuesCommand_obj self) =
     ObjectReference_SetValuesCommand_ok self"
| "object_reference_command_ok (MonitorInfoCommand_obj self) = True"
| "object_reference_command_ok (ObjectReference_InvokeMethodCommand_obj self) =
     ObjectReference_InvokeMethodCommand_ok self"
| "object_reference_command_ok (DisableCollectionCommand_obj self) = True"
| "object_reference_command_ok (EnableCollectionCommand_obj self) = True"
| "object_reference_command_ok (IsCollectedCommand_obj self) = True"
| "object_reference_command_ok (ReferringObjectsCommand_obj self) = True"

interpretation object_reference_command:
  message_family object_reference_command_class_of object_reference_command_serialize
    object_reference_command_deserialize object_reference_command_ok
proof unfold_locales
  fix v assume "object_reference_command_ok v"
  then show "paired (object_reference_command_serialize v)
      (object_reference_command_deserialize (object_reference_command_class_of v)) v"
    by (cases v) (auto intro!: of_class_codec codec_intros)
next
  fix c r v r' assume "object_reference_command_deserialize c r = Inr (v, r')"
  then show "object_reference_command_class_of v = c" by (cases c) (auto dest!: of_class_obj)
next
  fix c r v r' assume "object_reference_command_deserialize c r = Inr (v, r')" and "array_element_tag r = None"
  then show "object_reference_command_ok v"
    by (cases c) (auto dest!: of_class_obj dest: ObjectReference_SetValuesCommand_yields [THEN yieldsD]
        ObjectReference_InvokeMethodCommand_yields [THEN yieldsD])
qed

datatype (plugins only: code) object_reference_response =
    ReferenceTypeResponse_obj ReferenceTypeResponse
  | ObjectReference_GetValuesResponse_obj ObjectReference_GetValuesResponse
  | ObjectReference_SetValuesResponse_obj ObjectReference_SetValuesResponse
  | MonitorInfoResponse_obj MonitorInfoResponse
  | ObjectReference_InvokeMethodResponse_obj ObjectReference_InvokeMethodResponse
  | DisableCollectionResponse_obj DisableCollectionResponse
  | EnableCollectionResponse_obj EnableCollectionResponse
  | IsCollectedResponse_obj IsCollectedResponse
  | ReferringObjectsResponse_obj ReferringObjectsResponse

datatype (plugins only: code) object_reference_response_class =
    ReferenceTypeResponse_cls
  | ObjectReference_GetValuesResponse_cls
  | ObjectReference_SetValuesResponse_cls
  | MonitorInfoResponse_cls
  | ObjectReference_InvokeMethodResponse_cls
  | DisableCollectionResponse_cls
  | EnableCollectionResponse_cls
  | IsCollectedResponse_cls
  | ReferringObjectsResponse_cls

primrec object_reference_response_class_of :: "object_reference_response \<Rightarrow> object_reference_response_class" where
  "object_reference_response_class_of (ReferenceTypeResponse_obj self) =
     ReferenceTypeResponse_cls"
| "object_reference_response_class_of (ObjectReference_GetValuesResponse_obj self) =
     ObjectReference_GetValuesResponse_cls"
| "object_reference_response_class_of (ObjectReference_SetValuesResponse_obj self) =
     ObjectReference_SetValuesResponse_cls"
| "object_reference_response_class_of (MonitorInfoResponse_obj self) = MonitorInfoResponse_cls"
| "object_reference_response_class_of (ObjectReference_InvokeMethodResponse_obj self) =
     ObjectReference_InvokeMethodResponse_cls"
| "object_reference_response_class_of (DisableCollectionResponse_obj self) =
     DisableCollectionResponse_cls"
| "object_reference_response_class_of (EnableCollectionResponse_obj self) =
     EnableCollectionResponse_cls"
| "object_reference_response_class_of (IsCollectedResponse_obj self) = IsCollectedResponse_cls"
| "object_reference_response_class_of (ReferringObjectsResponse_obj self) =
     ReferringObjectsResponse_cls"

primrec object_reference_response_serialize :: "object_reference_response \<Rightarrow> writer_op" where
  "object_reference_response_serialize (ReferenceTypeResponse_obj self) =
     ReferenceTypeResponse_serialize self"
| "object_reference_response_serialize (ObjectReference_GetValuesResponse_obj self) =
     ObjectReference_GetValuesResponse_serialize self"
| "object_reference_response_serialize (ObjectReference_SetValuesResponse_obj self) =
     ObjectReference_SetValuesResponse_serialize self"
| "object_reference_response_serialize (MonitorInfoResponse_obj self) =
     MonitorInfoResponse_serialize self"
| "object_reference_response_serialize (ObjectReference_InvokeMethodResponse_obj self) =
     ObjectReference_InvokeMethodResponse_serialize self"
| "object_reference_response_serialize (DisableCollectionResponse_obj self) =
     DisableCollectionResponse_serialize self"
| "object_reference_response_serialize (EnableCollectionResponse_obj self) =
     EnableCollectionResponse_serialize self"
| "object_reference_response_serialize (IsCollectedResponse_obj self) =
     IsCollectedResponse_serialize self"
| "object_reference_response_serialize (ReferringObjectsResponse_obj self) =
     ReferringObjectsResponse_serialize self"

primrec object_reference_response_deserialize :: "object_reference_response_class \<Rightarrow> object_reference_response reader_op" where
  "object_reference_response_deserialize ReferenceTypeResponse_cls =
     of_class ReferenceTypeResponse_deserialize ReferenceTypeResponse_obj"
| "object_reference_response_deserialize ObjectReference_GetValuesResponse_cls =
     of_class ObjectReference_GetValuesResponse_deserialize ObjectReference_GetValuesResponse_obj"
| "object_reference_response_deserialize ObjectReference_SetValuesResponse_cls =
     of_class ObjectReference_SetValuesResponse_deserialize ObjectReference_SetValuesResponse_obj"
| "object_reference_response_deserialize MonitorInfoResponse_cls =
     of_class MonitorInfoResponse_deserialize MonitorInfoResponse_obj"
| "object_reference_response_deserialize ObjectReference_InvokeMethodResponse_cls =
     of_class ObjectReference_InvokeMethodResponse_deserialize ObjectReference_InvokeMethodResponse_obj"
| "object_reference_response_deserialize DisableCollectionResponse_cls =
     of_class DisableCollectionResponse_deserialize DisableCollectionResponse_obj"
| "object_reference_response_deserialize EnableCollectionResponse_cls =
     of_class EnableCollectionResponse_deserialize EnableCollectionResponse_obj"
| "object_reference_response_deserialize IsCollectedResponse_cls =
     of_class IsCollectedResponse_deserialize IsCollectedResponse_obj"
| "object_reference_response_deserialize ReferringObjectsResponse_cls =
     of_class ReferringObjectsResponse_deserialize ReferringObjectsResponse_obj"

primrec object_reference_response_ok :: "object_reference_response \<Rightarrow> bool" where
  "object_reference_response_ok (ReferenceTypeResponse_obj self) = True"
| "object_reference_response_ok (ObjectReference_GetValuesResponse_obj self) =
     ObjectReference_GetValuesResponse_ok self"
| "object_reference_response_ok (ObjectReference_SetValuesResponse_obj self) = True"
| "object_reference_response_ok (MonitorInfoResponse_obj self) = True"
| "object_reference_response_ok (ObjectReference_InvokeMethodResponse_obj self) =
     ObjectReference_InvokeMethodResponse_ok self"
| "object_reference_response_ok (DisableCollectionResponse_obj self) = True"
| "object_reference_response_ok (EnableCollectionResponse_obj self) = True"
| "object_reference_response_ok (IsCollectedResponse_obj self) = True"
| "object_reference_response_ok (ReferringObjectsResponse_obj self) = True"

interpretation object_reference_response:
  message_family object_reference_response_class_of object_reference_response_serialize
    object_reference_response_deserialize object_reference_response_ok
proof unfold_locales
  fix v assume "object_reference_response_ok v"
  then show "paired (object_reference_response_serialize v)
      (object_reference_response_deserialize (object_reference_response_class_of v)) v"
    by (cases v) (auto intro!: of_class_codec codec_intros)
next
  fix c r v r' assume "object_reference_response_deserialize c r = Inr (v, r')"
  then show "object_reference_response_class_of v = c" by (cases c) (auto dest!: of_class_obj)
next
  fix c r v r' assume "object_reference_response_deserialize c r = Inr (v, r')" and "array_element_tag r = None"
  then show "object_reference_response_ok v"
    by (cases c) (auto dest!: of_class_obj dest: ObjectReference_GetValuesResponse_yields [THEN yieldsD]
        ObjectReference_InvokeMethodResponse_yields [THEN yieldsD])
qed

definition object_reference_registrations ::
    "(object_reference_response_class option \<times> object_reference_command_class) list" where
  "object_reference_registrations =
    [(Some ReferenceTypeResponse_cls, ReferenceTypeCommand_cls),
     (Some ObjectReference_GetValuesResponse_cls, ObjectReference_GetValuesCommand_cls),
     (Some ObjectReference_SetValuesResponse_cls, ObjectReference_SetValuesCommand_cls),
     (Some MonitorInfoResponse_cls, MonitorInfoCommand_cls),
     (Some ObjectReference_InvokeMethodResponse_cls, ObjectReference_InvokeMethodCommand_cls),
     (Some DisableCollectionResponse_cls, DisableCollectionCommand_cls),
     (Some EnableCollectionResponse_cls, EnableCollectionCommand_cls),
     (Some IsCollectedResponse_cls, IsCollectedCommand_cls),
     (Some ReferringObjectsResponse_cls, ReferringObjectsCommand_cls)]"

lemma object_reference_registered:
  "c \<in> snd ` set object_reference_registrations" "(None, c) \<notin> set object_reference_registrations"
  by (cases c, simp_all add: object_reference_registrations_def)

end
