(* ===== verification/Cmd_String_Reference.thy ===== *)
theory Cmd_String_Reference
  imports Codec
begin

text \<open>
  \<^verbatim>\<open>commands/string_reference.py\<close>:
  the command of set 10, which reads a string object.
  Each class is a record, with its \<open>serialize\<close> and \<open>deserialize\<close>; \<open>_class\<close> holds a command's
  class variables. The codec lemma of a class is its round trip, and the interpretation gives it the
  facts of every message class.
\<close>

section \<open>StringReference.Value\<close>

record ValueResponse =
  string_value :: pystr

definition ValueResponse_serialize :: "ValueResponse \<Rightarrow> writer_op" where
  "ValueResponse_serialize self = write_seq
     [write_string (ValueResponse.string_value self)]"

definition ValueResponse_deserialize :: "ValueResponse reader_op" where
  "ValueResponse_deserialize =
     rbind read_string (\<lambda>string_value.
       rreturn (ValueResponse.make string_value))"

lemma ValueResponse_codec [codec_intros]:
  "paired (ValueResponse_serialize v) ValueResponse_deserialize v"
  unfolding ValueResponse_serialize_def ValueResponse_deserialize_def
  by (rule codec_intros)+ (cases v, simp add: ValueResponse.make_def)

interpretation ValueResponse:
  codec ValueResponse_serialize ValueResponse_deserialize "\<lambda>_. True"
  by unfold_locales (rule ValueResponse_codec)

record ValueCommand =
  string_object :: StringID

definition ValueCommand_class :: command_class where
  "ValueCommand_class = command_class.make 10 1 {ERR_NONE, ERR_INVALID_OBJECT,
     ERR_INVALID_STRING, ERR_VM_DEAD}"

definition ValueCommand_serialize :: "ValueCommand \<Rightarrow> writer_op" where
  "ValueCommand_serialize self = write_seq
     [write_string_id (ValueCommand.string_object self)]"

definition ValueCommand_deserialize :: "ValueCommand reader_op" where
  "ValueCommand_deserialize =
     rbind read_string_id (\<lambda>string_object.
       rreturn (ValueCommand.make string_object))"

lemma ValueCommand_codec [codec_intros]:
  "paired (ValueCommand_serialize v) ValueCommand_deserialize v"
  unfolding ValueCommand_serialize_def ValueCommand_deserialize_def
  by (rule codec_intros)+ (cases v, simp add: ValueCommand.make_def)

interpretation ValueCommand:
  codec ValueCommand_serialize ValueCommand_deserialize "\<lambda>_. True"
  by unfold_locales (rule ValueCommand_codec)

section \<open>The classes of the module\<close>

text \<open>
  The instances of the module's command classes and the classes themselves, with the methods
  dispatched on them; the same for the responses; and the registrations its decorators make.
\<close>

datatype (plugins only: code) string_reference_command =
    ValueCommand_obj ValueCommand

datatype (plugins only: code) string_reference_command_class =
    ValueCommand_cls

primrec string_reference_command_class_of :: "string_reference_command \<Rightarrow> string_reference_command_class" where
  "string_reference_command_class_of (ValueCommand_obj self) = ValueCommand_cls"

primrec string_reference_command_vars :: "string_reference_command_class \<Rightarrow> command_class" where
  "string_reference_command_vars ValueCommand_cls = ValueCommand_class"

primrec string_reference_command_name :: "string_reference_command_class \<Rightarrow> string" where
  "string_reference_command_name ValueCommand_cls = ''ValueCommand''"

primrec string_reference_command_serialize :: "string_reference_command \<Rightarrow> writer_op" where
  "string_reference_command_serialize (ValueCommand_obj self) = ValueCommand_serialize self"

primrec string_reference_command_deserialize :: "string_reference_command_class \<Rightarrow> string_reference_command reader_op" where
  "string_reference_command_deserialize ValueCommand_cls =
     of_class ValueCommand_deserialize ValueCommand_obj"

interpretation string_reference_command:
  message_family string_reference_command_class_of string_reference_command_serialize
    string_reference_command_deserialize "\<lambda>_. True"
proof unfold_locales
  fix v
  show "paired (string_reference_command_serialize v)
      (string_reference_command_deserialize (string_reference_command_class_of v)) v"
    by (cases v) (auto intro!: of_class_codec codec_intros)
next
  fix c r v r' assume "string_reference_command_deserialize c r = Inr (v, r')"
  then show "string_reference_command_class_of v = c" by (cases c) (auto dest!: of_class_obj)
qed (rule TrueI)

datatype (plugins only: code) string_reference_response =
    ValueResponse_obj ValueResponse

datatype (plugins only: code) string_reference_response_class =
    ValueResponse_cls

primrec string_reference_response_class_of :: "string_reference_response \<Rightarrow> string_reference_response_class" where
  "string_reference_response_class_of (ValueResponse_obj self) = ValueResponse_cls"

primrec string_reference_response_serialize :: "string_reference_response \<Rightarrow> writer_op" where
  "string_reference_response_serialize (ValueResponse_obj self) = ValueResponse_serialize self"

primrec string_reference_response_deserialize :: "string_reference_response_class \<Rightarrow> string_reference_response reader_op" where
  "string_reference_response_deserialize ValueResponse_cls =
     of_class ValueResponse_deserialize ValueResponse_obj"

interpretation string_reference_response:
  message_family string_reference_response_class_of string_reference_response_serialize
    string_reference_response_deserialize "\<lambda>_. True"
proof unfold_locales
  fix v
  show "paired (string_reference_response_serialize v)
      (string_reference_response_deserialize (string_reference_response_class_of v)) v"
    by (cases v) (auto intro!: of_class_codec codec_intros)
next
  fix c r v r' assume "string_reference_response_deserialize c r = Inr (v, r')"
  then show "string_reference_response_class_of v = c" by (cases c) (auto dest!: of_class_obj)
qed (rule TrueI)

definition string_reference_registrations ::
    "(string_reference_response_class option \<times> string_reference_command_class) list" where
  "string_reference_registrations =
    [(Some ValueResponse_cls, ValueCommand_cls)]"

lemma string_reference_registered:
  "c \<in> snd ` set string_reference_registrations" "(None, c) \<notin> set string_reference_registrations"
  by (cases c, simp_all add: string_reference_registrations_def)

end
