(* ===== verification/Cmd_Thread_Reference.thy ===== *)
theory Cmd_Thread_Reference
  imports Codec
begin

text \<open>
  \<^verbatim>\<open>commands/thread_reference.py\<close>:
  the commands of set 11, on threads: suspension, frames, monitors.
  Each class is a record, with its \<open>serialize\<close> and \<open>deserialize\<close>; \<open>_class\<close> holds a command's
  class variables. The codec lemma of a class is its round trip, and the interpretation gives it the
  facts of every message class.
\<close>

section \<open>ThreadReference.Name\<close>

record ThreadReference_NameResponse =
  thread_name :: pystr

definition ThreadReference_NameResponse_serialize ::
    "ThreadReference_NameResponse \<Rightarrow> writer_op" where
  "ThreadReference_NameResponse_serialize self = write_seq
     [write_string (ThreadReference_NameResponse.thread_name self)]"

definition ThreadReference_NameResponse_deserialize ::
    "ThreadReference_NameResponse reader_op" where
  "ThreadReference_NameResponse_deserialize =
     rbind read_string (\<lambda>thread_name.
       rreturn (ThreadReference_NameResponse.make thread_name))"

lemma ThreadReference_NameResponse_codec [codec_intros]:
  "paired (ThreadReference_NameResponse_serialize v) ThreadReference_NameResponse_deserialize v"
  unfolding ThreadReference_NameResponse_serialize_def
    ThreadReference_NameResponse_deserialize_def
  by (rule codec_intros)+ (cases v, simp add: ThreadReference_NameResponse.make_def)

interpretation ThreadReference_NameResponse:
  codec ThreadReference_NameResponse_serialize ThreadReference_NameResponse_deserialize
    "\<lambda>_. True"
  by unfold_locales (rule ThreadReference_NameResponse_codec)

record ThreadReference_NameCommand =
  thread :: ThreadID

definition ThreadReference_NameCommand_class :: command_class where
  "ThreadReference_NameCommand_class = command_class.make 11 1 {ERR_NONE, ERR_INVALID_OBJECT,
     ERR_INVALID_THREAD, ERR_VM_DEAD}"

definition ThreadReference_NameCommand_serialize ::
    "ThreadReference_NameCommand \<Rightarrow> writer_op" where
  "ThreadReference_NameCommand_serialize self = write_seq
     [write_thread_id (ThreadReference_NameCommand.thread self)]"

definition ThreadReference_NameCommand_deserialize :: "ThreadReference_NameCommand reader_op" where
  "ThreadReference_NameCommand_deserialize =
     rbind read_thread_id (\<lambda>thread.
       rreturn (ThreadReference_NameCommand.make thread))"

lemma ThreadReference_NameCommand_codec [codec_intros]:
  "paired (ThreadReference_NameCommand_serialize v) ThreadReference_NameCommand_deserialize v"
  unfolding ThreadReference_NameCommand_serialize_def ThreadReference_NameCommand_deserialize_def
  by (rule codec_intros)+ (cases v, simp add: ThreadReference_NameCommand.make_def)

interpretation ThreadReference_NameCommand:
  codec ThreadReference_NameCommand_serialize ThreadReference_NameCommand_deserialize "\<lambda>_.
    True"
  by unfold_locales (rule ThreadReference_NameCommand_codec)

section \<open>ThreadReference.Suspend\<close>

datatype (plugins only: code) ThreadReference_SuspendResponse = ThreadReference_SuspendResponse

definition ThreadReference_SuspendResponse_serialize ::
    "ThreadReference_SuspendResponse \<Rightarrow> writer_op" where
  "ThreadReference_SuspendResponse_serialize self = write_seq []"

definition ThreadReference_SuspendResponse_deserialize ::
    "ThreadReference_SuspendResponse reader_op" where
  "ThreadReference_SuspendResponse_deserialize = rreturn ThreadReference_SuspendResponse"

lemma ThreadReference_SuspendResponse_codec [codec_intros]:
  "paired (ThreadReference_SuspendResponse_serialize v)
    ThreadReference_SuspendResponse_deserialize v"
  unfolding ThreadReference_SuspendResponse_serialize_def
    ThreadReference_SuspendResponse_deserialize_def
  by (rule codec_intros)+ (cases v, simp)

interpretation ThreadReference_SuspendResponse:
  codec ThreadReference_SuspendResponse_serialize ThreadReference_SuspendResponse_deserialize
    "\<lambda>_. True"
  by unfold_locales (rule ThreadReference_SuspendResponse_codec)

record ThreadReference_SuspendCommand =
  thread :: ThreadID

definition ThreadReference_SuspendCommand_class :: command_class where
  "ThreadReference_SuspendCommand_class = command_class.make 11 2 {ERR_NONE, ERR_INVALID_OBJECT,
     ERR_INVALID_THREAD, ERR_VM_DEAD}"

definition ThreadReference_SuspendCommand_serialize ::
    "ThreadReference_SuspendCommand \<Rightarrow> writer_op" where
  "ThreadReference_SuspendCommand_serialize self = write_seq
     [write_thread_id (ThreadReference_SuspendCommand.thread self)]"

definition ThreadReference_SuspendCommand_deserialize ::
    "ThreadReference_SuspendCommand reader_op" where
  "ThreadReference_SuspendCommand_deserialize =
     rbind read_thread_id (\<lambda>thread.
       rreturn (ThreadReference_SuspendCommand.make thread))"

lemma ThreadReference_SuspendCommand_codec [codec_intros]:
  "paired (ThreadReference_SuspendCommand_serialize v) ThreadReference_SuspendCommand_deserialize
    v"
  unfolding ThreadReference_SuspendCommand_serialize_def
    ThreadReference_SuspendCommand_deserialize_def
  by (rule codec_intros)+ (cases v, simp add: ThreadReference_SuspendCommand.make_def)

interpretation ThreadReference_SuspendCommand:
  codec ThreadReference_SuspendCommand_serialize ThreadReference_SuspendCommand_deserialize
    "\<lambda>_. True"
  by unfold_locales (rule ThreadReference_SuspendCommand_codec)

section \<open>ThreadReference.Resume\<close>

datatype (plugins only: code) ThreadReference_ResumeResponse = ThreadReference_ResumeResponse

definition ThreadReference_ResumeResponse_serialize ::
    "ThreadReference_ResumeResponse \<Rightarrow> writer_op" where
  "ThreadReference_ResumeResponse_serialize self = write_seq []"

definition ThreadReference_ResumeResponse_deserialize ::
    "ThreadReference_ResumeResponse reader_op" where
  "ThreadReference_ResumeResponse_deserialize = rreturn ThreadReference_ResumeResponse"

lemma ThreadReference_ResumeResponse_codec [codec_intros]:
  "paired (ThreadReference_ResumeResponse_serialize v) ThreadReference_ResumeResponse_deserialize
    v"
  unfolding ThreadReference_ResumeResponse_serialize_def
    ThreadReference_ResumeResponse_deserialize_def
  by (rule codec_intros)+ (cases v, simp)

interpretation ThreadReference_ResumeResponse:
  codec ThreadReference_ResumeResponse_serialize ThreadReference_ResumeResponse_deserialize
    "\<lambda>_. True"
  by unfold_locales (rule ThreadReference_ResumeResponse_codec)

record ThreadReference_ResumeCommand =
  thread :: ThreadID

definition ThreadReference_ResumeCommand_class :: command_class where
  "ThreadReference_ResumeCommand_class = command_class.make 11 3 {ERR_NONE, ERR_INVALID_OBJECT,
     ERR_INVALID_THREAD, ERR_VM_DEAD}"

definition ThreadReference_ResumeCommand_serialize ::
    "ThreadReference_ResumeCommand \<Rightarrow> writer_op" where
  "ThreadReference_ResumeCommand_serialize self = write_seq
     [write_thread_id (ThreadReference_ResumeCommand.thread self)]"

definition ThreadReference_ResumeCommand_deserialize ::
    "ThreadReference_ResumeCommand reader_op" where
  "ThreadReference_ResumeCommand_deserialize =
     rbind read_thread_id (\<lambda>thread.
       rreturn (ThreadReference_ResumeCommand.make thread))"

lemma ThreadReference_ResumeCommand_codec [codec_intros]:
  "paired (ThreadReference_ResumeCommand_serialize v) ThreadReference_ResumeCommand_deserialize v"
  unfolding ThreadReference_ResumeCommand_serialize_def
    ThreadReference_ResumeCommand_deserialize_def
  by (rule codec_intros)+ (cases v, simp add: ThreadReference_ResumeCommand.make_def)

interpretation ThreadReference_ResumeCommand:
  codec ThreadReference_ResumeCommand_serialize ThreadReference_ResumeCommand_deserialize
    "\<lambda>_. True"
  by unfold_locales (rule ThreadReference_ResumeCommand_codec)

section \<open>ThreadReference.Status\<close>

record ThreadReference_StatusResponse =
  thread_status :: JdwpThreadStatus
  suspend_status :: JdwpSuspendStatus

definition ThreadReference_StatusResponse_serialize ::
    "ThreadReference_StatusResponse \<Rightarrow> writer_op" where
  "ThreadReference_StatusResponse_serialize self = write_seq
     [write_int (thread_status_value (ThreadReference_StatusResponse.thread_status self)),
      write_int (suspend_status_value (ThreadReference_StatusResponse.suspend_status self))]"

definition ThreadReference_StatusResponse_deserialize ::
    "ThreadReference_StatusResponse reader_op" where
  "ThreadReference_StatusResponse_deserialize =
     rbind (read_enum read_int JdwpThreadStatus_of) (\<lambda>thread_status.
     rbind (read_enum read_int JdwpSuspendStatus_of) (\<lambda>suspend_status.
       rreturn (ThreadReference_StatusResponse.make thread_status suspend_status)))"

lemma ThreadReference_StatusResponse_codec [codec_intros]:
  "paired (ThreadReference_StatusResponse_serialize v) ThreadReference_StatusResponse_deserialize
    v"
  unfolding ThreadReference_StatusResponse_serialize_def
    ThreadReference_StatusResponse_deserialize_def
  by (rule codec_intros)+ (cases v, simp add: ThreadReference_StatusResponse.make_def)

interpretation ThreadReference_StatusResponse:
  codec ThreadReference_StatusResponse_serialize ThreadReference_StatusResponse_deserialize
    "\<lambda>_. True"
  by unfold_locales (rule ThreadReference_StatusResponse_codec)

record ThreadReference_StatusCommand =
  thread :: ThreadID

definition ThreadReference_StatusCommand_class :: command_class where
  "ThreadReference_StatusCommand_class = command_class.make 11 4 {ERR_NONE, ERR_INVALID_OBJECT,
     ERR_INVALID_THREAD, ERR_VM_DEAD}"

definition ThreadReference_StatusCommand_serialize ::
    "ThreadReference_StatusCommand \<Rightarrow> writer_op" where
  "ThreadReference_StatusCommand_serialize self = write_seq
     [write_thread_id (ThreadReference_StatusCommand.thread self)]"

definition ThreadReference_StatusCommand_deserialize ::
    "ThreadReference_StatusCommand reader_op" where
  "ThreadReference_StatusCommand_deserialize =
     rbind read_thread_id (\<lambda>thread.
       rreturn (ThreadReference_StatusCommand.make thread))"

lemma ThreadReference_StatusCommand_codec [codec_intros]:
  "paired (ThreadReference_StatusCommand_serialize v) ThreadReference_StatusCommand_deserialize v"
  unfolding ThreadReference_StatusCommand_serialize_def
    ThreadReference_StatusCommand_deserialize_def
  by (rule codec_intros)+ (cases v, simp add: ThreadReference_StatusCommand.make_def)

interpretation ThreadReference_StatusCommand:
  codec ThreadReference_StatusCommand_serialize ThreadReference_StatusCommand_deserialize
    "\<lambda>_. True"
  by unfold_locales (rule ThreadReference_StatusCommand_codec)

section \<open>ThreadReference.ThreadGroup\<close>

record ThreadGroupResponse =
  thread_group :: ThreadGroupID

definition ThreadGroupResponse_serialize :: "ThreadGroupResponse \<Rightarrow> writer_op" where
  "ThreadGroupResponse_serialize self = write_seq
     [write_thread_group_id (ThreadGroupResponse.thread_group self)]"

definition ThreadGroupResponse_deserialize :: "ThreadGroupResponse reader_op" where
  "ThreadGroupResponse_deserialize =
     rbind read_thread_group_id (\<lambda>thread_group.
       rreturn (ThreadGroupResponse.make thread_group))"

lemma ThreadGroupResponse_codec [codec_intros]:
  "paired (ThreadGroupResponse_serialize v) ThreadGroupResponse_deserialize v"
  unfolding ThreadGroupResponse_serialize_def ThreadGroupResponse_deserialize_def
  by (rule codec_intros)+ (cases v, simp add: ThreadGroupResponse.make_def)

interpretation ThreadGroupResponse:
  codec ThreadGroupResponse_serialize ThreadGroupResponse_deserialize "\<lambda>_. True"
  by unfold_locales (rule ThreadGroupResponse_codec)

record ThreadGroupCommand =
  thread :: ThreadID

definition ThreadGroupCommand_class :: command_class where
  "ThreadGroupCommand_class = command_class.make 11 5 {ERR_NONE, ERR_INVALID_OBJECT,
     ERR_INVALID_THREAD, ERR_VM_DEAD}"

definition ThreadGroupCommand_serialize :: "ThreadGroupCommand \<Rightarrow> writer_op" where
  "ThreadGroupCommand_serialize self = write_seq
     [write_thread_id (ThreadGroupCommand.thread self)]"

definition ThreadGroupCommand_deserialize :: "ThreadGroupCommand reader_op" where
  "ThreadGroupCommand_deserialize =
     rbind read_thread_id (\<lambda>thread.
       rreturn (ThreadGroupCommand.make thread))"

lemma ThreadGroupCommand_codec [codec_intros]:
  "paired (ThreadGroupCommand_serialize v) ThreadGroupCommand_deserialize v"
  unfolding ThreadGroupCommand_serialize_def ThreadGroupCommand_deserialize_def
  by (rule codec_intros)+ (cases v, simp add: ThreadGroupCommand.make_def)

interpretation ThreadGroupCommand:
  codec ThreadGroupCommand_serialize ThreadGroupCommand_deserialize "\<lambda>_. True"
  by unfold_locales (rule ThreadGroupCommand_codec)

section \<open>ThreadReference.Frames\<close>

record FramesEntry =
  frame_id :: FrameID
  "location" :: Location

definition FramesEntry_serialize :: "FramesEntry \<Rightarrow> writer_op" where
  "FramesEntry_serialize self = write_seq
     [write_frame_id (FramesEntry.frame_id self),
      write_location (FramesEntry.location self)]"

definition FramesEntry_deserialize :: "FramesEntry reader_op" where
  "FramesEntry_deserialize =
     rbind read_frame_id (\<lambda>frame_id.
     rbind read_location (\<lambda>location.
       rreturn (FramesEntry.make frame_id location)))"

lemma FramesEntry_codec [codec_intros]:
  "paired (FramesEntry_serialize v) FramesEntry_deserialize v"
  unfolding FramesEntry_serialize_def FramesEntry_deserialize_def
  by (rule codec_intros)+ (cases v, simp add: FramesEntry.make_def)

record FramesResponse =
  frames :: "FramesEntry list"

definition FramesResponse_serialize :: "FramesResponse \<Rightarrow> writer_op" where
  "FramesResponse_serialize self = write_seq
     [write_counted FramesEntry_serialize (FramesResponse.frames self)]"

definition FramesResponse_deserialize :: "FramesResponse reader_op" where
  "FramesResponse_deserialize =
     rbind (read_counted FramesEntry_deserialize) (\<lambda>frames.
       rreturn (FramesResponse.make frames))"

lemma FramesResponse_codec [codec_intros]:
  "paired (FramesResponse_serialize v) FramesResponse_deserialize v"
  unfolding FramesResponse_serialize_def FramesResponse_deserialize_def
  by (rule codec_intros)+ (cases v, simp add: FramesResponse.make_def)

interpretation FramesResponse:
  codec FramesResponse_serialize FramesResponse_deserialize "\<lambda>_. True"
  by unfold_locales (rule FramesResponse_codec)

record FramesCommand =
  thread :: ThreadID
  start_frame :: int
  length' :: int

definition FramesCommand_class :: command_class where
  "FramesCommand_class = command_class.make 11 6 {ERR_NONE, ERR_INVALID_OBJECT,
     ERR_INVALID_THREAD, ERR_VM_DEAD}"

definition FramesCommand_serialize :: "FramesCommand \<Rightarrow> writer_op" where
  "FramesCommand_serialize self = write_seq
     [write_thread_id (FramesCommand.thread self),
      write_int (FramesCommand.start_frame self),
      write_int (FramesCommand.length' self)]"

definition FramesCommand_deserialize :: "FramesCommand reader_op" where
  "FramesCommand_deserialize =
     rbind read_thread_id (\<lambda>thread.
     rbind read_int (\<lambda>start_frame.
     rbind read_int (\<lambda>length'.
       rreturn (FramesCommand.make thread start_frame length'))))"

lemma FramesCommand_codec [codec_intros]:
  "paired (FramesCommand_serialize v) FramesCommand_deserialize v"
  unfolding FramesCommand_serialize_def FramesCommand_deserialize_def
  by (rule codec_intros)+ (cases v, simp add: FramesCommand.make_def)

interpretation FramesCommand:
  codec FramesCommand_serialize FramesCommand_deserialize "\<lambda>_. True"
  by unfold_locales (rule FramesCommand_codec)

section \<open>ThreadReference.FrameCount\<close>

record FrameCountResponse =
  frame_count :: int

definition FrameCountResponse_serialize :: "FrameCountResponse \<Rightarrow> writer_op" where
  "FrameCountResponse_serialize self = write_seq
     [write_int (FrameCountResponse.frame_count self)]"

definition FrameCountResponse_deserialize :: "FrameCountResponse reader_op" where
  "FrameCountResponse_deserialize =
     rbind read_int (\<lambda>frame_count.
       rreturn (FrameCountResponse.make frame_count))"

lemma FrameCountResponse_codec [codec_intros]:
  "paired (FrameCountResponse_serialize v) FrameCountResponse_deserialize v"
  unfolding FrameCountResponse_serialize_def FrameCountResponse_deserialize_def
  by (rule codec_intros)+ (cases v, simp add: FrameCountResponse.make_def)

interpretation FrameCountResponse:
  codec FrameCountResponse_serialize FrameCountResponse_deserialize "\<lambda>_. True"
  by unfold_locales (rule FrameCountResponse_codec)

record FrameCountCommand =
  thread :: ThreadID

definition FrameCountCommand_class :: command_class where
  "FrameCountCommand_class = command_class.make 11 7 {ERR_NONE, ERR_INVALID_OBJECT,
     ERR_INVALID_THREAD, ERR_VM_DEAD}"

definition FrameCountCommand_serialize :: "FrameCountCommand \<Rightarrow> writer_op" where
  "FrameCountCommand_serialize self = write_seq
     [write_thread_id (FrameCountCommand.thread self)]"

definition FrameCountCommand_deserialize :: "FrameCountCommand reader_op" where
  "FrameCountCommand_deserialize =
     rbind read_thread_id (\<lambda>thread.
       rreturn (FrameCountCommand.make thread))"

lemma FrameCountCommand_codec [codec_intros]:
  "paired (FrameCountCommand_serialize v) FrameCountCommand_deserialize v"
  unfolding FrameCountCommand_serialize_def FrameCountCommand_deserialize_def
  by (rule codec_intros)+ (cases v, simp add: FrameCountCommand.make_def)

interpretation FrameCountCommand:
  codec FrameCountCommand_serialize FrameCountCommand_deserialize "\<lambda>_. True"
  by unfold_locales (rule FrameCountCommand_codec)

section \<open>ThreadReference.OwnedMonitors\<close>

record OwnedMonitorsResponse =
  monitors :: "TaggedObjectID list"

definition OwnedMonitorsResponse_serialize :: "OwnedMonitorsResponse \<Rightarrow> writer_op" where
  "OwnedMonitorsResponse_serialize self = write_seq
     [write_counted write_tagged_object (OwnedMonitorsResponse.monitors self)]"

definition OwnedMonitorsResponse_deserialize :: "OwnedMonitorsResponse reader_op" where
  "OwnedMonitorsResponse_deserialize =
     rbind (read_counted read_tagged_object) (\<lambda>monitors.
       rreturn (OwnedMonitorsResponse.make monitors))"

lemma OwnedMonitorsResponse_codec [codec_intros]:
  "paired (OwnedMonitorsResponse_serialize v) OwnedMonitorsResponse_deserialize v"
  unfolding OwnedMonitorsResponse_serialize_def OwnedMonitorsResponse_deserialize_def
  by (rule codec_intros)+ (cases v, simp add: OwnedMonitorsResponse.make_def)

interpretation OwnedMonitorsResponse:
  codec OwnedMonitorsResponse_serialize OwnedMonitorsResponse_deserialize "\<lambda>_. True"
  by unfold_locales (rule OwnedMonitorsResponse_codec)

record OwnedMonitorsCommand =
  thread :: ThreadID

definition OwnedMonitorsCommand_class :: command_class where
  "OwnedMonitorsCommand_class = command_class.make 11 8 {ERR_NONE, ERR_INVALID_OBJECT,
     ERR_INVALID_THREAD, ERR_NOT_IMPLEMENTED, ERR_VM_DEAD}"

definition OwnedMonitorsCommand_serialize :: "OwnedMonitorsCommand \<Rightarrow> writer_op" where
  "OwnedMonitorsCommand_serialize self = write_seq
     [write_thread_id (OwnedMonitorsCommand.thread self)]"

definition OwnedMonitorsCommand_deserialize :: "OwnedMonitorsCommand reader_op" where
  "OwnedMonitorsCommand_deserialize =
     rbind read_thread_id (\<lambda>thread.
       rreturn (OwnedMonitorsCommand.make thread))"

lemma OwnedMonitorsCommand_codec [codec_intros]:
  "paired (OwnedMonitorsCommand_serialize v) OwnedMonitorsCommand_deserialize v"
  unfolding OwnedMonitorsCommand_serialize_def OwnedMonitorsCommand_deserialize_def
  by (rule codec_intros)+ (cases v, simp add: OwnedMonitorsCommand.make_def)

interpretation OwnedMonitorsCommand:
  codec OwnedMonitorsCommand_serialize OwnedMonitorsCommand_deserialize "\<lambda>_. True"
  by unfold_locales (rule OwnedMonitorsCommand_codec)

section \<open>ThreadReference.CurrentContendedMonitor\<close>

record CurrentContendedMonitorResponse =
  "monitor" :: TaggedObjectID

definition CurrentContendedMonitorResponse_serialize ::
    "CurrentContendedMonitorResponse \<Rightarrow> writer_op" where
  "CurrentContendedMonitorResponse_serialize self = write_seq
     [write_tagged_object (CurrentContendedMonitorResponse.monitor self)]"

definition CurrentContendedMonitorResponse_deserialize ::
    "CurrentContendedMonitorResponse reader_op" where
  "CurrentContendedMonitorResponse_deserialize =
     rbind read_tagged_object (\<lambda>monitor.
       rreturn (CurrentContendedMonitorResponse.make monitor))"

lemma CurrentContendedMonitorResponse_codec [codec_intros]:
  "paired (CurrentContendedMonitorResponse_serialize v)
    CurrentContendedMonitorResponse_deserialize v"
  unfolding CurrentContendedMonitorResponse_serialize_def
    CurrentContendedMonitorResponse_deserialize_def
  by (rule codec_intros)+ (cases v, simp add: CurrentContendedMonitorResponse.make_def)

interpretation CurrentContendedMonitorResponse:
  codec CurrentContendedMonitorResponse_serialize CurrentContendedMonitorResponse_deserialize
    "\<lambda>_. True"
  by unfold_locales (rule CurrentContendedMonitorResponse_codec)

record CurrentContendedMonitorCommand =
  thread :: ThreadID

definition CurrentContendedMonitorCommand_class :: command_class where
  "CurrentContendedMonitorCommand_class = command_class.make 11 9 {ERR_NONE, ERR_INVALID_OBJECT,
     ERR_INVALID_THREAD, ERR_NOT_IMPLEMENTED, ERR_VM_DEAD}"

definition CurrentContendedMonitorCommand_serialize ::
    "CurrentContendedMonitorCommand \<Rightarrow> writer_op" where
  "CurrentContendedMonitorCommand_serialize self = write_seq
     [write_thread_id (CurrentContendedMonitorCommand.thread self)]"

definition CurrentContendedMonitorCommand_deserialize ::
    "CurrentContendedMonitorCommand reader_op" where
  "CurrentContendedMonitorCommand_deserialize =
     rbind read_thread_id (\<lambda>thread.
       rreturn (CurrentContendedMonitorCommand.make thread))"

lemma CurrentContendedMonitorCommand_codec [codec_intros]:
  "paired (CurrentContendedMonitorCommand_serialize v) CurrentContendedMonitorCommand_deserialize
    v"
  unfolding CurrentContendedMonitorCommand_serialize_def
    CurrentContendedMonitorCommand_deserialize_def
  by (rule codec_intros)+ (cases v, simp add: CurrentContendedMonitorCommand.make_def)

interpretation CurrentContendedMonitorCommand:
  codec CurrentContendedMonitorCommand_serialize CurrentContendedMonitorCommand_deserialize
    "\<lambda>_. True"
  by unfold_locales (rule CurrentContendedMonitorCommand_codec)

section \<open>ThreadReference.Stop\<close>

datatype (plugins only: code) StopResponse = StopResponse

definition StopResponse_serialize :: "StopResponse \<Rightarrow> writer_op" where
  "StopResponse_serialize self = write_seq []"

definition StopResponse_deserialize :: "StopResponse reader_op" where
  "StopResponse_deserialize = rreturn StopResponse"

lemma StopResponse_codec [codec_intros]:
  "paired (StopResponse_serialize v) StopResponse_deserialize v"
  unfolding StopResponse_serialize_def StopResponse_deserialize_def
  by (rule codec_intros)+ (cases v, simp)

interpretation StopResponse:
  codec StopResponse_serialize StopResponse_deserialize "\<lambda>_. True"
  by unfold_locales (rule StopResponse_codec)

record StopCommand =
  thread :: ThreadID
  throwable :: ObjectID

definition StopCommand_class :: command_class where
  "StopCommand_class = command_class.make 11 10 {ERR_NONE, ERR_INVALID_OBJECT,
     ERR_INVALID_THREAD, ERR_OPAQUE_FRAME, ERR_THREAD_NOT_SUSPENDED, ERR_VM_DEAD}"

definition StopCommand_serialize :: "StopCommand \<Rightarrow> writer_op" where
  "StopCommand_serialize self = write_seq
     [write_thread_id (StopCommand.thread self),
      write_object_id (StopCommand.throwable self)]"

definition StopCommand_deserialize :: "StopCommand reader_op" where
  "StopCommand_deserialize =
     rbind read_thread_id (\<lambda>thread.
     rbind read_object_id (\<lambda>throwable.
       rreturn (StopCommand.make thread throwable)))"

lemma StopCommand_codec [codec_intros]:
  "paired (StopCommand_serialize v) StopCommand_deserialize v"
  unfolding StopCommand_serialize_def StopCommand_deserialize_def
  by (rule codec_intros)+ (cases v, simp add: StopCommand.make_def)

interpretation StopCommand: codec StopCommand_serialize StopCommand_deserialize "\<lambda>_. True"
  by unfold_locales (rule StopCommand_codec)

section \<open>ThreadReference.Interrupt\<close>

datatype (plugins only: code) InterruptResponse = InterruptResponse

definition InterruptResponse_serialize :: "InterruptResponse \<Rightarrow> writer_op" where
  "InterruptResponse_serialize self = write_seq []"

definition InterruptResponse_deserialize :: "InterruptResponse reader_op" where
  "InterruptResponse_deserialize = rreturn InterruptResponse"

lemma InterruptResponse_codec [codec_intros]:
  "paired (InterruptResponse_serialize v) InterruptResponse_deserialize v"
  unfolding InterruptResponse_serialize_def InterruptResponse_deserialize_def
  by (rule codec_intros)+ (cases v, simp)

interpretation InterruptResponse:
  codec InterruptResponse_serialize InterruptResponse_deserialize "\<lambda>_. True"
  by unfold_locales (rule InterruptResponse_codec)

record InterruptCommand =
  thread :: ThreadID

definition InterruptCommand_class :: command_class where
  "InterruptCommand_class = command_class.make 11 11 {ERR_NONE, ERR_INVALID_OBJECT,
     ERR_INVALID_THREAD, ERR_VM_DEAD}"

definition InterruptCommand_serialize :: "InterruptCommand \<Rightarrow> writer_op" where
  "InterruptCommand_serialize self = write_seq
     [write_thread_id (InterruptCommand.thread self)]"

definition InterruptCommand_deserialize :: "InterruptCommand reader_op" where
  "InterruptCommand_deserialize =
     rbind read_thread_id (\<lambda>thread.
       rreturn (InterruptCommand.make thread))"

lemma InterruptCommand_codec [codec_intros]:
  "paired (InterruptCommand_serialize v) InterruptCommand_deserialize v"
  unfolding InterruptCommand_serialize_def InterruptCommand_deserialize_def
  by (rule codec_intros)+ (cases v, simp add: InterruptCommand.make_def)

interpretation InterruptCommand:
  codec InterruptCommand_serialize InterruptCommand_deserialize "\<lambda>_. True"
  by unfold_locales (rule InterruptCommand_codec)

section \<open>ThreadReference.SuspendCount\<close>

record SuspendCountResponse =
  suspend_count :: int

definition SuspendCountResponse_serialize :: "SuspendCountResponse \<Rightarrow> writer_op" where
  "SuspendCountResponse_serialize self = write_seq
     [write_int (SuspendCountResponse.suspend_count self)]"

definition SuspendCountResponse_deserialize :: "SuspendCountResponse reader_op" where
  "SuspendCountResponse_deserialize =
     rbind read_int (\<lambda>suspend_count.
       rreturn (SuspendCountResponse.make suspend_count))"

lemma SuspendCountResponse_codec [codec_intros]:
  "paired (SuspendCountResponse_serialize v) SuspendCountResponse_deserialize v"
  unfolding SuspendCountResponse_serialize_def SuspendCountResponse_deserialize_def
  by (rule codec_intros)+ (cases v, simp add: SuspendCountResponse.make_def)

interpretation SuspendCountResponse:
  codec SuspendCountResponse_serialize SuspendCountResponse_deserialize "\<lambda>_. True"
  by unfold_locales (rule SuspendCountResponse_codec)

record SuspendCountCommand =
  thread :: ThreadID

definition SuspendCountCommand_class :: command_class where
  "SuspendCountCommand_class = command_class.make 11 12 {ERR_NONE, ERR_INVALID_OBJECT,
     ERR_INVALID_THREAD, ERR_VM_DEAD}"

definition SuspendCountCommand_serialize :: "SuspendCountCommand \<Rightarrow> writer_op" where
  "SuspendCountCommand_serialize self = write_seq
     [write_thread_id (SuspendCountCommand.thread self)]"

definition SuspendCountCommand_deserialize :: "SuspendCountCommand reader_op" where
  "SuspendCountCommand_deserialize =
     rbind read_thread_id (\<lambda>thread.
       rreturn (SuspendCountCommand.make thread))"

lemma SuspendCountCommand_codec [codec_intros]:
  "paired (SuspendCountCommand_serialize v) SuspendCountCommand_deserialize v"
  unfolding SuspendCountCommand_serialize_def SuspendCountCommand_deserialize_def
  by (rule codec_intros)+ (cases v, simp add: SuspendCountCommand.make_def)

interpretation SuspendCountCommand:
  codec SuspendCountCommand_serialize SuspendCountCommand_deserialize "\<lambda>_. True"
  by unfold_locales (rule SuspendCountCommand_codec)

section \<open>ThreadReference.OwnedMonitorsStackDepthInfo\<close>

record MonitorStackDepthInfoEntry =
  "monitor" :: TaggedObjectID
  stack_depth :: int

definition MonitorStackDepthInfoEntry_serialize ::
    "MonitorStackDepthInfoEntry \<Rightarrow> writer_op" where
  "MonitorStackDepthInfoEntry_serialize self = write_seq
     [write_tagged_object (MonitorStackDepthInfoEntry.monitor self),
      write_int (MonitorStackDepthInfoEntry.stack_depth self)]"

definition MonitorStackDepthInfoEntry_deserialize :: "MonitorStackDepthInfoEntry reader_op" where
  "MonitorStackDepthInfoEntry_deserialize =
     rbind read_tagged_object (\<lambda>monitor.
     rbind read_int (\<lambda>stack_depth.
       rreturn (MonitorStackDepthInfoEntry.make monitor stack_depth)))"

lemma MonitorStackDepthInfoEntry_codec [codec_intros]:
  "paired (MonitorStackDepthInfoEntry_serialize v) MonitorStackDepthInfoEntry_deserialize v"
  unfolding MonitorStackDepthInfoEntry_serialize_def MonitorStackDepthInfoEntry_deserialize_def
  by (rule codec_intros)+ (cases v, simp add: MonitorStackDepthInfoEntry.make_def)

record OwnedMonitorsStackDepthInfoResponse =
  monitors :: "MonitorStackDepthInfoEntry list"

definition OwnedMonitorsStackDepthInfoResponse_serialize ::
    "OwnedMonitorsStackDepthInfoResponse \<Rightarrow> writer_op" where
  "OwnedMonitorsStackDepthInfoResponse_serialize self = write_seq
     [write_counted MonitorStackDepthInfoEntry_serialize (OwnedMonitorsStackDepthInfoResponse.monitors self)]"

definition OwnedMonitorsStackDepthInfoResponse_deserialize ::
    "OwnedMonitorsStackDepthInfoResponse reader_op" where
  "OwnedMonitorsStackDepthInfoResponse_deserialize =
     rbind (read_counted MonitorStackDepthInfoEntry_deserialize) (\<lambda>monitors.
       rreturn (OwnedMonitorsStackDepthInfoResponse.make monitors))"

lemma OwnedMonitorsStackDepthInfoResponse_codec [codec_intros]:
  "paired (OwnedMonitorsStackDepthInfoResponse_serialize v)
    OwnedMonitorsStackDepthInfoResponse_deserialize v"
  unfolding OwnedMonitorsStackDepthInfoResponse_serialize_def
    OwnedMonitorsStackDepthInfoResponse_deserialize_def
  by (rule codec_intros)+ (cases v, simp add: OwnedMonitorsStackDepthInfoResponse.make_def)

interpretation OwnedMonitorsStackDepthInfoResponse:
  codec OwnedMonitorsStackDepthInfoResponse_serialize
    OwnedMonitorsStackDepthInfoResponse_deserialize "\<lambda>_. True"
  by unfold_locales (rule OwnedMonitorsStackDepthInfoResponse_codec)

record OwnedMonitorsStackDepthInfoCommand =
  thread :: ThreadID

definition OwnedMonitorsStackDepthInfoCommand_class :: command_class where
  "OwnedMonitorsStackDepthInfoCommand_class = command_class.make 11 13 default_allowed_errors"

definition OwnedMonitorsStackDepthInfoCommand_serialize ::
    "OwnedMonitorsStackDepthInfoCommand \<Rightarrow> writer_op" where
  "OwnedMonitorsStackDepthInfoCommand_serialize self = write_seq
     [write_thread_id (OwnedMonitorsStackDepthInfoCommand.thread self)]"

definition OwnedMonitorsStackDepthInfoCommand_deserialize ::
    "OwnedMonitorsStackDepthInfoCommand reader_op" where
  "OwnedMonitorsStackDepthInfoCommand_deserialize =
     rbind read_thread_id (\<lambda>thread.
       rreturn (OwnedMonitorsStackDepthInfoCommand.make thread))"

lemma OwnedMonitorsStackDepthInfoCommand_codec [codec_intros]:
  "paired (OwnedMonitorsStackDepthInfoCommand_serialize v)
    OwnedMonitorsStackDepthInfoCommand_deserialize v"
  unfolding OwnedMonitorsStackDepthInfoCommand_serialize_def
    OwnedMonitorsStackDepthInfoCommand_deserialize_def
  by (rule codec_intros)+ (cases v, simp add: OwnedMonitorsStackDepthInfoCommand.make_def)

interpretation OwnedMonitorsStackDepthInfoCommand:
  codec OwnedMonitorsStackDepthInfoCommand_serialize
    OwnedMonitorsStackDepthInfoCommand_deserialize "\<lambda>_. True"
  by unfold_locales (rule OwnedMonitorsStackDepthInfoCommand_codec)

section \<open>ThreadReference.ForceEarlyReturn\<close>

datatype (plugins only: code) ForceEarlyReturnResponse = ForceEarlyReturnResponse

definition ForceEarlyReturnResponse_serialize ::
    "ForceEarlyReturnResponse \<Rightarrow> writer_op" where
  "ForceEarlyReturnResponse_serialize self = write_seq []"

definition ForceEarlyReturnResponse_deserialize :: "ForceEarlyReturnResponse reader_op" where
  "ForceEarlyReturnResponse_deserialize = rreturn ForceEarlyReturnResponse"

lemma ForceEarlyReturnResponse_codec [codec_intros]:
  "paired (ForceEarlyReturnResponse_serialize v) ForceEarlyReturnResponse_deserialize v"
  unfolding ForceEarlyReturnResponse_serialize_def ForceEarlyReturnResponse_deserialize_def
  by (rule codec_intros)+ (cases v, simp)

interpretation ForceEarlyReturnResponse:
  codec ForceEarlyReturnResponse_serialize ForceEarlyReturnResponse_deserialize "\<lambda>_. True"
  by unfold_locales (rule ForceEarlyReturnResponse_codec)

record ForceEarlyReturnCommand =
  thread :: ThreadID
  "value" :: JdwpValue

definition ForceEarlyReturnCommand_class :: command_class where
  "ForceEarlyReturnCommand_class = command_class.make 11 14 {ERR_NONE, ERR_INVALID_OBJECT,
     ERR_INVALID_THREAD, ERR_NOT_IMPLEMENTED, ERR_NO_MORE_FRAMES, ERR_OPAQUE_FRAME,
     ERR_THREAD_NOT_SUSPENDED, ERR_TYPE_MISMATCH, ERR_VM_DEAD}"

definition ForceEarlyReturnCommand_serialize ::
    "ForceEarlyReturnCommand \<Rightarrow> writer_op" where
  "ForceEarlyReturnCommand_serialize self = write_seq
     [write_thread_id (ForceEarlyReturnCommand.thread self),
      write_value (ForceEarlyReturnCommand.value self)]"

definition ForceEarlyReturnCommand_deserialize :: "ForceEarlyReturnCommand reader_op" where
  "ForceEarlyReturnCommand_deserialize =
     rbind read_thread_id (\<lambda>thread.
     rbind read_value (\<lambda>value.
       rreturn (ForceEarlyReturnCommand.make thread value)))"

definition ForceEarlyReturnCommand_ok :: "ForceEarlyReturnCommand \<Rightarrow> bool" where
  "ForceEarlyReturnCommand_ok v \<longleftrightarrow> jdwp_value_ok (ForceEarlyReturnCommand.value
     v)"

lemma ForceEarlyReturnCommand_codec [codec_intros]:
  assumes "ForceEarlyReturnCommand_ok v"
  shows "paired (ForceEarlyReturnCommand_serialize v) ForceEarlyReturnCommand_deserialize v"
  unfolding ForceEarlyReturnCommand_serialize_def ForceEarlyReturnCommand_deserialize_def
  by (insert assms [unfolded ForceEarlyReturnCommand_ok_def],
      (erule conjE | rule codec_intros | assumption | erule (1) list_all_member)+)
    (cases v, simp add: ForceEarlyReturnCommand.make_def)

lemma ForceEarlyReturnCommand_yields [yields_intros]: "yields ForceEarlyReturnCommand_deserialize ForceEarlyReturnCommand_ok"
  unfolding ForceEarlyReturnCommand_deserialize_def
  by ((rule yields_intros | rule yields_bind yields_return | rule yields_any)+)
    (simp add: ForceEarlyReturnCommand_ok_def ForceEarlyReturnCommand.make_def)

interpretation ForceEarlyReturnCommand:
  codec ForceEarlyReturnCommand_serialize ForceEarlyReturnCommand_deserialize
    ForceEarlyReturnCommand_ok
  by unfold_locales (rule ForceEarlyReturnCommand_codec)

section \<open>The classes of the module\<close>

text \<open>
  The instances of the module's command classes and the classes themselves, with the methods
  dispatched on them; the same for the responses; and the registrations its decorators make.
\<close>

datatype (plugins only: code) thread_reference_command =
    ThreadReference_NameCommand_obj ThreadReference_NameCommand
  | ThreadReference_SuspendCommand_obj ThreadReference_SuspendCommand
  | ThreadReference_ResumeCommand_obj ThreadReference_ResumeCommand
  | ThreadReference_StatusCommand_obj ThreadReference_StatusCommand
  | ThreadGroupCommand_obj ThreadGroupCommand
  | FramesCommand_obj FramesCommand
  | FrameCountCommand_obj FrameCountCommand
  | OwnedMonitorsCommand_obj OwnedMonitorsCommand
  | CurrentContendedMonitorCommand_obj CurrentContendedMonitorCommand
  | StopCommand_obj StopCommand
  | InterruptCommand_obj InterruptCommand
  | SuspendCountCommand_obj SuspendCountCommand
  | OwnedMonitorsStackDepthInfoCommand_obj OwnedMonitorsStackDepthInfoCommand
  | ForceEarlyReturnCommand_obj ForceEarlyReturnCommand

datatype (plugins only: code) thread_reference_command_class =
    ThreadReference_NameCommand_cls
  | ThreadReference_SuspendCommand_cls
  | ThreadReference_ResumeCommand_cls
  | ThreadReference_StatusCommand_cls
  | ThreadGroupCommand_cls
  | FramesCommand_cls
  | FrameCountCommand_cls
  | OwnedMonitorsCommand_cls
  | CurrentContendedMonitorCommand_cls
  | StopCommand_cls
  | InterruptCommand_cls
  | SuspendCountCommand_cls
  | OwnedMonitorsStackDepthInfoCommand_cls
  | ForceEarlyReturnCommand_cls

primrec thread_reference_command_class_of :: "thread_reference_command \<Rightarrow> thread_reference_command_class" where
  "thread_reference_command_class_of (ThreadReference_NameCommand_obj self) =
     ThreadReference_NameCommand_cls"
| "thread_reference_command_class_of (ThreadReference_SuspendCommand_obj self) =
     ThreadReference_SuspendCommand_cls"
| "thread_reference_command_class_of (ThreadReference_ResumeCommand_obj self) =
     ThreadReference_ResumeCommand_cls"
| "thread_reference_command_class_of (ThreadReference_StatusCommand_obj self) =
     ThreadReference_StatusCommand_cls"
| "thread_reference_command_class_of (ThreadGroupCommand_obj self) = ThreadGroupCommand_cls"
| "thread_reference_command_class_of (FramesCommand_obj self) = FramesCommand_cls"
| "thread_reference_command_class_of (FrameCountCommand_obj self) = FrameCountCommand_cls"
| "thread_reference_command_class_of (OwnedMonitorsCommand_obj self) = OwnedMonitorsCommand_cls"
| "thread_reference_command_class_of (CurrentContendedMonitorCommand_obj self) =
     CurrentContendedMonitorCommand_cls"
| "thread_reference_command_class_of (StopCommand_obj self) = StopCommand_cls"
| "thread_reference_command_class_of (InterruptCommand_obj self) = InterruptCommand_cls"
| "thread_reference_command_class_of (SuspendCountCommand_obj self) = SuspendCountCommand_cls"
| "thread_reference_command_class_of (OwnedMonitorsStackDepthInfoCommand_obj self) =
     OwnedMonitorsStackDepthInfoCommand_cls"
| "thread_reference_command_class_of (ForceEarlyReturnCommand_obj self) =
     ForceEarlyReturnCommand_cls"

primrec thread_reference_command_vars :: "thread_reference_command_class \<Rightarrow> command_class" where
  "thread_reference_command_vars ThreadReference_NameCommand_cls =
     ThreadReference_NameCommand_class"
| "thread_reference_command_vars ThreadReference_SuspendCommand_cls =
     ThreadReference_SuspendCommand_class"
| "thread_reference_command_vars ThreadReference_ResumeCommand_cls =
     ThreadReference_ResumeCommand_class"
| "thread_reference_command_vars ThreadReference_StatusCommand_cls =
     ThreadReference_StatusCommand_class"
| "thread_reference_command_vars ThreadGroupCommand_cls = ThreadGroupCommand_class"
| "thread_reference_command_vars FramesCommand_cls = FramesCommand_class"
| "thread_reference_command_vars FrameCountCommand_cls = FrameCountCommand_class"
| "thread_reference_command_vars OwnedMonitorsCommand_cls = OwnedMonitorsCommand_class"
| "thread_reference_command_vars CurrentContendedMonitorCommand_cls =
     CurrentContendedMonitorCommand_class"
| "thread_reference_command_vars StopCommand_cls = StopCommand_class"
| "thread_reference_command_vars InterruptCommand_cls = InterruptCommand_class"
| "thread_reference_command_vars SuspendCountCommand_cls = SuspendCountCommand_class"
| "thread_reference_command_vars OwnedMonitorsStackDepthInfoCommand_cls =
     OwnedMonitorsStackDepthInfoCommand_class"
| "thread_reference_command_vars ForceEarlyReturnCommand_cls = ForceEarlyReturnCommand_class"

primrec thread_reference_command_name :: "thread_reference_command_class \<Rightarrow> string" where
  "thread_reference_command_name ThreadReference_NameCommand_cls = ''NameCommand''"
| "thread_reference_command_name ThreadReference_SuspendCommand_cls = ''SuspendCommand''"
| "thread_reference_command_name ThreadReference_ResumeCommand_cls = ''ResumeCommand''"
| "thread_reference_command_name ThreadReference_StatusCommand_cls = ''StatusCommand''"
| "thread_reference_command_name ThreadGroupCommand_cls = ''ThreadGroupCommand''"
| "thread_reference_command_name FramesCommand_cls = ''FramesCommand''"
| "thread_reference_command_name FrameCountCommand_cls = ''FrameCountCommand''"
| "thread_reference_command_name OwnedMonitorsCommand_cls = ''OwnedMonitorsCommand''"
| "thread_reference_command_name CurrentContendedMonitorCommand_cls =
     ''CurrentContendedMonitorCommand''"
| "thread_reference_command_name StopCommand_cls = ''StopCommand''"
| "thread_reference_command_name InterruptCommand_cls = ''InterruptCommand''"
| "thread_reference_command_name SuspendCountCommand_cls = ''SuspendCountCommand''"
| "thread_reference_command_name OwnedMonitorsStackDepthInfoCommand_cls =
     ''OwnedMonitorsStackDepthInfoCommand''"
| "thread_reference_command_name ForceEarlyReturnCommand_cls = ''ForceEarlyReturnCommand''"

primrec thread_reference_command_serialize :: "thread_reference_command \<Rightarrow> writer_op" where
  "thread_reference_command_serialize (ThreadReference_NameCommand_obj self) =
     ThreadReference_NameCommand_serialize self"
| "thread_reference_command_serialize (ThreadReference_SuspendCommand_obj self) =
     ThreadReference_SuspendCommand_serialize self"
| "thread_reference_command_serialize (ThreadReference_ResumeCommand_obj self) =
     ThreadReference_ResumeCommand_serialize self"
| "thread_reference_command_serialize (ThreadReference_StatusCommand_obj self) =
     ThreadReference_StatusCommand_serialize self"
| "thread_reference_command_serialize (ThreadGroupCommand_obj self) =
     ThreadGroupCommand_serialize self"
| "thread_reference_command_serialize (FramesCommand_obj self) = FramesCommand_serialize self"
| "thread_reference_command_serialize (FrameCountCommand_obj self) =
     FrameCountCommand_serialize self"
| "thread_reference_command_serialize (OwnedMonitorsCommand_obj self) =
     OwnedMonitorsCommand_serialize self"
| "thread_reference_command_serialize (CurrentContendedMonitorCommand_obj self) =
     CurrentContendedMonitorCommand_serialize self"
| "thread_reference_command_serialize (StopCommand_obj self) = StopCommand_serialize self"
| "thread_reference_command_serialize (InterruptCommand_obj self) =
     InterruptCommand_serialize self"
| "thread_reference_command_serialize (SuspendCountCommand_obj self) =
     SuspendCountCommand_serialize self"
| "thread_reference_command_serialize (OwnedMonitorsStackDepthInfoCommand_obj self) =
     OwnedMonitorsStackDepthInfoCommand_serialize self"
| "thread_reference_command_serialize (ForceEarlyReturnCommand_obj self) =
     ForceEarlyReturnCommand_serialize self"

primrec thread_reference_command_deserialize :: "thread_reference_command_class \<Rightarrow> thread_reference_command reader_op" where
  "thread_reference_command_deserialize ThreadReference_NameCommand_cls =
     of_class ThreadReference_NameCommand_deserialize ThreadReference_NameCommand_obj"
| "thread_reference_command_deserialize ThreadReference_SuspendCommand_cls =
     of_class ThreadReference_SuspendCommand_deserialize ThreadReference_SuspendCommand_obj"
| "thread_reference_command_deserialize ThreadReference_ResumeCommand_cls =
     of_class ThreadReference_ResumeCommand_deserialize ThreadReference_ResumeCommand_obj"
| "thread_reference_command_deserialize ThreadReference_StatusCommand_cls =
     of_class ThreadReference_StatusCommand_deserialize ThreadReference_StatusCommand_obj"
| "thread_reference_command_deserialize ThreadGroupCommand_cls =
     of_class ThreadGroupCommand_deserialize ThreadGroupCommand_obj"
| "thread_reference_command_deserialize FramesCommand_cls =
     of_class FramesCommand_deserialize FramesCommand_obj"
| "thread_reference_command_deserialize FrameCountCommand_cls =
     of_class FrameCountCommand_deserialize FrameCountCommand_obj"
| "thread_reference_command_deserialize OwnedMonitorsCommand_cls =
     of_class OwnedMonitorsCommand_deserialize OwnedMonitorsCommand_obj"
| "thread_reference_command_deserialize CurrentContendedMonitorCommand_cls =
     of_class CurrentContendedMonitorCommand_deserialize CurrentContendedMonitorCommand_obj"
| "thread_reference_command_deserialize StopCommand_cls =
     of_class StopCommand_deserialize StopCommand_obj"
| "thread_reference_command_deserialize InterruptCommand_cls =
     of_class InterruptCommand_deserialize InterruptCommand_obj"
| "thread_reference_command_deserialize SuspendCountCommand_cls =
     of_class SuspendCountCommand_deserialize SuspendCountCommand_obj"
| "thread_reference_command_deserialize OwnedMonitorsStackDepthInfoCommand_cls =
     of_class OwnedMonitorsStackDepthInfoCommand_deserialize OwnedMonitorsStackDepthInfoCommand_obj"
| "thread_reference_command_deserialize ForceEarlyReturnCommand_cls =
     of_class ForceEarlyReturnCommand_deserialize ForceEarlyReturnCommand_obj"

primrec thread_reference_command_ok :: "thread_reference_command \<Rightarrow> bool" where
  "thread_reference_command_ok (ThreadReference_NameCommand_obj self) = True"
| "thread_reference_command_ok (ThreadReference_SuspendCommand_obj self) = True"
| "thread_reference_command_ok (ThreadReference_ResumeCommand_obj self) = True"
| "thread_reference_command_ok (ThreadReference_StatusCommand_obj self) = True"
| "thread_reference_command_ok (ThreadGroupCommand_obj self) = True"
| "thread_reference_command_ok (FramesCommand_obj self) = True"
| "thread_reference_command_ok (FrameCountCommand_obj self) = True"
| "thread_reference_command_ok (OwnedMonitorsCommand_obj self) = True"
| "thread_reference_command_ok (CurrentContendedMonitorCommand_obj self) = True"
| "thread_reference_command_ok (StopCommand_obj self) = True"
| "thread_reference_command_ok (InterruptCommand_obj self) = True"
| "thread_reference_command_ok (SuspendCountCommand_obj self) = True"
| "thread_reference_command_ok (OwnedMonitorsStackDepthInfoCommand_obj self) = True"
| "thread_reference_command_ok (ForceEarlyReturnCommand_obj self) =
     ForceEarlyReturnCommand_ok self"

interpretation thread_reference_command:
  message_family thread_reference_command_class_of thread_reference_command_serialize
    thread_reference_command_deserialize thread_reference_command_ok
proof unfold_locales
  fix v assume "thread_reference_command_ok v"
  then show "paired (thread_reference_command_serialize v)
      (thread_reference_command_deserialize (thread_reference_command_class_of v)) v"
    by (cases v) (auto intro!: of_class_codec codec_intros)
next
  fix c r v r' assume "thread_reference_command_deserialize c r = Inr (v, r')"
  then show "thread_reference_command_class_of v = c" by (cases c) (auto dest!: of_class_obj)
next
  fix c r v r' assume "thread_reference_command_deserialize c r = Inr (v, r')" and "array_element_tag r = None"
  then show "thread_reference_command_ok v"
    by (cases c) (auto dest!: of_class_obj dest: ForceEarlyReturnCommand_yields [THEN yieldsD])
qed

datatype (plugins only: code) thread_reference_response =
    ThreadReference_NameResponse_obj ThreadReference_NameResponse
  | ThreadReference_SuspendResponse_obj ThreadReference_SuspendResponse
  | ThreadReference_ResumeResponse_obj ThreadReference_ResumeResponse
  | ThreadReference_StatusResponse_obj ThreadReference_StatusResponse
  | ThreadGroupResponse_obj ThreadGroupResponse
  | FramesResponse_obj FramesResponse
  | FrameCountResponse_obj FrameCountResponse
  | OwnedMonitorsResponse_obj OwnedMonitorsResponse
  | CurrentContendedMonitorResponse_obj CurrentContendedMonitorResponse
  | StopResponse_obj StopResponse
  | InterruptResponse_obj InterruptResponse
  | SuspendCountResponse_obj SuspendCountResponse
  | OwnedMonitorsStackDepthInfoResponse_obj OwnedMonitorsStackDepthInfoResponse
  | ForceEarlyReturnResponse_obj ForceEarlyReturnResponse

datatype (plugins only: code) thread_reference_response_class =
    ThreadReference_NameResponse_cls
  | ThreadReference_SuspendResponse_cls
  | ThreadReference_ResumeResponse_cls
  | ThreadReference_StatusResponse_cls
  | ThreadGroupResponse_cls
  | FramesResponse_cls
  | FrameCountResponse_cls
  | OwnedMonitorsResponse_cls
  | CurrentContendedMonitorResponse_cls
  | StopResponse_cls
  | InterruptResponse_cls
  | SuspendCountResponse_cls
  | OwnedMonitorsStackDepthInfoResponse_cls
  | ForceEarlyReturnResponse_cls

primrec thread_reference_response_class_of :: "thread_reference_response \<Rightarrow> thread_reference_response_class" where
  "thread_reference_response_class_of (ThreadReference_NameResponse_obj self) =
     ThreadReference_NameResponse_cls"
| "thread_reference_response_class_of (ThreadReference_SuspendResponse_obj self) =
     ThreadReference_SuspendResponse_cls"
| "thread_reference_response_class_of (ThreadReference_ResumeResponse_obj self) =
     ThreadReference_ResumeResponse_cls"
| "thread_reference_response_class_of (ThreadReference_StatusResponse_obj self) =
     ThreadReference_StatusResponse_cls"
| "thread_reference_response_class_of (ThreadGroupResponse_obj self) = ThreadGroupResponse_cls"
| "thread_reference_response_class_of (FramesResponse_obj self) = FramesResponse_cls"
| "thread_reference_response_class_of (FrameCountResponse_obj self) = FrameCountResponse_cls"
| "thread_reference_response_class_of (OwnedMonitorsResponse_obj self) =
     OwnedMonitorsResponse_cls"
| "thread_reference_response_class_of (CurrentContendedMonitorResponse_obj self) =
     CurrentContendedMonitorResponse_cls"
| "thread_reference_response_class_of (StopResponse_obj self) = StopResponse_cls"
| "thread_reference_response_class_of (InterruptResponse_obj self) = InterruptResponse_cls"
| "thread_reference_response_class_of (SuspendCountResponse_obj self) = SuspendCountResponse_cls"
| "thread_reference_response_class_of (OwnedMonitorsStackDepthInfoResponse_obj self) =
     OwnedMonitorsStackDepthInfoResponse_cls"
| "thread_reference_response_class_of (ForceEarlyReturnResponse_obj self) =
     ForceEarlyReturnResponse_cls"

primrec thread_reference_response_serialize :: "thread_reference_response \<Rightarrow> writer_op" where
  "thread_reference_response_serialize (ThreadReference_NameResponse_obj self) =
     ThreadReference_NameResponse_serialize self"
| "thread_reference_response_serialize (ThreadReference_SuspendResponse_obj self) =
     ThreadReference_SuspendResponse_serialize self"
| "thread_reference_response_serialize (ThreadReference_ResumeResponse_obj self) =
     ThreadReference_ResumeResponse_serialize self"
| "thread_reference_response_serialize (ThreadReference_StatusResponse_obj self) =
     ThreadReference_StatusResponse_serialize self"
| "thread_reference_response_serialize (ThreadGroupResponse_obj self) =
     ThreadGroupResponse_serialize self"
| "thread_reference_response_serialize (FramesResponse_obj self) = FramesResponse_serialize self"
| "thread_reference_response_serialize (FrameCountResponse_obj self) =
     FrameCountResponse_serialize self"
| "thread_reference_response_serialize (OwnedMonitorsResponse_obj self) =
     OwnedMonitorsResponse_serialize self"
| "thread_reference_response_serialize (CurrentContendedMonitorResponse_obj self) =
     CurrentContendedMonitorResponse_serialize self"
| "thread_reference_response_serialize (StopResponse_obj self) = StopResponse_serialize self"
| "thread_reference_response_serialize (InterruptResponse_obj self) =
     InterruptResponse_serialize self"
| "thread_reference_response_serialize (SuspendCountResponse_obj self) =
     SuspendCountResponse_serialize self"
| "thread_reference_response_serialize (OwnedMonitorsStackDepthInfoResponse_obj self) =
     OwnedMonitorsStackDepthInfoResponse_serialize self"
| "thread_reference_response_serialize (ForceEarlyReturnResponse_obj self) =
     ForceEarlyReturnResponse_serialize self"

primrec thread_reference_response_deserialize :: "thread_reference_response_class \<Rightarrow> thread_reference_response reader_op" where
  "thread_reference_response_deserialize ThreadReference_NameResponse_cls =
     of_class ThreadReference_NameResponse_deserialize ThreadReference_NameResponse_obj"
| "thread_reference_response_deserialize ThreadReference_SuspendResponse_cls =
     of_class ThreadReference_SuspendResponse_deserialize ThreadReference_SuspendResponse_obj"
| "thread_reference_response_deserialize ThreadReference_ResumeResponse_cls =
     of_class ThreadReference_ResumeResponse_deserialize ThreadReference_ResumeResponse_obj"
| "thread_reference_response_deserialize ThreadReference_StatusResponse_cls =
     of_class ThreadReference_StatusResponse_deserialize ThreadReference_StatusResponse_obj"
| "thread_reference_response_deserialize ThreadGroupResponse_cls =
     of_class ThreadGroupResponse_deserialize ThreadGroupResponse_obj"
| "thread_reference_response_deserialize FramesResponse_cls =
     of_class FramesResponse_deserialize FramesResponse_obj"
| "thread_reference_response_deserialize FrameCountResponse_cls =
     of_class FrameCountResponse_deserialize FrameCountResponse_obj"
| "thread_reference_response_deserialize OwnedMonitorsResponse_cls =
     of_class OwnedMonitorsResponse_deserialize OwnedMonitorsResponse_obj"
| "thread_reference_response_deserialize CurrentContendedMonitorResponse_cls =
     of_class CurrentContendedMonitorResponse_deserialize CurrentContendedMonitorResponse_obj"
| "thread_reference_response_deserialize StopResponse_cls =
     of_class StopResponse_deserialize StopResponse_obj"
| "thread_reference_response_deserialize InterruptResponse_cls =
     of_class InterruptResponse_deserialize InterruptResponse_obj"
| "thread_reference_response_deserialize SuspendCountResponse_cls =
     of_class SuspendCountResponse_deserialize SuspendCountResponse_obj"
| "thread_reference_response_deserialize OwnedMonitorsStackDepthInfoResponse_cls =
     of_class OwnedMonitorsStackDepthInfoResponse_deserialize OwnedMonitorsStackDepthInfoResponse_obj"
| "thread_reference_response_deserialize ForceEarlyReturnResponse_cls =
     of_class ForceEarlyReturnResponse_deserialize ForceEarlyReturnResponse_obj"

interpretation thread_reference_response:
  message_family thread_reference_response_class_of thread_reference_response_serialize
    thread_reference_response_deserialize "\<lambda>_. True"
proof unfold_locales
  fix v
  show "paired (thread_reference_response_serialize v)
      (thread_reference_response_deserialize (thread_reference_response_class_of v)) v"
    by (cases v) (auto intro!: of_class_codec codec_intros)
next
  fix c r v r' assume "thread_reference_response_deserialize c r = Inr (v, r')"
  then show "thread_reference_response_class_of v = c" by (cases c) (auto dest!: of_class_obj)
qed (rule TrueI)

definition thread_reference_registrations ::
    "(thread_reference_response_class option \<times> thread_reference_command_class) list" where
  "thread_reference_registrations =
    [(Some ThreadReference_NameResponse_cls, ThreadReference_NameCommand_cls),
     (Some ThreadReference_SuspendResponse_cls, ThreadReference_SuspendCommand_cls),
     (Some ThreadReference_ResumeResponse_cls, ThreadReference_ResumeCommand_cls),
     (Some ThreadReference_StatusResponse_cls, ThreadReference_StatusCommand_cls),
     (Some ThreadGroupResponse_cls, ThreadGroupCommand_cls),
     (Some FramesResponse_cls, FramesCommand_cls),
     (Some FrameCountResponse_cls, FrameCountCommand_cls),
     (Some OwnedMonitorsResponse_cls, OwnedMonitorsCommand_cls),
     (Some CurrentContendedMonitorResponse_cls, CurrentContendedMonitorCommand_cls),
     (Some StopResponse_cls, StopCommand_cls),
     (Some InterruptResponse_cls, InterruptCommand_cls),
     (Some SuspendCountResponse_cls, SuspendCountCommand_cls),
     (Some OwnedMonitorsStackDepthInfoResponse_cls, OwnedMonitorsStackDepthInfoCommand_cls),
     (Some ForceEarlyReturnResponse_cls, ForceEarlyReturnCommand_cls)]"

lemma thread_reference_registered:
  "c \<in> snd ` set thread_reference_registrations" "(None, c) \<notin> set thread_reference_registrations"
  by (cases c, simp_all add: thread_reference_registrations_def)

end
