(* ===== verification/Cmd_Thread_Group_Reference.thy ===== *)
theory Cmd_Thread_Group_Reference
  imports Codec
begin

text \<open>
  \<^verbatim>\<open>commands/thread_group_reference.py\<close>:
  the commands of set 12, on thread groups.
  Each class is a record, with its \<open>serialize\<close> and \<open>deserialize\<close>; \<open>_class\<close> holds a command's
  class variables. The codec lemma of a class is its round trip, and the interpretation gives it the
  facts of every message class.
\<close>

section \<open>ThreadGroupReference.Name\<close>

record ThreadGroupReference_NameResponse =
  group_name :: pystr

definition ThreadGroupReference_NameResponse_serialize ::
    "ThreadGroupReference_NameResponse \<Rightarrow> writer_op" where
  "ThreadGroupReference_NameResponse_serialize self = write_seq
     [write_string (ThreadGroupReference_NameResponse.group_name self)]"

definition ThreadGroupReference_NameResponse_deserialize ::
    "ThreadGroupReference_NameResponse reader_op" where
  "ThreadGroupReference_NameResponse_deserialize =
     rbind read_string (\<lambda>group_name.
       rreturn (ThreadGroupReference_NameResponse.make group_name))"

lemma ThreadGroupReference_NameResponse_codec [codec_intros]:
  "paired (ThreadGroupReference_NameResponse_serialize v)
    ThreadGroupReference_NameResponse_deserialize v"
  unfolding ThreadGroupReference_NameResponse_serialize_def
    ThreadGroupReference_NameResponse_deserialize_def
  by (rule codec_intros)+ (cases v, simp add: ThreadGroupReference_NameResponse.make_def)

interpretation ThreadGroupReference_NameResponse:
  codec ThreadGroupReference_NameResponse_serialize ThreadGroupReference_NameResponse_deserialize
    "\<lambda>_. True"
  by unfold_locales (rule ThreadGroupReference_NameResponse_codec)

record ThreadGroupReference_NameCommand =
  group :: ThreadGroupID

definition ThreadGroupReference_NameCommand_class :: command_class where
  "ThreadGroupReference_NameCommand_class = command_class.make 12 1 {ERR_NONE,
     ERR_INVALID_OBJECT, ERR_INVALID_THREAD_GROUP, ERR_VM_DEAD}"

definition ThreadGroupReference_NameCommand_serialize ::
    "ThreadGroupReference_NameCommand \<Rightarrow> writer_op" where
  "ThreadGroupReference_NameCommand_serialize self = write_seq
     [write_thread_group_id (ThreadGroupReference_NameCommand.group self)]"

definition ThreadGroupReference_NameCommand_deserialize ::
    "ThreadGroupReference_NameCommand reader_op" where
  "ThreadGroupReference_NameCommand_deserialize =
     rbind read_thread_group_id (\<lambda>group.
       rreturn (ThreadGroupReference_NameCommand.make group))"

lemma ThreadGroupReference_NameCommand_codec [codec_intros]:
  "paired (ThreadGroupReference_NameCommand_serialize v)
    ThreadGroupReference_NameCommand_deserialize v"
  unfolding ThreadGroupReference_NameCommand_serialize_def
    ThreadGroupReference_NameCommand_deserialize_def
  by (rule codec_intros)+ (cases v, simp add: ThreadGroupReference_NameCommand.make_def)

interpretation ThreadGroupReference_NameCommand:
  codec ThreadGroupReference_NameCommand_serialize ThreadGroupReference_NameCommand_deserialize
    "\<lambda>_. True"
  by unfold_locales (rule ThreadGroupReference_NameCommand_codec)

section \<open>ThreadGroupReference.Parent\<close>

record ParentResponse =
  parent_group :: ThreadGroupID

definition ParentResponse_serialize :: "ParentResponse \<Rightarrow> writer_op" where
  "ParentResponse_serialize self = write_seq
     [write_thread_group_id (ParentResponse.parent_group self)]"

definition ParentResponse_deserialize :: "ParentResponse reader_op" where
  "ParentResponse_deserialize =
     rbind read_thread_group_id (\<lambda>parent_group.
       rreturn (ParentResponse.make parent_group))"

lemma ParentResponse_codec [codec_intros]:
  "paired (ParentResponse_serialize v) ParentResponse_deserialize v"
  unfolding ParentResponse_serialize_def ParentResponse_deserialize_def
  by (rule codec_intros)+ (cases v, simp add: ParentResponse.make_def)

interpretation ParentResponse:
  codec ParentResponse_serialize ParentResponse_deserialize "\<lambda>_. True"
  by unfold_locales (rule ParentResponse_codec)

record ParentCommand =
  group :: ThreadGroupID

definition ParentCommand_class :: command_class where
  "ParentCommand_class = command_class.make 12 2 {ERR_NONE, ERR_INVALID_OBJECT,
     ERR_INVALID_THREAD_GROUP, ERR_VM_DEAD}"

definition ParentCommand_serialize :: "ParentCommand \<Rightarrow> writer_op" where
  "ParentCommand_serialize self = write_seq
     [write_thread_group_id (ParentCommand.group self)]"

definition ParentCommand_deserialize :: "ParentCommand reader_op" where
  "ParentCommand_deserialize =
     rbind read_thread_group_id (\<lambda>group.
       rreturn (ParentCommand.make group))"

lemma ParentCommand_codec [codec_intros]:
  "paired (ParentCommand_serialize v) ParentCommand_deserialize v"
  unfolding ParentCommand_serialize_def ParentCommand_deserialize_def
  by (rule codec_intros)+ (cases v, simp add: ParentCommand.make_def)

interpretation ParentCommand:
  codec ParentCommand_serialize ParentCommand_deserialize "\<lambda>_. True"
  by unfold_locales (rule ParentCommand_codec)

section \<open>ThreadGroupReference.Children\<close>

record ChildrenResponse =
  child_threads :: "ThreadID list"
  child_groups :: "ThreadGroupID list"

definition ChildrenResponse_serialize :: "ChildrenResponse \<Rightarrow> writer_op" where
  "ChildrenResponse_serialize self = write_seq
     [write_counted write_thread_id (ChildrenResponse.child_threads self),
      write_counted write_thread_group_id (ChildrenResponse.child_groups self)]"

definition ChildrenResponse_deserialize :: "ChildrenResponse reader_op" where
  "ChildrenResponse_deserialize =
     rbind (read_counted read_thread_id) (\<lambda>child_threads.
     rbind (read_counted read_thread_group_id) (\<lambda>child_groups.
       rreturn (ChildrenResponse.make child_threads child_groups)))"

lemma ChildrenResponse_codec [codec_intros]:
  "paired (ChildrenResponse_serialize v) ChildrenResponse_deserialize v"
  unfolding ChildrenResponse_serialize_def ChildrenResponse_deserialize_def
  by (rule codec_intros)+ (cases v, simp add: ChildrenResponse.make_def)

interpretation ChildrenResponse:
  codec ChildrenResponse_serialize ChildrenResponse_deserialize "\<lambda>_. True"
  by unfold_locales (rule ChildrenResponse_codec)

record ChildrenCommand =
  group :: ThreadGroupID

definition ChildrenCommand_class :: command_class where
  "ChildrenCommand_class = command_class.make 12 3 {ERR_NONE, ERR_INVALID_OBJECT,
     ERR_INVALID_THREAD_GROUP, ERR_VM_DEAD}"

definition ChildrenCommand_serialize :: "ChildrenCommand \<Rightarrow> writer_op" where
  "ChildrenCommand_serialize self = write_seq
     [write_thread_group_id (ChildrenCommand.group self)]"

definition ChildrenCommand_deserialize :: "ChildrenCommand reader_op" where
  "ChildrenCommand_deserialize =
     rbind read_thread_group_id (\<lambda>group.
       rreturn (ChildrenCommand.make group))"

lemma ChildrenCommand_codec [codec_intros]:
  "paired (ChildrenCommand_serialize v) ChildrenCommand_deserialize v"
  unfolding ChildrenCommand_serialize_def ChildrenCommand_deserialize_def
  by (rule codec_intros)+ (cases v, simp add: ChildrenCommand.make_def)

interpretation ChildrenCommand:
  codec ChildrenCommand_serialize ChildrenCommand_deserialize "\<lambda>_. True"
  by unfold_locales (rule ChildrenCommand_codec)

section \<open>The classes of the module\<close>

text \<open>
  The instances of the module's command classes and the classes themselves, with the methods
  dispatched on them; the same for the responses; and the registrations its decorators make.
\<close>

datatype (plugins only: code) thread_group_reference_command =
    ThreadGroupReference_NameCommand_obj ThreadGroupReference_NameCommand
  | ParentCommand_obj ParentCommand
  | ChildrenCommand_obj ChildrenCommand

datatype (plugins only: code) thread_group_reference_command_class =
    ThreadGroupReference_NameCommand_cls
  | ParentCommand_cls
  | ChildrenCommand_cls

primrec thread_group_reference_command_class_of :: "thread_group_reference_command \<Rightarrow> thread_group_reference_command_class" where
  "thread_group_reference_command_class_of (ThreadGroupReference_NameCommand_obj self) =
     ThreadGroupReference_NameCommand_cls"
| "thread_group_reference_command_class_of (ParentCommand_obj self) = ParentCommand_cls"
| "thread_group_reference_command_class_of (ChildrenCommand_obj self) = ChildrenCommand_cls"

primrec thread_group_reference_command_vars :: "thread_group_reference_command_class \<Rightarrow> command_class" where
  "thread_group_reference_command_vars ThreadGroupReference_NameCommand_cls =
     ThreadGroupReference_NameCommand_class"
| "thread_group_reference_command_vars ParentCommand_cls = ParentCommand_class"
| "thread_group_reference_command_vars ChildrenCommand_cls = ChildrenCommand_class"

primrec thread_group_reference_command_name :: "thread_group_reference_command_class \<Rightarrow> string" where
  "thread_group_reference_command_name ThreadGroupReference_NameCommand_cls = ''NameCommand''"
| "thread_group_reference_command_name ParentCommand_cls = ''ParentCommand''"
| "thread_group_reference_command_name ChildrenCommand_cls = ''ChildrenCommand''"

primrec thread_group_reference_command_serialize :: "thread_group_reference_command \<Rightarrow> writer_op" where
  "thread_group_reference_command_serialize (ThreadGroupReference_NameCommand_obj self) =
     ThreadGroupReference_NameCommand_serialize self"
| "thread_group_reference_command_serialize (ParentCommand_obj self) =
     ParentCommand_serialize self"
| "thread_group_reference_command_serialize (ChildrenCommand_obj self) =
     ChildrenCommand_serialize self"

primrec thread_group_reference_command_deserialize :: "thread_group_reference_command_class \<Rightarrow> thread_group_reference_command reader_op" where
  "thread_group_reference_command_deserialize ThreadGroupReference_NameCommand_cls =
     of_class ThreadGroupReference_NameCommand_deserialize ThreadGroupReference_NameCommand_obj"
| "thread_group_reference_command_deserialize ParentCommand_cls =
     of_class ParentCommand_deserialize ParentCommand_obj"
| "thread_group_reference_command_deserialize ChildrenCommand_cls =
     of_class ChildrenCommand_deserialize ChildrenCommand_obj"

interpretation thread_group_reference_command:
  message_family thread_group_reference_command_class_of thread_group_reference_command_serialize
    thread_group_reference_command_deserialize "\<lambda>_. True"
proof unfold_locales
  fix v
  show "paired (thread_group_reference_command_serialize v)
      (thread_group_reference_command_deserialize (thread_group_reference_command_class_of v)) v"
    by (cases v) (auto intro!: of_class_codec codec_intros)
next
  fix c r v r' assume "thread_group_reference_command_deserialize c r = Inr (v, r')"
  then show "thread_group_reference_command_class_of v = c" by (cases c) (auto dest!: of_class_obj)
qed (rule TrueI)

datatype (plugins only: code) thread_group_reference_response =
    ThreadGroupReference_NameResponse_obj ThreadGroupReference_NameResponse
  | ParentResponse_obj ParentResponse
  | ChildrenResponse_obj ChildrenResponse

datatype (plugins only: code) thread_group_reference_response_class =
    ThreadGroupReference_NameResponse_cls
  | ParentResponse_cls
  | ChildrenResponse_cls

primrec thread_group_reference_response_class_of :: "thread_group_reference_response \<Rightarrow> thread_group_reference_response_class" where
  "thread_group_reference_response_class_of (ThreadGroupReference_NameResponse_obj self) =
     ThreadGroupReference_NameResponse_cls"
| "thread_group_reference_response_class_of (ParentResponse_obj self) = ParentResponse_cls"
| "thread_group_reference_response_class_of (ChildrenResponse_obj self) = ChildrenResponse_cls"

primrec thread_group_reference_response_serialize :: "thread_group_reference_response \<Rightarrow> writer_op" where
  "thread_group_reference_response_serialize (ThreadGroupReference_NameResponse_obj self) =
     ThreadGroupReference_NameResponse_serialize self"
| "thread_group_reference_response_serialize (ParentResponse_obj self) =
     ParentResponse_serialize self"
| "thread_group_reference_response_serialize (ChildrenResponse_obj self) =
     ChildrenResponse_serialize self"

primrec thread_group_reference_response_deserialize :: "thread_group_reference_response_class \<Rightarrow> thread_group_reference_response reader_op" where
  "thread_group_reference_response_deserialize ThreadGroupReference_NameResponse_cls =
     of_class ThreadGroupReference_NameResponse_deserialize ThreadGroupReference_NameResponse_obj"
| "thread_group_reference_response_deserialize ParentResponse_cls =
     of_class ParentResponse_deserialize ParentResponse_obj"
| "thread_group_reference_response_deserialize ChildrenResponse_cls =
     of_class ChildrenResponse_deserialize ChildrenResponse_obj"

interpretation thread_group_reference_response:
  message_family thread_group_reference_response_class_of
    thread_group_reference_response_serialize thread_group_reference_response_deserialize
    "\<lambda>_. True"
proof unfold_locales
  fix v
  show "paired (thread_group_reference_response_serialize v)
      (thread_group_reference_response_deserialize (thread_group_reference_response_class_of v)) v"
    by (cases v) (auto intro!: of_class_codec codec_intros)
next
  fix c r v r' assume "thread_group_reference_response_deserialize c r = Inr (v, r')"
  then show "thread_group_reference_response_class_of v = c" by (cases c) (auto dest!: of_class_obj)
qed (rule TrueI)

definition thread_group_reference_registrations ::
    "(thread_group_reference_response_class option \<times> thread_group_reference_command_class) list" where
  "thread_group_reference_registrations =
    [(Some ThreadGroupReference_NameResponse_cls, ThreadGroupReference_NameCommand_cls),
     (Some ParentResponse_cls, ParentCommand_cls),
     (Some ChildrenResponse_cls, ChildrenCommand_cls)]"

lemma thread_group_reference_registered:
  "c \<in> snd ` set thread_group_reference_registrations" "(None, c) \<notin> set thread_group_reference_registrations"
  by (cases c, simp_all add: thread_group_reference_registrations_def)

end
