(* ===== verification/Cmd_Array_Reference.thy ===== *)
theory Cmd_Array_Reference
  imports Codec
begin

text \<open>
  \<^verbatim>\<open>commands/array_reference.py\<close>:
  the commands of set 13, on array objects, and the array region.
  Each class is a record, with its \<open>serialize\<close> and \<open>deserialize\<close>; \<open>_class\<close> holds a command's
  class variables. The codec lemma of a class is its round trip, and the interpretation gives it the
  facts of every message class.
\<close>

section \<open>ArrayReference.Length\<close>

record JdwpArrayRegion =
  tag :: JdwpTag
  "values" :: "JdwpValue list"

definition JdwpArrayRegion_element ::
    "JdwpTag \<Rightarrow> JdwpValue \<Rightarrow> writer_op" where
  "JdwpArrayRegion_element tg val = write_seq
     ((if is_object tg then [write_byte (tag_value (JdwpValue.tag val))] else []) @
      [write_untagged_value (JdwpValue.tag val) (JdwpValue.value val)])"

definition JdwpArrayRegion_serialize :: "JdwpArrayRegion \<Rightarrow> writer_op" where
  "JdwpArrayRegion_serialize self = write_seq
     [write_byte (tag_value (JdwpArrayRegion.tag self)),
      write_counted (JdwpArrayRegion_element (JdwpArrayRegion.tag self))
        (JdwpArrayRegion.values self)]"

definition read_array_element :: "JdwpTag \<Rightarrow> JdwpValue reader_op" where
  "read_array_element tg =
     rbind (if is_object tg then read_enum read_byte JdwpTag_of else rreturn tg) (\<lambda>elem_tag.
     rbind (read_untagged_value elem_tag) (\<lambda>val.
       rreturn (JdwpValue.make elem_tag val)))"

definition JdwpArrayRegion_deserialize :: "JdwpArrayRegion reader_op" where
  "JdwpArrayRegion_deserialize =
     rbind (read_enum read_byte JdwpTag_of) (\<lambda>tag.
     rbind (read_counted (read_array_element tag)) (\<lambda>values.
       rreturn (JdwpArrayRegion.make tag values)))"

text \<open>
  In an array of objects every element carries its own tag; in an array of primitives the
  elements must have the region's tag, since that is the one they come back with.
\<close>

definition JdwpArrayRegion_ok :: "JdwpArrayRegion \<Rightarrow> bool" where
  "JdwpArrayRegion_ok v \<longleftrightarrow> list_all (\<lambda>x. jdwp_value_ok x \<and>
     (is_object (JdwpArrayRegion.tag v) \<or> JdwpValue.tag x = JdwpArrayRegion.tag v))
     (JdwpArrayRegion.values v)"

lemma array_element_codec:
  assumes "jdwp_value_ok x" and "is_object tg \<or> JdwpValue.tag x = tg"
  shows "paired (JdwpArrayRegion_element tg x) (read_array_element tg) x"
proof (cases "is_object tg")
  case True
  have "paired (write_seq [write_byte (tag_value (JdwpValue.tag x)),
      write_untagged_value (JdwpValue.tag x) (JdwpValue.value x)]) (read_array_element tg) x"
    unfolding read_array_element_def if_P [OF True]
    by (rule codec_intros paired_untagged_value assms(1) [unfolded jdwp_value_ok_def])+
      (cases x, simp add: JdwpValue.make_def)
  with True show ?thesis by (simp add: JdwpArrayRegion_element_def del: write_seq.simps)
next
  case False
  with assms(2) have tg: "JdwpValue.tag x = tg" by simp
  have "read_array_element tg =
      rbind (read_untagged_value tg) (\<lambda>val. rreturn (JdwpValue.make tg val))"
    using False by (simp add: read_array_element_def rbind_def rreturn_def fun_eq_iff)
  moreover have "paired (write_seq [write_untagged_value tg (JdwpValue.value x)])
      (rbind (read_untagged_value tg) (\<lambda>val. rreturn (JdwpValue.make tg val))) x"
    by (rule codec_intros paired_untagged_value assms(1) [unfolded jdwp_value_ok_def tg])+
      (use tg in \<open>cases x, simp add: JdwpValue.make_def\<close>)
  ultimately show ?thesis
    using False tg by (simp add: JdwpArrayRegion_element_def del: write_seq.simps)
qed

lemma JdwpArrayRegion_codec [codec_intros]:
  assumes "JdwpArrayRegion_ok v"
  shows "paired (JdwpArrayRegion_serialize v) JdwpArrayRegion_deserialize v"
  unfolding JdwpArrayRegion_serialize_def JdwpArrayRegion_deserialize_def
  by ((rule codec_intros array_element_codec)+,
      use assms in \<open>auto simp: JdwpArrayRegion_ok_def list_all_iff\<close>)
    (cases v, simp add: JdwpArrayRegion.make_def paired_Nil)

lemma array_element_yields: "yields (read_array_element tg)
    (\<lambda>x. jdwp_value_ok x \<and> (is_object tg \<or> JdwpValue.tag x = tg))"
proof -
  have "yields (if is_object tg then read_enum read_byte JdwpTag_of else rreturn tg)
      (\<lambda>t. is_object tg \<or> t = tg)"
    by (simp add: yields_def rreturn_def)
  then show ?thesis
    unfolding read_array_element_def
    by (rule yields_bind, intro yields_bind [OF yields_untagged_value] yields_return)
      (simp add: jdwp_value_ok_def JdwpValue.make_def)
qed

lemma JdwpArrayRegion_yields [yields_intros]: "yields JdwpArrayRegion_deserialize JdwpArrayRegion_ok"
  unfolding JdwpArrayRegion_deserialize_def
  by (rule yields_bind [OF yields_any], rule yields_bind [OF yields_counted],
      rule array_element_yields, rule yields_return)
    (simp add: JdwpArrayRegion_ok_def JdwpArrayRegion.make_def)

record LengthResponse =
  array_length :: int

definition LengthResponse_serialize :: "LengthResponse \<Rightarrow> writer_op" where
  "LengthResponse_serialize self = write_seq
     [write_int (LengthResponse.array_length self)]"

definition LengthResponse_deserialize :: "LengthResponse reader_op" where
  "LengthResponse_deserialize =
     rbind read_int (\<lambda>array_length.
       rreturn (LengthResponse.make array_length))"

lemma LengthResponse_codec [codec_intros]:
  "paired (LengthResponse_serialize v) LengthResponse_deserialize v"
  unfolding LengthResponse_serialize_def LengthResponse_deserialize_def
  by (rule codec_intros)+ (cases v, simp add: LengthResponse.make_def)

interpretation LengthResponse:
  codec LengthResponse_serialize LengthResponse_deserialize "\<lambda>_. True"
  by unfold_locales (rule LengthResponse_codec)

record LengthCommand =
  array_object :: ArrayObjectID

definition LengthCommand_class :: command_class where
  "LengthCommand_class = command_class.make 13 1 {ERR_NONE, ERR_INVALID_ARRAY,
     ERR_INVALID_OBJECT, ERR_VM_DEAD}"

definition LengthCommand_serialize :: "LengthCommand \<Rightarrow> writer_op" where
  "LengthCommand_serialize self = write_seq
     [write_array_object_id (LengthCommand.array_object self)]"

definition LengthCommand_deserialize :: "LengthCommand reader_op" where
  "LengthCommand_deserialize =
     rbind read_array_object_id (\<lambda>array_object.
       rreturn (LengthCommand.make array_object))"

lemma LengthCommand_codec [codec_intros]:
  "paired (LengthCommand_serialize v) LengthCommand_deserialize v"
  unfolding LengthCommand_serialize_def LengthCommand_deserialize_def
  by (rule codec_intros)+ (cases v, simp add: LengthCommand.make_def)

interpretation LengthCommand:
  codec LengthCommand_serialize LengthCommand_deserialize "\<lambda>_. True"
  by unfold_locales (rule LengthCommand_codec)

section \<open>ArrayReference.GetValues\<close>

record ArrayReference_GetValuesResponse =
  "values" :: JdwpArrayRegion

definition ArrayReference_GetValuesResponse_serialize ::
    "ArrayReference_GetValuesResponse \<Rightarrow> writer_op" where
  "ArrayReference_GetValuesResponse_serialize self = write_seq
     [JdwpArrayRegion_serialize (ArrayReference_GetValuesResponse.values self)]"

definition ArrayReference_GetValuesResponse_deserialize ::
    "ArrayReference_GetValuesResponse reader_op" where
  "ArrayReference_GetValuesResponse_deserialize =
     rbind JdwpArrayRegion_deserialize (\<lambda>values.
       rreturn (ArrayReference_GetValuesResponse.make values))"

definition ArrayReference_GetValuesResponse_ok ::
    "ArrayReference_GetValuesResponse \<Rightarrow> bool" where
  "ArrayReference_GetValuesResponse_ok v \<longleftrightarrow> JdwpArrayRegion_ok
     (ArrayReference_GetValuesResponse.values v)"

lemma ArrayReference_GetValuesResponse_codec [codec_intros]:
  assumes "ArrayReference_GetValuesResponse_ok v"
  shows "paired (ArrayReference_GetValuesResponse_serialize v)
    ArrayReference_GetValuesResponse_deserialize v"
  unfolding ArrayReference_GetValuesResponse_serialize_def
    ArrayReference_GetValuesResponse_deserialize_def
  by (insert assms [unfolded ArrayReference_GetValuesResponse_ok_def],
      (erule conjE | rule codec_intros | assumption | erule (1) list_all_member)+)
    (cases v, simp add: ArrayReference_GetValuesResponse.make_def)

lemma ArrayReference_GetValuesResponse_yields [yields_intros]: "yields ArrayReference_GetValuesResponse_deserialize ArrayReference_GetValuesResponse_ok"
  unfolding ArrayReference_GetValuesResponse_deserialize_def
  by ((rule yields_intros | rule yields_bind yields_return | rule yields_any)+)
    (simp add: ArrayReference_GetValuesResponse_ok_def ArrayReference_GetValuesResponse.make_def)

interpretation ArrayReference_GetValuesResponse:
  codec ArrayReference_GetValuesResponse_serialize ArrayReference_GetValuesResponse_deserialize
    ArrayReference_GetValuesResponse_ok
  by unfold_locales (rule ArrayReference_GetValuesResponse_codec)

record ArrayReference_GetValuesCommand =
  array_object :: ArrayObjectID
  first_index :: int
  length' :: int

definition ArrayReference_GetValuesCommand_class :: command_class where
  "ArrayReference_GetValuesCommand_class = command_class.make 13 2 {ERR_NONE, ERR_INVALID_ARRAY,
     ERR_INVALID_LENGTH, ERR_INVALID_OBJECT, ERR_VM_DEAD}"

definition ArrayReference_GetValuesCommand_serialize ::
    "ArrayReference_GetValuesCommand \<Rightarrow> writer_op" where
  "ArrayReference_GetValuesCommand_serialize self = write_seq
     [write_array_object_id (ArrayReference_GetValuesCommand.array_object self),
      write_int (ArrayReference_GetValuesCommand.first_index self),
      write_int (ArrayReference_GetValuesCommand.length' self)]"

definition ArrayReference_GetValuesCommand_deserialize ::
    "ArrayReference_GetValuesCommand reader_op" where
  "ArrayReference_GetValuesCommand_deserialize =
     rbind read_array_object_id (\<lambda>array_object.
     rbind read_int (\<lambda>first_index.
     rbind read_int (\<lambda>length'.
       rreturn (ArrayReference_GetValuesCommand.make array_object first_index length'))))"

lemma ArrayReference_GetValuesCommand_codec [codec_intros]:
  "paired (ArrayReference_GetValuesCommand_serialize v)
    ArrayReference_GetValuesCommand_deserialize v"
  unfolding ArrayReference_GetValuesCommand_serialize_def
    ArrayReference_GetValuesCommand_deserialize_def
  by (rule codec_intros)+ (cases v, simp add: ArrayReference_GetValuesCommand.make_def)

interpretation ArrayReference_GetValuesCommand:
  codec ArrayReference_GetValuesCommand_serialize ArrayReference_GetValuesCommand_deserialize
    "\<lambda>_. True"
  by unfold_locales (rule ArrayReference_GetValuesCommand_codec)

section \<open>ArrayReference.SetValues\<close>

datatype (plugins only: code) ArrayReference_SetValuesResponse = ArrayReference_SetValuesResponse

definition ArrayReference_SetValuesResponse_serialize ::
    "ArrayReference_SetValuesResponse \<Rightarrow> writer_op" where
  "ArrayReference_SetValuesResponse_serialize self = write_seq []"

definition ArrayReference_SetValuesResponse_deserialize ::
    "ArrayReference_SetValuesResponse reader_op" where
  "ArrayReference_SetValuesResponse_deserialize = rreturn ArrayReference_SetValuesResponse"

lemma ArrayReference_SetValuesResponse_codec [codec_intros]:
  "paired (ArrayReference_SetValuesResponse_serialize v)
    ArrayReference_SetValuesResponse_deserialize v"
  unfolding ArrayReference_SetValuesResponse_serialize_def
    ArrayReference_SetValuesResponse_deserialize_def
  by (rule codec_intros)+ (cases v, simp)

interpretation ArrayReference_SetValuesResponse:
  codec ArrayReference_SetValuesResponse_serialize ArrayReference_SetValuesResponse_deserialize
    "\<lambda>_. True"
  by unfold_locales (rule ArrayReference_SetValuesResponse_codec)

record ArrayReference_SetValuesCommand =
  array_object :: ArrayObjectID
  first_index :: int
  tag :: JdwpTag
  "values" :: "JdwpValue list"

definition ArrayReference_SetValuesCommand_class :: command_class where
  "ArrayReference_SetValuesCommand_class = command_class.make 13 3 {ERR_NONE, ERR_INVALID_ARRAY,
     ERR_INVALID_LENGTH, ERR_INVALID_OBJECT, ERR_VM_DEAD}"

text \<open>
  The elements are written with the command's tag, which is not on the wire. The reader takes it
  from its attribute \<open>array_element_tag\<close>, which nothing in the program sets: the tag is \<open>INT\<close>.
\<close>

definition ArrayReference_SetValuesCommand_serialize ::
    "ArrayReference_SetValuesCommand \<Rightarrow> writer_op" where
  "ArrayReference_SetValuesCommand_serialize self = write_seq
     [write_array_object_id (ArrayReference_SetValuesCommand.array_object self),
      write_int (ArrayReference_SetValuesCommand.first_index self),
      write_counted (\<lambda>val. write_untagged_value (ArrayReference_SetValuesCommand.tag self)
          (JdwpValue.value val))
        (ArrayReference_SetValuesCommand.values self)]"

definition context_tag :: "JdwpTag reader_op" where
  "context_tag r = Inr (case array_element_tag r of None \<Rightarrow> TAG_INT | Some t \<Rightarrow> t, r)"

definition ArrayReference_SetValuesCommand_deserialize ::
    "ArrayReference_SetValuesCommand reader_op" where
  "ArrayReference_SetValuesCommand_deserialize =
     rbind read_array_object_id (\<lambda>array_object.
     rbind read_int (\<lambda>first_index.
     rbind read_int (\<lambda>num.
     rbind context_tag (\<lambda>tag.
     rbind (read_n (nat num)
       (rbind (read_untagged_value tag) (\<lambda>val. rreturn (JdwpValue.make tag val)))) (\<lambda>values.
       rreturn (ArrayReference_SetValuesCommand.make array_object first_index tag values))))))"

definition ArrayReference_SetValuesCommand_ok :: "ArrayReference_SetValuesCommand \<Rightarrow> bool" where
  "ArrayReference_SetValuesCommand_ok v \<longleftrightarrow> ArrayReference_SetValuesCommand.tag v = TAG_INT \<and>
     list_all (\<lambda>x. JdwpValue.tag x = TAG_INT \<and> jdwp_value_ok x)
       (ArrayReference_SetValuesCommand.values v)"

lemma context_tag_default: "paired (write_seq []) context_tag TAG_INT"
proof -
  have "reads_back sp [] context_tag TAG_INT" for sp
    by (rule reads_backI) (simp add: context_tag_def)
  then show ?thesis by (auto intro!: pairedI exI [of _ "[]"])
qed

lemma int_element_codec:
  assumes "JdwpValue.tag x = TAG_INT" and "jdwp_value_ok x"
  shows "paired (write_untagged_value TAG_INT (JdwpValue.value x))
    (rbind (read_untagged_value TAG_INT) (\<lambda>val. rreturn (JdwpValue.make TAG_INT val))) x"
proof -
  have "paired (write_untagged_value TAG_INT (JdwpValue.value x))
    (rbind (read_untagged_value TAG_INT) (\<lambda>val. rreturn (JdwpValue.make TAG_INT val)))
    (JdwpValue.make TAG_INT (JdwpValue.value x))"
    by (rule paired_map) (use assms in \<open>simp add: paired_untagged_value jdwp_value_ok_def\<close>)
  with assms show ?thesis by (cases x) (simp add: JdwpValue.make_def)
qed

lemma int_elements_codec:
  assumes "list_all (\<lambda>x. JdwpValue.tag x = TAG_INT \<and> jdwp_value_ok x) xs"
  shows "paired (write_seq
      [write_counted (\<lambda>val. write_untagged_value TAG_INT (JdwpValue.value val)) xs])
    (rbind read_int (\<lambda>num. rbind context_tag (\<lambda>tag.
     rbind (read_n (nat num)
       (rbind (read_untagged_value tag) (\<lambda>val. rreturn (JdwpValue.make tag val)))) (\<lambda>values.
       rreturn (ArrayReference_SetValuesCommand.make a i tag values)))))
    (ArrayReference_SetValuesCommand.make a i TAG_INT xs)"
proof -
  let ?w = "\<lambda>val. write_untagged_value TAG_INT (JdwpValue.value val)"
  let ?rd = "rbind (read_untagged_value TAG_INT) (\<lambda>val. rreturn (JdwpValue.make TAG_INT val))"
  have "paired (write_seq (write_int (int (length xs)) # write_seq [] # [write_seq (map ?w xs)]))
    (rbind read_int (\<lambda>num. rbind context_tag (\<lambda>tag.
     rbind (read_n (nat num)
       (rbind (read_untagged_value tag) (\<lambda>val. rreturn (JdwpValue.make tag val)))) (\<lambda>values.
       rreturn (ArrayReference_SetValuesCommand.make a i tag values)))))
    (ArrayReference_SetValuesCommand.make a i TAG_INT xs)"
  proof (rule paired_Cons [OF paired_int], rule paired_Cons [OF context_tag_default],
      rule paired_Cons [OF _ paired_Nil])
    have "paired (write_seq (map ?w xs)) (read_n (length xs) ?rd) xs"
      by (rule paired_each) (use assms in \<open>simp add: int_element_codec list_all_iff\<close>)
    then show "paired (write_seq (map ?w xs)) (read_n (nat (int (length xs))) ?rd) xs" by simp
  qed simp
  then show ?thesis by (simp add: paired_def write_counted_def)
qed

lemma ArrayReference_SetValuesCommand_codec [codec_intros]:
  assumes "ArrayReference_SetValuesCommand_ok v"
  shows "paired (ArrayReference_SetValuesCommand_serialize v)
    ArrayReference_SetValuesCommand_deserialize v"
proof -
  obtain a i t xs where v: "v = ArrayReference_SetValuesCommand.make a i t xs"
    by (cases v) (simp add: ArrayReference_SetValuesCommand.make_def)
  then have "t = TAG_INT" and "list_all (\<lambda>x. JdwpValue.tag x = TAG_INT \<and> jdwp_value_ok x) xs"
    using assms by (simp_all add: ArrayReference_SetValuesCommand_ok_def
        ArrayReference_SetValuesCommand.defs)
  with v show ?thesis
    unfolding ArrayReference_SetValuesCommand_serialize_def
      ArrayReference_SetValuesCommand_deserialize_def
    by (simp only: ArrayReference_SetValuesCommand.defs ArrayReference_SetValuesCommand.simps)
      (rule codec_intros int_elements_codec [unfolded ArrayReference_SetValuesCommand.defs]
        | assumption)+
qed

text \<open>Nothing sets the reader's attribute, so no command with another tag is ever read.\<close>

lemma read_struct_context: "read_struct f r = Inr (v, r') \<Longrightarrow> array_element_tag r' = array_element_tag r"
  by (auto simp: read_struct_def)

lemma ArrayReference_SetValuesCommand_sound:
  assumes "ArrayReference_SetValuesCommand_deserialize r = Inr (v, r')" and "array_element_tag r = None"
  shows "ArrayReference_SetValuesCommand_ok v"
proof -
  let ?rd = "rbind (read_untagged_value TAG_INT) (\<lambda>val. rreturn (JdwpValue.make TAG_INT val))"
  let ?P = "\<lambda>x. JdwpValue.tag x = TAG_INT \<and> jdwp_value_ok x"
  from assms obtain a i n xs r1 r2 where "read_n n ?rd r1 = Inr (xs, r2)"
    and v: "v = ArrayReference_SetValuesCommand.make a i TAG_INT xs"
    by (auto simp: ArrayReference_SetValuesCommand_deserialize_def rbind_def rreturn_def context_tag_def
        read_array_object_id_def read_object_id_def read_id_def read_int_def
        dest!: read_struct_context)
  moreover have "yields ?rd ?P"
    by (intro yields_bind [OF yields_untagged_value] yields_return)
      (simp add: jdwp_value_ok_def JdwpValue.make_def)
  ultimately have "list_all ?P xs" by (auto dest: yieldsD [OF yields_n])
  with v show ?thesis
    by (simp add: ArrayReference_SetValuesCommand_ok_def ArrayReference_SetValuesCommand.make_def)
qed

interpretation ArrayReference_SetValuesCommand:
  codec ArrayReference_SetValuesCommand_serialize ArrayReference_SetValuesCommand_deserialize
    ArrayReference_SetValuesCommand_ok
  by unfold_locales (rule ArrayReference_SetValuesCommand_codec)

section \<open>The classes of the module\<close>

text \<open>
  The instances of the module's command classes and the classes themselves, with the methods
  dispatched on them; the same for the responses; and the registrations its decorators make.
\<close>

datatype (plugins only: code) array_reference_command =
    LengthCommand_obj LengthCommand
  | ArrayReference_GetValuesCommand_obj ArrayReference_GetValuesCommand
  | ArrayReference_SetValuesCommand_obj ArrayReference_SetValuesCommand

datatype (plugins only: code) array_reference_command_class =
    LengthCommand_cls
  | ArrayReference_GetValuesCommand_cls
  | ArrayReference_SetValuesCommand_cls

primrec array_reference_command_class_of :: "array_reference_command \<Rightarrow> array_reference_command_class" where
  "array_reference_command_class_of (LengthCommand_obj self) = LengthCommand_cls"
| "array_reference_command_class_of (ArrayReference_GetValuesCommand_obj self) =
     ArrayReference_GetValuesCommand_cls"
| "array_reference_command_class_of (ArrayReference_SetValuesCommand_obj self) =
     ArrayReference_SetValuesCommand_cls"

primrec array_reference_command_vars :: "array_reference_command_class \<Rightarrow> command_class" where
  "array_reference_command_vars LengthCommand_cls = LengthCommand_class"
| "array_reference_command_vars ArrayReference_GetValuesCommand_cls =
     ArrayReference_GetValuesCommand_class"
| "array_reference_command_vars ArrayReference_SetValuesCommand_cls =
     ArrayReference_SetValuesCommand_class"

primrec array_reference_command_name :: "array_reference_command_class \<Rightarrow> string" where
  "array_reference_command_name LengthCommand_cls = ''LengthCommand''"
| "array_reference_command_name ArrayReference_GetValuesCommand_cls = ''GetValuesCommand''"
| "array_reference_command_name ArrayReference_SetValuesCommand_cls = ''SetValuesCommand''"

primrec array_reference_command_serialize :: "array_reference_command \<Rightarrow> writer_op" where
  "array_reference_command_serialize (LengthCommand_obj self) = LengthCommand_serialize self"
| "array_reference_command_serialize (ArrayReference_GetValuesCommand_obj self) =
     ArrayReference_GetValuesCommand_serialize self"
| "array_reference_command_serialize (ArrayReference_SetValuesCommand_obj self) =
     ArrayReference_SetValuesCommand_serialize self"

primrec array_reference_command_deserialize :: "array_reference_command_class \<Rightarrow> array_reference_command reader_op" where
  "array_reference_command_deserialize LengthCommand_cls =
     of_class LengthCommand_deserialize LengthCommand_obj"
| "array_reference_command_deserialize ArrayReference_GetValuesCommand_cls =
     of_class ArrayReference_GetValuesCommand_deserialize ArrayReference_GetValuesCommand_obj"
| "array_reference_command_deserialize ArrayReference_SetValuesCommand_cls =
     of_class ArrayReference_SetValuesCommand_deserialize ArrayReference_SetValuesCommand_obj"

primrec array_reference_command_ok :: "array_reference_command \<Rightarrow> bool" where
  "array_reference_command_ok (LengthCommand_obj self) = True"
| "array_reference_command_ok (ArrayReference_GetValuesCommand_obj self) = True"
| "array_reference_command_ok (ArrayReference_SetValuesCommand_obj self) =
     ArrayReference_SetValuesCommand_ok self"

interpretation array_reference_command:
  message_family array_reference_command_class_of array_reference_command_serialize
    array_reference_command_deserialize array_reference_command_ok
proof unfold_locales
  fix v assume "array_reference_command_ok v"
  then show "paired (array_reference_command_serialize v)
      (array_reference_command_deserialize (array_reference_command_class_of v)) v"
    by (cases v) (auto intro!: of_class_codec codec_intros)
next
  fix c r v r' assume "array_reference_command_deserialize c r = Inr (v, r')"
  then show "array_reference_command_class_of v = c" by (cases c) (auto dest!: of_class_obj)
next
  fix c r v r' assume "array_reference_command_deserialize c r = Inr (v, r')" and "array_element_tag r = None"
  then show "array_reference_command_ok v"
    by (cases c) (auto dest!: of_class_obj dest: ArrayReference_SetValuesCommand_sound)
qed

datatype (plugins only: code) array_reference_response =
    LengthResponse_obj LengthResponse
  | ArrayReference_GetValuesResponse_obj ArrayReference_GetValuesResponse
  | ArrayReference_SetValuesResponse_obj ArrayReference_SetValuesResponse

datatype (plugins only: code) array_reference_response_class =
    LengthResponse_cls
  | ArrayReference_GetValuesResponse_cls
  | ArrayReference_SetValuesResponse_cls

primrec array_reference_response_class_of :: "array_reference_response \<Rightarrow> array_reference_response_class" where
  "array_reference_response_class_of (LengthResponse_obj self) = LengthResponse_cls"
| "array_reference_response_class_of (ArrayReference_GetValuesResponse_obj self) =
     ArrayReference_GetValuesResponse_cls"
| "array_reference_response_class_of (ArrayReference_SetValuesResponse_obj self) =
     ArrayReference_SetValuesResponse_cls"

primrec array_reference_response_serialize :: "array_reference_response \<Rightarrow> writer_op" where
  "array_reference_response_serialize (LengthResponse_obj self) = LengthResponse_serialize self"
| "array_reference_response_serialize (ArrayReference_GetValuesResponse_obj self) =
     ArrayReference_GetValuesResponse_serialize self"
| "array_reference_response_serialize (ArrayReference_SetValuesResponse_obj self) =
     ArrayReference_SetValuesResponse_serialize self"

primrec array_reference_response_deserialize :: "array_reference_response_class \<Rightarrow> array_reference_response reader_op" where
  "array_reference_response_deserialize LengthResponse_cls =
     of_class LengthResponse_deserialize LengthResponse_obj"
| "array_reference_response_deserialize ArrayReference_GetValuesResponse_cls =
     of_class ArrayReference_GetValuesResponse_deserialize ArrayReference_GetValuesResponse_obj"
| "array_reference_response_deserialize ArrayReference_SetValuesResponse_cls =
     of_class ArrayReference_SetValuesResponse_deserialize ArrayReference_SetValuesResponse_obj"

primrec array_reference_response_ok :: "array_reference_response \<Rightarrow> bool" where
  "array_reference_response_ok (LengthResponse_obj self) = True"
| "array_reference_response_ok (ArrayReference_GetValuesResponse_obj self) =
     ArrayReference_GetValuesResponse_ok self"
| "array_reference_response_ok (ArrayReference_SetValuesResponse_obj self) = True"

interpretation array_reference_response:
  message_family array_reference_response_class_of array_reference_response_serialize
    array_reference_response_deserialize array_reference_response_ok
proof unfold_locales
  fix v assume "array_reference_response_ok v"
  then show "paired (array_reference_response_serialize v)
      (array_reference_response_deserialize (array_reference_response_class_of v)) v"
    by (cases v) (auto intro!: of_class_codec codec_intros)
next
  fix c r v r' assume "array_reference_response_deserialize c r = Inr (v, r')"
  then show "array_reference_response_class_of v = c" by (cases c) (auto dest!: of_class_obj)
next
  fix c r v r' assume "array_reference_response_deserialize c r = Inr (v, r')" and "array_element_tag r = None"
  then show "array_reference_response_ok v"
    by (cases c) (auto dest!: of_class_obj dest: ArrayReference_GetValuesResponse_yields [THEN yieldsD])
qed

definition array_reference_registrations ::
    "(array_reference_response_class option \<times> array_reference_command_class) list" where
  "array_reference_registrations =
    [(Some LengthResponse_cls, LengthCommand_cls),
     (Some ArrayReference_GetValuesResponse_cls, ArrayReference_GetValuesCommand_cls),
     (Some ArrayReference_SetValuesResponse_cls, ArrayReference_SetValuesCommand_cls)]"

lemma array_reference_registered:
  "c \<in> snd ` set array_reference_registrations" "(None, c) \<notin> set array_reference_registrations"
  by (cases c, simp_all add: array_reference_registrations_def)

end
