(* ===== verification/Cmd_Class_Loader_Reference.thy ===== *)
theory Cmd_Class_Loader_Reference
  imports Codec
begin

text \<open>
  \<^verbatim>\<open>commands/class_loader_reference.py\<close>:
  the command of set 14, which lists the classes a loader sees.
  Each class is a record, with its \<open>serialize\<close> and \<open>deserialize\<close>; \<open>_class\<close> holds a command's
  class variables. The codec lemma of a class is its round trip, and the interpretation gives it the
  facts of every message class.
\<close>

section \<open>ClassLoaderReference.VisibleClasses\<close>

record VisibleClassesEntry =
  ref_type_tag :: JdwpTypeTag
  type_id :: ReferenceTypeID

definition VisibleClassesEntry_serialize :: "VisibleClassesEntry \<Rightarrow> writer_op" where
  "VisibleClassesEntry_serialize self = write_seq
     [write_byte (type_tag_value (VisibleClassesEntry.ref_type_tag self)),
      write_reference_type_id (VisibleClassesEntry.type_id self)]"

definition VisibleClassesEntry_deserialize :: "VisibleClassesEntry reader_op" where
  "VisibleClassesEntry_deserialize =
     rbind (read_enum read_byte JdwpTypeTag_of) (\<lambda>ref_type_tag.
     rbind read_reference_type_id (\<lambda>type_id.
       rreturn (VisibleClassesEntry.make ref_type_tag type_id)))"

lemma VisibleClassesEntry_codec [codec_intros]:
  "paired (VisibleClassesEntry_serialize v) VisibleClassesEntry_deserialize v"
  unfolding VisibleClassesEntry_serialize_def VisibleClassesEntry_deserialize_def
  by (rule codec_intros)+ (cases v, simp add: VisibleClassesEntry.make_def)

record VisibleClassesResponse =
  "classes" :: "VisibleClassesEntry list"

definition VisibleClassesResponse_serialize ::
    "VisibleClassesResponse \<Rightarrow> writer_op" where
  "VisibleClassesResponse_serialize self = write_seq
     [write_counted VisibleClassesEntry_serialize (VisibleClassesResponse.classes self)]"

definition VisibleClassesResponse_deserialize :: "VisibleClassesResponse reader_op" where
  "VisibleClassesResponse_deserialize =
     rbind (read_counted VisibleClassesEntry_deserialize) (\<lambda>classes.
       rreturn (VisibleClassesResponse.make classes))"

lemma VisibleClassesResponse_codec [codec_intros]:
  "paired (VisibleClassesResponse_serialize v) VisibleClassesResponse_deserialize v"
  unfolding VisibleClassesResponse_serialize_def VisibleClassesResponse_deserialize_def
  by (rule codec_intros)+ (cases v, simp add: VisibleClassesResponse.make_def)

interpretation VisibleClassesResponse:
  codec VisibleClassesResponse_serialize VisibleClassesResponse_deserialize "\<lambda>_. True"
  by unfold_locales (rule VisibleClassesResponse_codec)

record VisibleClassesCommand =
  class_loader :: ClassLoaderID

definition VisibleClassesCommand_class :: command_class where
  "VisibleClassesCommand_class = command_class.make 14 1 {ERR_NONE, ERR_INVALID_CLASS_LOADER,
     ERR_INVALID_OBJECT, ERR_VM_DEAD}"

definition VisibleClassesCommand_serialize :: "VisibleClassesCommand \<Rightarrow> writer_op" where
  "VisibleClassesCommand_serialize self = write_seq
     [write_class_loader_id (VisibleClassesCommand.class_loader self)]"

definition VisibleClassesCommand_deserialize :: "VisibleClassesCommand reader_op" where
  "VisibleClassesCommand_deserialize =
     rbind read_class_loader_id (\<lambda>class_loader.
       rreturn (VisibleClassesCommand.make class_loader))"

lemma VisibleClassesCommand_codec [codec_intros]:
  "paired (VisibleClassesCommand_serialize v) VisibleClassesCommand_deserialize v"
  unfolding VisibleClassesCommand_serialize_def VisibleClassesCommand_deserialize_def
  by (rule codec_intros)+ (cases v, simp add: VisibleClassesCommand.make_def)

interpretation VisibleClassesCommand:
  codec VisibleClassesCommand_serialize VisibleClassesCommand_deserialize "\<lambda>_. True"
  by unfold_locales (rule VisibleClassesCommand_codec)

section \<open>The classes of the module\<close>

text \<open>
  The instances of the module's command classes and the classes themselves, with the methods
  dispatched on them; the same for the responses; and the registrations its decorators make.
\<close>

datatype (plugins only: code) class_loader_reference_command =
    VisibleClassesCommand_obj VisibleClassesCommand

datatype (plugins only: code) class_loader_reference_command_class =
    VisibleClassesCommand_cls

primrec class_loader_reference_command_class_of :: "class_loader_reference_command \<Rightarrow> class_loader_reference_command_class" where
  "class_loader_reference_command_class_of (VisibleClassesCommand_obj self) =
     VisibleClassesCommand_cls"

primrec class_loader_reference_command_vars :: "class_loader_reference_command_class \<Rightarrow> command_class" where
  "class_loader_reference_command_vars VisibleClassesCommand_cls = VisibleClassesCommand_class"

primrec class_loader_reference_command_name :: "class_loader_reference_command_class \<Rightarrow> string" where
  "class_loader_reference_command_name VisibleClassesCommand_cls = ''VisibleClassesCommand''"

primrec class_loader_reference_command_serialize :: "class_loader_reference_command \<Rightarrow> writer_op" where
  "class_loader_reference_command_serialize (VisibleClassesCommand_obj self) =
     VisibleClassesCommand_serialize self"

primrec class_loader_reference_command_deserialize :: "class_loader_reference_command_class \<Rightarrow> class_loader_reference_command reader_op" where
  "class_loader_reference_command_deserialize VisibleClassesCommand_cls =
     of_class VisibleClassesCommand_deserialize VisibleClassesCommand_obj"

interpretation class_loader_reference_command:
  message_family class_loader_reference_command_class_of class_loader_reference_command_serialize
    class_loader_reference_command_deserialize "\<lambda>_. True"
proof unfold_locales
  fix v
  show "paired (class_loader_reference_command_serialize v)
      (class_loader_reference_command_deserialize (class_loader_reference_command_class_of v)) v"
    by (cases v) (auto intro!: of_class_codec codec_intros)
next
  fix c r v r' assume "class_loader_reference_command_deserialize c r = Inr (v, r')"
  then show "class_loader_reference_command_class_of v = c" by (cases c) (auto dest!: of_class_obj)
qed (rule TrueI)

datatype (plugins only: code) class_loader_reference_response =
    VisibleClassesResponse_obj VisibleClassesResponse

datatype (plugins only: code) class_loader_reference_response_class =
    VisibleClassesResponse_cls

primrec class_loader_reference_response_class_of :: "class_loader_reference_response \<Rightarrow> class_loader_reference_response_class" where
  "class_loader_reference_response_class_of (VisibleClassesResponse_obj self) =
     VisibleClassesResponse_cls"

primrec class_loader_reference_response_serialize :: "class_loader_reference_response \<Rightarrow> writer_op" where
  "class_loader_reference_response_serialize (VisibleClassesResponse_obj self) =
     VisibleClassesResponse_serialize self"

primrec class_loader_reference_response_deserialize :: "class_loader_reference_response_class \<Rightarrow> class_loader_reference_response reader_op" where
  "class_loader_reference_response_deserialize VisibleClassesResponse_cls =
     of_class VisibleClassesResponse_deserialize VisibleClassesResponse_obj"

interpretation class_loader_reference_response:
  message_family class_loader_reference_response_class_of
    class_loader_reference_response_serialize class_loader_reference_response_deserialize
    "\<lambda>_. True"
proof unfold_locales
  fix v
  show "paired (class_loader_reference_response_serialize v)
      (class_loader_reference_response_deserialize (class_loader_reference_response_class_of v)) v"
    by (cases v) (auto intro!: of_class_codec codec_intros)
next
  fix c r v r' assume "class_loader_reference_response_deserialize c r = Inr (v, r')"
  then show "class_loader_reference_response_class_of v = c" by (cases c) (auto dest!: of_class_obj)
qed (rule TrueI)

definition class_loader_reference_registrations ::
    "(class_loader_reference_response_class option \<times> class_loader_reference_command_class) list" where
  "class_loader_reference_registrations =
    [(Some VisibleClassesResponse_cls, VisibleClassesCommand_cls)]"

lemma class_loader_reference_registered:
  "c \<in> snd ` set class_loader_reference_registrations" "(None, c) \<notin> set class_loader_reference_registrations"
  by (cases c, simp_all add: class_loader_reference_registrations_def)

end
