(* ===== verification/Cmd_Event_Request.thy ===== *)
theory Cmd_Event_Request
  imports Codec
begin

text \<open>
  \<^verbatim>\<open>commands/event_request.py\<close>:
  the commands of set 15, which register event requests, and the event modifiers.
  Each class is a record, with its \<open>serialize\<close> and \<open>deserialize\<close>; \<open>_class\<close> holds a command's
  class variables. The codec lemma of a class is its round trip, and the interpretation gives it the
  facts of every message class.
\<close>

section \<open>Event modifiers\<close>

record CountModifier =
  count :: int

definition CountModifier_serialize :: "CountModifier \<Rightarrow> writer_op" where
  "CountModifier_serialize self = write_seq
     [write_int (CountModifier.count self)]"

definition CountModifier_deserialize :: "CountModifier reader_op" where
  "CountModifier_deserialize =
     rbind read_int (\<lambda>count.
       rreturn (CountModifier.make count))"

lemma CountModifier_codec [codec_intros]:
  "paired (CountModifier_serialize v) CountModifier_deserialize v"
  unfolding CountModifier_serialize_def CountModifier_deserialize_def
  by (rule codec_intros)+ (cases v, simp add: CountModifier.make_def)

record ConditionalModifier =
  expr_id :: int

definition ConditionalModifier_serialize :: "ConditionalModifier \<Rightarrow> writer_op" where
  "ConditionalModifier_serialize self = write_seq
     [write_int (ConditionalModifier.expr_id self)]"

definition ConditionalModifier_deserialize :: "ConditionalModifier reader_op" where
  "ConditionalModifier_deserialize =
     rbind read_int (\<lambda>expr_id.
       rreturn (ConditionalModifier.make expr_id))"

lemma ConditionalModifier_codec [codec_intros]:
  "paired (ConditionalModifier_serialize v) ConditionalModifier_deserialize v"
  unfolding ConditionalModifier_serialize_def ConditionalModifier_deserialize_def
  by (rule codec_intros)+ (cases v, simp add: ConditionalModifier.make_def)

record ThreadOnlyModifier =
  thread :: ObjectID

definition ThreadOnlyModifier_serialize :: "ThreadOnlyModifier \<Rightarrow> writer_op" where
  "ThreadOnlyModifier_serialize self = write_seq
     [write_object_id (ThreadOnlyModifier.thread self)]"

definition ThreadOnlyModifier_deserialize :: "ThreadOnlyModifier reader_op" where
  "ThreadOnlyModifier_deserialize =
     rbind read_object_id (\<lambda>thread.
       rreturn (ThreadOnlyModifier.make thread))"

lemma ThreadOnlyModifier_codec [codec_intros]:
  "paired (ThreadOnlyModifier_serialize v) ThreadOnlyModifier_deserialize v"
  unfolding ThreadOnlyModifier_serialize_def ThreadOnlyModifier_deserialize_def
  by (rule codec_intros)+ (cases v, simp add: ThreadOnlyModifier.make_def)

record ClassOnlyModifier =
  clazz :: ReferenceTypeID

definition ClassOnlyModifier_serialize :: "ClassOnlyModifier \<Rightarrow> writer_op" where
  "ClassOnlyModifier_serialize self = write_seq
     [write_reference_type_id (ClassOnlyModifier.clazz self)]"

definition ClassOnlyModifier_deserialize :: "ClassOnlyModifier reader_op" where
  "ClassOnlyModifier_deserialize =
     rbind read_reference_type_id (\<lambda>clazz.
       rreturn (ClassOnlyModifier.make clazz))"

lemma ClassOnlyModifier_codec [codec_intros]:
  "paired (ClassOnlyModifier_serialize v) ClassOnlyModifier_deserialize v"
  unfolding ClassOnlyModifier_serialize_def ClassOnlyModifier_deserialize_def
  by (rule codec_intros)+ (cases v, simp add: ClassOnlyModifier.make_def)

record ClassMatchModifier =
  class_pattern :: pystr

definition ClassMatchModifier_serialize :: "ClassMatchModifier \<Rightarrow> writer_op" where
  "ClassMatchModifier_serialize self = write_seq
     [write_string (ClassMatchModifier.class_pattern self)]"

definition ClassMatchModifier_deserialize :: "ClassMatchModifier reader_op" where
  "ClassMatchModifier_deserialize =
     rbind read_string (\<lambda>class_pattern.
       rreturn (ClassMatchModifier.make class_pattern))"

lemma ClassMatchModifier_codec [codec_intros]:
  "paired (ClassMatchModifier_serialize v) ClassMatchModifier_deserialize v"
  unfolding ClassMatchModifier_serialize_def ClassMatchModifier_deserialize_def
  by (rule codec_intros)+ (cases v, simp add: ClassMatchModifier.make_def)

record ClassExcludeModifier =
  class_pattern :: pystr

definition ClassExcludeModifier_serialize :: "ClassExcludeModifier \<Rightarrow> writer_op" where
  "ClassExcludeModifier_serialize self = write_seq
     [write_string (ClassExcludeModifier.class_pattern self)]"

definition ClassExcludeModifier_deserialize :: "ClassExcludeModifier reader_op" where
  "ClassExcludeModifier_deserialize =
     rbind read_string (\<lambda>class_pattern.
       rreturn (ClassExcludeModifier.make class_pattern))"

lemma ClassExcludeModifier_codec [codec_intros]:
  "paired (ClassExcludeModifier_serialize v) ClassExcludeModifier_deserialize v"
  unfolding ClassExcludeModifier_serialize_def ClassExcludeModifier_deserialize_def
  by (rule codec_intros)+ (cases v, simp add: ClassExcludeModifier.make_def)

record LocationOnlyModifier =
  loc :: Location

definition LocationOnlyModifier_serialize :: "LocationOnlyModifier \<Rightarrow> writer_op" where
  "LocationOnlyModifier_serialize self = write_seq
     [write_location (LocationOnlyModifier.loc self)]"

definition LocationOnlyModifier_deserialize :: "LocationOnlyModifier reader_op" where
  "LocationOnlyModifier_deserialize =
     rbind read_location (\<lambda>loc.
       rreturn (LocationOnlyModifier.make loc))"

lemma LocationOnlyModifier_codec [codec_intros]:
  "paired (LocationOnlyModifier_serialize v) LocationOnlyModifier_deserialize v"
  unfolding LocationOnlyModifier_serialize_def LocationOnlyModifier_deserialize_def
  by (rule codec_intros)+ (cases v, simp add: LocationOnlyModifier.make_def)

record ExceptionOnlyModifier =
  exception_or_null :: ReferenceTypeID
  caught :: bool
  uncaught :: bool

definition ExceptionOnlyModifier_serialize :: "ExceptionOnlyModifier \<Rightarrow> writer_op" where
  "ExceptionOnlyModifier_serialize self = write_seq
     [write_reference_type_id (ExceptionOnlyModifier.exception_or_null self),
      write_boolean (ExceptionOnlyModifier.caught self),
      write_boolean (ExceptionOnlyModifier.uncaught self)]"

definition ExceptionOnlyModifier_deserialize :: "ExceptionOnlyModifier reader_op" where
  "ExceptionOnlyModifier_deserialize =
     rbind read_reference_type_id (\<lambda>exception_or_null.
     rbind read_boolean (\<lambda>caught.
     rbind read_boolean (\<lambda>uncaught.
       rreturn (ExceptionOnlyModifier.make exception_or_null caught uncaught))))"

lemma ExceptionOnlyModifier_codec [codec_intros]:
  "paired (ExceptionOnlyModifier_serialize v) ExceptionOnlyModifier_deserialize v"
  unfolding ExceptionOnlyModifier_serialize_def ExceptionOnlyModifier_deserialize_def
  by (rule codec_intros)+ (cases v, simp add: ExceptionOnlyModifier.make_def)

record FieldOnlyModifier =
  declaring :: ReferenceTypeID
  field :: FieldID

definition FieldOnlyModifier_serialize :: "FieldOnlyModifier \<Rightarrow> writer_op" where
  "FieldOnlyModifier_serialize self = write_seq
     [write_reference_type_id (FieldOnlyModifier.declaring self),
      write_field_id (FieldOnlyModifier.field self)]"

definition FieldOnlyModifier_deserialize :: "FieldOnlyModifier reader_op" where
  "FieldOnlyModifier_deserialize =
     rbind read_reference_type_id (\<lambda>declaring.
     rbind read_field_id (\<lambda>field.
       rreturn (FieldOnlyModifier.make declaring field)))"

lemma FieldOnlyModifier_codec [codec_intros]:
  "paired (FieldOnlyModifier_serialize v) FieldOnlyModifier_deserialize v"
  unfolding FieldOnlyModifier_serialize_def FieldOnlyModifier_deserialize_def
  by (rule codec_intros)+ (cases v, simp add: FieldOnlyModifier.make_def)

record StepModifier =
  thread :: ObjectID
  size' :: int
  depth :: int

definition StepModifier_serialize :: "StepModifier \<Rightarrow> writer_op" where
  "StepModifier_serialize self = write_seq
     [write_object_id (StepModifier.thread self),
      write_int (StepModifier.size' self),
      write_int (StepModifier.depth self)]"

definition StepModifier_deserialize :: "StepModifier reader_op" where
  "StepModifier_deserialize =
     rbind read_object_id (\<lambda>thread.
     rbind read_int (\<lambda>size'.
     rbind read_int (\<lambda>depth.
       rreturn (StepModifier.make thread size' depth))))"

lemma StepModifier_codec [codec_intros]:
  "paired (StepModifier_serialize v) StepModifier_deserialize v"
  unfolding StepModifier_serialize_def StepModifier_deserialize_def
  by (rule codec_intros)+ (cases v, simp add: StepModifier.make_def)

record InstanceOnlyModifier =
  "instance" :: ObjectID

definition InstanceOnlyModifier_serialize :: "InstanceOnlyModifier \<Rightarrow> writer_op" where
  "InstanceOnlyModifier_serialize self = write_seq
     [write_object_id (InstanceOnlyModifier.instance self)]"

definition InstanceOnlyModifier_deserialize :: "InstanceOnlyModifier reader_op" where
  "InstanceOnlyModifier_deserialize =
     rbind read_object_id (\<lambda>instance.
       rreturn (InstanceOnlyModifier.make instance))"

lemma InstanceOnlyModifier_codec [codec_intros]:
  "paired (InstanceOnlyModifier_serialize v) InstanceOnlyModifier_deserialize v"
  unfolding InstanceOnlyModifier_serialize_def InstanceOnlyModifier_deserialize_def
  by (rule codec_intros)+ (cases v, simp add: InstanceOnlyModifier.make_def)

datatype (plugins only: code) PlatformThreadsOnlyModifier = PlatformThreadsOnlyModifier

definition PlatformThreadsOnlyModifier_serialize ::
    "PlatformThreadsOnlyModifier \<Rightarrow> writer_op" where
  "PlatformThreadsOnlyModifier_serialize self = write_seq []"

definition PlatformThreadsOnlyModifier_deserialize :: "PlatformThreadsOnlyModifier reader_op" where
  "PlatformThreadsOnlyModifier_deserialize = rreturn PlatformThreadsOnlyModifier"

lemma PlatformThreadsOnlyModifier_codec [codec_intros]:
  "paired (PlatformThreadsOnlyModifier_serialize v) PlatformThreadsOnlyModifier_deserialize v"
  unfolding PlatformThreadsOnlyModifier_serialize_def PlatformThreadsOnlyModifier_deserialize_def
  by (rule codec_intros)+ (cases v, simp)

section \<open>EventRequest.Set\<close>

text \<open>An instance of a subclass of \<open>EventModifier\<close>; its methods and its class variable by dynamic dispatch.\<close>

datatype (plugins only: code) EventModifier =
    CountModifier_obj CountModifier
  | ConditionalModifier_obj ConditionalModifier
  | ThreadOnlyModifier_obj ThreadOnlyModifier
  | ClassOnlyModifier_obj ClassOnlyModifier
  | ClassMatchModifier_obj ClassMatchModifier
  | ClassExcludeModifier_obj ClassExcludeModifier
  | LocationOnlyModifier_obj LocationOnlyModifier
  | ExceptionOnlyModifier_obj ExceptionOnlyModifier
  | FieldOnlyModifier_obj FieldOnlyModifier
  | StepModifier_obj StepModifier
  | InstanceOnlyModifier_obj InstanceOnlyModifier
  | PlatformThreadsOnlyModifier_obj PlatformThreadsOnlyModifier

primrec MOD_KIND :: "EventModifier \<Rightarrow> int" where
  "MOD_KIND (CountModifier_obj self) = 1"
| "MOD_KIND (ConditionalModifier_obj self) = 2"
| "MOD_KIND (ThreadOnlyModifier_obj self) = 3"
| "MOD_KIND (ClassOnlyModifier_obj self) = 4"
| "MOD_KIND (ClassMatchModifier_obj self) = 5"
| "MOD_KIND (ClassExcludeModifier_obj self) = 6"
| "MOD_KIND (LocationOnlyModifier_obj self) = 7"
| "MOD_KIND (ExceptionOnlyModifier_obj self) = 8"
| "MOD_KIND (FieldOnlyModifier_obj self) = 9"
| "MOD_KIND (StepModifier_obj self) = 10"
| "MOD_KIND (InstanceOnlyModifier_obj self) = 11"
| "MOD_KIND (PlatformThreadsOnlyModifier_obj self) = 14"

primrec EventModifier_serialize :: "EventModifier \<Rightarrow> writer_op" where
  "EventModifier_serialize (CountModifier_obj self) = CountModifier_serialize self"
| "EventModifier_serialize (ConditionalModifier_obj self) = ConditionalModifier_serialize self"
| "EventModifier_serialize (ThreadOnlyModifier_obj self) = ThreadOnlyModifier_serialize self"
| "EventModifier_serialize (ClassOnlyModifier_obj self) = ClassOnlyModifier_serialize self"
| "EventModifier_serialize (ClassMatchModifier_obj self) = ClassMatchModifier_serialize self"
| "EventModifier_serialize (ClassExcludeModifier_obj self) = ClassExcludeModifier_serialize self"
| "EventModifier_serialize (LocationOnlyModifier_obj self) = LocationOnlyModifier_serialize self"
| "EventModifier_serialize (ExceptionOnlyModifier_obj self) = ExceptionOnlyModifier_serialize self"
| "EventModifier_serialize (FieldOnlyModifier_obj self) = FieldOnlyModifier_serialize self"
| "EventModifier_serialize (StepModifier_obj self) = StepModifier_serialize self"
| "EventModifier_serialize (InstanceOnlyModifier_obj self) = InstanceOnlyModifier_serialize self"
| "EventModifier_serialize (PlatformThreadsOnlyModifier_obj self) = PlatformThreadsOnlyModifier_serialize self"

definition modifier_class :: "'e reader_op \<Rightarrow> ('e \<Rightarrow> EventModifier) \<Rightarrow> EventModifier reader_op" where
  "modifier_class des obj = rbind des (\<lambda>self. rreturn (obj self))"

definition MODIFIER_CLASSES :: "int \<Rightarrow> EventModifier reader_op option" where
  "MODIFIER_CLASSES = map_of
    [(1, modifier_class CountModifier_deserialize CountModifier_obj),
     (2, modifier_class ConditionalModifier_deserialize ConditionalModifier_obj),
     (3, modifier_class ThreadOnlyModifier_deserialize ThreadOnlyModifier_obj),
     (4, modifier_class ClassOnlyModifier_deserialize ClassOnlyModifier_obj),
     (5, modifier_class ClassMatchModifier_deserialize ClassMatchModifier_obj),
     (6, modifier_class ClassExcludeModifier_deserialize ClassExcludeModifier_obj),
     (7, modifier_class LocationOnlyModifier_deserialize LocationOnlyModifier_obj),
     (8, modifier_class ExceptionOnlyModifier_deserialize ExceptionOnlyModifier_obj),
     (9, modifier_class FieldOnlyModifier_deserialize FieldOnlyModifier_obj),
     (10, modifier_class StepModifier_deserialize StepModifier_obj),
     (11, modifier_class InstanceOnlyModifier_deserialize InstanceOnlyModifier_obj),
     (14, modifier_class PlatformThreadsOnlyModifier_deserialize PlatformThreadsOnlyModifier_obj)]"

definition deserialize_modifier :: "EventModifier reader_op" where
  "deserialize_modifier =
     rbind read_byte (\<lambda>mod_kind.
       (case MODIFIER_CLASSES mod_kind of
          None \<Rightarrow> rlift (Inl ValueError)
        | Some cls \<Rightarrow> cls))"

definition serialize_modifier :: "EventModifier \<Rightarrow> writer_op" where
  "serialize_modifier modifier = write_seq
     [write_byte (MOD_KIND modifier),
      EventModifier_serialize modifier]"

lemma MOD_KIND_byte_ok: "byte_ok (MOD_KIND modifier)"
  by (cases modifier) (simp_all add: byte_ok_def)

lemma modifier_class_codec:
  assumes "paired (ser v) des v"
  shows "paired (write_seq [ser v]) (modifier_class des obj) (obj v)"
  using paired_map [OF assms, of obj] by (simp add: modifier_class_def paired_def)

lemma EventModifier_codec:
  "\<exists>cls. MODIFIER_CLASSES (MOD_KIND m) = Some cls \<and> paired (write_seq [EventModifier_serialize m]) cls m"
proof (cases m)
  case (CountModifier_obj v)
  then show ?thesis
    by (simp add: MODIFIER_CLASSES_def modifier_class_codec CountModifier_codec del: write_seq.simps)
next
  case (ConditionalModifier_obj v)
  then show ?thesis
    by (simp add: MODIFIER_CLASSES_def modifier_class_codec ConditionalModifier_codec del: write_seq.simps)
next
  case (ThreadOnlyModifier_obj v)
  then show ?thesis
    by (simp add: MODIFIER_CLASSES_def modifier_class_codec ThreadOnlyModifier_codec del: write_seq.simps)
next
  case (ClassOnlyModifier_obj v)
  then show ?thesis
    by (simp add: MODIFIER_CLASSES_def modifier_class_codec ClassOnlyModifier_codec del: write_seq.simps)
next
  case (ClassMatchModifier_obj v)
  then show ?thesis
    by (simp add: MODIFIER_CLASSES_def modifier_class_codec ClassMatchModifier_codec del: write_seq.simps)
next
  case (ClassExcludeModifier_obj v)
  then show ?thesis
    by (simp add: MODIFIER_CLASSES_def modifier_class_codec ClassExcludeModifier_codec del: write_seq.simps)
next
  case (LocationOnlyModifier_obj v)
  then show ?thesis
    by (simp add: MODIFIER_CLASSES_def modifier_class_codec LocationOnlyModifier_codec del: write_seq.simps)
next
  case (ExceptionOnlyModifier_obj v)
  then show ?thesis
    by (simp add: MODIFIER_CLASSES_def modifier_class_codec ExceptionOnlyModifier_codec del: write_seq.simps)
next
  case (FieldOnlyModifier_obj v)
  then show ?thesis
    by (simp add: MODIFIER_CLASSES_def modifier_class_codec FieldOnlyModifier_codec del: write_seq.simps)
next
  case (StepModifier_obj v)
  then show ?thesis
    by (simp add: MODIFIER_CLASSES_def modifier_class_codec StepModifier_codec del: write_seq.simps)
next
  case (InstanceOnlyModifier_obj v)
  then show ?thesis
    by (simp add: MODIFIER_CLASSES_def modifier_class_codec InstanceOnlyModifier_codec del: write_seq.simps)
next
  case (PlatformThreadsOnlyModifier_obj v)
  then show ?thesis
    by (simp add: MODIFIER_CLASSES_def modifier_class_codec PlatformThreadsOnlyModifier_codec del: write_seq.simps)
qed

lemma serialize_modifier_codec [codec_intros]:
  "paired (serialize_modifier m) deserialize_modifier m"
proof -
  obtain cls where "MODIFIER_CLASSES (MOD_KIND m) = Some cls"
      "paired (write_seq [EventModifier_serialize m]) cls m"
    using EventModifier_codec by blast
  then show ?thesis
    unfolding serialize_modifier_def deserialize_modifier_def
    by (intro paired_Cons [OF paired_byte_ok [OF MOD_KIND_byte_ok]]) simp
qed

interpretation EventModifier: codec serialize_modifier deserialize_modifier "\<lambda>_. True"
  by unfold_locales (rule serialize_modifier_codec)

record SetResponse =
  request_id :: int

definition SetResponse_serialize :: "SetResponse \<Rightarrow> writer_op" where
  "SetResponse_serialize self = write_seq
     [write_int (SetResponse.request_id self)]"

definition SetResponse_deserialize :: "SetResponse reader_op" where
  "SetResponse_deserialize =
     rbind read_int (\<lambda>request_id.
       rreturn (SetResponse.make request_id))"

lemma SetResponse_codec [codec_intros]:
  "paired (SetResponse_serialize v) SetResponse_deserialize v"
  unfolding SetResponse_serialize_def SetResponse_deserialize_def
  by (rule codec_intros)+ (cases v, simp add: SetResponse.make_def)

interpretation SetResponse: codec SetResponse_serialize SetResponse_deserialize "\<lambda>_. True"
  by unfold_locales (rule SetResponse_codec)

record SetCommand =
  event_kind :: JdwpEventKind
  suspend_policy :: JdwpSuspendPolicy
  modifiers :: "EventModifier list"

definition SetCommand_class :: command_class where
  "SetCommand_class = command_class.make 15 1 {ERR_NONE, ERR_INVALID_CLASS, ERR_INVALID_COUNT,
     ERR_INVALID_EVENT_TYPE, ERR_INVALID_FIELDID, ERR_INVALID_LOCATION, ERR_INVALID_METHODID,
     ERR_INVALID_OBJECT, ERR_INVALID_STRING, ERR_INVALID_THREAD, ERR_NOT_IMPLEMENTED,
     ERR_VM_DEAD}"

definition SetCommand_serialize :: "SetCommand \<Rightarrow> writer_op" where
  "SetCommand_serialize self = write_seq
     [write_byte (event_kind_value (SetCommand.event_kind self)),
      write_byte (suspend_policy_value (SetCommand.suspend_policy self)),
      write_counted serialize_modifier (SetCommand.modifiers self)]"

definition SetCommand_deserialize :: "SetCommand reader_op" where
  "SetCommand_deserialize =
     rbind (read_enum read_byte JdwpEventKind_of) (\<lambda>event_kind.
     rbind (read_enum read_byte JdwpSuspendPolicy_of) (\<lambda>suspend_policy.
     rbind (read_counted deserialize_modifier) (\<lambda>modifiers.
       rreturn (SetCommand.make event_kind suspend_policy modifiers))))"

lemma SetCommand_codec [codec_intros]: "paired (SetCommand_serialize v) SetCommand_deserialize v"
  unfolding SetCommand_serialize_def SetCommand_deserialize_def
  by (rule codec_intros)+ (cases v, simp add: SetCommand.make_def)

interpretation SetCommand: codec SetCommand_serialize SetCommand_deserialize "\<lambda>_. True"
  by unfold_locales (rule SetCommand_codec)

section \<open>EventRequest.Clear\<close>

datatype (plugins only: code) ClearResponse = ClearResponse

definition ClearResponse_serialize :: "ClearResponse \<Rightarrow> writer_op" where
  "ClearResponse_serialize self = write_seq []"

definition ClearResponse_deserialize :: "ClearResponse reader_op" where
  "ClearResponse_deserialize = rreturn ClearResponse"

lemma ClearResponse_codec [codec_intros]:
  "paired (ClearResponse_serialize v) ClearResponse_deserialize v"
  unfolding ClearResponse_serialize_def ClearResponse_deserialize_def
  by (rule codec_intros)+ (cases v, simp)

interpretation ClearResponse:
  codec ClearResponse_serialize ClearResponse_deserialize "\<lambda>_. True"
  by unfold_locales (rule ClearResponse_codec)

record ClearCommand =
  event_kind :: JdwpEventKind
  request_id :: int

definition ClearCommand_class :: command_class where
  "ClearCommand_class = command_class.make 15 2 {ERR_NONE, ERR_INVALID_EVENT_TYPE, ERR_VM_DEAD}"

definition ClearCommand_serialize :: "ClearCommand \<Rightarrow> writer_op" where
  "ClearCommand_serialize self = write_seq
     [write_byte (event_kind_value (ClearCommand.event_kind self)),
      write_int (ClearCommand.request_id self)]"

definition ClearCommand_deserialize :: "ClearCommand reader_op" where
  "ClearCommand_deserialize =
     rbind (read_enum read_byte JdwpEventKind_of) (\<lambda>event_kind.
     rbind read_int (\<lambda>request_id.
       rreturn (ClearCommand.make event_kind request_id)))"

lemma ClearCommand_codec [codec_intros]:
  "paired (ClearCommand_serialize v) ClearCommand_deserialize v"
  unfolding ClearCommand_serialize_def ClearCommand_deserialize_def
  by (rule codec_intros)+ (cases v, simp add: ClearCommand.make_def)

interpretation ClearCommand:
  codec ClearCommand_serialize ClearCommand_deserialize "\<lambda>_. True"
  by unfold_locales (rule ClearCommand_codec)

section \<open>EventRequest.ClearAllBreakpoints\<close>

datatype (plugins only: code) ClearAllBreakpointsResponse = ClearAllBreakpointsResponse

definition ClearAllBreakpointsResponse_serialize ::
    "ClearAllBreakpointsResponse \<Rightarrow> writer_op" where
  "ClearAllBreakpointsResponse_serialize self = write_seq []"

definition ClearAllBreakpointsResponse_deserialize :: "ClearAllBreakpointsResponse reader_op" where
  "ClearAllBreakpointsResponse_deserialize = rreturn ClearAllBreakpointsResponse"

lemma ClearAllBreakpointsResponse_codec [codec_intros]:
  "paired (ClearAllBreakpointsResponse_serialize v) ClearAllBreakpointsResponse_deserialize v"
  unfolding ClearAllBreakpointsResponse_serialize_def ClearAllBreakpointsResponse_deserialize_def
  by (rule codec_intros)+ (cases v, simp)

interpretation ClearAllBreakpointsResponse:
  codec ClearAllBreakpointsResponse_serialize ClearAllBreakpointsResponse_deserialize "\<lambda>_.
    True"
  by unfold_locales (rule ClearAllBreakpointsResponse_codec)

datatype (plugins only: code) ClearAllBreakpointsCommand = ClearAllBreakpointsCommand

definition ClearAllBreakpointsCommand_class :: command_class where
  "ClearAllBreakpointsCommand_class = command_class.make 15 3 {ERR_NONE, ERR_VM_DEAD}"

definition ClearAllBreakpointsCommand_serialize ::
    "ClearAllBreakpointsCommand \<Rightarrow> writer_op" where
  "ClearAllBreakpointsCommand_serialize self = write_seq []"

definition ClearAllBreakpointsCommand_deserialize :: "ClearAllBreakpointsCommand reader_op" where
  "ClearAllBreakpointsCommand_deserialize = rreturn ClearAllBreakpointsCommand"

lemma ClearAllBreakpointsCommand_codec [codec_intros]:
  "paired (ClearAllBreakpointsCommand_serialize v) ClearAllBreakpointsCommand_deserialize v"
  unfolding ClearAllBreakpointsCommand_serialize_def ClearAllBreakpointsCommand_deserialize_def
  by (rule codec_intros)+ (cases v, simp)

interpretation ClearAllBreakpointsCommand:
  codec ClearAllBreakpointsCommand_serialize ClearAllBreakpointsCommand_deserialize "\<lambda>_.
    True"
  by unfold_locales (rule ClearAllBreakpointsCommand_codec)

section \<open>The classes of the module\<close>

text \<open>
  The instances of the module's command classes and the classes themselves, with the methods
  dispatched on them; the same for the responses; and the registrations its decorators make.
\<close>

datatype (plugins only: code) event_request_command =
    SetCommand_obj SetCommand
  | ClearCommand_obj ClearCommand
  | ClearAllBreakpointsCommand_obj ClearAllBreakpointsCommand

datatype (plugins only: code) event_request_command_class =
    SetCommand_cls
  | ClearCommand_cls
  | ClearAllBreakpointsCommand_cls

primrec event_request_command_class_of :: "event_request_command \<Rightarrow> event_request_command_class" where
  "event_request_command_class_of (SetCommand_obj self) = SetCommand_cls"
| "event_request_command_class_of (ClearCommand_obj self) = ClearCommand_cls"
| "event_request_command_class_of (ClearAllBreakpointsCommand_obj self) =
     ClearAllBreakpointsCommand_cls"

primrec event_request_command_vars :: "event_request_command_class \<Rightarrow> command_class" where
  "event_request_command_vars SetCommand_cls = SetCommand_class"
| "event_request_command_vars ClearCommand_cls = ClearCommand_class"
| "event_request_command_vars ClearAllBreakpointsCommand_cls = ClearAllBreakpointsCommand_class"

primrec event_request_command_name :: "event_request_command_class \<Rightarrow> string" where
  "event_request_command_name SetCommand_cls = ''SetCommand''"
| "event_request_command_name ClearCommand_cls = ''ClearCommand''"
| "event_request_command_name ClearAllBreakpointsCommand_cls = ''ClearAllBreakpointsCommand''"

primrec event_request_command_serialize :: "event_request_command \<Rightarrow> writer_op" where
  "event_request_command_serialize (SetCommand_obj self) = SetCommand_serialize self"
| "event_request_command_serialize (ClearCommand_obj self) = ClearCommand_serialize self"
| "event_request_command_serialize (ClearAllBreakpointsCommand_obj self) =
     ClearAllBreakpointsCommand_serialize self"

primrec event_request_command_deserialize :: "event_request_command_class \<Rightarrow> event_request_command reader_op" where
  "event_request_command_deserialize SetCommand_cls =
     of_class SetCommand_deserialize SetCommand_obj"
| "event_request_command_deserialize ClearCommand_cls =
     of_class ClearCommand_deserialize ClearCommand_obj"
| "event_request_command_deserialize ClearAllBreakpointsCommand_cls =
     of_class ClearAllBreakpointsCommand_deserialize ClearAllBreakpointsCommand_obj"

interpretation event_request_command:
  message_family event_request_command_class_of event_request_command_serialize
    event_request_command_deserialize "\<lambda>_. True"
proof unfold_locales
  fix v
  show "paired (event_request_command_serialize v)
      (event_request_command_deserialize (event_request_command_class_of v)) v"
    by (cases v) (auto intro!: of_class_codec codec_intros)
next
  fix c r v r' assume "event_request_command_deserialize c r = Inr (v, r')"
  then show "event_request_command_class_of v = c" by (cases c) (auto dest!: of_class_obj)
qed (rule TrueI)

datatype (plugins only: code) event_request_response =
    SetResponse_obj SetResponse
  | ClearResponse_obj ClearResponse
  | ClearAllBreakpointsResponse_obj ClearAllBreakpointsResponse

datatype (plugins only: code) event_request_response_class =
    SetResponse_cls
  | ClearResponse_cls
  | ClearAllBreakpointsResponse_cls

primrec event_request_response_class_of :: "event_request_response \<Rightarrow> event_request_response_class" where
  "event_request_response_class_of (SetResponse_obj self) = SetResponse_cls"
| "event_request_response_class_of (ClearResponse_obj self) = ClearResponse_cls"
| "event_request_response_class_of (ClearAllBreakpointsResponse_obj self) =
     ClearAllBreakpointsResponse_cls"

primrec event_request_response_serialize :: "event_request_response \<Rightarrow> writer_op" where
  "event_request_response_serialize (SetResponse_obj self) = SetResponse_serialize self"
| "event_request_response_serialize (ClearResponse_obj self) = ClearResponse_serialize self"
| "event_request_response_serialize (ClearAllBreakpointsResponse_obj self) =
     ClearAllBreakpointsResponse_serialize self"

primrec event_request_response_deserialize :: "event_request_response_class \<Rightarrow> event_request_response reader_op" where
  "event_request_response_deserialize SetResponse_cls =
     of_class SetResponse_deserialize SetResponse_obj"
| "event_request_response_deserialize ClearResponse_cls =
     of_class ClearResponse_deserialize ClearResponse_obj"
| "event_request_response_deserialize ClearAllBreakpointsResponse_cls =
     of_class ClearAllBreakpointsResponse_deserialize ClearAllBreakpointsResponse_obj"

interpretation event_request_response:
  message_family event_request_response_class_of event_request_response_serialize
    event_request_response_deserialize "\<lambda>_. True"
proof unfold_locales
  fix v
  show "paired (event_request_response_serialize v)
      (event_request_response_deserialize (event_request_response_class_of v)) v"
    by (cases v) (auto intro!: of_class_codec codec_intros)
next
  fix c r v r' assume "event_request_response_deserialize c r = Inr (v, r')"
  then show "event_request_response_class_of v = c" by (cases c) (auto dest!: of_class_obj)
qed (rule TrueI)

definition event_request_registrations ::
    "(event_request_response_class option \<times> event_request_command_class) list" where
  "event_request_registrations =
    [(Some SetResponse_cls, SetCommand_cls),
     (Some ClearResponse_cls, ClearCommand_cls),
     (Some ClearAllBreakpointsResponse_cls, ClearAllBreakpointsCommand_cls)]"

lemma event_request_registered:
  "c \<in> snd ` set event_request_registrations" "(None, c) \<notin> set event_request_registrations"
  by (cases c, simp_all add: event_request_registrations_def)

end
