(* ===== verification/Cmd_Event.thy ===== *)
theory Cmd_Event
  imports Codec
begin

text \<open>
  \<^verbatim>\<open>commands/event.py\<close>:
  the events of a target VM and the composite command (set 64) that carries them.
  Each class is a record, with its \<open>serialize\<close> and \<open>deserialize\<close>; \<open>_class\<close> holds a command's
  class variables. The codec lemma of a class is its round trip, and the interpretation gives it the
  facts of every message class.
\<close>

section \<open>Events\<close>

record VMStartEvent =
  request_id :: int
  thread :: ThreadID

definition VMStartEvent_serialize :: "VMStartEvent \<Rightarrow> writer_op" where
  "VMStartEvent_serialize self = write_seq
     [write_thread_id (VMStartEvent.thread self)]"

definition VMStartEvent_deserialize :: "int \<Rightarrow> VMStartEvent reader_op" where
  "VMStartEvent_deserialize req_id =
     rbind read_thread_id (\<lambda>thread.
       rreturn (VMStartEvent.make req_id thread))"

lemma VMStartEvent_codec [codec_intros]:
  "paired (VMStartEvent_serialize v) (VMStartEvent_deserialize (VMStartEvent.request_id v)) v"
  unfolding VMStartEvent_serialize_def VMStartEvent_deserialize_def
  by (rule codec_intros)+ (cases v, simp add: VMStartEvent.make_def)

record SingleStepEvent =
  request_id :: int
  thread :: ThreadID
  "location" :: Location

definition SingleStepEvent_serialize :: "SingleStepEvent \<Rightarrow> writer_op" where
  "SingleStepEvent_serialize self = write_seq
     [write_thread_id (SingleStepEvent.thread self),
      write_location (SingleStepEvent.location self)]"

definition SingleStepEvent_deserialize :: "int \<Rightarrow> SingleStepEvent reader_op" where
  "SingleStepEvent_deserialize req_id =
     rbind read_thread_id (\<lambda>thread.
     rbind read_location (\<lambda>location.
       rreturn (SingleStepEvent.make req_id thread location)))"

lemma SingleStepEvent_codec [codec_intros]:
  "paired (SingleStepEvent_serialize v) (SingleStepEvent_deserialize (SingleStepEvent.request_id
    v)) v"
  unfolding SingleStepEvent_serialize_def SingleStepEvent_deserialize_def
  by (rule codec_intros)+ (cases v, simp add: SingleStepEvent.make_def)

record BreakpointEvent =
  request_id :: int
  thread :: ThreadID
  "location" :: Location

definition BreakpointEvent_serialize :: "BreakpointEvent \<Rightarrow> writer_op" where
  "BreakpointEvent_serialize self = write_seq
     [write_thread_id (BreakpointEvent.thread self),
      write_location (BreakpointEvent.location self)]"

definition BreakpointEvent_deserialize :: "int \<Rightarrow> BreakpointEvent reader_op" where
  "BreakpointEvent_deserialize req_id =
     rbind read_thread_id (\<lambda>thread.
     rbind read_location (\<lambda>location.
       rreturn (BreakpointEvent.make req_id thread location)))"

lemma BreakpointEvent_codec [codec_intros]:
  "paired (BreakpointEvent_serialize v) (BreakpointEvent_deserialize (BreakpointEvent.request_id
    v)) v"
  unfolding BreakpointEvent_serialize_def BreakpointEvent_deserialize_def
  by (rule codec_intros)+ (cases v, simp add: BreakpointEvent.make_def)

record MethodEntryEvent =
  request_id :: int
  thread :: ThreadID
  "location" :: Location

definition MethodEntryEvent_serialize :: "MethodEntryEvent \<Rightarrow> writer_op" where
  "MethodEntryEvent_serialize self = write_seq
     [write_thread_id (MethodEntryEvent.thread self),
      write_location (MethodEntryEvent.location self)]"

definition MethodEntryEvent_deserialize :: "int \<Rightarrow> MethodEntryEvent reader_op" where
  "MethodEntryEvent_deserialize req_id =
     rbind read_thread_id (\<lambda>thread.
     rbind read_location (\<lambda>location.
       rreturn (MethodEntryEvent.make req_id thread location)))"

lemma MethodEntryEvent_codec [codec_intros]:
  "paired (MethodEntryEvent_serialize v) (MethodEntryEvent_deserialize
    (MethodEntryEvent.request_id v)) v"
  unfolding MethodEntryEvent_serialize_def MethodEntryEvent_deserialize_def
  by (rule codec_intros)+ (cases v, simp add: MethodEntryEvent.make_def)

record MethodExitEvent =
  request_id :: int
  thread :: ThreadID
  "location" :: Location

definition MethodExitEvent_serialize :: "MethodExitEvent \<Rightarrow> writer_op" where
  "MethodExitEvent_serialize self = write_seq
     [write_thread_id (MethodExitEvent.thread self),
      write_location (MethodExitEvent.location self)]"

definition MethodExitEvent_deserialize :: "int \<Rightarrow> MethodExitEvent reader_op" where
  "MethodExitEvent_deserialize req_id =
     rbind read_thread_id (\<lambda>thread.
     rbind read_location (\<lambda>location.
       rreturn (MethodExitEvent.make req_id thread location)))"

lemma MethodExitEvent_codec [codec_intros]:
  "paired (MethodExitEvent_serialize v) (MethodExitEvent_deserialize (MethodExitEvent.request_id
    v)) v"
  unfolding MethodExitEvent_serialize_def MethodExitEvent_deserialize_def
  by (rule codec_intros)+ (cases v, simp add: MethodExitEvent.make_def)

record MethodExitWithReturnValueEvent =
  request_id :: int
  thread :: ThreadID
  "location" :: Location
  "value" :: JdwpValue

definition MethodExitWithReturnValueEvent_serialize ::
    "MethodExitWithReturnValueEvent \<Rightarrow> writer_op" where
  "MethodExitWithReturnValueEvent_serialize self = write_seq
     [write_thread_id (MethodExitWithReturnValueEvent.thread self),
      write_location (MethodExitWithReturnValueEvent.location self),
      write_value (MethodExitWithReturnValueEvent.value self)]"

definition MethodExitWithReturnValueEvent_deserialize ::
    "int \<Rightarrow> MethodExitWithReturnValueEvent reader_op" where
  "MethodExitWithReturnValueEvent_deserialize req_id =
     rbind read_thread_id (\<lambda>thread.
     rbind read_location (\<lambda>location.
     rbind read_value (\<lambda>value.
       rreturn (MethodExitWithReturnValueEvent.make req_id thread location value))))"

definition MethodExitWithReturnValueEvent_ok ::
    "MethodExitWithReturnValueEvent \<Rightarrow> bool" where
  "MethodExitWithReturnValueEvent_ok v \<longleftrightarrow> jdwp_value_ok
     (MethodExitWithReturnValueEvent.value v)"

lemma MethodExitWithReturnValueEvent_codec [codec_intros]:
  assumes "MethodExitWithReturnValueEvent_ok v"
  shows "paired (MethodExitWithReturnValueEvent_serialize v)
    (MethodExitWithReturnValueEvent_deserialize (MethodExitWithReturnValueEvent.request_id v)) v"
  unfolding MethodExitWithReturnValueEvent_serialize_def
    MethodExitWithReturnValueEvent_deserialize_def
  by (insert assms [unfolded MethodExitWithReturnValueEvent_ok_def],
      (erule conjE | rule codec_intros | assumption | erule (1) list_all_member)+)
    (cases v, simp add: MethodExitWithReturnValueEvent.make_def)

lemma MethodExitWithReturnValueEvent_yields [yields_intros]: "yields (MethodExitWithReturnValueEvent_deserialize i) MethodExitWithReturnValueEvent_ok"
  unfolding MethodExitWithReturnValueEvent_deserialize_def
  by ((rule yields_intros | rule yields_bind yields_return | rule yields_any)+)
    (simp add: MethodExitWithReturnValueEvent_ok_def MethodExitWithReturnValueEvent.make_def)

record MonitorContendedEnterEvent =
  request_id :: int
  thread :: ThreadID
  object :: TaggedObjectID
  "location" :: Location

definition MonitorContendedEnterEvent_serialize ::
    "MonitorContendedEnterEvent \<Rightarrow> writer_op" where
  "MonitorContendedEnterEvent_serialize self = write_seq
     [write_thread_id (MonitorContendedEnterEvent.thread self),
      write_tagged_object (MonitorContendedEnterEvent.object self),
      write_location (MonitorContendedEnterEvent.location self)]"

definition MonitorContendedEnterEvent_deserialize ::
    "int \<Rightarrow> MonitorContendedEnterEvent reader_op" where
  "MonitorContendedEnterEvent_deserialize req_id =
     rbind read_thread_id (\<lambda>thread.
     rbind read_tagged_object (\<lambda>object.
     rbind read_location (\<lambda>location.
       rreturn (MonitorContendedEnterEvent.make req_id thread object location))))"

lemma MonitorContendedEnterEvent_codec [codec_intros]:
  "paired (MonitorContendedEnterEvent_serialize v) (MonitorContendedEnterEvent_deserialize
    (MonitorContendedEnterEvent.request_id v)) v"
  unfolding MonitorContendedEnterEvent_serialize_def MonitorContendedEnterEvent_deserialize_def
  by (rule codec_intros)+ (cases v, simp add: MonitorContendedEnterEvent.make_def)

record MonitorContendedEnteredEvent =
  request_id :: int
  thread :: ThreadID
  object :: TaggedObjectID
  "location" :: Location

definition MonitorContendedEnteredEvent_serialize ::
    "MonitorContendedEnteredEvent \<Rightarrow> writer_op" where
  "MonitorContendedEnteredEvent_serialize self = write_seq
     [write_thread_id (MonitorContendedEnteredEvent.thread self),
      write_tagged_object (MonitorContendedEnteredEvent.object self),
      write_location (MonitorContendedEnteredEvent.location self)]"

definition MonitorContendedEnteredEvent_deserialize ::
    "int \<Rightarrow> MonitorContendedEnteredEvent reader_op" where
  "MonitorContendedEnteredEvent_deserialize req_id =
     rbind read_thread_id (\<lambda>thread.
     rbind read_tagged_object (\<lambda>object.
     rbind read_location (\<lambda>location.
       rreturn (MonitorContendedEnteredEvent.make req_id thread object location))))"

lemma MonitorContendedEnteredEvent_codec [codec_intros]:
  "paired (MonitorContendedEnteredEvent_serialize v) (MonitorContendedEnteredEvent_deserialize
    (MonitorContendedEnteredEvent.request_id v)) v"
  unfolding MonitorContendedEnteredEvent_serialize_def
    MonitorContendedEnteredEvent_deserialize_def
  by (rule codec_intros)+ (cases v, simp add: MonitorContendedEnteredEvent.make_def)

record MonitorWaitEvent =
  request_id :: int
  thread :: ThreadID
  object :: TaggedObjectID
  "location" :: Location
  timeout :: int

definition MonitorWaitEvent_serialize :: "MonitorWaitEvent \<Rightarrow> writer_op" where
  "MonitorWaitEvent_serialize self = write_seq
     [write_thread_id (MonitorWaitEvent.thread self),
      write_tagged_object (MonitorWaitEvent.object self),
      write_location (MonitorWaitEvent.location self),
      write_long (MonitorWaitEvent.timeout self)]"

definition MonitorWaitEvent_deserialize :: "int \<Rightarrow> MonitorWaitEvent reader_op" where
  "MonitorWaitEvent_deserialize req_id =
     rbind read_thread_id (\<lambda>thread.
     rbind read_tagged_object (\<lambda>object.
     rbind read_location (\<lambda>location.
     rbind read_long (\<lambda>timeout.
       rreturn (MonitorWaitEvent.make req_id thread object location timeout)))))"

lemma MonitorWaitEvent_codec [codec_intros]:
  "paired (MonitorWaitEvent_serialize v) (MonitorWaitEvent_deserialize
    (MonitorWaitEvent.request_id v)) v"
  unfolding MonitorWaitEvent_serialize_def MonitorWaitEvent_deserialize_def
  by (rule codec_intros)+ (cases v, simp add: MonitorWaitEvent.make_def)

record MonitorWaitedEvent =
  request_id :: int
  thread :: ThreadID
  object :: TaggedObjectID
  "location" :: Location
  timed_out :: bool

definition MonitorWaitedEvent_serialize :: "MonitorWaitedEvent \<Rightarrow> writer_op" where
  "MonitorWaitedEvent_serialize self = write_seq
     [write_thread_id (MonitorWaitedEvent.thread self),
      write_tagged_object (MonitorWaitedEvent.object self),
      write_location (MonitorWaitedEvent.location self),
      write_boolean (MonitorWaitedEvent.timed_out self)]"

definition MonitorWaitedEvent_deserialize :: "int \<Rightarrow> MonitorWaitedEvent reader_op" where
  "MonitorWaitedEvent_deserialize req_id =
     rbind read_thread_id (\<lambda>thread.
     rbind read_tagged_object (\<lambda>object.
     rbind read_location (\<lambda>location.
     rbind read_boolean (\<lambda>timed_out.
       rreturn (MonitorWaitedEvent.make req_id thread object location timed_out)))))"

lemma MonitorWaitedEvent_codec [codec_intros]:
  "paired (MonitorWaitedEvent_serialize v) (MonitorWaitedEvent_deserialize
    (MonitorWaitedEvent.request_id v)) v"
  unfolding MonitorWaitedEvent_serialize_def MonitorWaitedEvent_deserialize_def
  by (rule codec_intros)+ (cases v, simp add: MonitorWaitedEvent.make_def)

record ExceptionEvent =
  request_id :: int
  thread :: ThreadID
  "location" :: Location
  "exception" :: TaggedObjectID
  catch_location :: Location

definition ExceptionEvent_serialize :: "ExceptionEvent \<Rightarrow> writer_op" where
  "ExceptionEvent_serialize self = write_seq
     [write_thread_id (ExceptionEvent.thread self),
      write_location (ExceptionEvent.location self),
      write_tagged_object (ExceptionEvent.exception self),
      write_location (ExceptionEvent.catch_location self)]"

definition ExceptionEvent_deserialize :: "int \<Rightarrow> ExceptionEvent reader_op" where
  "ExceptionEvent_deserialize req_id =
     rbind read_thread_id (\<lambda>thread.
     rbind read_location (\<lambda>location.
     rbind read_tagged_object (\<lambda>exception.
     rbind read_location (\<lambda>catch_location.
       rreturn (ExceptionEvent.make req_id thread location exception catch_location)))))"

lemma ExceptionEvent_codec [codec_intros]:
  "paired (ExceptionEvent_serialize v) (ExceptionEvent_deserialize (ExceptionEvent.request_id v))
    v"
  unfolding ExceptionEvent_serialize_def ExceptionEvent_deserialize_def
  by (rule codec_intros)+ (cases v, simp add: ExceptionEvent.make_def)

record ThreadStartEvent =
  request_id :: int
  thread :: ThreadID

definition ThreadStartEvent_serialize :: "ThreadStartEvent \<Rightarrow> writer_op" where
  "ThreadStartEvent_serialize self = write_seq
     [write_thread_id (ThreadStartEvent.thread self)]"

definition ThreadStartEvent_deserialize :: "int \<Rightarrow> ThreadStartEvent reader_op" where
  "ThreadStartEvent_deserialize req_id =
     rbind read_thread_id (\<lambda>thread.
       rreturn (ThreadStartEvent.make req_id thread))"

lemma ThreadStartEvent_codec [codec_intros]:
  "paired (ThreadStartEvent_serialize v) (ThreadStartEvent_deserialize
    (ThreadStartEvent.request_id v)) v"
  unfolding ThreadStartEvent_serialize_def ThreadStartEvent_deserialize_def
  by (rule codec_intros)+ (cases v, simp add: ThreadStartEvent.make_def)

record ThreadDeathEvent =
  request_id :: int
  thread :: ThreadID

definition ThreadDeathEvent_serialize :: "ThreadDeathEvent \<Rightarrow> writer_op" where
  "ThreadDeathEvent_serialize self = write_seq
     [write_thread_id (ThreadDeathEvent.thread self)]"

definition ThreadDeathEvent_deserialize :: "int \<Rightarrow> ThreadDeathEvent reader_op" where
  "ThreadDeathEvent_deserialize req_id =
     rbind read_thread_id (\<lambda>thread.
       rreturn (ThreadDeathEvent.make req_id thread))"

lemma ThreadDeathEvent_codec [codec_intros]:
  "paired (ThreadDeathEvent_serialize v) (ThreadDeathEvent_deserialize
    (ThreadDeathEvent.request_id v)) v"
  unfolding ThreadDeathEvent_serialize_def ThreadDeathEvent_deserialize_def
  by (rule codec_intros)+ (cases v, simp add: ThreadDeathEvent.make_def)

record ClassPrepareEvent =
  request_id :: int
  thread :: ThreadID
  ref_type_tag :: JdwpTypeTag
  type_id :: ReferenceTypeID
  signature :: pystr
  status :: JdwpClassStatus

definition ClassPrepareEvent_serialize :: "ClassPrepareEvent \<Rightarrow> writer_op" where
  "ClassPrepareEvent_serialize self = write_seq
     [write_thread_id (ClassPrepareEvent.thread self),
      write_byte (type_tag_value (ClassPrepareEvent.ref_type_tag self)),
      write_reference_type_id (ClassPrepareEvent.type_id self),
      write_string (ClassPrepareEvent.signature self),
      write_int (int (ClassPrepareEvent.status self))]"

definition ClassPrepareEvent_deserialize :: "int \<Rightarrow> ClassPrepareEvent reader_op" where
  "ClassPrepareEvent_deserialize req_id =
     rbind read_thread_id (\<lambda>thread.
     rbind (read_enum read_byte JdwpTypeTag_of) (\<lambda>ref_type_tag.
     rbind read_reference_type_id (\<lambda>type_id.
     rbind read_string (\<lambda>signature.
     rbind (read_flag read_int JdwpClassStatus_of) (\<lambda>status.
       rreturn (ClassPrepareEvent.make req_id thread ref_type_tag type_id signature
         status))))))"

lemma ClassPrepareEvent_codec [codec_intros]:
  "paired (ClassPrepareEvent_serialize v) (ClassPrepareEvent_deserialize
    (ClassPrepareEvent.request_id v)) v"
  unfolding ClassPrepareEvent_serialize_def ClassPrepareEvent_deserialize_def
  by (rule codec_intros)+ (cases v, simp add: ClassPrepareEvent.make_def)

record ClassUnloadEvent =
  request_id :: int
  signature :: pystr

definition ClassUnloadEvent_serialize :: "ClassUnloadEvent \<Rightarrow> writer_op" where
  "ClassUnloadEvent_serialize self = write_seq
     [write_string (ClassUnloadEvent.signature self)]"

definition ClassUnloadEvent_deserialize :: "int \<Rightarrow> ClassUnloadEvent reader_op" where
  "ClassUnloadEvent_deserialize req_id =
     rbind read_string (\<lambda>signature.
       rreturn (ClassUnloadEvent.make req_id signature))"

lemma ClassUnloadEvent_codec [codec_intros]:
  "paired (ClassUnloadEvent_serialize v) (ClassUnloadEvent_deserialize
    (ClassUnloadEvent.request_id v)) v"
  unfolding ClassUnloadEvent_serialize_def ClassUnloadEvent_deserialize_def
  by (rule codec_intros)+ (cases v, simp add: ClassUnloadEvent.make_def)

record FieldAccessEvent =
  request_id :: int
  thread :: ThreadID
  "location" :: Location
  ref_type_tag :: JdwpTypeTag
  type_id :: ReferenceTypeID
  field_id :: FieldID
  object :: TaggedObjectID

definition FieldAccessEvent_serialize :: "FieldAccessEvent \<Rightarrow> writer_op" where
  "FieldAccessEvent_serialize self = write_seq
     [write_thread_id (FieldAccessEvent.thread self),
      write_location (FieldAccessEvent.location self),
      write_byte (type_tag_value (FieldAccessEvent.ref_type_tag self)),
      write_reference_type_id (FieldAccessEvent.type_id self),
      write_field_id (FieldAccessEvent.field_id self),
      write_tagged_object (FieldAccessEvent.object self)]"

definition FieldAccessEvent_deserialize :: "int \<Rightarrow> FieldAccessEvent reader_op" where
  "FieldAccessEvent_deserialize req_id =
     rbind read_thread_id (\<lambda>thread.
     rbind read_location (\<lambda>location.
     rbind (read_enum read_byte JdwpTypeTag_of) (\<lambda>ref_type_tag.
     rbind read_reference_type_id (\<lambda>type_id.
     rbind read_field_id (\<lambda>field_id.
     rbind read_tagged_object (\<lambda>object.
       rreturn (FieldAccessEvent.make req_id thread location ref_type_tag type_id field_id
         object)))))))"

lemma FieldAccessEvent_codec [codec_intros]:
  "paired (FieldAccessEvent_serialize v) (FieldAccessEvent_deserialize
    (FieldAccessEvent.request_id v)) v"
  unfolding FieldAccessEvent_serialize_def FieldAccessEvent_deserialize_def
  by (rule codec_intros)+ (cases v, simp add: FieldAccessEvent.make_def)

record FieldModificationEvent =
  request_id :: int
  thread :: ThreadID
  "location" :: Location
  ref_type_tag :: JdwpTypeTag
  type_id :: ReferenceTypeID
  field_id :: FieldID
  object :: TaggedObjectID
  value_to_be :: JdwpValue

definition FieldModificationEvent_serialize ::
    "FieldModificationEvent \<Rightarrow> writer_op" where
  "FieldModificationEvent_serialize self = write_seq
     [write_thread_id (FieldModificationEvent.thread self),
      write_location (FieldModificationEvent.location self),
      write_byte (type_tag_value (FieldModificationEvent.ref_type_tag self)),
      write_reference_type_id (FieldModificationEvent.type_id self),
      write_field_id (FieldModificationEvent.field_id self),
      write_tagged_object (FieldModificationEvent.object self),
      write_value (FieldModificationEvent.value_to_be self)]"

definition FieldModificationEvent_deserialize ::
    "int \<Rightarrow> FieldModificationEvent reader_op" where
  "FieldModificationEvent_deserialize req_id =
     rbind read_thread_id (\<lambda>thread.
     rbind read_location (\<lambda>location.
     rbind (read_enum read_byte JdwpTypeTag_of) (\<lambda>ref_type_tag.
     rbind read_reference_type_id (\<lambda>type_id.
     rbind read_field_id (\<lambda>field_id.
     rbind read_tagged_object (\<lambda>object.
     rbind read_value (\<lambda>value_to_be.
       rreturn (FieldModificationEvent.make req_id thread location ref_type_tag type_id field_id
         object value_to_be))))))))"

definition FieldModificationEvent_ok :: "FieldModificationEvent \<Rightarrow> bool" where
  "FieldModificationEvent_ok v \<longleftrightarrow> jdwp_value_ok
     (FieldModificationEvent.value_to_be v)"

lemma FieldModificationEvent_codec [codec_intros]:
  assumes "FieldModificationEvent_ok v"
  shows "paired (FieldModificationEvent_serialize v) (FieldModificationEvent_deserialize
    (FieldModificationEvent.request_id v)) v"
  unfolding FieldModificationEvent_serialize_def FieldModificationEvent_deserialize_def
  by (insert assms [unfolded FieldModificationEvent_ok_def],
      (erule conjE | rule codec_intros | assumption | erule (1) list_all_member)+)
    (cases v, simp add: FieldModificationEvent.make_def)

lemma FieldModificationEvent_yields [yields_intros]: "yields (FieldModificationEvent_deserialize i) FieldModificationEvent_ok"
  unfolding FieldModificationEvent_deserialize_def
  by ((rule yields_intros | rule yields_bind yields_return | rule yields_any)+)
    (simp add: FieldModificationEvent_ok_def FieldModificationEvent.make_def)

record VMDeathEvent =
  request_id :: int

definition VMDeathEvent_serialize :: "VMDeathEvent \<Rightarrow> writer_op" where
  "VMDeathEvent_serialize self = write_seq []"

definition VMDeathEvent_deserialize :: "int \<Rightarrow> VMDeathEvent reader_op" where
  "VMDeathEvent_deserialize req_id = rreturn (VMDeathEvent.make req_id)"

lemma VMDeathEvent_codec [codec_intros]:
  "paired (VMDeathEvent_serialize v) (VMDeathEvent_deserialize (VMDeathEvent.request_id v)) v"
  unfolding VMDeathEvent_serialize_def VMDeathEvent_deserialize_def
  by (rule codec_intros)+ (cases v, simp add: VMDeathEvent.make_def)

section \<open>Event.Composite\<close>

section \<open>JdwpEvent\<close>

text \<open>An instance of a subclass of \<open>JdwpEvent\<close>; its methods and its class variable by dynamic dispatch.\<close>

datatype (plugins only: code) JdwpEvent =
    VMStartEvent_obj VMStartEvent
  | SingleStepEvent_obj SingleStepEvent
  | BreakpointEvent_obj BreakpointEvent
  | MethodEntryEvent_obj MethodEntryEvent
  | MethodExitEvent_obj MethodExitEvent
  | MethodExitWithReturnValueEvent_obj MethodExitWithReturnValueEvent
  | MonitorContendedEnterEvent_obj MonitorContendedEnterEvent
  | MonitorContendedEnteredEvent_obj MonitorContendedEnteredEvent
  | MonitorWaitEvent_obj MonitorWaitEvent
  | MonitorWaitedEvent_obj MonitorWaitedEvent
  | ExceptionEvent_obj ExceptionEvent
  | ThreadStartEvent_obj ThreadStartEvent
  | ThreadDeathEvent_obj ThreadDeathEvent
  | ClassPrepareEvent_obj ClassPrepareEvent
  | ClassUnloadEvent_obj ClassUnloadEvent
  | FieldAccessEvent_obj FieldAccessEvent
  | FieldModificationEvent_obj FieldModificationEvent
  | VMDeathEvent_obj VMDeathEvent

primrec JdwpEvent_event_kind :: "JdwpEvent \<Rightarrow> JdwpEventKind" where
  "JdwpEvent_event_kind (VMStartEvent_obj self) = EVENT_VM_START"
| "JdwpEvent_event_kind (SingleStepEvent_obj self) = EVENT_SINGLE_STEP"
| "JdwpEvent_event_kind (BreakpointEvent_obj self) = EVENT_BREAKPOINT"
| "JdwpEvent_event_kind (MethodEntryEvent_obj self) = EVENT_METHOD_ENTRY"
| "JdwpEvent_event_kind (MethodExitEvent_obj self) = EVENT_METHOD_EXIT"
| "JdwpEvent_event_kind (MethodExitWithReturnValueEvent_obj self) = EVENT_METHOD_EXIT_WITH_RETURN_VALUE"
| "JdwpEvent_event_kind (MonitorContendedEnterEvent_obj self) = EVENT_MONITOR_CONTENDED_ENTER"
| "JdwpEvent_event_kind (MonitorContendedEnteredEvent_obj self) = EVENT_MONITOR_CONTENDED_ENTERED"
| "JdwpEvent_event_kind (MonitorWaitEvent_obj self) = EVENT_MONITOR_WAIT"
| "JdwpEvent_event_kind (MonitorWaitedEvent_obj self) = EVENT_MONITOR_WAITED"
| "JdwpEvent_event_kind (ExceptionEvent_obj self) = EVENT_EXCEPTION"
| "JdwpEvent_event_kind (ThreadStartEvent_obj self) = EVENT_THREAD_START"
| "JdwpEvent_event_kind (ThreadDeathEvent_obj self) = EVENT_THREAD_DEATH"
| "JdwpEvent_event_kind (ClassPrepareEvent_obj self) = EVENT_CLASS_PREPARE"
| "JdwpEvent_event_kind (ClassUnloadEvent_obj self) = EVENT_CLASS_UNLOAD"
| "JdwpEvent_event_kind (FieldAccessEvent_obj self) = EVENT_FIELD_ACCESS"
| "JdwpEvent_event_kind (FieldModificationEvent_obj self) = EVENT_FIELD_MODIFICATION"
| "JdwpEvent_event_kind (VMDeathEvent_obj self) = EVENT_VM_DEATH"

primrec JdwpEvent_request_id :: "JdwpEvent \<Rightarrow> int" where
  "JdwpEvent_request_id (VMStartEvent_obj self) = VMStartEvent.request_id self"
| "JdwpEvent_request_id (SingleStepEvent_obj self) = SingleStepEvent.request_id self"
| "JdwpEvent_request_id (BreakpointEvent_obj self) = BreakpointEvent.request_id self"
| "JdwpEvent_request_id (MethodEntryEvent_obj self) = MethodEntryEvent.request_id self"
| "JdwpEvent_request_id (MethodExitEvent_obj self) = MethodExitEvent.request_id self"
| "JdwpEvent_request_id (MethodExitWithReturnValueEvent_obj self) = MethodExitWithReturnValueEvent.request_id self"
| "JdwpEvent_request_id (MonitorContendedEnterEvent_obj self) = MonitorContendedEnterEvent.request_id self"
| "JdwpEvent_request_id (MonitorContendedEnteredEvent_obj self) = MonitorContendedEnteredEvent.request_id self"
| "JdwpEvent_request_id (MonitorWaitEvent_obj self) = MonitorWaitEvent.request_id self"
| "JdwpEvent_request_id (MonitorWaitedEvent_obj self) = MonitorWaitedEvent.request_id self"
| "JdwpEvent_request_id (ExceptionEvent_obj self) = ExceptionEvent.request_id self"
| "JdwpEvent_request_id (ThreadStartEvent_obj self) = ThreadStartEvent.request_id self"
| "JdwpEvent_request_id (ThreadDeathEvent_obj self) = ThreadDeathEvent.request_id self"
| "JdwpEvent_request_id (ClassPrepareEvent_obj self) = ClassPrepareEvent.request_id self"
| "JdwpEvent_request_id (ClassUnloadEvent_obj self) = ClassUnloadEvent.request_id self"
| "JdwpEvent_request_id (FieldAccessEvent_obj self) = FieldAccessEvent.request_id self"
| "JdwpEvent_request_id (FieldModificationEvent_obj self) = FieldModificationEvent.request_id self"
| "JdwpEvent_request_id (VMDeathEvent_obj self) = VMDeathEvent.request_id self"

primrec JdwpEvent_serialize :: "JdwpEvent \<Rightarrow> writer_op" where
  "JdwpEvent_serialize (VMStartEvent_obj self) = VMStartEvent_serialize self"
| "JdwpEvent_serialize (SingleStepEvent_obj self) = SingleStepEvent_serialize self"
| "JdwpEvent_serialize (BreakpointEvent_obj self) = BreakpointEvent_serialize self"
| "JdwpEvent_serialize (MethodEntryEvent_obj self) = MethodEntryEvent_serialize self"
| "JdwpEvent_serialize (MethodExitEvent_obj self) = MethodExitEvent_serialize self"
| "JdwpEvent_serialize (MethodExitWithReturnValueEvent_obj self) = MethodExitWithReturnValueEvent_serialize self"
| "JdwpEvent_serialize (MonitorContendedEnterEvent_obj self) = MonitorContendedEnterEvent_serialize self"
| "JdwpEvent_serialize (MonitorContendedEnteredEvent_obj self) = MonitorContendedEnteredEvent_serialize self"
| "JdwpEvent_serialize (MonitorWaitEvent_obj self) = MonitorWaitEvent_serialize self"
| "JdwpEvent_serialize (MonitorWaitedEvent_obj self) = MonitorWaitedEvent_serialize self"
| "JdwpEvent_serialize (ExceptionEvent_obj self) = ExceptionEvent_serialize self"
| "JdwpEvent_serialize (ThreadStartEvent_obj self) = ThreadStartEvent_serialize self"
| "JdwpEvent_serialize (ThreadDeathEvent_obj self) = ThreadDeathEvent_serialize self"
| "JdwpEvent_serialize (ClassPrepareEvent_obj self) = ClassPrepareEvent_serialize self"
| "JdwpEvent_serialize (ClassUnloadEvent_obj self) = ClassUnloadEvent_serialize self"
| "JdwpEvent_serialize (FieldAccessEvent_obj self) = FieldAccessEvent_serialize self"
| "JdwpEvent_serialize (FieldModificationEvent_obj self) = FieldModificationEvent_serialize self"
| "JdwpEvent_serialize (VMDeathEvent_obj self) = VMDeathEvent_serialize self"

text \<open>A class's \<open>deserialize\<close>, called with the request id already read.\<close>

definition event_class :: "(int \<Rightarrow> 'e reader_op) \<Rightarrow> ('e \<Rightarrow> JdwpEvent) \<Rightarrow> int \<Rightarrow> JdwpEvent reader_op" where
  "event_class des obj req_id = rbind (des req_id) (\<lambda>self. rreturn (obj self))"

definition EVENT_CLASSES :: "JdwpEventKind \<Rightarrow> (int \<Rightarrow> JdwpEvent reader_op) option" where
  "EVENT_CLASSES = map_of
    [(EVENT_VM_START, event_class VMStartEvent_deserialize VMStartEvent_obj),
     (EVENT_SINGLE_STEP, event_class SingleStepEvent_deserialize SingleStepEvent_obj),
     (EVENT_BREAKPOINT, event_class BreakpointEvent_deserialize BreakpointEvent_obj),
     (EVENT_METHOD_ENTRY, event_class MethodEntryEvent_deserialize MethodEntryEvent_obj),
     (EVENT_METHOD_EXIT, event_class MethodExitEvent_deserialize MethodExitEvent_obj),
     (EVENT_METHOD_EXIT_WITH_RETURN_VALUE, event_class MethodExitWithReturnValueEvent_deserialize MethodExitWithReturnValueEvent_obj),
     (EVENT_MONITOR_CONTENDED_ENTER, event_class MonitorContendedEnterEvent_deserialize MonitorContendedEnterEvent_obj),
     (EVENT_MONITOR_CONTENDED_ENTERED, event_class MonitorContendedEnteredEvent_deserialize MonitorContendedEnteredEvent_obj),
     (EVENT_MONITOR_WAIT, event_class MonitorWaitEvent_deserialize MonitorWaitEvent_obj),
     (EVENT_MONITOR_WAITED, event_class MonitorWaitedEvent_deserialize MonitorWaitedEvent_obj),
     (EVENT_EXCEPTION, event_class ExceptionEvent_deserialize ExceptionEvent_obj),
     (EVENT_THREAD_START, event_class ThreadStartEvent_deserialize ThreadStartEvent_obj),
     (EVENT_THREAD_DEATH, event_class ThreadDeathEvent_deserialize ThreadDeathEvent_obj),
     (EVENT_CLASS_PREPARE, event_class ClassPrepareEvent_deserialize ClassPrepareEvent_obj),
     (EVENT_CLASS_UNLOAD, event_class ClassUnloadEvent_deserialize ClassUnloadEvent_obj),
     (EVENT_FIELD_ACCESS, event_class FieldAccessEvent_deserialize FieldAccessEvent_obj),
     (EVENT_FIELD_MODIFICATION, event_class FieldModificationEvent_deserialize FieldModificationEvent_obj),
     (EVENT_VM_DEATH, event_class VMDeathEvent_deserialize VMDeathEvent_obj)]"

definition deserialize_event :: "JdwpEvent reader_op" where
  "deserialize_event =
     rbind (read_enum read_byte JdwpEventKind_of) (\<lambda>event_kind.
     rbind read_int (\<lambda>request_id.
       (case EVENT_CLASSES event_kind of
          None \<Rightarrow> rlift (Inl ValueError)
        | Some cls \<Rightarrow> cls request_id)))"

definition serialize_event :: "JdwpEvent \<Rightarrow> writer_op" where
  "serialize_event event = write_seq
     [write_byte (event_kind_value (JdwpEvent_event_kind event)),
      write_int (JdwpEvent_request_id event),
      JdwpEvent_serialize event]"

text \<open>Only two kinds of event carry a value, which has to be one of its tag.\<close>

fun JdwpEvent_ok :: "JdwpEvent \<Rightarrow> bool" where
  "JdwpEvent_ok (MethodExitWithReturnValueEvent_obj self) = MethodExitWithReturnValueEvent_ok self"
| "JdwpEvent_ok (FieldModificationEvent_obj self) = FieldModificationEvent_ok self"
| "JdwpEvent_ok _ = True"

text \<open>The table has the class of each event under its own kind.\<close>

lemma EVENT_CLASSES_event_kind:
  "EVENT_CLASSES (JdwpEvent_event_kind ev) \<noteq> None"
  by (cases ev) (simp_all add: EVENT_CLASSES_def)

lemma event_class_codec:
  assumes "paired (ser v) (des i) v"
  shows "paired (ser v) (event_class des obj i) (obj v)"
  unfolding event_class_def by (rule paired_map) (rule assms)

lemma JdwpEvent_codec:
  assumes "JdwpEvent_ok ev" and "EVENT_CLASSES (JdwpEvent_event_kind ev) = Some cls"
  shows "paired (JdwpEvent_serialize ev) (cls (JdwpEvent_request_id ev)) ev"
proof (cases ev)
  case (VMStartEvent_obj v)
  with assms show ?thesis
    by (auto simp: EVENT_CLASSES_def intro!: event_class_codec VMStartEvent_codec)
next
  case (SingleStepEvent_obj v)
  with assms show ?thesis
    by (auto simp: EVENT_CLASSES_def intro!: event_class_codec SingleStepEvent_codec)
next
  case (BreakpointEvent_obj v)
  with assms show ?thesis
    by (auto simp: EVENT_CLASSES_def intro!: event_class_codec BreakpointEvent_codec)
next
  case (MethodEntryEvent_obj v)
  with assms show ?thesis
    by (auto simp: EVENT_CLASSES_def intro!: event_class_codec MethodEntryEvent_codec)
next
  case (MethodExitEvent_obj v)
  with assms show ?thesis
    by (auto simp: EVENT_CLASSES_def intro!: event_class_codec MethodExitEvent_codec)
next
  case (MethodExitWithReturnValueEvent_obj v)
  with assms show ?thesis
    by (auto simp: EVENT_CLASSES_def intro!: event_class_codec MethodExitWithReturnValueEvent_codec)
next
  case (MonitorContendedEnterEvent_obj v)
  with assms show ?thesis
    by (auto simp: EVENT_CLASSES_def intro!: event_class_codec MonitorContendedEnterEvent_codec)
next
  case (MonitorContendedEnteredEvent_obj v)
  with assms show ?thesis
    by (auto simp: EVENT_CLASSES_def intro!: event_class_codec MonitorContendedEnteredEvent_codec)
next
  case (MonitorWaitEvent_obj v)
  with assms show ?thesis
    by (auto simp: EVENT_CLASSES_def intro!: event_class_codec MonitorWaitEvent_codec)
next
  case (MonitorWaitedEvent_obj v)
  with assms show ?thesis
    by (auto simp: EVENT_CLASSES_def intro!: event_class_codec MonitorWaitedEvent_codec)
next
  case (ExceptionEvent_obj v)
  with assms show ?thesis
    by (auto simp: EVENT_CLASSES_def intro!: event_class_codec ExceptionEvent_codec)
next
  case (ThreadStartEvent_obj v)
  with assms show ?thesis
    by (auto simp: EVENT_CLASSES_def intro!: event_class_codec ThreadStartEvent_codec)
next
  case (ThreadDeathEvent_obj v)
  with assms show ?thesis
    by (auto simp: EVENT_CLASSES_def intro!: event_class_codec ThreadDeathEvent_codec)
next
  case (ClassPrepareEvent_obj v)
  with assms show ?thesis
    by (auto simp: EVENT_CLASSES_def intro!: event_class_codec ClassPrepareEvent_codec)
next
  case (ClassUnloadEvent_obj v)
  with assms show ?thesis
    by (auto simp: EVENT_CLASSES_def intro!: event_class_codec ClassUnloadEvent_codec)
next
  case (FieldAccessEvent_obj v)
  with assms show ?thesis
    by (auto simp: EVENT_CLASSES_def intro!: event_class_codec FieldAccessEvent_codec)
next
  case (FieldModificationEvent_obj v)
  with assms show ?thesis
    by (auto simp: EVENT_CLASSES_def intro!: event_class_codec FieldModificationEvent_codec)
next
  case (VMDeathEvent_obj v)
  with assms show ?thesis
    by (auto simp: EVENT_CLASSES_def intro!: event_class_codec VMDeathEvent_codec)
qed

text \<open>The last write of a message against a read that depends on what was read before.\<close>

lemma paired_last: "paired w rd v \<Longrightarrow> paired (write_seq [w]) rd v"
  by (simp add: paired_def)

lemma serialize_event_codec [codec_intros]:
  assumes "JdwpEvent_ok ev"
  shows "paired (serialize_event ev) deserialize_event ev"
proof -
  obtain cls where cls: "EVENT_CLASSES (JdwpEvent_event_kind ev) = Some cls"
    using EVENT_CLASSES_event_kind by blast
  have "paired (write_seq [JdwpEvent_serialize ev])
      (case EVENT_CLASSES (JdwpEvent_event_kind ev) of
          None \<Rightarrow> rlift (Inl ValueError)
        | Some cls \<Rightarrow> cls (JdwpEvent_request_id ev)) ev"
    by (rule paired_last) (simp add: cls JdwpEvent_codec [OF assms])
  then show ?thesis
    unfolding serialize_event_def deserialize_event_def
    by (intro paired_Cons) (rule codec_intros)+
qed

lemma event_class_yields:
  "yields (des i) P \<Longrightarrow> (\<And>x. P x \<Longrightarrow> Q (obj x)) \<Longrightarrow> yields (event_class des obj i) Q"
  unfolding event_class_def by (erule yields_bind) (simp add: yields_return)

lemma EVENT_CLASSES_yields: "EVENT_CLASSES k = Some cls \<Longrightarrow> yields (cls i) JdwpEvent_ok"
  by (cases k) (auto simp: EVENT_CLASSES_def intro: event_class_yields yields_any yields_intros)

lemma deserialize_event_yields [yields_intros]: "yields deserialize_event JdwpEvent_ok"
  unfolding deserialize_event_def
  by (intro yields_bind [OF yields_any])
    (auto split: option.split simp: yields_def rlift_def dest: EVENT_CLASSES_yields [THEN yieldsD])

interpretation JdwpEvent: codec serialize_event deserialize_event JdwpEvent_ok
  by unfold_locales (rule serialize_event_codec)

record CompositeCommand =
  suspend_policy :: JdwpSuspendPolicy
  events :: "JdwpEvent list"

definition CompositeCommand_class :: command_class where
  "CompositeCommand_class = command_class.make 64 100 {ERR_NONE}"

definition CompositeCommand_serialize :: "CompositeCommand \<Rightarrow> writer_op" where
  "CompositeCommand_serialize self = write_seq
     [write_byte (suspend_policy_value (CompositeCommand.suspend_policy self)),
      write_counted serialize_event (CompositeCommand.events self)]"

definition CompositeCommand_deserialize :: "CompositeCommand reader_op" where
  "CompositeCommand_deserialize =
     rbind (read_enum read_byte JdwpSuspendPolicy_of) (\<lambda>suspend_policy.
     rbind (read_counted deserialize_event) (\<lambda>events.
       rreturn (CompositeCommand.make suspend_policy events)))"

definition CompositeCommand_ok :: "CompositeCommand \<Rightarrow> bool" where
  "CompositeCommand_ok v \<longleftrightarrow> list_all JdwpEvent_ok (CompositeCommand.events v)"

lemma CompositeCommand_codec [codec_intros]:
  assumes "CompositeCommand_ok v"
  shows "paired (CompositeCommand_serialize v) CompositeCommand_deserialize v"
  unfolding CompositeCommand_serialize_def CompositeCommand_deserialize_def
  by (insert assms [unfolded CompositeCommand_ok_def],
      (erule conjE | rule codec_intros | assumption | erule (1) list_all_member)+)
    (cases v, simp add: CompositeCommand.make_def)

lemma CompositeCommand_yields [yields_intros]: "yields CompositeCommand_deserialize CompositeCommand_ok"
  unfolding CompositeCommand_deserialize_def
  by ((rule yields_intros | rule yields_bind yields_return | rule yields_any)+)
    (simp add: CompositeCommand_ok_def CompositeCommand.make_def)

interpretation CompositeCommand:
  codec CompositeCommand_serialize CompositeCommand_deserialize CompositeCommand_ok
  by unfold_locales (rule CompositeCommand_codec)

section \<open>The classes of the module\<close>

text \<open>
  The instances of the module's command classes and the classes themselves, with the methods
  dispatched on them; the same for the responses; and the registrations its decorators make.
\<close>

datatype (plugins only: code) event_command =
    CompositeCommand_obj CompositeCommand

datatype (plugins only: code) event_command_class =
    CompositeCommand_cls

primrec event_command_class_of :: "event_command \<Rightarrow> event_command_class" where
  "event_command_class_of (CompositeCommand_obj self) = CompositeCommand_cls"

primrec event_command_vars :: "event_command_class \<Rightarrow> command_class" where
  "event_command_vars CompositeCommand_cls = CompositeCommand_class"

primrec event_command_name :: "event_command_class \<Rightarrow> string" where
  "event_command_name CompositeCommand_cls = ''CompositeCommand''"

primrec event_command_serialize :: "event_command \<Rightarrow> writer_op" where
  "event_command_serialize (CompositeCommand_obj self) = CompositeCommand_serialize self"

primrec event_command_deserialize :: "event_command_class \<Rightarrow> event_command reader_op" where
  "event_command_deserialize CompositeCommand_cls =
     of_class CompositeCommand_deserialize CompositeCommand_obj"

primrec event_command_ok :: "event_command \<Rightarrow> bool" where
  "event_command_ok (CompositeCommand_obj self) = CompositeCommand_ok self"

interpretation event_command:
  message_family event_command_class_of event_command_serialize event_command_deserialize
    event_command_ok
proof unfold_locales
  fix v assume "event_command_ok v"
  then show "paired (event_command_serialize v)
      (event_command_deserialize (event_command_class_of v)) v"
    by (cases v) (auto intro!: of_class_codec codec_intros)
next
  fix c r v r' assume "event_command_deserialize c r = Inr (v, r')"
  then show "event_command_class_of v = c" by (cases c) (auto dest!: of_class_obj)
next
  fix c r v r' assume "event_command_deserialize c r = Inr (v, r')" and "array_element_tag r = None"
  then show "event_command_ok v"
    by (cases c) (auto dest!: of_class_obj dest: CompositeCommand_yields [THEN yieldsD])
qed

end
