(* ===== verification/Registry.thy ===== *)
theory Registry
  imports Cmd_VM Cmd_Reference_Type Cmd_Class_Type Cmd_Array_Type Cmd_Interface_Type
    Cmd_Class_Object_Reference Cmd_Stack_Frame Cmd_Method Cmd_Object_Reference
    Cmd_String_Reference Cmd_Thread_Reference Cmd_Thread_Group_Reference Cmd_Array_Reference
    Cmd_Class_Loader_Reference Cmd_Event_Request Cmd_Event
begin

text \<open>
  \<^verbatim>\<open>commands/registry.py\<close>: the two dictionaries the decorator \<open>register_command\<close> fills, from
  \<open>(COMMAND_SET, COMMAND)\<close> to the command class and from the command class to its response class.
  The commands and the responses of all modules are two sum types with one case per module; the
  methods every message has are dispatched on them. The decorators run in the order in which
  \<^verbatim>\<open>commands/__init__.py\<close> imports the modules.
\<close>

section \<open>Commands and responses\<close>

datatype (plugins only: code) JdwpCommand =
    vm_command_obj vm_command
  | reference_type_command_obj reference_type_command
  | class_type_command_obj class_type_command
  | array_type_command_obj array_type_command
  | interface_type_command_obj interface_type_command
  | class_object_reference_command_obj class_object_reference_command
  | stack_frame_command_obj stack_frame_command
  | method_command_obj method_command
  | object_reference_command_obj object_reference_command
  | string_reference_command_obj string_reference_command
  | thread_reference_command_obj thread_reference_command
  | thread_group_reference_command_obj thread_group_reference_command
  | array_reference_command_obj array_reference_command
  | class_loader_reference_command_obj class_loader_reference_command
  | event_request_command_obj event_request_command
  | event_command_obj event_command

datatype (plugins only: code) JdwpCommandClass =
    vm_command_cls vm_command_class
  | reference_type_command_cls reference_type_command_class
  | class_type_command_cls class_type_command_class
  | array_type_command_cls array_type_command_class
  | interface_type_command_cls interface_type_command_class
  | class_object_reference_command_cls class_object_reference_command_class
  | stack_frame_command_cls stack_frame_command_class
  | method_command_cls method_command_class
  | object_reference_command_cls object_reference_command_class
  | string_reference_command_cls string_reference_command_class
  | thread_reference_command_cls thread_reference_command_class
  | thread_group_reference_command_cls thread_group_reference_command_class
  | array_reference_command_cls array_reference_command_class
  | class_loader_reference_command_cls class_loader_reference_command_class
  | event_request_command_cls event_request_command_class
  | event_command_cls event_command_class

datatype (plugins only: code) JdwpResponse =
    vm_response_obj vm_response
  | reference_type_response_obj reference_type_response
  | class_type_response_obj class_type_response
  | array_type_response_obj array_type_response
  | interface_type_response_obj interface_type_response
  | class_object_reference_response_obj class_object_reference_response
  | stack_frame_response_obj stack_frame_response
  | method_response_obj method_response
  | object_reference_response_obj object_reference_response
  | string_reference_response_obj string_reference_response
  | thread_reference_response_obj thread_reference_response
  | thread_group_reference_response_obj thread_group_reference_response
  | array_reference_response_obj array_reference_response
  | class_loader_reference_response_obj class_loader_reference_response
  | event_request_response_obj event_request_response

datatype (plugins only: code) JdwpResponseClass =
    vm_response_cls vm_response_class
  | reference_type_response_cls reference_type_response_class
  | class_type_response_cls class_type_response_class
  | array_type_response_cls array_type_response_class
  | interface_type_response_cls interface_type_response_class
  | class_object_reference_response_cls class_object_reference_response_class
  | stack_frame_response_cls stack_frame_response_class
  | method_response_cls method_response_class
  | object_reference_response_cls object_reference_response_class
  | string_reference_response_cls string_reference_response_class
  | thread_reference_response_cls thread_reference_response_class
  | thread_group_reference_response_cls thread_group_reference_response_class
  | array_reference_response_cls array_reference_response_class
  | class_loader_reference_response_cls class_loader_reference_response_class
  | event_request_response_cls event_request_response_class

text \<open>The command classes and the methods of their instances.\<close>

primrec command_class_of :: "JdwpCommand \<Rightarrow> JdwpCommandClass" where
  "command_class_of (vm_command_obj self) = vm_command_cls (vm_command_class_of self)"
| "command_class_of (reference_type_command_obj self) =
     reference_type_command_cls (reference_type_command_class_of self)"
| "command_class_of (class_type_command_obj self) =
     class_type_command_cls (class_type_command_class_of self)"
| "command_class_of (array_type_command_obj self) =
     array_type_command_cls (array_type_command_class_of self)"
| "command_class_of (interface_type_command_obj self) =
     interface_type_command_cls (interface_type_command_class_of self)"
| "command_class_of (class_object_reference_command_obj self) =
     class_object_reference_command_cls (class_object_reference_command_class_of self)"
| "command_class_of (stack_frame_command_obj self) =
     stack_frame_command_cls (stack_frame_command_class_of self)"
| "command_class_of (method_command_obj self) = method_command_cls (method_command_class_of self)"
| "command_class_of (object_reference_command_obj self) =
     object_reference_command_cls (object_reference_command_class_of self)"
| "command_class_of (string_reference_command_obj self) =
     string_reference_command_cls (string_reference_command_class_of self)"
| "command_class_of (thread_reference_command_obj self) =
     thread_reference_command_cls (thread_reference_command_class_of self)"
| "command_class_of (thread_group_reference_command_obj self) =
     thread_group_reference_command_cls (thread_group_reference_command_class_of self)"
| "command_class_of (array_reference_command_obj self) =
     array_reference_command_cls (array_reference_command_class_of self)"
| "command_class_of (class_loader_reference_command_obj self) =
     class_loader_reference_command_cls (class_loader_reference_command_class_of self)"
| "command_class_of (event_request_command_obj self) =
     event_request_command_cls (event_request_command_class_of self)"
| "command_class_of (event_command_obj self) = event_command_cls (event_command_class_of self)"

primrec command_vars :: "JdwpCommandClass \<Rightarrow> command_class" where
  "command_vars (vm_command_cls cls) = vm_command_vars cls"
| "command_vars (reference_type_command_cls cls) = reference_type_command_vars cls"
| "command_vars (class_type_command_cls cls) = class_type_command_vars cls"
| "command_vars (array_type_command_cls cls) = array_type_command_vars cls"
| "command_vars (interface_type_command_cls cls) = interface_type_command_vars cls"
| "command_vars (class_object_reference_command_cls cls) =
     class_object_reference_command_vars cls"
| "command_vars (stack_frame_command_cls cls) = stack_frame_command_vars cls"
| "command_vars (method_command_cls cls) = method_command_vars cls"
| "command_vars (object_reference_command_cls cls) = object_reference_command_vars cls"
| "command_vars (string_reference_command_cls cls) = string_reference_command_vars cls"
| "command_vars (thread_reference_command_cls cls) = thread_reference_command_vars cls"
| "command_vars (thread_group_reference_command_cls cls) =
     thread_group_reference_command_vars cls"
| "command_vars (array_reference_command_cls cls) = array_reference_command_vars cls"
| "command_vars (class_loader_reference_command_cls cls) =
     class_loader_reference_command_vars cls"
| "command_vars (event_request_command_cls cls) = event_request_command_vars cls"
| "command_vars (event_command_cls cls) = event_command_vars cls"

primrec command_name :: "JdwpCommandClass \<Rightarrow> string" where
  "command_name (vm_command_cls cls) = vm_command_name cls"
| "command_name (reference_type_command_cls cls) = reference_type_command_name cls"
| "command_name (class_type_command_cls cls) = class_type_command_name cls"
| "command_name (array_type_command_cls cls) = array_type_command_name cls"
| "command_name (interface_type_command_cls cls) = interface_type_command_name cls"
| "command_name (class_object_reference_command_cls cls) =
     class_object_reference_command_name cls"
| "command_name (stack_frame_command_cls cls) = stack_frame_command_name cls"
| "command_name (method_command_cls cls) = method_command_name cls"
| "command_name (object_reference_command_cls cls) = object_reference_command_name cls"
| "command_name (string_reference_command_cls cls) = string_reference_command_name cls"
| "command_name (thread_reference_command_cls cls) = thread_reference_command_name cls"
| "command_name (thread_group_reference_command_cls cls) =
     thread_group_reference_command_name cls"
| "command_name (array_reference_command_cls cls) = array_reference_command_name cls"
| "command_name (class_loader_reference_command_cls cls) =
     class_loader_reference_command_name cls"
| "command_name (event_request_command_cls cls) = event_request_command_name cls"
| "command_name (event_command_cls cls) = event_command_name cls"

primrec command_serialize :: "JdwpCommand \<Rightarrow> writer_op" where
  "command_serialize (vm_command_obj self) = vm_command_serialize self"
| "command_serialize (reference_type_command_obj self) = reference_type_command_serialize self"
| "command_serialize (class_type_command_obj self) = class_type_command_serialize self"
| "command_serialize (array_type_command_obj self) = array_type_command_serialize self"
| "command_serialize (interface_type_command_obj self) = interface_type_command_serialize self"
| "command_serialize (class_object_reference_command_obj self) =
     class_object_reference_command_serialize self"
| "command_serialize (stack_frame_command_obj self) = stack_frame_command_serialize self"
| "command_serialize (method_command_obj self) = method_command_serialize self"
| "command_serialize (object_reference_command_obj self) =
     object_reference_command_serialize self"
| "command_serialize (string_reference_command_obj self) =
     string_reference_command_serialize self"
| "command_serialize (thread_reference_command_obj self) =
     thread_reference_command_serialize self"
| "command_serialize (thread_group_reference_command_obj self) =
     thread_group_reference_command_serialize self"
| "command_serialize (array_reference_command_obj self) = array_reference_command_serialize self"
| "command_serialize (class_loader_reference_command_obj self) =
     class_loader_reference_command_serialize self"
| "command_serialize (event_request_command_obj self) = event_request_command_serialize self"
| "command_serialize (event_command_obj self) = event_command_serialize self"

primrec command_deserialize :: "JdwpCommandClass \<Rightarrow> JdwpCommand reader_op" where
  "command_deserialize (vm_command_cls cls) =
     of_class (vm_command_deserialize cls) vm_command_obj"
| "command_deserialize (reference_type_command_cls cls) =
     of_class (reference_type_command_deserialize cls) reference_type_command_obj"
| "command_deserialize (class_type_command_cls cls) =
     of_class (class_type_command_deserialize cls) class_type_command_obj"
| "command_deserialize (array_type_command_cls cls) =
     of_class (array_type_command_deserialize cls) array_type_command_obj"
| "command_deserialize (interface_type_command_cls cls) =
     of_class (interface_type_command_deserialize cls) interface_type_command_obj"
| "command_deserialize (class_object_reference_command_cls cls) =
     of_class (class_object_reference_command_deserialize cls) class_object_reference_command_obj"
| "command_deserialize (stack_frame_command_cls cls) =
     of_class (stack_frame_command_deserialize cls) stack_frame_command_obj"
| "command_deserialize (method_command_cls cls) =
     of_class (method_command_deserialize cls) method_command_obj"
| "command_deserialize (object_reference_command_cls cls) =
     of_class (object_reference_command_deserialize cls) object_reference_command_obj"
| "command_deserialize (string_reference_command_cls cls) =
     of_class (string_reference_command_deserialize cls) string_reference_command_obj"
| "command_deserialize (thread_reference_command_cls cls) =
     of_class (thread_reference_command_deserialize cls) thread_reference_command_obj"
| "command_deserialize (thread_group_reference_command_cls cls) =
     of_class (thread_group_reference_command_deserialize cls) thread_group_reference_command_obj"
| "command_deserialize (array_reference_command_cls cls) =
     of_class (array_reference_command_deserialize cls) array_reference_command_obj"
| "command_deserialize (class_loader_reference_command_cls cls) =
     of_class (class_loader_reference_command_deserialize cls) class_loader_reference_command_obj"
| "command_deserialize (event_request_command_cls cls) =
     of_class (event_request_command_deserialize cls) event_request_command_obj"
| "command_deserialize (event_command_cls cls) =
     of_class (event_command_deserialize cls) event_command_obj"

primrec command_ok :: "JdwpCommand \<Rightarrow> bool" where
  "command_ok (vm_command_obj self) = True"
| "command_ok (reference_type_command_obj self) = True"
| "command_ok (class_type_command_obj self) = class_type_command_ok self"
| "command_ok (array_type_command_obj self) = True"
| "command_ok (interface_type_command_obj self) = interface_type_command_ok self"
| "command_ok (class_object_reference_command_obj self) = True"
| "command_ok (stack_frame_command_obj self) = stack_frame_command_ok self"
| "command_ok (method_command_obj self) = True"
| "command_ok (object_reference_command_obj self) = object_reference_command_ok self"
| "command_ok (string_reference_command_obj self) = True"
| "command_ok (thread_reference_command_obj self) = thread_reference_command_ok self"
| "command_ok (thread_group_reference_command_obj self) = True"
| "command_ok (array_reference_command_obj self) = array_reference_command_ok self"
| "command_ok (class_loader_reference_command_obj self) = True"
| "command_ok (event_request_command_obj self) = True"
| "command_ok (event_command_obj self) = event_command_ok self"

interpretation command: message_family command_class_of command_serialize command_deserialize command_ok
proof unfold_locales
  fix v assume ok: "command_ok v"
  show "paired (command_serialize v) (command_deserialize (command_class_of v)) v"
    using ok by (cases v) (simp_all add: 
      vm_command.lift_family reference_type_command.lift_family class_type_command.lift_family
      array_type_command.lift_family interface_type_command.lift_family
      class_object_reference_command.lift_family stack_frame_command.lift_family
      method_command.lift_family object_reference_command.lift_family
      string_reference_command.lift_family thread_reference_command.lift_family
      thread_group_reference_command.lift_family array_reference_command.lift_family
      class_loader_reference_command.lift_family event_request_command.lift_family
      event_command.lift_family)
next
  fix c r v r' assume "command_deserialize c r = Inr (v, r')"
  then show "command_class_of v = c"
    by (cases c) (auto dest!: of_class_obj simp: 
      vm_command.class_sound reference_type_command.class_sound class_type_command.class_sound
      array_type_command.class_sound interface_type_command.class_sound
      class_object_reference_command.class_sound stack_frame_command.class_sound
      method_command.class_sound object_reference_command.class_sound
      string_reference_command.class_sound thread_reference_command.class_sound
      thread_group_reference_command.class_sound array_reference_command.class_sound
      class_loader_reference_command.class_sound event_request_command.class_sound
      event_command.class_sound)
next
  fix c r v r' assume "command_deserialize c r = Inr (v, r')" and "array_element_tag r = None"
  then show "command_ok v"
    by (cases c) (auto dest!: of_class_obj dest:
      class_type_command.ok_sound
      interface_type_command.ok_sound
      stack_frame_command.ok_sound
      object_reference_command.ok_sound
      thread_reference_command.ok_sound
      array_reference_command.ok_sound
      event_command.ok_sound)
qed

text \<open>The response classes and the methods of their instances.\<close>

primrec response_class_of :: "JdwpResponse \<Rightarrow> JdwpResponseClass" where
  "response_class_of (vm_response_obj self) = vm_response_cls (vm_response_class_of self)"
| "response_class_of (reference_type_response_obj self) =
     reference_type_response_cls (reference_type_response_class_of self)"
| "response_class_of (class_type_response_obj self) =
     class_type_response_cls (class_type_response_class_of self)"
| "response_class_of (array_type_response_obj self) =
     array_type_response_cls (array_type_response_class_of self)"
| "response_class_of (interface_type_response_obj self) =
     interface_type_response_cls (interface_type_response_class_of self)"
| "response_class_of (class_object_reference_response_obj self) =
     class_object_reference_response_cls (class_object_reference_response_class_of self)"
| "response_class_of (stack_frame_response_obj self) =
     stack_frame_response_cls (stack_frame_response_class_of self)"
| "response_class_of (method_response_obj self) =
     method_response_cls (method_response_class_of self)"
| "response_class_of (object_reference_response_obj self) =
     object_reference_response_cls (object_reference_response_class_of self)"
| "response_class_of (string_reference_response_obj self) =
     string_reference_response_cls (string_reference_response_class_of self)"
| "response_class_of (thread_reference_response_obj self) =
     thread_reference_response_cls (thread_reference_response_class_of self)"
| "response_class_of (thread_group_reference_response_obj self) =
     thread_group_reference_response_cls (thread_group_reference_response_class_of self)"
| "response_class_of (array_reference_response_obj self) =
     array_reference_response_cls (array_reference_response_class_of self)"
| "response_class_of (class_loader_reference_response_obj self) =
     class_loader_reference_response_cls (class_loader_reference_response_class_of self)"
| "response_class_of (event_request_response_obj self) =
     event_request_response_cls (event_request_response_class_of self)"

primrec response_serialize :: "JdwpResponse \<Rightarrow> writer_op" where
  "response_serialize (vm_response_obj self) = vm_response_serialize self"
| "response_serialize (reference_type_response_obj self) = reference_type_response_serialize self"
| "response_serialize (class_type_response_obj self) = class_type_response_serialize self"
| "response_serialize (array_type_response_obj self) = array_type_response_serialize self"
| "response_serialize (interface_type_response_obj self) = interface_type_response_serialize self"
| "response_serialize (class_object_reference_response_obj self) =
     class_object_reference_response_serialize self"
| "response_serialize (stack_frame_response_obj self) = stack_frame_response_serialize self"
| "response_serialize (method_response_obj self) = method_response_serialize self"
| "response_serialize (object_reference_response_obj self) =
     object_reference_response_serialize self"
| "response_serialize (string_reference_response_obj self) =
     string_reference_response_serialize self"
| "response_serialize (thread_reference_response_obj self) =
     thread_reference_response_serialize self"
| "response_serialize (thread_group_reference_response_obj self) =
     thread_group_reference_response_serialize self"
| "response_serialize (array_reference_response_obj self) =
     array_reference_response_serialize self"
| "response_serialize (class_loader_reference_response_obj self) =
     class_loader_reference_response_serialize self"
| "response_serialize (event_request_response_obj self) = event_request_response_serialize self"

primrec response_deserialize :: "JdwpResponseClass \<Rightarrow> JdwpResponse reader_op" where
  "response_deserialize (vm_response_cls cls) =
     of_class (vm_response_deserialize cls) vm_response_obj"
| "response_deserialize (reference_type_response_cls cls) =
     of_class (reference_type_response_deserialize cls) reference_type_response_obj"
| "response_deserialize (class_type_response_cls cls) =
     of_class (class_type_response_deserialize cls) class_type_response_obj"
| "response_deserialize (array_type_response_cls cls) =
     of_class (array_type_response_deserialize cls) array_type_response_obj"
| "response_deserialize (interface_type_response_cls cls) =
     of_class (interface_type_response_deserialize cls) interface_type_response_obj"
| "response_deserialize (class_object_reference_response_cls cls) =
     of_class (class_object_reference_response_deserialize cls) class_object_reference_response_obj"
| "response_deserialize (stack_frame_response_cls cls) =
     of_class (stack_frame_response_deserialize cls) stack_frame_response_obj"
| "response_deserialize (method_response_cls cls) =
     of_class (method_response_deserialize cls) method_response_obj"
| "response_deserialize (object_reference_response_cls cls) =
     of_class (object_reference_response_deserialize cls) object_reference_response_obj"
| "response_deserialize (string_reference_response_cls cls) =
     of_class (string_reference_response_deserialize cls) string_reference_response_obj"
| "response_deserialize (thread_reference_response_cls cls) =
     of_class (thread_reference_response_deserialize cls) thread_reference_response_obj"
| "response_deserialize (thread_group_reference_response_cls cls) =
     of_class (thread_group_reference_response_deserialize cls) thread_group_reference_response_obj"
| "response_deserialize (array_reference_response_cls cls) =
     of_class (array_reference_response_deserialize cls) array_reference_response_obj"
| "response_deserialize (class_loader_reference_response_cls cls) =
     of_class (class_loader_reference_response_deserialize cls) class_loader_reference_response_obj"
| "response_deserialize (event_request_response_cls cls) =
     of_class (event_request_response_deserialize cls) event_request_response_obj"

primrec response_ok :: "JdwpResponse \<Rightarrow> bool" where
  "response_ok (vm_response_obj self) = True"
| "response_ok (reference_type_response_obj self) = reference_type_response_ok self"
| "response_ok (class_type_response_obj self) = class_type_response_ok self"
| "response_ok (array_type_response_obj self) = True"
| "response_ok (interface_type_response_obj self) = interface_type_response_ok self"
| "response_ok (class_object_reference_response_obj self) = True"
| "response_ok (stack_frame_response_obj self) = stack_frame_response_ok self"
| "response_ok (method_response_obj self) = True"
| "response_ok (object_reference_response_obj self) = object_reference_response_ok self"
| "response_ok (string_reference_response_obj self) = True"
| "response_ok (thread_reference_response_obj self) = True"
| "response_ok (thread_group_reference_response_obj self) = True"
| "response_ok (array_reference_response_obj self) = array_reference_response_ok self"
| "response_ok (class_loader_reference_response_obj self) = True"
| "response_ok (event_request_response_obj self) = True"

interpretation response: message_family response_class_of response_serialize response_deserialize response_ok
proof unfold_locales
  fix v assume ok: "response_ok v"
  show "paired (response_serialize v) (response_deserialize (response_class_of v)) v"
    using ok by (cases v) (simp_all add: 
      vm_response.lift_family reference_type_response.lift_family
      class_type_response.lift_family array_type_response.lift_family
      interface_type_response.lift_family class_object_reference_response.lift_family
      stack_frame_response.lift_family method_response.lift_family
      object_reference_response.lift_family string_reference_response.lift_family
      thread_reference_response.lift_family thread_group_reference_response.lift_family
      array_reference_response.lift_family class_loader_reference_response.lift_family
      event_request_response.lift_family)
next
  fix c r v r' assume "response_deserialize c r = Inr (v, r')"
  then show "response_class_of v = c"
    by (cases c) (auto dest!: of_class_obj simp: 
      vm_response.class_sound reference_type_response.class_sound
      class_type_response.class_sound array_type_response.class_sound
      interface_type_response.class_sound class_object_reference_response.class_sound
      stack_frame_response.class_sound method_response.class_sound
      object_reference_response.class_sound string_reference_response.class_sound
      thread_reference_response.class_sound thread_group_reference_response.class_sound
      array_reference_response.class_sound class_loader_reference_response.class_sound
      event_request_response.class_sound)
next
  fix c r v r' assume "response_deserialize c r = Inr (v, r')" and "array_element_tag r = None"
  then show "response_ok v"
    by (cases c) (auto dest!: of_class_obj dest:
      reference_type_response.ok_sound
      class_type_response.ok_sound
      interface_type_response.ok_sound
      stack_frame_response.ok_sound
      object_reference_response.ok_sound
      array_reference_response.ok_sound)
qed

section \<open>The registry\<close>

record registry =
  COMMAND_REGISTRY :: "int \<times> int \<Rightarrow> JdwpCommandClass option"
  COMMAND_TO_RESPONSE :: "JdwpCommandClass \<Rightarrow> JdwpResponseClass option"

definition command_key :: "JdwpCommandClass \<Rightarrow> int \<times> int" where
  "command_key cls = (COMMAND_SET (command_vars cls), COMMAND (command_vars cls))"

definition register_command ::
    "JdwpResponseClass option \<Rightarrow> JdwpCommandClass \<Rightarrow> registry \<Rightarrow> registry" where
  "register_command response_class cls reg =
     (let reg = reg\<lparr>COMMAND_REGISTRY := (COMMAND_REGISTRY reg)(command_key cls \<mapsto> cls)\<rparr>
      in case response_class of
           None \<Rightarrow> reg
         | Some resp \<Rightarrow>
             reg\<lparr>COMMAND_TO_RESPONSE := (COMMAND_TO_RESPONSE reg)(cls \<mapsto> resp)\<rparr>)"

definition empty_registry :: registry where
  "empty_registry = \<lparr>COMMAND_REGISTRY = Map.empty, COMMAND_TO_RESPONSE = Map.empty\<rparr>"

definition registrations :: "(JdwpResponseClass option \<times> JdwpCommandClass) list" where
  "registrations =
     map (map_prod (map_option vm_response_cls) vm_command_cls) vm_registrations @
     map (map_prod (map_option reference_type_response_cls) reference_type_command_cls) reference_type_registrations @
     map (map_prod (map_option class_type_response_cls) class_type_command_cls) class_type_registrations @
     map (map_prod (map_option array_type_response_cls) array_type_command_cls) array_type_registrations @
     map (map_prod (map_option interface_type_response_cls) interface_type_command_cls) interface_type_registrations @
     map (map_prod (map_option class_object_reference_response_cls) class_object_reference_command_cls) class_object_reference_registrations @
     map (map_prod (map_option stack_frame_response_cls) stack_frame_command_cls) stack_frame_registrations @
     map (map_prod (map_option method_response_cls) method_command_cls) method_registrations @
     map (map_prod (map_option object_reference_response_cls) object_reference_command_cls) object_reference_registrations @
     map (map_prod (map_option string_reference_response_cls) string_reference_command_cls) string_reference_registrations @
     map (map_prod (map_option thread_reference_response_cls) thread_reference_command_cls) thread_reference_registrations @
     map (map_prod (map_option thread_group_reference_response_cls) thread_group_reference_command_cls) thread_group_reference_registrations @
     map (map_prod (map_option array_reference_response_cls) array_reference_command_cls) array_reference_registrations @
     map (map_prod (map_option class_loader_reference_response_cls) class_loader_reference_command_cls) class_loader_reference_registrations @
     map (map_prod (map_option event_request_response_cls) event_request_command_cls) event_request_registrations @
     [(None, event_command_cls CompositeCommand_cls)]"

lemmas registrations_defs =
  vm_registrations_def reference_type_registrations_def class_type_registrations_def
  array_type_registrations_def interface_type_registrations_def
  class_object_reference_registrations_def stack_frame_registrations_def
  method_registrations_def object_reference_registrations_def string_reference_registrations_def
  thread_reference_registrations_def thread_group_reference_registrations_def
  array_reference_registrations_def class_loader_reference_registrations_def
  event_request_registrations_def

lemmas command_class_defs =
  VersionCommand_class_def ClassesBySignatureCommand_class_def AllClassesCommand_class_def
  AllThreadsCommand_class_def TopLevelThreadGroupsCommand_class_def DisposeCommand_class_def
  IDSizesCommand_class_def VM_SuspendCommand_class_def VM_ResumeCommand_class_def
  ExitCommand_class_def CreateStringCommand_class_def CapabilitiesCommand_class_def
  ClassPathsCommand_class_def DisposeObjectsCommand_class_def HoldEventsCommand_class_def
  ReleaseEventsCommand_class_def CapabilitiesNewCommand_class_def
  RedefineClassesCommand_class_def SetDefaultStratumCommand_class_def
  AllClassesWithGenericCommand_class_def InstanceCountsCommand_class_def
  SignatureCommand_class_def ClassLoaderCommand_class_def ModifiersCommand_class_def
  FieldsCommand_class_def MethodsCommand_class_def ReferenceType_GetValuesCommand_class_def
  SourceFileCommand_class_def NestedTypesCommand_class_def ReferenceType_StatusCommand_class_def
  InterfacesCommand_class_def ClassObjectCommand_class_def SourceDebugExtensionCommand_class_def
  SignatureWithGenericCommand_class_def FieldsWithGenericCommand_class_def
  MethodsWithGenericCommand_class_def InstancesCommand_class_def
  ClassFileVersionCommand_class_def ConstantPoolCommand_class_def SuperclassCommand_class_def
  ClassType_SetValuesCommand_class_def ClassType_InvokeMethodCommand_class_def
  ClassType_NewInstanceCommand_class_def ArrayType_NewInstanceCommand_class_def
  InterfaceType_InvokeMethodCommand_class_def ReflectedTypeCommand_class_def
  StackFrame_GetValuesCommand_class_def StackFrame_SetValuesCommand_class_def
  ThisObjectCommand_class_def PopFramesCommand_class_def LineTableCommand_class_def
  VariableTableCommand_class_def BytecodesCommand_class_def IsObsoleteCommand_class_def
  VariableTableWithGenericCommand_class_def ReferenceTypeCommand_class_def
  ObjectReference_GetValuesCommand_class_def ObjectReference_SetValuesCommand_class_def
  MonitorInfoCommand_class_def ObjectReference_InvokeMethodCommand_class_def
  DisableCollectionCommand_class_def EnableCollectionCommand_class_def
  IsCollectedCommand_class_def ReferringObjectsCommand_class_def ValueCommand_class_def
  ThreadReference_NameCommand_class_def ThreadReference_SuspendCommand_class_def
  ThreadReference_ResumeCommand_class_def ThreadReference_StatusCommand_class_def
  ThreadGroupCommand_class_def FramesCommand_class_def FrameCountCommand_class_def
  OwnedMonitorsCommand_class_def CurrentContendedMonitorCommand_class_def StopCommand_class_def
  InterruptCommand_class_def SuspendCountCommand_class_def
  OwnedMonitorsStackDepthInfoCommand_class_def ForceEarlyReturnCommand_class_def
  ThreadGroupReference_NameCommand_class_def ParentCommand_class_def ChildrenCommand_class_def
  LengthCommand_class_def ArrayReference_GetValuesCommand_class_def
  ArrayReference_SetValuesCommand_class_def VisibleClassesCommand_class_def SetCommand_class_def
  ClearCommand_class_def ClearAllBreakpointsCommand_class_def CompositeCommand_class_def

definition registry :: registry where
  "registry = fold (\<lambda>(response_class, cls). register_command response_class cls)
     registrations empty_registry"

definition get_command_class :: "int \<Rightarrow> int \<Rightarrow> JdwpCommandClass option" where
  "get_command_class set_no command_no = COMMAND_REGISTRY registry (set_no, command_no)"

definition get_response_class :: "JdwpCommandClass \<Rightarrow> JdwpResponseClass option" where
  "get_response_class cmd_cls = COMMAND_TO_RESPONSE registry cmd_cls"

section \<open>What the dictionaries hold\<close>

text \<open>
  Registering classes with different keys keeps every one of them; the response class is the one
  given with the command class.
\<close>

lemma register_command_maps:
  "COMMAND_REGISTRY (register_command r c reg) = (COMMAND_REGISTRY reg)(command_key c \<mapsto> c)"
  "COMMAND_TO_RESPONSE (register_command r c reg) =
     (case r of None \<Rightarrow> COMMAND_TO_RESPONSE reg | Some x \<Rightarrow> (COMMAND_TO_RESPONSE reg)(c \<mapsto> x))"
  by (simp_all add: register_command_def Let_def split: option.split)

lemma fold_register_command:
  assumes "distinct (map (\<lambda>(r, c). command_key c) rs)" and "(r, c) \<in> set rs"
  shows "COMMAND_REGISTRY (fold (\<lambda>(r, c). register_command r c) rs reg) (command_key c) = Some c"
    and "COMMAND_TO_RESPONSE reg c = None \<Longrightarrow>
      COMMAND_TO_RESPONSE (fold (\<lambda>(r, c). register_command r c) rs reg) c = r"
  using assms
proof (induction rs rule: rev_induct)
  case (snoc x xs)
  {
    case 1
    then show ?case using snoc.IH(1) by (cases x) (force simp: register_command_maps)
  next
    case 2
    obtain r' c' where x: "x = (r', c')" by (cases x)
    show ?case
    proof (cases "(r, c) \<in> set xs")
      case True
      then have "command_key c \<noteq> command_key c'" using 2 x by force
      then show ?thesis
        using 2 True snoc.IH(2) x by (auto simp: register_command_maps split: option.split)
    next
      case False
      then have rc: "r' = r" "c' = c" using 2 x by auto
      moreover have "COMMAND_TO_RESPONSE (fold (\<lambda>(r, c). register_command r c) ys reg) c = None"
        if "\<forall>(r', c') \<in> set ys. c' \<noteq> c" for ys
        using that 2(1)
        by (induction ys rule: rev_induct) (auto simp: register_command_maps split: option.split)
      moreover have "\<forall>(r', c') \<in> set xs. c' \<noteq> c" using 2 x rc by force
      ultimately show ?thesis using x by (simp add: register_command_maps split: option.split)
    qed
  }
qed simp_all

lemma registered_keys_distinct: "distinct (map (\<lambda>(r, c). command_key c) registrations)"
  by (simp add: registrations_def registrations_defs command_key_def command_class_defs
      command_class.defs)

lemma fold_register_command_sound:
  "COMMAND_REGISTRY (fold (\<lambda>(r, c). register_command r c) rs reg) k = Some c \<Longrightarrow>
    command_key c = k \<or> COMMAND_REGISTRY reg k = Some c"
proof (induction rs arbitrary: reg)
  case (Cons x xs)
  then show ?case by (cases x) (force simp: register_command_maps split: if_splits)
qed simp

text \<open>Every command class is decorated.\<close>

lemmas module_registered =
  vm_registered reference_type_registered class_type_registered array_type_registered
  interface_type_registered class_object_reference_registered stack_frame_registered
  method_registered object_reference_registered string_reference_registered
  thread_reference_registered thread_group_reference_registered array_reference_registered
  class_loader_reference_registered event_request_registered

lemma map_registered: "c \<in> snd ` set rs \<Longrightarrow> f c \<in> snd ` set (map (map_prod g f) rs)"
  by force

lemma all_registered: "cls \<in> snd ` set registrations"
proof (cases cls)
  case (event_command_cls c)
  then show ?thesis by (cases c) (simp add: registrations_def image_Un)
qed (simp_all only: registrations_def set_append image_Un Un_iff map_registered module_registered
    simp_thms)

section \<open>The interface of the registry\<close>

text \<open>
  What the code that receives commands relies on: the lookup of a class's own key finds the class,
  and a lookup finds nothing else. So no two classes have the same key.
\<close>

locale command_table =
  fixes lookup :: "int \<times> int \<Rightarrow> 'cls option" and key :: "'cls \<Rightarrow> int \<times> int"
  assumes lookup_key: "lookup (key c) = Some c"
    and lookup_sound: "lookup k = Some c \<Longrightarrow> key c = k"
begin

lemma key_inj: "key c = key c' \<Longrightarrow> c = c'"
  using lookup_key by (metis option.inject)

lemma lookup_eq_Some: "lookup k = Some c \<longleftrightarrow> key c = k"
  by (metis lookup_key lookup_sound)

lemma lookup_eq_None: "lookup k = None \<longleftrightarrow> k \<notin> range key"
  by (metis image_iff lookup_key lookup_sound not_None_eq rangeI)

end

interpretation commands: command_table "\<lambda>(s, n). get_command_class s n" command_key
proof unfold_locales
  fix c
  obtain r where "(r, c) \<in> set registrations" using all_registered by fastforce
  with registered_keys_distinct show "(case command_key c of (s, n) \<Rightarrow> get_command_class s n) = Some c"
    unfolding get_command_class_def registry_def
    by (simp add: fold_register_command(1) split: prod.split)
next
  fix k c assume "(case k of (s, n) \<Rightarrow> get_command_class s n) = Some c"
  then show "command_key c = k"
    unfolding get_command_class_def registry_def
    by (auto split: prod.splits simp: empty_registry_def dest!: fold_register_command_sound)
qed

lemma get_command_class_of:
  "get_command_class (COMMAND_SET (command_vars cls)) (COMMAND (command_vars cls)) = Some cls"
  using commands.lookup_key [of cls] by (simp add: command_key_def)

lemma get_command_class_SomeD:
  assumes "get_command_class s n = Some cls"
  shows "COMMAND_SET (command_vars cls) = s \<and> COMMAND (command_vars cls) = n"
  using assms commands.lookup_sound [of "(s, n)" cls] by (simp add: command_key_def)

lemma get_response_class_registered:
  "(r, c) \<in> set registrations \<Longrightarrow> get_response_class c = r"
  unfolding get_response_class_def registry_def
  by (rule fold_register_command(2) [OF registered_keys_distinct])
    (simp_all add: empty_registry_def)

text \<open>
  A command of any class, in the bytes of its own \<open>to_bytes\<close>, is what dispatching returns, exactly
  when \<open>command_ok\<close> holds of it.
\<close>

lemma command_dispatch_iff:
  assumes "to_bytes command_serialize cmd sp = Inr bs"
    and "vars = command_vars (command_class_of cmd)"
  shows "\<exists>cls. get_command_class (COMMAND_SET vars) (COMMAND vars) = Some cls \<and>
    (from_bytes (command_deserialize cls) (bs @ junk) sp = Inr cmd \<longleftrightarrow> command_ok cmd)"
  using command.family_roundtrip_iff [OF assms(1), of junk] get_command_class_of assms(2) by auto

text \<open>Only the composite command, which the VM sends, has no response.\<close>

lemma get_response_class_None:
  "get_response_class cls = None \<longleftrightarrow> cls = event_command_cls CompositeCommand_cls"
proof -
  obtain r where r: "(r, cls) \<in> set registrations" using all_registered by fastforce
  then have "get_response_class cls = r" by (rule get_response_class_registered)
  moreover have "r = None \<longleftrightarrow> cls = event_command_cls CompositeCommand_cls"
    using r by (auto simp: registrations_def module_registered)
  ultimately show ?thesis by simp
qed

end
