(* ===== verification/Packet.thy ===== *)
theory Packet
  imports Py_Struct Constants
begin

unbundle bit_operations_syntax

text \<open>
  \<^verbatim>\<open>packet.py\<close>: the frames of the protocol. A packet is a header of eleven bytes (length, id, flags
  and, by the kind, command set and command or the error code) and a payload. The constructors
  check that bit \<^verbatim>\<open>0x80\<close> of the flags agrees with the kind. \<open>deserialize\<close> reads one packet off a
  stream. The locale \<open>framing\<close> states what the connections rely on.
\<close>

section \<open>Packets\<close>

text \<open>The field \<open>id\<close> is called \<open>id'\<close>.\<close>

record JdwpCommandPacket =
  id' :: int
  flags :: int
  data :: bytes
  command_set :: int
  command :: int

text \<open>
  The error code of a reply is the enumeration's member when there is one, the plain integer
  otherwise. Both are \<open>int\<close>s to Python: comparing and packing see the value.
\<close>

datatype (plugins only: code) error_field = Known JdwpErrorCode | Raw int

fun error_field_value :: "error_field \<Rightarrow> int" where
  "error_field_value (Known e) = error_value e"
| "error_field_value (Raw n) = n"

record JdwpReplyPacket =
  id' :: int
  flags :: int
  data :: bytes
  error_code :: error_field

datatype (plugins only: code) JdwpPacket =
    CommandPacket JdwpCommandPacket
  | ReplyPacket JdwpReplyPacket

fun packet_id :: "JdwpPacket \<Rightarrow> int" where
  "packet_id (CommandPacket p) = JdwpCommandPacket.id' p"
| "packet_id (ReplyPacket p) = JdwpReplyPacket.id' p"

fun packet_flags :: "JdwpPacket \<Rightarrow> int" where
  "packet_flags (CommandPacket p) = JdwpCommandPacket.flags p"
| "packet_flags (ReplyPacket p) = JdwpReplyPacket.flags p"

fun packet_data :: "JdwpPacket \<Rightarrow> bytes" where
  "packet_data (CommandPacket p) = JdwpCommandPacket.data p"
| "packet_data (ReplyPacket p) = JdwpReplyPacket.data p"

definition is_reply :: "JdwpPacket \<Rightarrow> bool" where
  "is_reply p \<longleftrightarrow> packet_flags p AND 0x80 \<noteq> 0"

definition packet_length :: "JdwpPacket \<Rightarrow> int" where
  "packet_length p = 11 + int (length (packet_data p))"

fun is_reply_class :: "JdwpPacket \<Rightarrow> bool" where
  "is_reply_class (CommandPacket p) = False"
| "is_reply_class (ReplyPacket p) = True"

text \<open>\<open>__post_init__\<close>, which every construction of a packet runs.\<close>

definition post_init :: "JdwpPacket \<Rightarrow> JdwpPacket result" where
  "post_init p = (if is_reply p \<noteq> is_reply_class p then Inl ValueError else Inr p)"

definition new_command_packet :: "int \<Rightarrow> int \<Rightarrow> int \<Rightarrow> int \<Rightarrow> bytes \<Rightarrow> JdwpPacket result" where
  "new_command_packet i fl cset cmd dat =
     post_init (CommandPacket (JdwpCommandPacket.make i fl dat cset cmd))"

definition new_reply_packet :: "int \<Rightarrow> int \<Rightarrow> error_field \<Rightarrow> bytes \<Rightarrow> JdwpPacket result" where
  "new_reply_packet i fl err dat = post_init (ReplyPacket (JdwpReplyPacket.make i fl dat err))"

section \<open>Bytes of a packet\<close>

definition COMMON_HEADER_STRUCT :: "format list" where
  "COMMON_HEADER_STRUCT = [Unsigned 4, Unsigned 4, Unsigned 1]"

definition COMMAND_HEADER_STRUCT :: "format list" where
  "COMMAND_HEADER_STRUCT = [Unsigned 4, Unsigned 4, Unsigned 1, Unsigned 1, Unsigned 1]"

definition REPLY_HEADER_STRUCT :: "format list" where
  "REPLY_HEADER_STRUCT = [Unsigned 4, Unsigned 4, Unsigned 1, Unsigned 2]"

fun packet_to_bytes :: "JdwpPacket \<Rightarrow> bytes result" where
  "packet_to_bytes (CommandPacket p) =
     res_bind (pack_all (zip COMMAND_HEADER_STRUCT
         [packet_length (CommandPacket p), JdwpCommandPacket.id' p, JdwpCommandPacket.flags p,
          command_set p, command p]))
       (\<lambda>header. Inr (header @ JdwpCommandPacket.data p))"
| "packet_to_bytes (ReplyPacket p) =
     res_bind (pack_all (zip REPLY_HEADER_STRUCT
         [packet_length (ReplyPacket p), JdwpReplyPacket.id' p, JdwpReplyPacket.flags p,
          error_field_value (error_code p)]))
       (\<lambda>header. Inr (header @ JdwpReplyPacket.data p))"

definition command_from_bytes :: "bytes \<Rightarrow> bytes \<Rightarrow> JdwpPacket result" where
  "command_from_bytes header dat =
     res_bind (unpack_all COMMAND_HEADER_STRUCT header) (\<lambda>fs.
       new_command_packet (fs ! 1) (fs ! 2) (fs ! 3) (fs ! 4) dat)"

definition error_field_of :: "int \<Rightarrow> error_field" where
  "error_field_of v = (case JdwpErrorCode_of v of Some e \<Rightarrow> Known e | None \<Rightarrow> Raw v)"

definition reply_from_bytes :: "bytes \<Rightarrow> bytes \<Rightarrow> JdwpPacket result" where
  "reply_from_bytes header dat =
     res_bind (unpack_all REPLY_HEADER_STRUCT header) (\<lambda>fs.
       new_reply_packet (fs ! 1) (fs ! 2) (error_field_of (fs ! 3)) dat)"

section \<open>Reading a packet off a stream\<close>

text \<open>
  The stream is the bytes that arrive before the end of the connection; \<open>readexactly\<close> waits for
  as many as it needs and raises \<open>IncompleteReadError\<close> when the stream ends first.
\<close>

definition readexactly :: "int \<Rightarrow> bytes \<Rightarrow> (bytes \<times> bytes) result" where
  "readexactly n s =
     (if n < 0 then Inl ValueError
      else if int (length s) < n then Inl IncompleteReadError
      else Inr (take (nat n) s, drop (nat n) s))"

definition deserialize_packet :: "bytes \<Rightarrow> (JdwpPacket \<times> bytes) result" where
  "deserialize_packet s =
     res_bind (readexactly 11 s) (\<lambda>(header, s).
     res_bind (unpack_all COMMON_HEADER_STRUCT (py_slice header 0 9)) (\<lambda>fs.
       if fs ! 0 < 11 then Inl ValueError
       else
         res_bind (readexactly (fs ! 0 - 11) s) (\<lambda>(dat, s).
         res_bind (if fs ! 2 AND 0x80 \<noteq> 0 then reply_from_bytes header dat
                   else command_from_bytes header dat) (\<lambda>p.
           Inr (p, s)))))"

text \<open>
  A packet that the code can hold: its constructor let it through, and its error code is the one
  \<open>from_bytes\<close> would have chosen.
\<close>

definition packet_ok :: "JdwpPacket \<Rightarrow> bool" where
  "packet_ok p \<longleftrightarrow> is_reply p = is_reply_class p \<and>
     (case p of
        CommandPacket _ \<Rightarrow> True
      | ReplyPacket q \<Rightarrow> error_code q = error_field_of (error_field_value (error_code q)))"

lemma post_init_eq_Inr [simp]: "post_init p = Inr q \<longleftrightarrow> q = p \<and> is_reply p = is_reply_class p"
  by (auto simp: post_init_def)

lemma error_field_of_value [simp]: "error_field_value (error_field_of v) = v"
proof (cases "JdwpErrorCode_of v")
  case None
  then show ?thesis by (simp add: error_field_of_def)
next
  case (Some e)
  then have "error_value e = v" unfolding JdwpErrorCode_of_def by (rule error.of_value_SomeD)
  with Some show ?thesis by (simp add: error_field_of_def)
qed

lemma error_field_of_known [simp]: "error_field_of (error_value e) = Known e"
  by (simp add: error_field_of_def)

lemmas header_structs = COMMON_HEADER_STRUCT_def COMMAND_HEADER_STRUCT_def REPLY_HEADER_STRUCT_def

lemma py_slice_take9: "length h = 11 \<Longrightarrow> py_slice h 0 9 = take 9 h"
  by (simp add: py_slice_def slice_bound_def)

section \<open>Writing and reading agree\<close>

lemma pack_all_append:
  "pack_all (xs @ ys) = res_bind (pack_all xs) (\<lambda>as. res_bind (pack_all ys) (\<lambda>cs. Inr (as @ cs)))"
proof (induction xs)
  case Nil
  show ?case by (cases "pack_all ys") simp_all
next
  case (Cons x xs)
  then show ?case by (cases x) (simp add: res_bind_assoc)
qed

text \<open>The common header, read from the header of either kind.\<close>

lemma common_header:
  assumes "pack_all (zip (COMMON_HEADER_STRUCT @ fs) ([l, i, fl] @ vs)) = Inr h" and "length h = 11"
  shows "unpack_all COMMON_HEADER_STRUCT (py_slice h 0 9) = Inr [l, i, fl]"
proof -
  have "zip (COMMON_HEADER_STRUCT @ fs) ([l, i, fl] @ vs) = zip COMMON_HEADER_STRUCT [l, i, fl] @ zip fs vs"
    by (simp add: header_structs)
  then obtain as cs where as: "pack_all (zip COMMON_HEADER_STRUCT [l, i, fl]) = Inr as"
    and h: "h = as @ cs" using assms(1) by (auto simp: pack_all_append)
  then have "length as = 9" using pack_all_length [OF as] by (simp add: header_structs)
  then have "py_slice h 0 9 = as" using h assms(2) by (simp add: py_slice_take9)
  then show ?thesis using unpack_all_pack_all [OF as] by (simp add: header_structs)
qed

lemma readexactly_append [simp]: "int (length bs) = n \<Longrightarrow> readexactly n (bs @ s) = Inr (bs, s)"
  by (auto simp: readexactly_def)

lemma deserialize_command_packet:
  assumes "packet_ok (CommandPacket p)" and "packet_to_bytes (CommandPacket p) = Inr bs"
  shows "deserialize_packet (bs @ rest) = Inr (CommandPacket p, rest)"
proof -
  let ?vs = "[packet_length (CommandPacket p), JdwpCommandPacket.id' p, JdwpCommandPacket.flags p,
    command_set p, command p]"
  obtain h where h: "pack_all (zip COMMAND_HEADER_STRUCT ?vs) = Inr h"
    and bs: "bs = h @ JdwpCommandPacket.data p" using assms(2) by auto
  have len: "length h = 11" using pack_all_length [OF h] by (simp add: header_structs)
  have c: "unpack_all COMMON_HEADER_STRUCT (py_slice h 0 9) = Inr (take 3 ?vs)"
    using common_header [of "[Unsigned 1, Unsigned 1]" _ _ _ "[command_set p, command p]"] h len
    by (simp add: header_structs)
  have "unpack_all COMMAND_HEADER_STRUCT h = Inr ?vs"
    using unpack_all_pack_all [OF h] by (simp add: header_structs)
  then have "command_from_bytes h (JdwpCommandPacket.data p) = Inr (CommandPacket p)"
    using assms(1) by (cases p)
      (simp add: command_from_bytes_def new_command_packet_def packet_ok_def JdwpCommandPacket.make_def)
  moreover have "JdwpCommandPacket.flags p AND 128 = 0"
    using assms(1) by (simp add: packet_ok_def is_reply_def)
  ultimately show ?thesis
    using c len by (simp add: deserialize_packet_def bs packet_length_def)
qed

lemma deserialize_reply_packet:
  assumes "packet_ok (ReplyPacket p)" and "packet_to_bytes (ReplyPacket p) = Inr bs"
  shows "deserialize_packet (bs @ rest) = Inr (ReplyPacket p, rest)"
proof -
  let ?vs = "[packet_length (ReplyPacket p), JdwpReplyPacket.id' p, JdwpReplyPacket.flags p,
    error_field_value (error_code p)]"
  obtain h where h: "pack_all (zip REPLY_HEADER_STRUCT ?vs) = Inr h"
    and bs: "bs = h @ JdwpReplyPacket.data p" using assms(2) by auto
  have len: "length h = 11" using pack_all_length [OF h] by (simp add: header_structs)
  have c: "unpack_all COMMON_HEADER_STRUCT (py_slice h 0 9) = Inr (take 3 ?vs)"
    using common_header [of "[Unsigned 2]" _ _ _ "[error_field_value (error_code p)]"] h len
    by (simp add: header_structs)
  have "unpack_all REPLY_HEADER_STRUCT h = Inr ?vs"
    using unpack_all_pack_all [OF h] by (simp add: header_structs)
  then have "reply_from_bytes h (JdwpReplyPacket.data p) = Inr (ReplyPacket p)"
    using assms(1) by (cases p)
      (simp add: reply_from_bytes_def new_reply_packet_def packet_ok_def JdwpReplyPacket.make_def)
  moreover have "JdwpReplyPacket.flags p AND 128 \<noteq> 0"
    using assms(1) by (simp add: packet_ok_def is_reply_def)
  ultimately show ?thesis
    using c len by (simp add: deserialize_packet_def bs packet_length_def)
qed

lemma deserialize_to_bytes:
  "packet_ok p \<Longrightarrow> packet_to_bytes p = Inr bs \<Longrightarrow> deserialize_packet (bs @ rest) = Inr (p, rest)"
  by (cases p) (simp_all add: deserialize_command_packet deserialize_reply_packet del: packet_to_bytes.simps)

text \<open>
  The other direction: whatever is read off a stream is a well-formed packet, and the bytes taken
  off the stream are the ones it serializes to.
\<close>

lemma readexactly_eq_Inr:
  "readexactly n s = Inr (bs, s') \<longleftrightarrow> s = bs @ s' \<and> int (length bs) = n"
  by (auto simp: readexactly_def)

lemma common_fields:
  assumes "length h = 11" and "unpack_all COMMON_HEADER_STRUCT (py_slice h 0 9) = Inr fs"
  shows "fs = take 3 (decode_all COMMAND_HEADER_STRUCT h)"
    and "fs = take 3 (decode_all REPLY_HEADER_STRUCT h)"
  using assms by (auto simp: py_slice_take9 unpack_all_def header_structs drop_take)

lemma five_fields: "\<exists>a b c d e. decode_all COMMAND_HEADER_STRUCT h = [a, b, c, d, e]"
  and four_fields: "\<exists>a b c d. decode_all REPLY_HEADER_STRUCT h = [a, b, c, d]"
  by (simp_all add: header_structs)

lemma command_from_bytes_sound:
  assumes h: "length h = 11" and "unpack_all COMMON_HEADER_STRUCT (py_slice h 0 9) = Inr fs"
    and "int (length dat) = fs ! 0 - 11" and "command_from_bytes h dat = Inr p"
  shows "packet_ok p \<and> packet_to_bytes p = Inr (h @ dat)"
proof -
  obtain l i fl cs c where d: "decode_all COMMAND_HEADER_STRUCT h = [l, i, fl, cs, c]"
    using five_fields by blast
  then have "fs = [l, i, fl]" using common_fields(1) [OF assms(1,2)] by simp
  moreover have "pack_all (zip COMMAND_HEADER_STRUCT [l, i, fl, cs, c]) = Inr h"
    using pack_all_decode_all [of h COMMAND_HEADER_STRUCT] d h by (simp add: header_structs)
  moreover have "p = CommandPacket (JdwpCommandPacket.make i fl dat cs c)" "is_reply p = is_reply_class p"
    using assms(4) d h
    by (auto simp: command_from_bytes_def new_command_packet_def unpack_all_def header_structs)
  ultimately show ?thesis
    using assms(3) by (simp add: packet_ok_def packet_length_def JdwpCommandPacket.make_def)
qed

lemma reply_from_bytes_sound:
  assumes h: "length h = 11" and "unpack_all COMMON_HEADER_STRUCT (py_slice h 0 9) = Inr fs"
    and "int (length dat) = fs ! 0 - 11" and "reply_from_bytes h dat = Inr p"
  shows "packet_ok p \<and> packet_to_bytes p = Inr (h @ dat)"
proof -
  obtain l i fl e where d: "decode_all REPLY_HEADER_STRUCT h = [l, i, fl, e]"
    using four_fields by blast
  then have "fs = [l, i, fl]" using common_fields(2) [OF assms(1,2)] by simp
  moreover have "pack_all (zip REPLY_HEADER_STRUCT [l, i, fl, e]) = Inr h"
    using pack_all_decode_all [of h REPLY_HEADER_STRUCT] d h by (simp add: header_structs)
  moreover have "p = ReplyPacket (JdwpReplyPacket.make i fl dat (error_field_of e))"
      "is_reply p = is_reply_class p"
    using assms(4) d h
    by (auto simp: reply_from_bytes_def new_reply_packet_def unpack_all_def header_structs)
  ultimately show ?thesis
    using assms(3) by (simp add: packet_ok_def packet_length_def JdwpReplyPacket.make_def)
qed

lemma deserialize_sound:
  assumes "deserialize_packet s = Inr (p, rest)"
  shows "\<exists>bs. packet_ok p \<and> packet_to_bytes p = Inr bs \<and> s = bs @ rest"
proof -
  obtain h s' fs dat where s: "s = h @ s'" and h: "length h = 11"
    and fs: "unpack_all COMMON_HEADER_STRUCT (py_slice h 0 9) = Inr fs"
    and s': "s' = dat @ rest" and dat: "int (length dat) = fs ! 0 - 11"
    and p: "(if fs ! 2 AND 128 \<noteq> 0 then reply_from_bytes h dat else command_from_bytes h dat) = Inr p"
    using assms by (auto simp: deserialize_packet_def readexactly_eq_Inr split: if_splits)
  have "packet_ok p \<and> packet_to_bytes p = Inr (h @ dat)"
    using p command_from_bytes_sound [OF h fs dat] reply_from_bytes_sound [OF h fs dat]
    by (auto split: if_splits)
  with s s' show ?thesis by auto
qed

text \<open>The length of the bytes is the number the header announces.\<close>

lemma packet_to_bytes_length:
  "packet_to_bytes p = Inr bs \<Longrightarrow> int (length bs) = packet_length p"
  by (cases p) (auto simp: packet_length_def header_structs dest!: pack_length)

section \<open>The interface of a framing\<close>

text \<open>
  What a stream of packets owes to its two ends: a packet written is a packet read, nothing else
  is read, and every packet takes bytes.
\<close>

locale framing =
  fixes enc :: "'p \<Rightarrow> bytes result" and dec :: "bytes \<Rightarrow> ('p \<times> bytes) result"
    and wf :: "'p \<Rightarrow> bool"
  assumes dec_enc: "wf p \<Longrightarrow> enc p = Inr bs \<Longrightarrow> dec (bs @ rest) = Inr (p, rest)"
    and dec_sound: "dec s = Inr (p, rest) \<Longrightarrow> \<exists>bs. wf p \<and> enc p = Inr bs \<and> s = bs @ rest"
    and enc_nonempty: "enc p = Inr bs \<Longrightarrow> bs \<noteq> []"
begin

text \<open>All packets of a stream, up to the exception that ends it.\<close>

function dec_all :: "bytes \<Rightarrow> 'p list \<times> py_exc" where
  "dec_all s = (case dec s of
       Inl e \<Rightarrow> ([], e)
     | Inr (p, rest) \<Rightarrow> (let (ps, e) = dec_all rest in (p # ps, e)))"
  by pat_completeness auto

lemma dec_shrinks: "dec s = Inr (p, rest) \<Longrightarrow> length rest < length s"
  using dec_sound enc_nonempty by fastforce

termination dec_all
  by (relation "measure length") (auto simp: dec_shrinks)

declare dec_all.simps [simp del]

lemma dec_all_stop: "dec s = Inl e \<Longrightarrow> dec_all s = ([], e)"
  by (subst dec_all.simps) simp

lemma dec_all_step: "dec s = Inr (p, rest) \<Longrightarrow> dec_all s = (p # fst (dec_all rest), snd (dec_all rest))"
  by (subst dec_all.simps) (simp add: split_def Let_def)

lemma dec_all_enc:
  assumes "list_all2 (\<lambda>p bs. wf p \<and> enc p = Inr bs) ps bss" and "dec rest = Inl e"
  shows "dec_all (concat bss @ rest) = (ps, e)"
  using assms
proof (induction rule: list_all2_induct)
  case Nil
  then show ?case by (simp add: dec_all_stop)
next
  case (Cons p ps bs bss)
  then have "dec (bs @ concat bss @ rest) = Inr (p, concat bss @ rest)" by (simp add: dec_enc)
  with Cons show ?case by (simp add: dec_all_step)
qed

text \<open>A stream splits into packets in one way only.\<close>

lemma dec_all_sound: "\<exists>bss rest. s = concat bss @ rest \<and> dec rest = Inl (snd (dec_all s)) \<and>
    list_all2 (\<lambda>p bs. wf p \<and> enc p = Inr bs) (fst (dec_all s)) bss"
proof (induction s rule: dec_all.induct)
  case (1 s)
  show ?case
  proof (cases "dec s")
    case (Inl e)
    then have "s = concat [] @ s \<and> dec s = Inl (snd (dec_all s)) \<and>
        list_all2 (\<lambda>p bs. wf p \<and> enc p = Inr bs) (fst (dec_all s)) []"
      by (simp add: dec_all_stop)
    then show ?thesis by blast
  next
    case (Inr b)
    obtain p rest where b: "b = (p, rest)" by (cases b)
    with Inr have d: "dec s = Inr (p, rest)" by simp
    then obtain bs where bs: "wf p" "enc p = Inr bs" "s = bs @ rest" using dec_sound by blast
    obtain bss r where IH: "rest = concat bss @ r" "dec r = Inl (snd (dec_all rest))"
        "list_all2 (\<lambda>p bs. wf p \<and> enc p = Inr bs) (fst (dec_all rest)) bss"
      using 1 [OF Inr b [symmetric]] by blast
    have "s = concat (bs # bss) @ r" using bs(3) IH(1) by simp
    moreover have "dec r = Inl (snd (dec_all s))"
        "list_all2 (\<lambda>p bs. wf p \<and> enc p = Inr bs) (fst (dec_all s)) (bs # bss)"
      using bs(1,2) IH(2,3) by (simp_all add: dec_all_step [OF d])
    ultimately show ?thesis by blast
  qed
qed

text \<open>The bytes of a list of packets, and what part of a stream they can be.\<close>

definition framed :: "'p list \<Rightarrow> bytes \<Rightarrow> bool" where
  "framed ps s \<longleftrightarrow> (\<exists>bss. s = concat bss \<and> list_all2 (\<lambda>p bs. wf p \<and> enc p = Inr bs) ps bss)"

lemma framed_Nil [simp]: "framed [] s \<longleftrightarrow> s = []"
  by (auto simp: framed_def)

lemma framed_one: "wf p \<Longrightarrow> enc p = Inr bs \<Longrightarrow> framed [p] bs"
  by (auto simp: framed_def intro!: exI [of _ "[bs]"])

lemma framed_Cons: "framed (p # ps) s \<longleftrightarrow> (\<exists>bs t. wf p \<and> enc p = Inr bs \<and> s = bs @ t \<and> framed ps t)"
proof
  assume "framed (p # ps) s"
  then show "\<exists>bs t. wf p \<and> enc p = Inr bs \<and> s = bs @ t \<and> framed ps t"
    by (auto simp: framed_def list_all2_Cons1)
next
  assume "\<exists>bs t. wf p \<and> enc p = Inr bs \<and> s = bs @ t \<and> framed ps t"
  then obtain bs bss where "wf p" "enc p = Inr bs" "s = concat (bs # bss)"
      "list_all2 (\<lambda>p bs. wf p \<and> enc p = Inr bs) ps bss"
    by (auto simp: framed_def)
  then show "framed (p # ps) s" unfolding framed_def by (intro exI [of _ "bs # bss"]) simp
qed

lemma framed_append: "framed ps s \<Longrightarrow> framed qs t \<Longrightarrow> framed (ps @ qs) (s @ t)"
  by (induction ps arbitrary: s) (auto simp: framed_Cons)

lemma framed_dec_all:
  "framed ps s \<Longrightarrow> dec_all (s @ rest) = (ps @ fst (dec_all rest), snd (dec_all rest))"
  by (induction ps arbitrary: s) (auto simp: framed_Cons dec_all_step dec_enc)

lemma enc_same:
  assumes "wf p" and "enc p = Inr bs" and "wf q" and "enc q = Inr cs" and "bs @ x = cs @ y"
  shows "q = p \<and> cs = bs \<and> y = x"
  using dec_enc [OF assms(1,2), of x] dec_enc [OF assms(3,4), of y] assms(2,4,5) by simp

text \<open>Packets that begin a stream of packets are its first packets.\<close>

lemma framed_prefix:
  assumes "framed ps s" and "framed qs (s @ x)"
  shows "\<exists>rs. qs = ps @ rs \<and> framed rs x"
  using assms
proof (induction ps arbitrary: s qs)
  case (Cons p ps)
  then obtain bs t where p: "wf p" "enc p = Inr bs" "s = bs @ t" "framed ps t"
    by (auto simp: framed_Cons)
  then have "s @ x \<noteq> []" using enc_nonempty by simp
  with Cons.prems(2) obtain q qs' where qs: "qs = q # qs'" by (cases qs) auto
  then obtain cs u where q: "wf q" "enc q = Inr cs" "s @ x = cs @ u" "framed qs' u"
    using Cons.prems(2) by (auto simp: framed_Cons)
  then have "q = p" "u = t @ x" using enc_same [OF p(1,2) q(1,2), of "t @ x" u] p(3) by simp_all
  with Cons.IH [OF p(4)] q(4) qs show ?case by auto
qed simp

end

interpretation packets: framing packet_to_bytes deserialize_packet packet_ok
proof unfold_locales
  show "packet_ok p \<Longrightarrow> packet_to_bytes p = Inr bs \<Longrightarrow>
      deserialize_packet (bs @ rest) = Inr (p, rest)" for p bs rest
    by (rule deserialize_to_bytes)
  show "deserialize_packet s = Inr (p, rest) \<Longrightarrow>
      \<exists>bs. packet_ok p \<and> packet_to_bytes p = Inr bs \<and> s = bs @ rest" for s p rest
    by (rule deserialize_sound)
  show "packet_to_bytes p = Inr bs \<Longrightarrow> bs \<noteq> []" for p bs
    using packet_to_bytes_length [of p bs] by (auto simp: packet_length_def)
qed

section \<open>What reading can raise\<close>

lemma packet_to_bytes_header: "packet_to_bytes p = Inr bs \<Longrightarrow> be_uint (take 4 bs) = packet_length p"
proof -
  assume a: "packet_to_bytes p = Inr bs"
  then have "pack (Unsigned 4) (packet_length p) = Inr (take 4 bs)"
    by (cases p) (auto simp: header_structs pack_length [where f = "Unsigned 4", simplified])
  then show ?thesis using unpack_pack [of "Unsigned 4" "packet_length p" "take 4 bs"]
    by (simp add: unpack_def split: if_splits)
qed

lemma announced_length:
  assumes "11 \<le> length s"
  shows "unpack_all COMMON_HEADER_STRUCT (py_slice (take 11 s) 0 9) =
    Inr [be_uint (take 4 s), be_uint (take 4 (drop 4 s)), be_uint (take 1 (drop 8 s))]"
  using assms by (simp add: py_slice_take9 unpack_all_def header_structs drop_take min_def)

lemma from_bytes_of_flags:
  assumes "length h = 11"
  shows "be_uint (take 1 (drop 8 h)) AND 128 \<noteq> 0 \<Longrightarrow> \<exists>p. reply_from_bytes h dat = Inr p"
    and "be_uint (take 1 (drop 8 h)) AND 128 = 0 \<Longrightarrow> \<exists>p. command_from_bytes h dat = Inr p"
  using assms
  by (simp_all add: reply_from_bytes_def command_from_bytes_def unpack_all_def header_structs
      new_reply_packet_def new_command_packet_def is_reply_def JdwpReplyPacket.make_def
      JdwpCommandPacket.make_def)

lemma deserialize_packet_error_iff:
  "deserialize_packet s = Inl e \<longleftrightarrow>
    (length s < 11 \<and> e = IncompleteReadError) \<or>
    (11 \<le> length s \<and> be_uint (take 4 s) < 11 \<and> e = ValueError) \<or>
    (11 \<le> length s \<and> 11 \<le> be_uint (take 4 s) \<and> int (length s) < be_uint (take 4 s) \<and>
      e = IncompleteReadError)"
proof (cases "11 \<le> length s")
  case False
  then show ?thesis by (auto simp: deserialize_packet_def readexactly_def)
next
  case True
  let ?h = "take 11 s"
  have h: "length ?h = 11" using True by simp
  have d: "take 1 (drop 8 ?h) = take 1 (drop 8 s)" by (simp add: drop_take)
  note ok = from_bytes_of_flags [OF h, unfolded d]
  have "deserialize_packet s =
      (if be_uint (take 4 s) < 11 then Inl ValueError
       else res_bind (readexactly (be_uint (take 4 s) - 11) (drop 11 s)) (\<lambda>(dat, s').
         res_bind (if be_uint (take 1 (drop 8 s)) AND 128 \<noteq> 0 then reply_from_bytes ?h dat
                   else command_from_bytes ?h dat) (\<lambda>p. Inr (p, s'))))"
    using True by (simp add: deserialize_packet_def readexactly_def announced_length)
  also have "\<dots> = Inl e \<longleftrightarrow> be_uint (take 4 s) < 11 \<and> e = ValueError \<or>
      11 \<le> be_uint (take 4 s) \<and> int (length s) < be_uint (take 4 s) \<and> e = IncompleteReadError"
    using ok [of "take (nat (be_uint (take 4 s) - 11)) (drop 11 s)"] True
    by (auto simp: readexactly_def)
  finally show ?thesis using True by auto
qed

end
