(* ===== verification/Packet_Connection.thy ===== *)
theory Packet_Connection
  imports Packet "HOL-Library.AList"
begin

text \<open>
  \<^verbatim>\<open>connection.py\<close>, lower half: \<open>ConnectionState\<close>, the senders and receivers over a stream, the
  handshake, and \<open>JdwpPacketConnection\<close>, which matches replies to the requests that wait for them.
  Each operation is the code between two \<open>await\<close>s, a function on the object's state; the futures
  are a heap. The step relation interleaves the operations of any number of callers with those of
  the task that receives.
\<close>

section \<open>ConnectionState\<close>

record ConnectionState =
  is_closed :: bool
  error :: "py_exc option"

definition ConnectionState_init :: ConnectionState where
  "ConnectionState_init = \<lparr>is_closed = False, error = None\<rparr>"

definition mark_closed :: "ConnectionState \<Rightarrow> ConnectionState" where
  "mark_closed st = st\<lparr>is_closed := True\<rparr>"

text \<open>Only the first error is kept.\<close>

definition mark_error :: "py_exc \<Rightarrow> ConnectionState \<Rightarrow> ConnectionState" where
  "mark_error e st = (if error st = None then st\<lparr>error := Some e\<rparr> else st)"

definition check :: "ConnectionState \<Rightarrow> unit result" where
  "check st =
     (if is_closed st then Inl RuntimeError
      else if error st \<noteq> None then Inl RuntimeError
      else Inr ())"

definition open_state :: "ConnectionState \<Rightarrow> bool" where
  "open_state st \<longleftrightarrow> \<not> is_closed st \<and> error st = None"

lemma check_eq_Inr [simp]: "check st = Inr u \<longleftrightarrow> open_state st"
  and check_eq_Inl: "check st = Inl e \<longleftrightarrow> e = RuntimeError \<and> \<not> open_state st"
  by (auto simp: check_def open_state_def)

lemma open_state_marks [simp]:
  "\<not> open_state (mark_closed st)" "\<not> open_state (mark_error e st)"
  "open_state ConnectionState_init"
  by (auto simp: open_state_def mark_closed_def mark_error_def ConnectionState_init_def)

section \<open>The handshake\<close>

text \<open>
  \<open>establish_jdwp_connection\<close> writes the handshake and reads as many bytes back; \<open>s\<close> is what the
  peer sends. The result is what was written with the rest of the stream.
\<close>

definition establish_jdwp_connection :: "bytes \<Rightarrow> (bytes \<times> bytes) result" where
  "establish_jdwp_connection s =
     res_bind (readexactly (int (length HANDSHAKE)) s) (\<lambda>(response, rest).
       if response \<noteq> HANDSHAKE then Inl RuntimeError else Inr (HANDSHAKE, rest))"

lemma establish_jdwp_connection_eq_Inr:
  "establish_jdwp_connection s = Inr (out, rest) \<longleftrightarrow> s = HANDSHAKE @ rest \<and> out = HANDSHAKE"
  by (auto simp: establish_jdwp_connection_def readexactly_eq_Inr split: if_splits)

section \<open>JdwpPacketConnection\<close>

text \<open>The states of an \<open>asyncio.Future\<close> for a reply.\<close>

datatype (plugins only: code) future =
    Pending
  | Finished JdwpReplyPacket
  | Failed py_exc
  | Cancelled

fun await_result :: "future \<Rightarrow> JdwpReplyPacket result option" where
  "await_result Pending = None"
| "await_result (Finished r) = Some (Inr r)"
| "await_result (Failed e) = Some (Inl e)"
| "await_result Cancelled = Some (Inl CancelledError)"

text \<open>
  \<open>pending_replies\<close> is the dictionary from packet ids to futures, in insertion order; \<open>futures\<close>
  holds the future objects by address; \<open>written\<close> is what was written to the transport.
\<close>

record JdwpPacketConnection =
  state :: ConnectionState
  pending_replies :: "(int \<times> nat) list"
  futures :: "future list"
  written :: bytes

definition packet_connection_init :: JdwpPacketConnection where
  "packet_connection_init =
     \<lparr>state = ConnectionState_init, pending_replies = [], futures = [], written = []\<rparr>"

text \<open>\<open>connect\<close>: the handshake, then a new object; \<open>s\<close> is what the peer sends.\<close>

definition packet_connection_connect :: "bytes \<Rightarrow> (JdwpPacketConnection \<times> bytes) result" where
  "packet_connection_connect s =
     res_bind (establish_jdwp_connection s) (\<lambda>(out, rest). Inr (packet_connection_init, rest))"

definition clear_pending_replies :: "JdwpPacketConnection \<Rightarrow> nat list \<times> JdwpPacketConnection" where
  "clear_pending_replies c =
     (filter (\<lambda>a. futures c ! a = Pending) (map snd (pending_replies c)),
      c\<lparr>pending_replies := []\<rparr>)"

text \<open>Setting the outcome of each future of a list.\<close>

definition resolve :: "nat list \<Rightarrow> future \<Rightarrow> JdwpPacketConnection \<Rightarrow> JdwpPacketConnection" where
  "resolve as f c = c\<lparr>futures := fold (\<lambda>a fs. fs[a := f]) as (futures c)\<rparr>"

definition pop_pending :: "int \<Rightarrow> JdwpPacketConnection \<Rightarrow> JdwpPacketConnection" where
  "pop_pending i c = c\<lparr>pending_replies := AList.delete i (pending_replies c)\<rparr>"

text \<open>
  One turn of the loop of \<open>receive_command\<close>: a reply resolves the future that waits for it, or is
  logged and dropped; a command leaves the loop.
\<close>

datatype (plugins only: code) received = Resolved nat | Warned | Returned JdwpCommandPacket

fun receive_packet ::
    "JdwpPacket \<Rightarrow> JdwpPacketConnection \<Rightarrow> received \<times> JdwpPacketConnection" where
  "receive_packet (ReplyPacket r) c =
     (let c' = pop_pending (JdwpReplyPacket.id' r) c
      in case map_of (pending_replies c) (JdwpReplyPacket.id' r) of
           Some a \<Rightarrow>
             (if futures c ! a = Pending then (Resolved a, resolve [a] (Finished r) c')
              else (Warned, c'))
         | None \<Rightarrow> (Warned, c'))"
| "receive_packet (CommandPacket p) c = (Returned p, c)"

text \<open>
  The two handlers of \<open>receive_command\<close>: an exception of the receiver is passed to every waiting
  future, the cancellation of the task cancels them.
\<close>

definition failure :: "py_exc \<Rightarrow> future" where
  "failure e = (if e = CancelledError then Cancelled else Failed e)"

lemma failure_simps [simp]: "failure e \<noteq> Pending" "failure e \<noteq> Finished r"
  by (simp_all add: failure_def)

definition receive_failed :: "py_exc \<Rightarrow> JdwpPacketConnection \<Rightarrow> JdwpPacketConnection" where
  "receive_failed e c =
     (let (unresolved, c) = clear_pending_replies (c\<lparr>state := mark_error e (state c)\<rparr>)
      in resolve unresolved (failure e) c)"

text \<open>
  \<open>send_command_packet\<close> up to its first \<open>await\<close>: the checks, the registration of a new future and
  the write; when the packet cannot be packed the \<open>finally\<close> clause undoes the registration.
\<close>

definition send_begin ::
    "JdwpCommandPacket \<Rightarrow> JdwpPacketConnection \<Rightarrow> nat result \<times> JdwpPacketConnection" where
  "send_begin p c =
     (case check (state c) of
        Inl e \<Rightarrow> (Inl e, c)
      | Inr _ \<Rightarrow>
          if JdwpCommandPacket.id' p \<in> fst ` set (pending_replies c) then (Inl RuntimeError, c)
          else
            (let a = length (futures c);
                 c' = c\<lparr>futures := futures c @ [Pending],
                        pending_replies := AList.update (JdwpCommandPacket.id' p) a (pending_replies c)\<rparr>
             in case packet_to_bytes (CommandPacket p) of
                  Inl e \<Rightarrow> (Inl e, pop_pending (JdwpCommandPacket.id' p) c')
                | Inr bs \<Rightarrow> (Inr a, c'\<lparr>written := written c' @ bs\<rparr>)))"

text \<open>The \<open>finally\<close> clause, when the call ends by the future's outcome or by an exception.\<close>

definition send_end :: "int \<Rightarrow> JdwpPacketConnection \<Rightarrow> JdwpPacketConnection" where
  "send_end i c = pop_pending i c"

text \<open>\<open>StreamJdwpPacketSender.send\<close>, for a packet nobody waits on.\<close>

definition sender_send ::
    "JdwpPacket \<Rightarrow> JdwpPacketConnection \<Rightarrow> unit result \<times> JdwpPacketConnection" where
  "sender_send p c =
     (case packet_to_bytes p of
        Inl e \<Rightarrow> (Inl e, c)
      | Inr bs \<Rightarrow> (Inr (), c\<lparr>written := written c @ bs\<rparr>))"

definition packet_connection_close :: "JdwpPacketConnection \<Rightarrow> JdwpPacketConnection" where
  "packet_connection_close c =
     (let (unresolved, c) = clear_pending_replies (c\<lparr>state := mark_closed (state c)\<rparr>)
      in resolve unresolved Cancelled c)"

section \<open>Callers and the receiving task\<close>

text \<open>
  The object with the calls of \<open>send_command_packet\<close> that have not ended (packet id and future)
  and whether a task is inside \<open>receive_command\<close>.
\<close>

record packet_system =
  conn :: JdwpPacketConnection
  calls :: "(int \<times> nat) list"
  reading :: bool

definition packet_system_init :: packet_system where
  "packet_system_init = \<lparr>conn = packet_connection_init, calls = [], reading = False\<rparr>"

text \<open>The atomic sections the event loop can run next.\<close>

datatype packet_action =
    Send JdwpCommandPacket
  | Send_Raises JdwpCommandPacket py_exc
  | Send_Direct JdwpPacket
  | Call_Returns int nat "JdwpReplyPacket result"
  | Call_Interrupted int nat py_exc
  | Call_Cancelled int nat
  | Receive_Enter
  | Receive_Reply JdwpReplyPacket
  | Receive_Returns JdwpCommandPacket
  | Receive_Raises py_exc
  | Close

inductive packet_step :: "packet_system \<Rightarrow> packet_action \<Rightarrow> packet_system \<Rightarrow> bool" where
  send: "send_begin p (conn s) = (Inr a, c) \<Longrightarrow>
    packet_step s (Send p) (s\<lparr>conn := c, calls := (JdwpCommandPacket.id' p, a) # calls s\<rparr>)"
| send_raises: "send_begin p (conn s) = (Inl e, c) \<Longrightarrow>
    packet_step s (Send_Raises p e) (s\<lparr>conn := c\<rparr>)"
| send_direct: "sender_send p (conn s) = (r, c) \<Longrightarrow>
    packet_step s (Send_Direct p) (s\<lparr>conn := c\<rparr>)"
| call_returns: "(i, a) \<in> set (calls s) \<Longrightarrow> await_result (futures (conn s) ! a) = Some r \<Longrightarrow>
    packet_step s (Call_Returns i a r)
      (s\<lparr>conn := send_end i (conn s), calls := remove1 (i, a) (calls s)\<rparr>)"
| call_interrupted: "(i, a) \<in> set (calls s) \<Longrightarrow>
    packet_step s (Call_Interrupted i a e)
      (s\<lparr>conn := send_end i (conn s), calls := remove1 (i, a) (calls s)\<rparr>)"
| call_cancelled: "(i, a) \<in> set (calls s) \<Longrightarrow> futures (conn s) ! a = Pending \<Longrightarrow>
    packet_step s (Call_Cancelled i a) (s\<lparr>conn := resolve [a] Cancelled (conn s)\<rparr>)"
| receive_enter: "check (state (conn s)) = Inr () \<Longrightarrow>
    packet_step s Receive_Enter (s\<lparr>reading := True\<rparr>)"
| receive_reply: "reading s \<Longrightarrow> receive_packet (ReplyPacket r) (conn s) = (ev, c) \<Longrightarrow>
    packet_step s (Receive_Reply r) (s\<lparr>conn := c\<rparr>)"
| receive_returns: "reading s \<Longrightarrow> receive_packet (CommandPacket p) (conn s) = (Returned p, c) \<Longrightarrow>
    packet_step s (Receive_Returns p) (s\<lparr>conn := c, reading := False\<rparr>)"
| receive_raises: "reading s \<Longrightarrow>
    packet_step s (Receive_Raises e) (s\<lparr>conn := receive_failed e (conn s), reading := False\<rparr>)"
| close: "packet_step s Close (s\<lparr>conn := packet_connection_close (conn s)\<rparr>)"

inductive_cases packet_stepE [elim]: "packet_step s act s'"

section \<open>The invariant\<close>

text \<open>
  When no two calls in flight have the same packet id: every registered future belongs to a call
  that has not ended; every call whose future is unresolved is registered, so that a reply, an
  error or closing the connection will resolve it; a reply is only given to the call whose id it
  carries; and a connection that is closed or has failed has nothing registered.
\<close>

definition packet_inv :: "packet_system \<Rightarrow> bool" where
  "packet_inv s \<longleftrightarrow>
     distinct (map fst (calls s)) \<and> distinct (map snd (calls s)) \<and>
     distinct (map fst (pending_replies (conn s))) \<and>
     set (pending_replies (conn s)) \<subseteq> set (calls s) \<and>
     (\<forall>(i, a) \<in> set (calls s). a < length (futures (conn s)) \<and>
        (futures (conn s) ! a = Pending \<longrightarrow> (i, a) \<in> set (pending_replies (conn s))) \<and>
        (\<forall>r. futures (conn s) ! a = Finished r \<longrightarrow> JdwpReplyPacket.id' r = i)) \<and>
     (open_state (state (conn s)) \<or> pending_replies (conn s) = [])"

fun fresh_send :: "packet_action \<Rightarrow> packet_system \<Rightarrow> bool" where
  "fresh_send (Send p) s \<longleftrightarrow> JdwpCommandPacket.id' p \<notin> fst ` set (calls s)"
| "fresh_send _ s \<longleftrightarrow> True"

lemma packet_invI:
  assumes "distinct (map fst (calls s))" and "distinct (map snd (calls s))"
    and "distinct (map fst (pending_replies (conn s)))"
    and "set (pending_replies (conn s)) \<subseteq> set (calls s)"
    and "\<And>i a. (i, a) \<in> set (calls s) \<Longrightarrow> a < length (futures (conn s))"
    and "\<And>i a. (i, a) \<in> set (calls s) \<Longrightarrow> futures (conn s) ! a = Pending \<Longrightarrow>
      (i, a) \<in> set (pending_replies (conn s))"
    and "\<And>i a r. (i, a) \<in> set (calls s) \<Longrightarrow> futures (conn s) ! a = Finished r \<Longrightarrow>
      JdwpReplyPacket.id' r = i"
    and "open_state (state (conn s)) \<or> pending_replies (conn s) = []"
  shows "packet_inv s"
  using assms unfolding packet_inv_def by blast

lemma packet_invD:
  assumes "packet_inv s"
  shows "distinct (map fst (calls s))" "distinct (map snd (calls s))"
    "distinct (map fst (pending_replies (conn s)))"
    "set (pending_replies (conn s)) \<subseteq> set (calls s)"
    "(i, a) \<in> set (calls s) \<Longrightarrow> a < length (futures (conn s))"
    "(i, a) \<in> set (calls s) \<Longrightarrow> futures (conn s) ! a = Pending \<Longrightarrow>
      (i, a) \<in> set (pending_replies (conn s))"
    "(i, a) \<in> set (calls s) \<Longrightarrow> futures (conn s) ! a = Finished r \<Longrightarrow> JdwpReplyPacket.id' r = i"
    "open_state (state (conn s)) \<or> pending_replies (conn s) = []"
  using assms unfolding packet_inv_def by blast+

text \<open>Calls are identified by their id and by their future.\<close>

lemma call_unique:
  assumes "packet_inv s" and "(i, a) \<in> set (calls s)" and "(j, b) \<in> set (calls s)"
  shows "i = j \<longleftrightarrow> a = b"
  using assms packet_invD(1,2) [OF assms(1)]
  by (auto simp: distinct_map dest!: inj_onD [where x = "(i, a)" and y = "(j, b)"])

lemma set_delete: "set (AList.delete k al) = {p \<in> set al. fst p \<noteq> k}"
  by (auto simp: AList.delete_eq)

lemma distinct_fst_delete: "distinct (map fst al) \<Longrightarrow> distinct (map fst (AList.delete k al))"
  by (simp add: AList.distinct_delete)

lemma update_new: "k \<notin> fst ` set al \<Longrightarrow> AList.update k v al = al @ [(k, v)]"
  by (induction al) auto

lemma nth_fold_update:
  "a < length fs \<Longrightarrow> fold (\<lambda>a fs. fs[a := f]) as fs ! a = (if a \<in> set as then f else fs ! a)"
  by (induction as arbitrary: fs) auto

lemma length_fold_update [simp]: "length (fold (\<lambda>a fs. fs[a := f]) as fs) = length fs"
  by (induction as arbitrary: fs) auto

lemma resolve_simps [simp]:
  "state (resolve as f c) = state c" "pending_replies (resolve as f c) = pending_replies c"
  "length (futures (resolve as f c)) = length (futures c)" "written (resolve as f c) = written c"
  by (simp_all add: resolve_def)

lemma resolve_nth:
  "a < length (futures c) \<Longrightarrow> futures (resolve as f c) ! a = (if a \<in> set as then f else futures c ! a)"
  by (simp add: resolve_def nth_fold_update)

lemma pop_pending_simps [simp]:
  "state (pop_pending i c) = state c" "futures (pop_pending i c) = futures c"
  "written (pop_pending i c) = written c"
  "pending_replies (pop_pending i c) = AList.delete i (pending_replies c)"
  by (simp_all add: pop_pending_def)

text \<open>Failing and closing resolve every unresolved future of a call, and empty the dictionary.\<close>

lemma in_snd_image: "a \<in> snd ` A \<longleftrightarrow> (\<exists>k. (k, a) \<in> A)"
  by force

lemma cleared:
  assumes "clear_pending_replies c = (unresolved, c')"
  shows "c' = c\<lparr>pending_replies := []\<rparr>"
    and "a \<in> set unresolved \<longleftrightarrow> futures c ! a = Pending \<and> a \<in> snd ` set (pending_replies c)"
  using assms by (auto simp: clear_pending_replies_def in_snd_image)

lemma resolve_cleared_inv:
  assumes inv: "packet_inv s" and cl: "clear_pending_replies ((conn s)\<lparr>state := st\<rparr>) = (as, c)"
    and f: "f \<noteq> Pending" "\<And>r. f \<noteq> Finished r"
  shows "packet_inv (s\<lparr>conn := resolve as f c, reading := b\<rparr>)"
proof (rule packet_invI)
  have c: "c = (conn s)\<lparr>state := st, pending_replies := []\<rparr>" using cleared(1) [OF cl] by simp
  fix i a assume "(i, a) \<in> set (calls (s\<lparr>conn := resolve as f c, reading := b\<rparr>))"
  then have ia: "(i, a) \<in> set (calls s)" by simp
  then have len: "a < length (futures c)" using packet_invD(5) [OF inv] c by simp
  then show "a < length (futures (conn (s\<lparr>conn := resolve as f c, reading := b\<rparr>)))" by simp
  have "a \<in> set as" if "futures (conn s) ! a = Pending"
    using packet_invD(6) [OF inv ia that] that by (force simp: cleared(2) [OF cl])
  then show "futures (conn (s\<lparr>conn := resolve as f c, reading := b\<rparr>)) ! a = Pending \<Longrightarrow>
      (i, a) \<in> set (pending_replies (conn (s\<lparr>conn := resolve as f c, reading := b\<rparr>)))"
    using f len c by (auto simp: resolve_nth split: if_splits)
  show "futures (conn (s\<lparr>conn := resolve as f c, reading := b\<rparr>)) ! a = Finished r \<Longrightarrow>
      JdwpReplyPacket.id' r = i" for r
    using f len c packet_invD(7) [OF inv ia] by (auto simp: resolve_nth split: if_splits)
qed (use packet_invD [OF inv] cleared(1) [OF cl] in auto)

text \<open>A call that ends, whatever the reason, takes its registration with it.\<close>

lemma send_end_inv:
  assumes inv: "packet_inv s" and ia: "(i, a) \<in> set (calls s)"
  shows "packet_inv (s\<lparr>conn := send_end i (conn s), calls := remove1 (i, a) (calls s)\<rparr>)"
proof -
  have rem: "set (remove1 (i, a) (calls s)) = set (calls s) - {(i, a)}"
    using packet_invD(1) [OF inv] by (intro set_remove1_eq) (simp add: distinct_map)
  have other: "b = a" if "(i, b) \<in> set (calls s)" for b
    using call_unique [OF inv ia that] by simp
  have "distinct (map fst (remove1 (i, a) (calls s)))" "distinct (map snd (remove1 (i, a) (calls s)))"
    using packet_invD(1,2) [OF inv] rem
    by (auto simp: distinct_map intro: inj_on_subset)
  moreover have "set (pending_replies (send_end i (conn s))) \<subseteq> set (remove1 (i, a) (calls s))"
    using packet_invD(4) [OF inv] rem by (auto simp: send_end_def set_delete)
  ultimately show ?thesis
    using packet_invD [OF inv] other
    by (intro packet_invI) (auto simp: rem send_end_def set_delete distinct_fst_delete)
qed

lemma send_begin_inv:
  assumes inv: "packet_inv s" and sb: "send_begin p (conn s) = (Inr a, c)"
    and fresh: "JdwpCommandPacket.id' p \<notin> fst ` set (calls s)"
  shows "packet_inv (s\<lparr>conn := c, calls := (JdwpCommandPacket.id' p, a) # calls s\<rparr>)"
proof -
  let ?i = "JdwpCommandPacket.id' p"
  have new: "?i \<notin> fst ` set (pending_replies (conn s))"
    using fresh packet_invD(4) [OF inv] by auto
  obtain bs where st: "open_state (state (conn s))" and a: "a = length (futures (conn s))"
    and c: "c = (conn s)\<lparr>futures := futures (conn s) @ [Pending],
      pending_replies := pending_replies (conn s) @ [(?i, a)], written := written (conn s) @ bs\<rparr>"
    using sb new
    by (auto simp: send_begin_def Let_def update_new check_eq_Inl split: sum.splits if_splits)
  have old: "b < length (futures (conn s))" if "(j, b) \<in> set (calls s)" for j b
    using packet_invD(5) [OF inv that] .
  have "a \<notin> snd ` set (calls s)" using old a by force
  then show ?thesis
    using packet_invD(1-4) [OF inv] packet_invD(6-7) [OF inv] old fresh new st a
    by (intro packet_invI) (auto simp: c nth_append intro: less_SucI)
qed

lemma send_begin_Inl:
  assumes "send_begin p c = (Inl e, c')"
  shows "state c' = state c \<and> set (pending_replies c') = set (pending_replies c) \<and>
    distinct (map fst (pending_replies c')) = distinct (map fst (pending_replies c)) \<and>
    (\<exists>fs. futures c' = futures c @ fs)"
proof (cases "open_state (state c) \<and> JdwpCommandPacket.id' p \<notin> fst ` set (pending_replies c)")
  case True
  then have "AList.delete (JdwpCommandPacket.id' p) (pending_replies c) = pending_replies c"
    by (force simp: AList.delete_eq intro!: filter_True)
  with True assms show ?thesis
    by (auto simp: send_begin_def Let_def update_new check_eq_Inl AList.delete_eq
        split: sum.splits if_splits)
next
  case False
  with assms show ?thesis
    by (auto simp: send_begin_def Let_def split: sum.splits if_splits)
qed

text \<open>A reply resolves at most the future registered under its id.\<close>

lemma receive_reply_inv:
  assumes inv: "packet_inv s" and rp: "receive_packet (ReplyPacket r) (conn s) = (ev, c)"
  shows "packet_inv (s\<lparr>conn := c\<rparr>)"
proof -
  let ?i = "JdwpReplyPacket.id' r"
  let ?c = "pop_pending ?i (conn s)"
  have reg: "(?i, a) \<in> set (pending_replies (conn s))"
    if "(?i, a) \<in> set (calls s)" "futures (conn s) ! a = Pending" for a
    using packet_invD(6) [OF inv that] .
  have uniq: "map_of (pending_replies (conn s)) ?i = Some a"
    if "(?i, a) \<in> set (pending_replies (conn s))" for a
    using that packet_invD(3) [OF inv] by simp
  consider (hit) a where "map_of (pending_replies (conn s)) ?i = Some a"
      "futures (conn s) ! a = Pending" "c = resolve [a] (Finished r) ?c"
    | (miss) "\<And>a. map_of (pending_replies (conn s)) ?i = Some a \<Longrightarrow> futures (conn s) ! a \<noteq> Pending"
      "c = ?c"
    using rp by (auto simp: Let_def split: option.splits if_splits)
  then show ?thesis
  proof cases
    case hit
    have call: "(?i, a) \<in> set (calls s)"
      using packet_invD(4) [OF inv] map_of_SomeD [OF hit(1)] by auto
    have same: "?i = j \<longleftrightarrow> b = a" if "(j, b) \<in> set (calls s)" for j b
      using call_unique [OF inv call that] by auto
    show ?thesis
    proof (rule packet_invI)
      fix j b assume "(j, b) \<in> set (calls (s\<lparr>conn := c\<rparr>))"
      then have jb: "(j, b) \<in> set (calls s)" by simp
      have nth: "futures c ! b = (if b = a then Finished r else futures (conn s) ! b)"
        using packet_invD(5) [OF inv jb] hit(3) by (simp add: resolve_nth)
      show "b < length (futures (conn (s\<lparr>conn := c\<rparr>)))"
        using packet_invD(5) [OF inv jb] hit(3) by simp
      show "futures (conn (s\<lparr>conn := c\<rparr>)) ! b = Pending \<Longrightarrow>
          (j, b) \<in> set (pending_replies (conn (s\<lparr>conn := c\<rparr>)))"
        using nth same [OF jb] packet_invD(6) [OF inv jb] hit(3)
        by (auto simp: set_delete split: if_splits)
      show "futures (conn (s\<lparr>conn := c\<rparr>)) ! b = Finished q \<Longrightarrow> JdwpReplyPacket.id' q = j" for q
        using nth same [OF jb] packet_invD(7) [OF inv jb] by (auto split: if_splits)
    qed (use packet_invD(1-4,8) [OF inv] hit(3) in \<open>auto simp: set_delete distinct_fst_delete\<close>)
  next
    case miss
    then have "j \<noteq> ?i" if "(j, b) \<in> set (calls s)" "futures (conn s) ! b = Pending" for j b
      using reg uniq that by blast
    then show ?thesis
      using packet_invD [OF inv] miss(2)
      by (intro packet_invI) (auto simp: set_delete distinct_fst_delete)
  qed
qed

lemma call_cancelled_inv:
  assumes inv: "packet_inv s"
  shows "packet_inv (s\<lparr>conn := resolve [a] Cancelled (conn s)\<rparr>)"
proof -
  have "futures (resolve [a] Cancelled (conn s)) ! b =
      (if b = a then Cancelled else futures (conn s) ! b)" if "(j, b) \<in> set (calls s)" for j b
    using packet_invD(5) [OF inv that] by (simp add: resolve_nth)
  then show ?thesis
    using packet_invD [OF inv] by (intro packet_invI) (auto split: if_splits)
qed

lemma same_dict_inv:
  assumes inv: "packet_inv s" and "state c = state (conn s)"
    and "set (pending_replies c) = set (pending_replies (conn s))"
    and "distinct (map fst (pending_replies c))" and "futures c = futures (conn s) @ fs"
  shows "packet_inv (s\<lparr>conn := c, reading := b\<rparr>)"
proof -
  have "futures c ! a = futures (conn s) ! a \<and> a < length (futures c)" if "(i, a) \<in> set (calls s)" for i a
    using packet_invD(5) [OF inv that] assms(5) by (simp add: nth_append)
  moreover have "pending_replies c = [] \<longleftrightarrow> pending_replies (conn s) = []"
    using assms(3) by (metis set_empty)
  ultimately show ?thesis
    using packet_invD [OF inv] assms(2-4) by (intro packet_invI) auto
qed

lemma packet_inv_init: "packet_inv packet_system_init"
  by (simp add: packet_inv_def packet_system_init_def packet_connection_init_def)

lemma receive_failed_eq:
  "\<exists>as d. clear_pending_replies (c\<lparr>state := mark_error e (state c)\<rparr>) = (as, d) \<and>
    receive_failed e c = resolve as (failure e) d"
  by (simp add: receive_failed_def split: prod.split)

lemma packet_connection_close_eq:
  "\<exists>as d. clear_pending_replies (c\<lparr>state := mark_closed (state c)\<rparr>) = (as, d) \<and>
    packet_connection_close c = resolve as Cancelled d"
  by (simp add: packet_connection_close_def split: prod.split)

lemma packet_step_inv:
  assumes "packet_step s act s'" and "packet_inv s" and "fresh_send act s"
  shows "packet_inv s'"
  using assms
proof (induction rule: packet_step.induct)
  case (send p s a c)
  then show ?case by (simp add: send_begin_inv)
next
  case (send_raises p s e c)
  with send_begin_Inl [OF send_raises.hyps] packet_invD(3) [OF send_raises.prems(1)]
  show ?case using same_dict_inv [of s c _ "reading s"] by auto
next
  case (send_direct p s r c)
  then have "state c = state (conn s)" "pending_replies c = pending_replies (conn s)"
      "futures c = futures (conn s)"
    by (auto simp: sender_send_def split: sum.splits)
  with send_direct packet_invD(3) [OF send_direct.prems(1)] show ?case
    using same_dict_inv [of s c "[]" "reading s"] by simp
next
  case (call_returns i a s r)
  then show ?case by (simp add: send_end_inv)
next
  case (call_interrupted i a s e)
  then show ?case by (simp add: send_end_inv)
next
  case (call_cancelled i a s)
  then show ?case by (simp add: call_cancelled_inv)
next
  case (receive_enter s)
  with packet_invD(3) [OF receive_enter.prems(1)] show ?case
    using same_dict_inv [of s "conn s" "[]" True] by simp
next
  case (receive_reply s r ev c)
  then show ?case by (simp add: receive_reply_inv)
next
  case (receive_returns s p c)
  with packet_invD(3) [OF receive_returns.prems(1)] show ?case
    using same_dict_inv [of s "conn s" "[]" False] by simp
next
  case (receive_raises s e)
  obtain as d where "clear_pending_replies ((conn s)\<lparr>state := mark_error e (state (conn s))\<rparr>) = (as, d)"
    and "receive_failed e (conn s) = resolve as (failure e) d"
    using receive_failed_eq by blast
  with resolve_cleared_inv [OF receive_raises.prems(1)] show ?case by simp
next
  case (close s)
  obtain as d where "clear_pending_replies ((conn s)\<lparr>state := mark_closed (state (conn s))\<rparr>) = (as, d)"
    and "packet_connection_close (conn s) = resolve as Cancelled d"
    using packet_connection_close_eq by blast
  with resolve_cleared_inv [OF close.prems(1), where b = "reading s"] show ?case by simp
qed

section \<open>What the invariant gives\<close>

definition fresh_step :: "packet_system \<Rightarrow> packet_action \<Rightarrow> packet_system \<Rightarrow> bool" where
  "fresh_step s act s' \<longleftrightarrow> packet_step s act s' \<and> fresh_send act s"

interpretation packet: step_invariant fresh_step packet_inv
  by unfold_locales (auto simp: fresh_step_def intro: packet_step_inv)

lemma inv_returns_own_reply:
  assumes "packet_inv s" and "packet_step s (Call_Returns i a (Inr r)) s'"
  shows "JdwpReplyPacket.id' r = i"
  using assms(2)
proof cases
  case call_returns
  then have "futures (conn s) ! a = Finished r" by (cases "futures (conn s) ! a") auto
  with call_returns packet_invD(7) [OF assms(1)] show ?thesis by blast
qed

lemma inv_not_stuck:
  assumes "packet_inv s" and "\<not> open_state (state (conn s))" and "(i, a) \<in> set (calls s)"
  shows "\<exists>r. await_result (futures (conn s) ! a) = Some r"
  using assms packet_invD(6,8) [OF assms(1)] by (cases "futures (conn s) ! a") fastforce+

lemma inv_reply_resolves:
  assumes inv: "packet_inv s" and ia: "(i, a) \<in> set (calls s)"
    and p: "futures (conn s) ! a = Pending" and i: "JdwpReplyPacket.id' r = i"
  shows "fst (receive_packet (ReplyPacket r) (conn s)) = Resolved a"
    and "futures (snd (receive_packet (ReplyPacket r) (conn s))) ! a = Finished r"
proof -
  have "map_of (pending_replies (conn s)) i = Some a"
    using packet_invD(6) [OF inv ia p] packet_invD(3) [OF inv] by simp
  with p i packet_invD(5) [OF inv ia] show "fst (receive_packet (ReplyPacket r) (conn s)) = Resolved a"
    and "futures (snd (receive_packet (ReplyPacket r) (conn s))) ! a = Finished r"
    by (simp_all add: Let_def resolve_nth)
qed

lemma inv_reply_others:
  assumes inv: "packet_inv s" and ia: "(i, a) \<in> set (calls s)"
    and p: "futures (conn s) ! a = Pending" and i: "JdwpReplyPacket.id' r = i"
    and jb: "(j, b) \<in> set (calls s)"
  shows "futures (snd (receive_packet (ReplyPacket r) (conn s))) ! b =
    (if b = a then Finished r else futures (conn s) ! b)"
proof -
  have "map_of (pending_replies (conn s)) i = Some a"
    using packet_invD(6) [OF inv ia p] packet_invD(3) [OF inv] by simp
  with p i packet_invD(5) [OF inv jb] show ?thesis by (simp add: Let_def resolve_nth)
qed

text \<open>A future is resolved once; its outcome never changes. No assumption on the ids.\<close>

lemma resolved_stays:
  assumes "packet_step s act s'" and "futures (conn s) ! a \<noteq> Pending"
    and "a < length (futures (conn s))"
  shows "futures (conn s') ! a = futures (conn s) ! a \<and> a < length (futures (conn s'))"
  using assms
proof (induction rule: packet_step.induct)
  case (send p s b c)
  then show ?case
    by (auto simp: send_begin_def Let_def nth_append split: sum.splits if_splits)
next
  case (send_raises p s e c)
  with send_begin_Inl [OF send_raises.hyps] show ?case by (auto simp: nth_append)
next
  case (send_direct p s r c)
  then show ?case by (auto simp: sender_send_def split: sum.splits)
next
  case (receive_reply s r ev c)
  then show ?case
    by (auto simp: Let_def resolve_nth split: option.splits if_splits)
next
  case (receive_raises s e)
  obtain as d where d: "clear_pending_replies ((conn s)\<lparr>state := mark_error e (state (conn s))\<rparr>) = (as, d)"
    and "receive_failed e (conn s) = resolve as (failure e) d"
    using receive_failed_eq by blast
  with receive_raises cleared [OF d] show ?case by (auto simp: resolve_nth)
next
  case (close s)
  obtain as d where d: "clear_pending_replies ((conn s)\<lparr>state := mark_closed (state (conn s))\<rparr>) = (as, d)"
    and "packet_connection_close (conn s) = resolve as Cancelled d"
    using packet_connection_close_eq by blast
  with close cleared [OF d] show ?case by (auto simp: resolve_nth)
qed (auto simp: send_end_def resolve_nth)

text \<open>
  The state is terminal: once closed or failed, a connection is never open again, and every send
  raises without registering or writing anything.
\<close>

lemma send_begin_closed: "\<not> open_state (state c) \<Longrightarrow> send_begin p c = (Inl RuntimeError, c)"
  using check_eq_Inl [of "state c" RuntimeError] by (simp add: send_begin_def)

lemma step_state:
  assumes "packet_step s act s'" and "\<not> open_state (state (conn s))"
  shows "\<not> open_state (state (conn s'))"
  using assms
proof (induction rule: packet_step.induct)
  case (send_raises p s e c)
  with send_begin_Inl [OF send_raises.hyps] show ?case by simp
next
  case (receive_reply s r ev c)
  then show ?case by (auto simp: Let_def split: option.splits if_splits)
next
  case (receive_raises s e)
  show ?case using receive_failed_eq [of e "conn s"] cleared(1) by fastforce
next
  case (close s)
  show ?case using packet_connection_close_eq [of "conn s"] cleared(1) by fastforce
qed (auto simp: send_begin_closed sender_send_def send_end_def split: sum.splits)

interpretation terminal: step_invariant packet_step "\<lambda>s. \<not> open_state (state (conn s))"
  by unfold_locales (rule step_state)

section \<open>Calls that reuse an id\<close>

text \<open>
  A registration appears when its call begins, for a new future, and only then. So a future that
  is not registered any more never is again: no reply, no failure and no closing resolves it.
\<close>

lemma registered_step:
  assumes "packet_step s act s'"
  shows "length (futures (conn s)) \<le> length (futures (conn s')) \<and>
    (\<forall>(j, b) \<in> set (pending_replies (conn s')). (j, b) \<in> set (pending_replies (conn s)) \<or>
      b = length (futures (conn s)) \<and> b < length (futures (conn s')))"
  using assms
proof (induction rule: packet_step.induct)
  case (send p s a c)
  then show ?case
    by (auto simp: send_begin_def Let_def update_new check_eq_Inl split: sum.splits if_splits)
next
  case (send_raises p s e c)
  from send_begin_Inl [OF send_raises.hyps] show ?case by auto
next
  case (receive_reply s r ev c)
  then show ?case by (auto simp: Let_def set_delete split: option.splits if_splits)
next
  case (receive_raises s e)
  show ?case using receive_failed_eq [of e "conn s"] cleared(1) by fastforce
next
  case (close s)
  show ?case using packet_connection_close_eq [of "conn s"] cleared(1) by fastforce
qed (auto simp: sender_send_def send_end_def set_delete split: sum.splits)

definition addresses_inv :: "packet_system \<Rightarrow> bool" where
  "addresses_inv s \<longleftrightarrow> (\<forall>(j, b) \<in> set (pending_replies (conn s)). b < length (futures (conn s)))"

interpretation addresses: step_invariant packet_step addresses_inv
proof
  fix s act s' assume step: "packet_step s act s'" and "addresses_inv s"
  then show "addresses_inv s'"
    using registered_step [OF step] unfolding addresses_inv_def by fastforce
qed

text \<open>A future that is registered under one id only, or not at all.\<close>

definition registered_as :: "int \<Rightarrow> nat \<Rightarrow> packet_system \<Rightarrow> bool" where
  "registered_as i b s \<longleftrightarrow> b < length (futures (conn s)) \<and>
     (\<forall>j. (j, b) \<in> set (pending_replies (conn s)) \<longrightarrow> j = i)"

interpretation registered: step_invariant packet_step "registered_as i b" for i b
proof
  fix s act s' assume step: "packet_step s act s'" and "registered_as i b s"
  then show "registered_as i b s'"
    using registered_step [OF step] unfolding registered_as_def by fastforce
qed

definition forgotten :: "nat \<Rightarrow> packet_system \<Rightarrow> bool" where
  "forgotten b s \<longleftrightarrow> b < length (futures (conn s)) \<and> b \<notin> snd ` set (pending_replies (conn s)) \<and>
     futures (conn s) ! b = Pending"

lemma send_registers:
  assumes "packet_step s (Send p) s'" and "addresses_inv s"
  shows "registered_as (JdwpCommandPacket.id' p) (length (futures (conn s))) s'"
  using assms(1)
  by cases (use assms(2) in \<open>auto simp: registered_as_def addresses_inv_def send_begin_def Let_def
      update_new check_eq_Inl split: sum.splits if_splits\<close>)

lemma forgotten_step:
  assumes "packet_step s act s'" and "forgotten b s" and "\<forall>i. act \<noteq> Call_Cancelled i b"
  shows "forgotten b s'"
proof -
  have "b \<notin> snd ` set (pending_replies (conn s'))"
    using registered_step [OF assms(1)] assms(2) unfolding forgotten_def by fastforce
  moreover have "futures (conn s') ! b = Pending"
    using assms
  proof (induction rule: packet_step.induct)
    case (send p s a c)
    then show ?case
      by (auto simp: forgotten_def send_begin_def Let_def nth_append split: sum.splits if_splits)
  next
    case (send_raises p s e c)
    with send_begin_Inl [OF send_raises.hyps] show ?case by (auto simp: forgotten_def nth_append)
  next
    case (receive_reply s r ev c)
    have "a \<noteq> b" if "map_of (pending_replies (conn s)) (JdwpReplyPacket.id' r) = Some a" for a
      using map_of_SomeD [OF that] receive_reply.prems(1) by (force simp: forgotten_def)
    with receive_reply show ?case
      by (auto simp: forgotten_def Let_def resolve_nth split: option.splits if_splits)
  next
    case (receive_raises s e)
    obtain as d where d: "clear_pending_replies ((conn s)\<lparr>state := mark_error e (state (conn s))\<rparr>) = (as, d)"
      and "receive_failed e (conn s) = resolve as (failure e) d"
      using receive_failed_eq by blast
    with receive_raises cleared [OF d] show ?case by (auto simp: forgotten_def resolve_nth)
  next
    case (close s)
    obtain as d where d: "clear_pending_replies ((conn s)\<lparr>state := mark_closed (state (conn s))\<rparr>) = (as, d)"
      and "packet_connection_close (conn s) = resolve as Cancelled d"
      using packet_connection_close_eq by blast
    with close cleared [OF d] show ?case by (auto simp: forgotten_def resolve_nth)
  qed (auto simp: forgotten_def sender_send_def send_end_def resolve_nth split: sum.splits)
  ultimately show ?thesis
    using registered_step [OF assms(1)] assms(2) by (auto simp: forgotten_def)
qed

lemma forgotten_run:
  assumes "run packet_step s acts s'" and "forgotten b s" and "\<forall>i. Call_Cancelled i b \<notin> set acts"
  shows "forgotten b s'"
  using assms by (induction rule: run.induct) (auto intro: forgotten_step)

text \<open>The end of a call forgets every future registered under its id, the call's own or not.\<close>

lemma end_of_call_forgets:
  assumes "packet_step s (Call_Returns i a res) s'" and "registered_as i b s" and "futures (conn s) ! b = Pending"
  shows "forgotten b s'"
  using assms(1)
  by cases (use assms(2,3) in \<open>auto simp: registered_as_def forgotten_def send_end_def set_delete\<close>)

lemma forgotten_unanswered:
  assumes "forgotten b s"
  shows "fst (receive_packet (ReplyPacket r) (conn s)) \<noteq> Resolved b"
    and "\<not> packet_step s (Call_Returns i b res) s'"
proof -
  have "map_of (pending_replies (conn s)) k \<noteq> Some b" for k
    using assms by (force simp: forgotten_def dest: map_of_SomeD)
  then show "fst (receive_packet (ReplyPacket r) (conn s)) \<noteq> Resolved b"
    by (auto simp: Let_def split: option.split)
  show "\<not> packet_step s (Call_Returns i b res) s'"
    using assms by (auto simp: forgotten_def)
qed

end
