(* ===== verification/Connection.thy ===== *)
theory Connection
  imports Registry Packet_Connection
begin

text \<open>
  \<^verbatim>\<open>connection.py\<close>, upper half, with \<^verbatim>\<open>exceptions.py\<close> and \<open>IdSizesSpec.from_response\<close>:
  \<open>SimpleJdwpConnection\<close>, which turns commands into packets and replies into responses, and
  \<open>JdwpConnectionWithAsyncLoop\<close>, whose background task reads and queues the commands of the VM.
  The step relation interleaves the application's calls with the background task; each of its
  steps is a step of the packet connection below it, with a packet id never used before.
\<close>

section \<open>Commands to packets, replies to responses\<close>

definition from_response :: "IDSizesResponse \<Rightarrow> IdSizesSpec result" where
  "from_response response = create
     (IDSizesResponse.field_id_size response) (IDSizesResponse.method_id_size response)
     (IDSizesResponse.object_id_size response) (IDSizesResponse.reference_type_id_size response)
     (IDSizesResponse.frame_id_size response)"

text \<open>\<open>JdwpException\<close>, with its three attributes, beside the built-in exceptions.\<close>

datatype (plugins only: code) command_error =
    JdwpException "JdwpErrorCode option" int JdwpCommand
  | Builtin py_exc

text \<open>The packet of a command, with the id already allocated.\<close>

definition command_packet ::
    "int \<Rightarrow> JdwpCommand \<Rightarrow> IdSizesSpec \<Rightarrow> JdwpCommandPacket result" where
  "command_packet i cmd sp =
     res_bind (to_bytes command_serialize cmd sp) (\<lambda>dat.
     res_bind (new_command_packet i 0
         (COMMAND_SET (command_vars (command_class_of cmd)))
         (COMMAND (command_vars (command_class_of cmd))) dat) (\<lambda>packet.
       (case packet of
          CommandPacket p \<Rightarrow> Inr p
        | ReplyPacket _ \<Rightarrow> Inl TypeError)))"

text \<open>
  The rest of \<open>send_command\<close>, once the reply is there: the outcome, whether the unexpected error
  code was logged, and the spec afterwards.
\<close>

definition unexpected_error :: "JdwpCommand \<Rightarrow> JdwpReplyPacket \<Rightarrow> bool" where
  "unexpected_error cmd reply =
     (case from_int (error_field_value (error_code reply)) of
        None \<Rightarrow> True
      | Some err \<Rightarrow> err \<notin> ALLOWED_ERRORS (command_vars (command_class_of cmd)))"

definition update_spec :: "JdwpResponse \<Rightarrow> IdSizesSpec \<Rightarrow> IdSizesSpec result" where
  "update_spec response sp =
     (case response of
        vm_response_obj (IDSizesResponse_obj resp) \<Rightarrow> from_response resp
      | _ \<Rightarrow> Inr sp)"

definition handle_reply ::
    "JdwpCommand \<Rightarrow> JdwpResponseClass \<Rightarrow> JdwpReplyPacket \<Rightarrow> IdSizesSpec \<Rightarrow>
     (command_error + JdwpResponse) \<times> bool \<times> IdSizesSpec" where
  "handle_reply cmd response_class reply sp =
     (if error_field_value (error_code reply) \<noteq> error_value ERR_NONE then
        (Inl (JdwpException (from_int (error_field_value (error_code reply)))
                (error_field_value (error_code reply)) cmd),
         unexpected_error cmd reply, sp)
      else
        case from_bytes (response_deserialize response_class) (JdwpReplyPacket.data reply) sp of
          Inl e \<Rightarrow> (Inl (Builtin e), False, sp)
        | Inr response \<Rightarrow>
            (case update_spec response sp of
               Inl e \<Rightarrow> (Inl (Builtin e), False, sp)
             | Inr sp' \<Rightarrow> (Inr response, False, sp')))"

text \<open>\<open>SimpleJdwpConnection.receive_command\<close>, once a command packet is there.\<close>

definition parse_command :: "JdwpCommandPacket \<Rightarrow> IdSizesSpec \<Rightarrow> JdwpCommand result" where
  "parse_command packet sp =
     (case get_command_class (command_set packet) (command packet) of
        None \<Rightarrow> Inl RuntimeError
      | Some cmd_cls \<Rightarrow> from_bytes (command_deserialize cmd_cls) (JdwpCommandPacket.data packet) sp)"

section \<open>The state of a connection\<close>

text \<open>
  The background task: not created, created but not yet run, inside its loop, ended.
\<close>

datatype (plugins only: code) task = Not_Started | Created | Running | Ended

text \<open>
  The three objects in one record: the packet connection with the calls that wait in it, the
  fields of \<open>SimpleJdwpConnection\<close>, the fields of \<open>JdwpConnectionWithAsyncLoop\<close>. \<open>requests\<close> are
  the calls of \<open>send_command\<close> that wait for a reply, by the address of the future they wait on.
\<close>

record connection =
  packets :: packet_system
  spec :: IdSizesSpec
  next_packet_id :: int
  requests :: "(nat \<times> JdwpCommand) list"
  loop_state :: ConnectionState
  read_task :: task
  incoming_commands :: "JdwpCommand list"
  queue_shutdown :: bool

definition connection_init :: connection where
  "connection_init =
     \<lparr>packets = packet_system_init, spec = default_spec, next_packet_id = 1, requests = [],
      loop_state = ConnectionState_init, read_task = Not_Started, incoming_commands = [],
      queue_shutdown = False\<rparr>"

definition with_conn ::
    "(JdwpPacketConnection \<Rightarrow> JdwpPacketConnection) \<Rightarrow> connection \<Rightarrow> connection" where
  "with_conn f s = s\<lparr>packets := (packets s)\<lparr>conn := f (conn (packets s))\<rparr>\<rparr>"

section \<open>SimpleJdwpConnection\<close>

definition allocate_packet_id :: "connection \<Rightarrow> int \<times> connection" where
  "allocate_packet_id s = (next_packet_id s, s\<lparr>next_packet_id := next_packet_id s + 1\<rparr>)"

text \<open>
  \<open>send_command\<close> up to its first \<open>await\<close>: it raised, it sent a packet that has no reply, or it
  waits for the reply.
\<close>

datatype (plugins only: code) send_outcome = Send_Raised py_exc | Send_Done | Send_Waits nat

definition send_command :: "JdwpCommand \<Rightarrow> connection \<Rightarrow> send_outcome \<times> connection" where
  "send_command cmd s =
     (let (i, s) = allocate_packet_id s
      in case command_packet i cmd (connection.spec s) of
           Inl e \<Rightarrow> (Send_Raised e, s)
         | Inr p \<Rightarrow>
             (case get_response_class (command_class_of cmd) of
                None \<Rightarrow>
                  (case sender_send (CommandPacket p) (conn (packets s)) of
                     (Inl e, c) \<Rightarrow> (Send_Raised e, with_conn (\<lambda>_. c) s)
                   | (Inr _, c) \<Rightarrow> (Send_Done, with_conn (\<lambda>_. c) s))
              | Some _ \<Rightarrow>
                  (case send_begin p (conn (packets s)) of
                     (Inl e, c) \<Rightarrow> (Send_Raised e, with_conn (\<lambda>_. c) s)
                   | (Inr a, c) \<Rightarrow>
                       (Send_Waits a,
                        s\<lparr>packets := (packets s)\<lparr>conn := c, calls := (i, a) # calls (packets s)\<rparr>,
                          requests := (a, cmd) # requests s\<rparr>))))"

text \<open>The call goes on when its future is resolved: the \<open>finally\<close> clause, then the reply.\<close>

definition end_call :: "int \<Rightarrow> nat \<Rightarrow> connection \<Rightarrow> connection" where
  "end_call i a s =
     s\<lparr>packets := (packets s)\<lparr>conn := send_end i (conn (packets s)),
                             calls := remove1 (i, a) (calls (packets s))\<rparr>,
       requests := AList.delete a (requests s)\<rparr>"

definition resume_call ::
    "JdwpCommand \<Rightarrow> JdwpReplyPacket result \<Rightarrow> connection \<Rightarrow>
     (command_error + JdwpResponse) \<times> connection" where
  "resume_call cmd res s =
     (case res of
        Inl e \<Rightarrow> (Inl (Builtin e), s)
      | Inr reply \<Rightarrow>
          (case get_response_class (command_class_of cmd) of
             None \<Rightarrow> (Inl (Builtin TypeError), s)
           | Some cls \<Rightarrow>
               (case handle_reply cmd cls reply (connection.spec s) of
                  (out, _, sp) \<Rightarrow> (out, s\<lparr>connection.spec := sp\<rparr>))))"

section \<open>JdwpConnectionWithAsyncLoop\<close>

definition start :: "connection \<Rightarrow> connection" where
  "start s = (if read_task s = Not_Started then s\<lparr>read_task := Created\<rparr> else s)"

text \<open>
  The ends of \<open>_read_loop\<close>: a cancellation is swallowed, any other exception is recorded, and the
  queue is shut down in every case.
\<close>

definition loop_ends :: "py_exc \<Rightarrow> connection \<Rightarrow> connection" where
  "loop_ends e s =
     s\<lparr>packets := (packets s)\<lparr>reading := False\<rparr>,
       loop_state := (if e = CancelledError then loop_state s else mark_error e (loop_state s)),
       read_task := Ended, queue_shutdown := True\<rparr>"

text \<open>A turn of the loop enters \<open>receive_command\<close>, which checks the state and then waits.\<close>

definition loop_turn :: "connection \<Rightarrow> connection" where
  "loop_turn s =
     (case check (state (conn (packets s))) of
        Inl e \<Rightarrow> loop_ends e s
      | Inr _ \<Rightarrow> s\<lparr>packets := (packets s)\<lparr>reading := True\<rparr>, read_task := Running\<rparr>)"

text \<open>A command packet arrived: it is parsed and queued and the loop turns, or the loop ends.\<close>

definition loop_command :: "JdwpCommandPacket \<Rightarrow> connection \<Rightarrow> connection" where
  "loop_command p s =
     (let s = s\<lparr>packets := (packets s)\<lparr>reading := False\<rparr>\<rparr>
      in case parse_command p (connection.spec s) of
           Inl e \<Rightarrow> loop_ends e s
         | Inr cmd \<Rightarrow> loop_turn (s\<lparr>incoming_commands := incoming_commands s @ [cmd]\<rparr>))"

text \<open>The receiver raised, or the task was cancelled while it waited.\<close>

definition loop_raises :: "py_exc \<Rightarrow> connection \<Rightarrow> connection" where
  "loop_raises e s = loop_ends e (with_conn (receive_failed e) s)"

text \<open>
  \<open>receive_command\<close>: the head of the queue; when there is none, an exception if the queue is shut
  down (whether the state is marked or not, a \<open>RuntimeError\<close>), otherwise the call waits (\<open>None\<close>).
\<close>

definition receive_command :: "connection \<Rightarrow> JdwpCommand result option \<times> connection" where
  "receive_command s =
     (let s = start s
      in case incoming_commands s of
           cmd # cmds \<Rightarrow> (Some (Inr cmd), s\<lparr>incoming_commands := cmds\<rparr>)
         | [] \<Rightarrow>
             (if queue_shutdown s then
                (case check (loop_state s) of
                   Inl e \<Rightarrow> (Some (Inl e), s)
                 | Inr _ \<Rightarrow> (Some (Inl RuntimeError), s))
              else (None, s)))"

text \<open>
  \<open>__anext__\<close>, what \<^verbatim>\<open>async for\<close> calls: a \<open>RuntimeError\<close> ends the iteration (\<open>Inr None\<close>), any other
  exception is passed on.
\<close>

definition anext :: "connection \<Rightarrow> JdwpCommand option result option \<times> connection" where
  "anext s =
     (case receive_command s of
        (None, s) \<Rightarrow> (None, s)
      | (Some (Inl e), s) \<Rightarrow> (Some (if e = RuntimeError then Inr None else Inl e), s)
      | (Some (Inr cmd), s) \<Rightarrow> (Some (Inr (Some cmd)), s))"

definition loop_send_command :: "JdwpCommand \<Rightarrow> connection \<Rightarrow> send_outcome \<times> connection" where
  "loop_send_command cmd s =
     (let s = start s
      in case check (loop_state s) of
           Inl e \<Rightarrow> (Send_Raised e, s)
         | Inr _ \<Rightarrow> send_command cmd s)"

text \<open>
  \<open>close\<close>, in its two sections: the state is marked and the background task cancelled; when the
  task has ended, the packet connection is closed. A task that waits in the receiver handles the
  cancellation there (\<open>loop_raises CancelledError\<close>); a task that never ran ends without entering
  its body, so that its \<open>finally\<close> clause does not run either.
\<close>

definition close_begin :: "connection \<Rightarrow> connection" where
  "close_begin s =
     (let s = s\<lparr>loop_state := mark_closed (loop_state s)\<rparr>
      in if read_task s = Created then s\<lparr>read_task := Ended\<rparr> else s)"

definition close_end :: "connection \<Rightarrow> connection" where
  "close_end s = with_conn packet_connection_close s"

text \<open>\<open>close\<close> when nothing else runs between its sections.\<close>

definition close_connection :: "connection \<Rightarrow> connection" where
  "close_connection s =
     (let s = close_begin s
      in close_end (if read_task s = Running then loop_raises CancelledError s else s))"

text \<open>
  \<open>connect\<close> of \<open>SimpleJdwpConnection\<close>, which makes a connection of the packet connection, and of
  \<open>JdwpConnectionWithAsyncLoop\<close>, which adds its own fields; \<open>JdwpConnection.connect\<close> is the latter.
\<close>

definition simple_connect :: "bytes \<Rightarrow> (connection \<times> bytes) result" where
  "simple_connect s =
     res_bind (packet_connection_connect s) (\<lambda>(c, rest).
       Inr (connection_init\<lparr>packets := packet_system_init\<lparr>conn := c\<rparr>\<rparr>, rest))"

definition connect :: "bytes \<Rightarrow> (connection \<times> bytes) result" where
  "connect s = res_bind (simple_connect s) (\<lambda>(c, rest). Inr (c\<lparr>read_task := Not_Started,
     loop_state := ConnectionState_init, incoming_commands := [], queue_shutdown := False\<rparr>, rest))"

text \<open>\<^verbatim>\<open>async with\<close>: entering starts the background task, leaving closes the connection.\<close>

definition aenter :: "connection \<Rightarrow> connection" where
  "aenter s = start s"

definition aexit :: "connection \<Rightarrow> connection" where
  "aexit s = close_connection s"

lemma connect_eq_Inr: "connect s = Inr (c, rest) \<longleftrightarrow> s = HANDSHAKE @ rest \<and> c = connection_init"
proof -
  have "connection_init\<lparr>packets := packet_system_init\<lparr>conn := packet_connection_init\<rparr>, read_task := Not_Started,
      loop_state := ConnectionState_init, incoming_commands := [], queue_shutdown := False\<rparr> = connection_init"
    by (simp add: connection_init_def packet_system_init_def)
  then show ?thesis
    by (auto simp: connect_def simple_connect_def packet_connection_connect_def
        establish_jdwp_connection_eq_Inr)
qed

section \<open>The steps of a connection\<close>

datatype connection_action =
    Send_Command JdwpCommand send_outcome
  | Command_Returns int nat JdwpCommand "command_error + JdwpResponse"
  | Command_Interrupted int nat py_exc
  | Command_Cancelled int nat
  | Receive_Command "JdwpCommand result option"
  | Start
  | Loop_Starts
  | Loop_Reply JdwpReplyPacket
  | Loop_Command JdwpCommandPacket "JdwpCommand result"
  | Loop_Raises py_exc
  | Close_Begin
  | Close_End

inductive connection_step :: "connection \<Rightarrow> connection_action \<Rightarrow> connection \<Rightarrow> bool" where
  send_command: "loop_send_command cmd s = (out, s') \<Longrightarrow>
    connection_step s (Send_Command cmd out) s'"
| command_returns: "(i, a) \<in> set (calls (packets s)) \<Longrightarrow>
    await_result (futures (conn (packets s)) ! a) = Some res \<Longrightarrow> (a, cmd) \<in> set (requests s) \<Longrightarrow>
    resume_call cmd res (end_call i a s) = (out, s') \<Longrightarrow>
    connection_step s (Command_Returns i a cmd out) s'"
| command_interrupted: "(i, a) \<in> set (calls (packets s)) \<Longrightarrow>
    connection_step s (Command_Interrupted i a e) (end_call i a s)"
| command_cancelled: "(i, a) \<in> set (calls (packets s)) \<Longrightarrow>
    futures (conn (packets s)) ! a = Pending \<Longrightarrow>
    connection_step s (Command_Cancelled i a) (with_conn (resolve [a] Cancelled) s)"
| receive_command: "receive_command s = (res, s') \<Longrightarrow>
    connection_step s (Receive_Command res) s'"
| start: "connection_step s Start (start s)"
| loop_starts: "read_task s = Created \<Longrightarrow>
    connection_step s Loop_Starts (loop_turn s)"
| loop_reply: "read_task s = Running \<Longrightarrow>
    connection_step s (Loop_Reply r) (with_conn (\<lambda>c. snd (receive_packet (ReplyPacket r) c)) s)"
| loop_command: "read_task s = Running \<Longrightarrow> parse_command p (connection.spec s) = res \<Longrightarrow>
    connection_step s (Loop_Command p res) (loop_command p s)"
| loop_raises: "read_task s = Running \<Longrightarrow>
    connection_step s (Loop_Raises e) (loop_raises e s)"
| close_begin: "connection_step s Close_Begin (close_begin s)"
| close_end: "is_closed (loop_state s) \<Longrightarrow> read_task s \<notin> {Created, Running} \<Longrightarrow>
    connection_step s Close_End (close_end s)"

section \<open>Refinement of the packet connection\<close>

text \<open>
  Ids are allocated upwards, so no call in flight has the next one; the calls that wait for a
  reply are the packet connection's calls; the task is in the receiver exactly while it runs.
\<close>

definition table_inv :: "connection \<Rightarrow> bool" where
  "table_inv s \<longleftrightarrow>
     (\<forall>(i, a) \<in> set (calls (packets s)). i < next_packet_id s) \<and>
     fst ` set (requests s) = snd ` set (calls (packets s)) \<and> distinct (map fst (requests s)) \<and>
     (\<forall>(a, cmd) \<in> set (requests s). get_response_class (command_class_of cmd) \<noteq> None) \<and>
     (reading (packets s) \<longleftrightarrow> read_task s = Running)"

definition conn_inv :: "connection \<Rightarrow> bool" where
  "conn_inv s \<longleftrightarrow> packet_inv (packets s) \<and> table_inv s"

lemmas conn_inv_defs = conn_inv_def table_inv_def

text \<open>Every step of the connection is a sequence of steps of the packet connection.\<close>

lemma packet_run_Nil [intro]: "\<exists>acts. run fresh_step s acts s"
  by (rule exI [of _ "[]"]) (rule run.Nil)

lemma packet_run_one: "packet_step s act s' \<Longrightarrow> fresh_send act s \<Longrightarrow> \<exists>acts. run fresh_step s acts s'"
  by (rule exI [of _ "[act]"]) (simp add: fresh_step_def)

lemma packet_run_trans:
  assumes "run fresh_step s as s'" and "\<exists>bs. run fresh_step s' bs s''"
  shows "\<exists>acts. run fresh_step s acts s''"
proof -
  from assms(2) obtain bs where "run fresh_step s' bs s''" by blast
  with assms(1) have "run fresh_step s (as @ bs) s''" by (simp only: run_append) blast
  then show ?thesis by blast
qed

lemma with_conn_simps [simp]:
  "packets (with_conn f s) = (packets s)\<lparr>conn := f (conn (packets s))\<rparr>"
  "requests (with_conn f s) = requests s" "next_packet_id (with_conn f s) = next_packet_id s"
  "read_task (with_conn f s) = read_task s" "loop_state (with_conn f s) = loop_state s"
  "connection.spec (with_conn f s) = connection.spec s"
  "incoming_commands (with_conn f s) = incoming_commands s"
  "queue_shutdown (with_conn f s) = queue_shutdown s"
  by (simp_all add: with_conn_def)

lemma start_simps [simp]:
  "packets (start s) = packets s" "requests (start s) = requests s"
  "next_packet_id (start s) = next_packet_id s" "loop_state (start s) = loop_state s"
  "connection.spec (start s) = connection.spec s"
  "incoming_commands (start s) = incoming_commands s" "queue_shutdown (start s) = queue_shutdown s"
  "read_task (start s) = (if read_task s = Not_Started then Created else read_task s)"
  by (simp_all add: start_def)

lemma command_packet_id:
  "command_packet i cmd sp = Inr p \<Longrightarrow> JdwpCommandPacket.id' p = i"
  by (auto simp: command_packet_def new_command_packet_def JdwpCommandPacket.make_def
      split: JdwpPacket.splits)

text \<open>The three ways a send begins, at the level of packets.\<close>

lemma send_command_cases:
  assumes "send_command cmd s = (out, s')"
  obtains (raised) e where "out = Send_Raised e" "packets s' = packets s" "requests s' = requests s"
  | (direct) p r c where "out = Send_Done \<or> (\<exists>e. out = Send_Raised e)"
      "sender_send p (conn (packets s)) = (r, c)"
      "packets s' = (packets s)\<lparr>conn := c\<rparr>" "requests s' = requests s"
  | (refused) p e c where "out = Send_Raised e" "send_begin p (conn (packets s)) = (Inl e, c)"
      "packets s' = (packets s)\<lparr>conn := c\<rparr>" "requests s' = requests s"
  | (waits) p a c where "out = Send_Waits a" "send_begin p (conn (packets s)) = (Inr a, c)"
      "JdwpCommandPacket.id' p = next_packet_id s"
      "packets s' = (packets s)\<lparr>conn := c, calls := (next_packet_id s, a) # calls (packets s)\<rparr>"
      "requests s' = (a, cmd) # requests s" "get_response_class (command_class_of cmd) \<noteq> None"
proof (cases "command_packet (next_packet_id s) cmd (connection.spec s)")
  case (Inl e)
  with assms that(1) show thesis by (auto simp: send_command_def allocate_packet_id_def)
next
  case (Inr p)
  show thesis
  proof (cases "get_response_class (command_class_of cmd)")
    case None
    obtain r c where "sender_send (CommandPacket p) (conn (packets s)) = (r, c)" by fastforce
    with Inr None assms that(2) show thesis
      by (auto simp: send_command_def allocate_packet_id_def split: sum.splits)
  next
    case (Some cls)
    obtain r c where r: "send_begin p (conn (packets s)) = (r, c)" by fastforce
    show thesis
    proof (cases r)
      case (Inl e)
      with Inr Some r assms that(3) show thesis
        by (auto simp: send_command_def allocate_packet_id_def)
    next
      case (Inr a)
      with \<open>command_packet _ _ _ = Inr p\<close> Some r assms that(4) show thesis
        by (auto simp: send_command_def allocate_packet_id_def command_packet_id)
    qed
  qed
qed

lemma send_command_rest:
  assumes "send_command cmd s = (out, s')"
  shows "next_packet_id s' = next_packet_id s + 1" "read_task s' = read_task s"
    "loop_state s' = loop_state s" "connection.spec s' = connection.spec s"
    "incoming_commands s' = incoming_commands s" "queue_shutdown s' = queue_shutdown s"
  using assms by (auto simp: send_command_def allocate_packet_id_def
      split: sum.splits option.splits prod.splits)

lemma loop_send_command_cases:
  assumes "loop_send_command cmd s = (out, s')"
  obtains (unavailable) e where "out = Send_Raised e" "s' = start s" "\<not> open_state (loop_state s)"
  | (sends) "send_command cmd (start s) = (out, s')" "open_state (loop_state s)"
  using assms that by (auto simp: loop_send_command_def Let_def check_eq_Inl split: sum.splits)

lemma loop_ends_simps [simp]:
  "packets (loop_ends e s) = (packets s)\<lparr>reading := False\<rparr>" "requests (loop_ends e s) = requests s"
  "next_packet_id (loop_ends e s) = next_packet_id s" "read_task (loop_ends e s) = Ended"
  "queue_shutdown (loop_ends e s) = True" "connection.spec (loop_ends e s) = connection.spec s"
  "incoming_commands (loop_ends e s) = incoming_commands s"
  by (simp_all add: loop_ends_def)

lemma loop_turn_cases:
  obtains (enters) "check (state (conn (packets s))) = Inr ()"
      "loop_turn s = s\<lparr>packets := (packets s)\<lparr>reading := True\<rparr>, read_task := Running\<rparr>"
  | (stops) e where "loop_turn s = loop_ends e s"
  by (cases "check (state (conn (packets s)))") (auto simp: loop_turn_def)

lemma loop_command_cases:
  obtains (fails) e where
      "loop_command p s = loop_ends e (s\<lparr>packets := (packets s)\<lparr>reading := False\<rparr>\<rparr>)"
      "parse_command p (connection.spec s) = Inl e"
  | (parsed) cmd where "parse_command p (connection.spec s) = Inr cmd"
      "loop_command p s = loop_turn (s\<lparr>packets := (packets s)\<lparr>reading := False\<rparr>,
        incoming_commands := incoming_commands s @ [cmd]\<rparr>)"
  by (cases "parse_command p (connection.spec s)") (auto simp: loop_command_def Let_def)

lemma resume_call_packets:
  "resume_call cmd res s = (out, s') \<Longrightarrow> packets s' = packets s \<and> requests s' = requests s \<and>
    next_packet_id s' = next_packet_id s \<and> read_task s' = read_task s \<and> loop_state s' = loop_state s \<and>
    incoming_commands s' = incoming_commands s \<and> queue_shutdown s' = queue_shutdown s"
  by (auto simp: resume_call_def split: sum.splits option.splits prod.splits)

lemma end_call_simps [simp]:
  "packets (end_call i a s) = (packets s)\<lparr>conn := send_end i (conn (packets s)),
    calls := remove1 (i, a) (calls (packets s))\<rparr>"
  "requests (end_call i a s) = AList.delete a (requests s)"
  "next_packet_id (end_call i a s) = next_packet_id s" "read_task (end_call i a s) = read_task s"
  by (simp_all add: end_call_def)

lemma loop_turn_packets:
  assumes "\<not> reading (packets s)"
  shows "\<exists>acts. run fresh_step (packets s) acts (packets (loop_turn s))"
proof (cases s rule: loop_turn_cases)
  case enters
  with packet_run_one [OF receive_enter [OF enters(1)]] show ?thesis by simp
next
  case (stops e)
  then have "packets (loop_turn s) = packets s" using assms by (cases "packets s") simp
  then show ?thesis by auto
qed

lemma connection_refines_packets:
  assumes "connection_step s act s'" and "conn_inv s"
  shows "\<exists>acts. run fresh_step (packets s) acts (packets s')"
  using assms
proof (induction rule: connection_step.induct)
  case (send_command cmd s out s')
  from send_command.hyps show ?case
  proof (cases rule: loop_send_command_cases)
    case unavailable
    then show ?thesis by auto
  next
    case sends
    from sends(1) show ?thesis
    proof (cases rule: send_command_cases)
      case raised
      then show ?thesis by auto
    next
      case (direct p r c)
      with packet_run_one [OF send_direct [OF direct(2)]] show ?thesis by simp
    next
      case (refused p e c)
      then have "send_begin p (conn (packets s)) = (Inl e, c)" by simp
      from packet_run_one [OF send_raises [OF this]] refused show ?thesis by simp
    next
      case (waits p a c)
      then have "send_begin p (conn (packets s)) = (Inr a, c)" by simp
      moreover have "fresh_send (Send p) (packets s)"
        using send_command.prems waits by (auto simp: conn_inv_defs)
      ultimately show ?thesis using packet_run_one [OF send, of p "packets s" a c] waits(3,4) by simp
    qed
  qed
next
  case (command_returns i a s res cmd out s')
  with packet_run_one [OF call_returns [OF command_returns.hyps(1,2)]]
    resume_call_packets [OF command_returns.hyps(4)] show ?case by simp
next
  case (command_interrupted i a s e)
  from packet_run_one [OF call_interrupted [OF command_interrupted.hyps]] show ?case by simp
next
  case (command_cancelled i a s)
  from packet_run_one [OF call_cancelled [OF command_cancelled.hyps]] show ?case by simp
next
  case (receive_command s res s')
  then have "packets s' = packets s"
    by (auto simp: receive_command_def Let_def split: list.splits sum.splits if_splits)
  then show ?case by auto
next
  case (start s)
  then show ?case by auto
next
  case (loop_starts s)
  then show ?case by (intro loop_turn_packets) (simp add: conn_inv_defs)
next
  case (loop_reply s r)
  then have "reading (packets s)" by (simp add: conn_inv_defs)
  obtain ev c where "receive_packet (ReplyPacket r) (conn (packets s)) = (ev, c)" by fastforce
  with packet_run_one [OF receive_reply [OF \<open>reading (packets s)\<close> this]] show ?case by simp
next
  case (loop_command s p res)
  then have rd: "reading (packets s)" by (simp add: conn_inv_defs)
  have "packet_step (packets s) (Receive_Returns p) ((packets s)\<lparr>conn := conn (packets s), reading := False\<rparr>)"
    by (rule receive_returns [OF rd]) simp
  then have one: "run fresh_step (packets s) [Receive_Returns p] ((packets s)\<lparr>reading := False\<rparr>)"
    by (simp add: fresh_step_def)
  show ?case
  proof (rule packet_run_trans [OF one])
    show "\<exists>bs. run fresh_step ((packets s)\<lparr>reading := False\<rparr>) bs (packets (loop_command p s))"
    proof (cases rule: loop_command_cases [of p s])
      case (fails e)
      then show ?thesis by auto
    next
      case (parsed cmd)
      then show ?thesis
        using loop_turn_packets [of "s\<lparr>packets := (packets s)\<lparr>reading := False\<rparr>,
          incoming_commands := incoming_commands s @ [cmd]\<rparr>"] by simp
    qed
  qed
next
  case (loop_raises s e)
  then have "reading (packets s)" by (simp add: conn_inv_defs)
  from packet_run_one [OF receive_raises [OF this]] show ?case by (simp add: loop_raises_def)
next
  case (close_begin s)
  then show ?case by (auto simp: close_begin_def Let_def)
next
  case (close_end s)
  from packet_run_one [OF close] show ?case by (simp add: close_end_def)
qed

text \<open>The tables of the connection stay in step with the calls.\<close>

lemma loop_turn_table: "table_inv (loop_turn s)" if "table_inv (s\<lparr>read_task := Ended\<rparr>)"
  using that by (cases rule: loop_turn_cases [of s]) (auto simp: table_inv_def)

lemma end_call_table:
  assumes inv: "packet_inv (packets s)" and tab: "table_inv s" and ia: "(i, a) \<in> set (calls (packets s))"
  shows "table_inv (end_call i a s)"
proof -
  have "set (remove1 (i, a) (calls (packets s))) = set (calls (packets s)) - {(i, a)}"
    using packet_invD(1) [OF inv] by (intro set_remove1_eq) (simp add: distinct_map)
  moreover have "snd ` (set (calls (packets s)) - {(i, a)}) = snd ` set (calls (packets s)) - {a}"
    using packet_invD(2) [OF inv] ia inj_on_image_set_diff [of snd "set (calls (packets s))" _ "{(i, a)}"]
    by (simp add: distinct_map)
  moreover have "fst ` {p \<in> set (requests s). fst p \<noteq> a} = fst ` set (requests s) - {a}"
    by auto
  ultimately show ?thesis
    using tab by (auto simp: table_inv_def set_delete distinct_fst_delete)
qed

lemma send_command_table:
  assumes inv: "packet_inv (packets s)" and tab: "table_inv s" and "send_command cmd s = (out, s')"
  shows "table_inv s'"
  using assms(3)
proof (cases rule: send_command_cases)
  case (waits p a c)
  have "a \<notin> fst ` set (requests s)"
  proof
    assume "a \<in> fst ` set (requests s)"
    then obtain i where "(i, a) \<in> set (calls (packets s))"
      using tab by (auto simp: table_inv_def)
    then have "a < length (futures (conn (packets s)))" by (rule packet_invD(5) [OF inv])
    moreover have "a = length (futures (conn (packets s)))"
      using waits(2) by (auto simp: send_begin_def Let_def split: sum.splits if_splits)
    ultimately show False by simp
  qed
  then show ?thesis
    using tab waits send_command_rest [OF assms(3)] by (auto simp: table_inv_def)
qed (use tab send_command_rest [OF assms(3)] in \<open>auto simp: table_inv_def\<close>)

lemma table_step:
  assumes "connection_step s act s'" and "packet_inv (packets s)" and "table_inv s"
  shows "table_inv s'"
  using assms
proof (induction rule: connection_step.induct)
  case (send_command cmd s out s')
  have st: "table_inv (start s)" using send_command.prems(2) by (auto simp: table_inv_def)
  from send_command.hyps show ?case
    by (cases rule: loop_send_command_cases)
      (use st send_command.prems(1) in \<open>auto intro: send_command_table [of "start s"]\<close>)
next
  case (command_returns i a s res cmd out s')
  have "table_inv (end_call i a s)"
    using command_returns.prems command_returns.hyps(1) by (rule end_call_table)
  with resume_call_packets [OF command_returns.hyps(4)] show ?case by (simp add: table_inv_def)
next
  case (command_interrupted i a s e)
  then show ?case by (simp add: end_call_table)
next
  case (receive_command s res s')
  then have "packets s' = packets s" "requests s' = requests s" "next_packet_id s' = next_packet_id s"
      "read_task s' = read_task (start s)"
    by (auto simp: receive_command_def Let_def split: list.splits sum.splits if_splits)
  with receive_command.prems(2) show ?case by (auto simp: table_inv_def)
next
  case (loop_starts s)
  then show ?case by (intro loop_turn_table) (auto simp: table_inv_def)
next
  case (loop_command s p res)
  show ?case
  proof (cases rule: loop_command_cases [of p s])
    case (fails e)
    with loop_command show ?thesis by (auto simp: table_inv_def)
  next
    case (parsed cmd)
    have "table_inv (s\<lparr>packets := (packets s)\<lparr>reading := False\<rparr>,
        incoming_commands := incoming_commands s @ [cmd], read_task := Ended\<rparr>)"
      using loop_command.prems(2) by (simp add: table_inv_def)
    with parsed show ?thesis by (simp add: loop_turn_table)
  qed
next
  case (loop_raises s e)
  then show ?case by (auto simp: table_inv_def loop_raises_def)
qed (auto simp: table_inv_def close_begin_def close_end_def Let_def)

lemma connection_step_inv:
  assumes "connection_step s act s'" and "conn_inv s"
  shows "conn_inv s'"
proof -
  obtain acts where "run fresh_step (packets s) acts (packets s')"
    using connection_refines_packets [OF assms] by blast
  then have "packet_inv (packets s')"
    using assms(2) packet.run_inv by (auto simp: conn_inv_def)
  with table_step [OF assms(1)] assms(2) show ?thesis by (simp add: conn_inv_def)
qed

interpretation connection: step_invariant connection_step conn_inv
  by unfold_locales (rule connection_step_inv)

lemma conn_inv_init: "conn_inv connection_init"
  by (simp add: conn_inv_def connection_init_def packet_inv_init)
    (simp add: table_inv_def packet_system_init_def)

lemma reachable_inv: "run connection_step connection_init acts s \<Longrightarrow> conn_inv s"
  using connection.run_inv conn_inv_init by blast

section \<open>Requests and their replies\<close>

text \<open>What a step does to the futures is what the packet connection does.\<close>

lemma resolved_stays_run:
  assumes "run fresh_step s acts s'" and "futures (conn s) ! a \<noteq> Pending" and "a < length (futures (conn s))"
  shows "futures (conn s') ! a = futures (conn s) ! a \<and> a < length (futures (conn s'))"
  using assms
proof (induction rule: run.induct)
  case (Cons s act s' as s'')
  from Cons.hyps(1) Cons.prems have "futures (conn s') ! a = futures (conn s) ! a \<and> a < length (futures (conn s'))"
    by (intro resolved_stays) (auto simp: fresh_step_def)
  with Cons.IH Cons.prems(1) show ?case by simp
qed simp

lemma handle_reply_class:
  assumes "handle_reply cmd cls reply sp = (Inr resp, w, sp')"
  shows "response_class_of resp = cls"
  using assms response.from_bytes_class
  by (auto simp: handle_reply_def split: if_splits sum.splits)

lemma handle_reply_error:
  assumes "error_field_value (error_code reply) \<noteq> 0"
  shows "handle_reply cmd cls reply sp =
    (Inl (JdwpException (from_int (error_field_value (error_code reply)))
       (error_field_value (error_code reply)) cmd), unexpected_error cmd reply, sp)"
  using assms by (simp add: handle_reply_def)

lemma handle_reply_response:
  assumes "error_field_value (error_code reply) = 0" and "response_ok resp"
    and "to_bytes response_serialize resp sp = Inr bs" and "JdwpReplyPacket.data reply = bs @ junk"
    and "update_spec resp sp = Inr sp'"
  shows "handle_reply cmd (response_class_of resp) reply sp = (Inr resp, False, sp')"
  using response.family_roundtrip [OF assms(2,3), of junk] assms(1,4,5)
  by (simp add: handle_reply_def)

text \<open>Only the reply to \<open>IDSizes\<close> changes the spec.\<close>

lemma update_spec_other:
  "response_class_of resp \<noteq> vm_response_cls IDSizesResponse_cls \<Longrightarrow> update_spec resp sp = Inr sp"
  by (auto simp: update_spec_def split: JdwpResponse.splits vm_response.splits)

lemma handle_reply_spec:
  assumes "handle_reply cmd cls reply sp = (out, w, sp')" and "sp' \<noteq> sp"
  obtains resp where "out = Inr (vm_response_obj (IDSizesResponse_obj resp))"
    and "from_response resp = Inr sp'" and "cls = vm_response_cls IDSizesResponse_cls"
proof -
  obtain r where r: "out = Inr r" "update_spec r sp = Inr sp'"
      "from_bytes (response_deserialize cls) (JdwpReplyPacket.data reply) sp = Inr r"
    using assms by (auto simp: handle_reply_def split: if_splits sum.splits)
  then have "response_class_of r = vm_response_cls IDSizesResponse_cls"
    using update_spec_other [of r sp] assms(2) by fastforce
  moreover have "response_class_of r = cls" using r(3) by (rule response.from_bytes_class)
  moreover obtain resp where "r = vm_response_obj (IDSizesResponse_obj resp)" "from_response resp = Inr sp'"
    using r(2) assms(2) by (auto simp: update_spec_def split: JdwpResponse.splits vm_response.splits)
  ultimately show thesis using r(1) that by blast
qed

section \<open>A command on its way to the peer\<close>

lemma command_packet_parse:
  assumes "command_packet i cmd sp = Inr p"
  shows "parse_command p sp = Inr cmd \<longleftrightarrow> command_ok cmd"
proof -
  let ?vars = "command_vars (command_class_of cmd)"
  obtain dat where dat: "to_bytes command_serialize cmd sp = Inr dat"
    and p: "p = JdwpCommandPacket.make i 0 dat (COMMAND_SET ?vars) (COMMAND ?vars)"
    using assms by (auto simp: command_packet_def new_command_packet_def split: JdwpPacket.splits)
  have "from_bytes (command_deserialize (command_class_of cmd)) (dat @ []) sp = Inr cmd \<longleftrightarrow> command_ok cmd"
    using dat by (rule command.family_roundtrip_iff)
  then show ?thesis
    by (simp add: parse_command_def p JdwpCommandPacket.make_def get_command_class_of)
qed

lemma command_packet_ok: "command_packet i cmd sp = Inr p \<Longrightarrow> packet_ok (CommandPacket p)"
  by (auto simp: command_packet_def new_command_packet_def packet_ok_def split: JdwpPacket.splits)

lemma send_begin_written:
  "send_begin p c = (Inr a, c') \<Longrightarrow>
    \<exists>bs. packet_to_bytes (CommandPacket p) = Inr bs \<and> written c' = written c @ bs"
  by (auto simp: send_begin_def Let_def simp del: packet_to_bytes.simps split: sum.splits if_splits)

lemma send_command_on_wire:
  assumes "send_command cmd s = (Send_Waits a, s')"
  shows "\<exists>bs p. written (conn (packets s')) = written (conn (packets s)) @ bs \<and>
    (\<forall>rest. deserialize_packet (bs @ rest) = Inr (CommandPacket p, rest)) \<and>
    JdwpCommandPacket.id' p = next_packet_id s \<and>
    (parse_command p (connection.spec s) = Inr cmd \<longleftrightarrow> command_ok cmd)"
proof -
  obtain p c where p: "command_packet (next_packet_id s) cmd (connection.spec s) = Inr p"
    and c: "send_begin p (conn (packets s)) = (Inr a, c)" and s': "conn (packets s') = c"
    using assms
    by (auto simp: send_command_def allocate_packet_id_def split: sum.splits option.splits prod.splits)
  obtain bs where "packet_to_bytes (CommandPacket p) = Inr bs" "written c = written (conn (packets s)) @ bs"
    using send_begin_written [OF c] by blast
  with packets.dec_enc [OF command_packet_ok [OF p]] s' command_packet_id [OF p]
    command_packet_parse [OF p] show ?thesis by blast
qed

section \<open>The queue of incoming commands\<close>

text \<open>The commands the loop parsed and the commands the application got, in the order of a run.\<close>

fun parsed :: "connection_action \<Rightarrow> JdwpCommand list" where
  "parsed (Loop_Command p (Inr cmd)) = [cmd]"
| "parsed _ = []"

fun delivered :: "connection_action \<Rightarrow> JdwpCommand list" where
  "delivered (Receive_Command (Some (Inr cmd))) = [cmd]"
| "delivered _ = []"

lemma loop_turn_queue [simp]: "incoming_commands (loop_turn s) = incoming_commands s"
  by (cases rule: loop_turn_cases [of s]) simp_all

lemma queue_step:
  assumes "connection_step s act s'"
  shows "incoming_commands s @ parsed act = delivered act @ incoming_commands s'"
  using assms
proof (induction rule: connection_step.induct)
  case (send_command cmd s out s')
  then show ?case
    by (cases rule: loop_send_command_cases) (simp_all add: send_command_rest)
next
  case (command_returns i a s res cmd out s')
  with resume_call_packets [OF command_returns.hyps(4)] show ?case by (simp add: end_call_def)
next
  case (receive_command s res s')
  then show ?case
    by (auto simp: receive_command_def Let_def split: list.splits sum.splits if_splits)
next
  case (loop_command s p res)
  show ?case
    by (cases rule: loop_command_cases [of p s]) (use loop_command in auto)
qed (simp_all add: loop_raises_def close_begin_def close_end_def end_call_def Let_def)

lemma queue_run:
  "run connection_step s acts s' \<Longrightarrow>
    incoming_commands s @ concat (map parsed acts) = concat (map delivered acts) @ incoming_commands s'"
proof (induction rule: run.induct)
  case (Cons s act s' as s'')
  have "incoming_commands s @ parsed act @ concat (map parsed as) =
      delivered act @ (incoming_commands s' @ concat (map parsed as))"
    using queue_step [OF Cons.hyps(1)] by (metis append.assoc)
  with Cons.IH show ?case by simp
qed simp

text \<open>A task that ended after it ran has shut the queue down.\<close>

definition ended_inv :: "connection \<Rightarrow> bool" where
  "ended_inv s \<longleftrightarrow> (read_task s = Ended \<longrightarrow> queue_shutdown s \<or> is_closed (loop_state s))"

lemma loop_turn_ended: "ended_inv (loop_turn s)"
  by (cases rule: loop_turn_cases [of s]) (auto simp: ended_inv_def)

lemma ended_step:
  assumes "connection_step s act s'" and "ended_inv s"
  shows "ended_inv s'"
  using assms
proof (induction rule: connection_step.induct)
  case (send_command cmd s out s')
  then show ?case
    by (cases rule: loop_send_command_cases) (auto simp: ended_inv_def send_command_rest)
next
  case (command_returns i a s res cmd out s')
  with resume_call_packets [OF command_returns.hyps(4)] show ?case
    by (simp add: end_call_def ended_inv_def)
next
  case (receive_command s res s')
  then show ?case
    by (auto simp: receive_command_def Let_def ended_inv_def split: list.splits sum.splits if_splits)
next
  case (loop_starts s)
  show ?case by (rule loop_turn_ended)
next
  case (loop_command s p res)
  show ?case
  proof (cases rule: loop_command_cases [of p s])
    case (parsed cmd)
    then show ?thesis by (simp add: loop_turn_ended)
  qed (simp add: ended_inv_def)
qed (auto simp: ended_inv_def loop_raises_def close_begin_def close_end_def end_call_def Let_def
    mark_closed_def)

interpretation ended: step_invariant connection_step ended_inv
  by unfold_locales (rule ended_step)

lemma receive_command_ended:
  assumes "read_task s = Ended" and "queue_shutdown s"
  shows "fst (receive_command s) \<noteq> None"
  using assms by (auto simp: receive_command_def start_def Let_def split: list.split sum.split)

section \<open>Waiting calls after the loop has ended\<close>

text \<open>
  When the receiver raises, every waiting call gets an outcome. When the loop ends for a command
  it cannot parse, the packet connection stays open and nobody reads replies any more: a waiting
  call is not resolved by any further step but closing, or its own cancellation.
\<close>

fun gives_up :: "nat \<Rightarrow> connection_action \<Rightarrow> bool" where
  "gives_up a Close_End = True"
| "gives_up a (Command_Cancelled i b) = (b = a)"
| "gives_up a (Command_Interrupted i b e) = (b = a)"
| "gives_up a _ = False"

definition stranded :: "int \<Rightarrow> nat \<Rightarrow> connection \<Rightarrow> bool" where
  "stranded i a s \<longleftrightarrow> conn_inv s \<and> read_task s = Ended \<and> (i, a) \<in> set (calls (packets s)) \<and>
     futures (conn (packets s)) ! a = Pending"

lemma in_set_remove1: "x \<in> set xs \<Longrightarrow> x \<noteq> y \<Longrightarrow> x \<in> set (remove1 y xs)"
  by simp

lemma stranded_step:
  assumes "connection_step s act s'" and "stranded i a s" and "\<not> gives_up a act"
  shows "stranded i a s'"
proof -
  have inv: "conn_inv s" and ended: "read_task s = Ended" and ia: "(i, a) \<in> set (calls (packets s))"
    and p: "futures (conn (packets s)) ! a = Pending"
    using assms(2) by (auto simp: stranded_def)
  have a: "a < length (futures (conn (packets s)))"
    using inv ia packet_invD(5) by (auto simp: conn_inv_def)
  have "read_task s' = Ended \<and> (i, a) \<in> set (calls (packets s')) \<and> futures (conn (packets s')) ! a = Pending"
    using assms(1)
  proof cases
    case (send_command cmd out)
    from send_command(2) show ?thesis
    proof (cases rule: loop_send_command_cases)
      case sends
      note rest = send_command_rest [OF sends(1)]
      from sends(1) show ?thesis
      proof (cases rule: send_command_cases)
        case (refused q e c)
        with send_begin_Inl [of q "conn (packets s)" e c] rest ended ia p a show ?thesis
          by (auto simp: nth_append)
      next
        case (waits q b c)
        then have "futures c = futures (conn (packets s)) @ [Pending]"
          by (auto simp: send_begin_def Let_def split: sum.splits if_splits)
        with waits rest ended ia p a show ?thesis by (auto simp: nth_append)
      qed (use rest ended ia p in \<open>auto simp: sender_send_def split: sum.splits\<close>)
    qed (use ended ia p in simp)
  next
    case (command_returns j b res cmd out)
    with p have "b \<noteq> a" by auto
    with resume_call_packets [OF command_returns(5)] ended ia p show ?thesis
      by (simp add: send_end_def)
  next
    case (command_interrupted j b e)
    with assms(3) ended ia p show ?thesis by (auto simp: send_end_def intro!: in_set_remove1)
  next
    case (command_cancelled j b)
    with assms(3) ended ia p a show ?thesis by (auto simp: resolve_nth)
  next
    case (receive_command res)
    with ended ia p show ?thesis
      by (auto simp: receive_command_def start_def Let_def split: list.splits sum.splits if_splits)
  qed (use assms(3) ended ia p in \<open>auto simp: close_begin_def Let_def\<close>)
  with connection_step_inv [OF assms(1) inv] show ?thesis by (simp add: stranded_def)
qed

lemma stranded_run:
  assumes "run connection_step s acts s'" and "stranded i a s" and "\<forall>act \<in> set acts. \<not> gives_up a act"
  shows "stranded i a s'"
  using assms by (induction rule: run.induct) (auto intro: stranded_step)

lemma unknown_command_strands:
  assumes "conn_inv s" and "read_task s = Running" and "parse_command p (connection.spec s) = Inl e"
    and "(i, a) \<in> set (calls (packets s))" and "futures (conn (packets s)) ! a = Pending"
  shows "stranded i a (loop_command p s)"
proof -
  have "conn_inv (loop_command p s)"
    using connection_step_inv [OF connection_step.loop_command [OF assms(2) refl] assms(1)] .
  with assms show ?thesis by (simp add: stranded_def loop_command_def Let_def)
qed

lemma loop_raises_resolves:
  assumes "conn_inv s" and "(i, a) \<in> set (calls (packets (loop_raises e s)))" and "read_task s = Running"
  shows "\<exists>r. await_result (futures (conn (packets (loop_raises e s))) ! a) = Some r"
proof -
  have "packet_inv (packets (loop_raises e s))"
    using connection_step_inv [OF connection_step.loop_raises [OF assms(3)] assms(1)]
    by (simp add: conn_inv_def)
  moreover have "\<not> open_state (state (conn (packets (loop_raises e s))))"
    using receive_failed_eq [of e "conn (packets s)"] cleared(1)
    by (fastforce simp: loop_raises_def)
  ultimately show ?thesis using assms(2) by (rule inv_not_stuck)
qed

text \<open>
  A connection closed before the background task's first turn never shuts its queue down: a
  \<open>receive_command\<close> then waits for ever, and no later step changes that.
\<close>

definition deaf :: "connection \<Rightarrow> bool" where
  "deaf s \<longleftrightarrow> read_task s = Ended \<and> \<not> queue_shutdown s \<and> incoming_commands s = []"

lemma deaf_step: "connection_step s act s' \<Longrightarrow> deaf s \<Longrightarrow> deaf s'"
proof (induction rule: connection_step.induct)
  case (send_command cmd s out s')
  then show ?case
    by (cases rule: loop_send_command_cases) (auto simp: deaf_def send_command_rest)
next
  case (command_returns i a s res cmd out s')
  with resume_call_packets [OF command_returns.hyps(4)] show ?case
    by (simp add: end_call_def deaf_def)
next
  case (receive_command s res s')
  then show ?case
    by (auto simp: receive_command_def Let_def deaf_def split: list.splits sum.splits if_splits)
qed (auto simp: deaf_def close_begin_def close_end_def end_call_def Let_def)

interpretation deaf: step_invariant connection_step deaf
  by unfold_locales (rule deaf_step)

text \<open>Before its first turn the task has queued nothing, so closing then makes the connection deaf.\<close>

definition unused_inv :: "connection \<Rightarrow> bool" where
  "unused_inv s \<longleftrightarrow>
     (read_task s \<in> {Not_Started, Created} \<longrightarrow> incoming_commands s = [] \<and> \<not> queue_shutdown s)"

lemma loop_turn_unused: "unused_inv (loop_turn s)"
  by (cases rule: loop_turn_cases [of s]) (auto simp: unused_inv_def)

lemma unused_step:
  assumes "connection_step s act s'" and "unused_inv s"
  shows "unused_inv s'"
  using assms
proof (induction rule: connection_step.induct)
  case (send_command cmd s out s')
  then show ?case
    by (cases rule: loop_send_command_cases) (auto simp: unused_inv_def send_command_rest)
next
  case (command_returns i a s res cmd out s')
  with resume_call_packets [OF command_returns.hyps(4)] show ?case
    by (simp add: end_call_def unused_inv_def)
next
  case (receive_command s res s')
  then show ?case
    by (auto simp: receive_command_def Let_def unused_inv_def split: list.splits sum.splits if_splits)
next
  case (loop_starts s)
  show ?case by (rule loop_turn_unused)
next
  case (loop_command s p res)
  show ?case
  proof (cases rule: loop_command_cases [of p s])
    case (parsed cmd)
    then show ?thesis by (simp add: loop_turn_unused)
  qed (simp add: unused_inv_def)
qed (auto simp: unused_inv_def loop_raises_def close_begin_def close_end_def end_call_def Let_def)

interpretation unused: step_invariant connection_step unused_inv
  by unfold_locales (rule unused_step)

lemma close_before_turn_deafens:
  assumes "connection_step s Close_Begin s'" and "unused_inv s" and "read_task s = Created"
  shows "deaf s'"
  using assms(1) by cases (use assms(2,3) in \<open>simp add: unused_inv_def deaf_def close_begin_def Let_def\<close>)

lemma deaf_waits: "deaf s \<Longrightarrow> fst (receive_command s) = None"
  by (simp add: deaf_def receive_command_def Let_def)

section \<open>Runs of a connection\<close>

lemma connection_run_refines:
  assumes "run connection_step s acts s'" and "conn_inv s"
  shows "\<exists>acts'. run fresh_step (packets s) acts' (packets s')"
  using assms
proof (induction rule: run.induct)
  case (Cons s act s' as s'')
  then obtain a1 where a1: "run fresh_step (packets s) a1 (packets s')"
    using connection_refines_packets by blast
  have "conn_inv s'" using Cons.hyps(1) Cons.prems by (rule connection_step_inv)
  with Cons.IH packet_run_trans [OF a1] show ?case by blast
qed auto

text \<open>A send never waits on a packet connection that is closed or has failed.\<close>

lemma send_command_closed:
  assumes "\<not> open_state (state (conn (packets s)))" and "send_command cmd s = (out, s')"
  shows "out \<noteq> Send_Waits a"
  using assms(2)
proof (cases rule: send_command_cases)
  case (waits p b c)
  with send_begin_closed [OF assms(1)] show ?thesis by simp
qed auto

text \<open>Only the end of a call changes the spec.\<close>

lemma spec_step:
  assumes "connection_step s act s'" and "connection.spec s' \<noteq> connection.spec s"
  shows "\<exists>i a cmd resp. act = Command_Returns i a cmd (Inr (vm_response_obj (IDSizesResponse_obj resp))) \<and>
    from_response resp = Inr (connection.spec s') \<and>
    get_response_class (command_class_of cmd) = Some (vm_response_cls IDSizesResponse_cls)"
  using assms
proof (induction rule: connection_step.induct)
  case (send_command cmd s out s')
  then show ?case by (cases rule: loop_send_command_cases) (simp_all add: send_command_rest)
next
  case (command_returns i a s res cmd out s')
  have same: "connection.spec (end_call i a s) = connection.spec s" by (simp add: end_call_def)
  obtain reply cls w sp where "get_response_class (command_class_of cmd) = Some cls"
    and h: "handle_reply cmd cls reply (connection.spec s) = (out, w, sp)" "connection.spec s' = sp"
    using command_returns.hyps(4) command_returns.prems same
    by (auto simp: resume_call_def split: sum.splits option.splits prod.splits)
  moreover have "sp \<noteq> connection.spec s" using h(2) command_returns.prems by simp
  ultimately show ?case using handle_reply_spec [OF h(1)] by metis
next
  case (receive_command s res s')
  then show ?case
    by (auto simp: receive_command_def Let_def split: list.splits sum.splits if_splits)
next
  case (loop_starts s)
  then show ?case by (cases rule: loop_turn_cases [of s]) simp_all
next
  case (loop_command s p res)
  have "connection.spec (loop_turn t) = connection.spec t" for t
    by (cases rule: loop_turn_cases [of t]) simp_all
  with loop_command show ?case by (cases rule: loop_command_cases [of p s]) simp_all
qed (simp_all add: loop_raises_def close_begin_def close_end_def end_call_def Let_def)

lemma end_of_call:
  assumes "connection_step s (Command_Returns i a cmd (Inr resp)) s'"
  obtains reply where "futures (conn (packets s)) ! a = Finished reply"
    and "(i, a) \<in> set (calls (packets s))" and "(a, cmd) \<in> set (requests s)"
    and "get_response_class (command_class_of cmd) = Some (response_class_of resp)"
    and "error_field_value (error_code reply) = 0"
  using assms
proof cases
  case (command_returns res)
  then obtain reply cls w sp where r: "res = Inr reply"
    and cls: "get_response_class (command_class_of cmd) = Some cls"
    and h: "handle_reply cmd cls reply (connection.spec (end_call i a s)) = (Inr resp, w, sp)"
    by (auto simp: resume_call_def split: sum.splits option.splits prod.splits)
  have "futures (conn (packets s)) ! a = Finished reply"
    using command_returns(2) r by (cases "futures (conn (packets s)) ! a") auto
  moreover have "error_field_value (error_code reply) = 0"
    using h by (auto simp: handle_reply_def split: if_splits)
  ultimately show thesis
    using that command_returns(1,3) cls handle_reply_class [OF h] by blast
qed

end
