(* ===== verification/Rendezvous.thy ===== *)
theory Rendezvous
  imports Connection
begin

text \<open>
  What \<open>JdwpPacketConnection\<close> promises, without its dictionary and its future objects: a table from
  the ids of the calls in flight to their outcomes, and whether the connection is available. The
  abstraction function forgets the addresses; every step of the packet connection is a step of this
  specification, and every step of the specification but a refusal can be made.
\<close>

section \<open>The specification\<close>

record rendezvous =
  outcomes :: "int \<Rightarrow> future option"
  available :: bool
  listening :: bool
  transport :: bytes

definition rendezvous_init :: rendezvous where
  "rendezvous_init = \<lparr>outcomes = (\<lambda>_. None), available = True, listening = False, transport = []\<rparr>"

definition settle :: "future \<Rightarrow> (int \<Rightarrow> future option) \<Rightarrow> int \<Rightarrow> future option" where
  "settle f t i = map_option (\<lambda>g. if g = Pending then f else g) (t i)"

datatype rendezvous_action =
    Ask JdwpCommandPacket
  | Refused JdwpCommandPacket py_exc
  | Tell JdwpPacket
  | Answered int "JdwpReplyPacket result"
  | Interrupted int py_exc
  | Withdrawn int
  | Listen
  | Reply_Arrives JdwpReplyPacket
  | Command_Arrives JdwpCommandPacket
  | Breaks py_exc
  | Shut

inductive rendezvous_step :: "rendezvous \<Rightarrow> rendezvous_action \<Rightarrow> rendezvous \<Rightarrow> bool" where
  ask: "available t \<Longrightarrow> outcomes t (JdwpCommandPacket.id' p) = None \<Longrightarrow>
    packet_to_bytes (CommandPacket p) = Inr bs \<Longrightarrow>
    rendezvous_step t (Ask p)
      (t\<lparr>outcomes := (outcomes t)(JdwpCommandPacket.id' p \<mapsto> Pending), transport := transport t @ bs\<rparr>)"
| refused: "(\<not> available t \<or> outcomes t (JdwpCommandPacket.id' p) \<noteq> None) \<and> e = RuntimeError \<or>
    packet_to_bytes (CommandPacket p) = Inl e \<Longrightarrow>
    rendezvous_step t (Refused p e) t"
| tell: "transport' = (case packet_to_bytes p of Inl _ \<Rightarrow> transport t | Inr bs \<Rightarrow> transport t @ bs) \<Longrightarrow>
    rendezvous_step t (Tell p) (t\<lparr>transport := transport'\<rparr>)"
| answered: "outcomes t i = Some f \<Longrightarrow> await_result f = Some r \<Longrightarrow>
    rendezvous_step t (Answered i r) (t\<lparr>outcomes := (outcomes t)(i := None)\<rparr>)"
| interrupted: "outcomes t i \<noteq> None \<Longrightarrow>
    rendezvous_step t (Interrupted i e) (t\<lparr>outcomes := (outcomes t)(i := None)\<rparr>)"
| withdrawn: "outcomes t i = Some Pending \<Longrightarrow>
    rendezvous_step t (Withdrawn i) (t\<lparr>outcomes := (outcomes t)(i \<mapsto> Cancelled)\<rparr>)"
| listen: "available t \<Longrightarrow> rendezvous_step t Listen (t\<lparr>listening := True\<rparr>)"
| reply_arrives: "listening t \<Longrightarrow> i = JdwpReplyPacket.id' r \<Longrightarrow>
    rendezvous_step t (Reply_Arrives r)
      (t\<lparr>outcomes := (if outcomes t i = Some Pending then (outcomes t)(i \<mapsto> Finished r) else outcomes t)\<rparr>)"
| command_arrives: "listening t \<Longrightarrow> rendezvous_step t (Command_Arrives p) (t\<lparr>listening := False\<rparr>)"
| breaks: "listening t \<Longrightarrow> rendezvous_step t (Breaks e)
    (t\<lparr>outcomes := settle (failure e) (outcomes t), available := False, listening := False\<rparr>)"
| shut: "rendezvous_step t Shut (t\<lparr>outcomes := settle Cancelled (outcomes t), available := False\<rparr>)"

section \<open>The abstraction\<close>

definition outcome_table :: "packet_system \<Rightarrow> int \<Rightarrow> future option" where
  "outcome_table s i = map_option (\<lambda>a. futures (conn s) ! a) (map_of (calls s) i)"

definition abs_rendezvous :: "packet_system \<Rightarrow> rendezvous" where
  "abs_rendezvous s = \<lparr>outcomes = outcome_table s, available = open_state (state (conn s)),
     listening = reading s, transport = written (conn s)\<rparr>"

primrec abs_action :: "packet_action \<Rightarrow> rendezvous_action" where
  "abs_action (Send p) = Ask p"
| "abs_action (Send_Raises p e) = Refused p e"
| "abs_action (Send_Direct p) = Tell p"
| "abs_action (Call_Returns i a r) = Answered i r"
| "abs_action (Call_Interrupted i a e) = Interrupted i e"
| "abs_action (Call_Cancelled i a) = Withdrawn i"
| "abs_action Receive_Enter = Listen"
| "abs_action (Receive_Reply r) = Reply_Arrives r"
| "abs_action (Receive_Returns p) = Command_Arrives p"
| "abs_action (Receive_Raises e) = Breaks e"
| "abs_action Close = Shut"

lemma abs_rendezvous_simps [simp]:
  "outcomes (abs_rendezvous s) = outcome_table s"
  "available (abs_rendezvous s) = open_state (state (conn s))"
  "listening (abs_rendezvous s) = reading s" "transport (abs_rendezvous s) = written (conn s)"
  by (simp_all add: abs_rendezvous_def)

lemma abs_rendezvous_eqI:
  assumes "outcome_table s = outcomes t" and "open_state (state (conn s)) = available t"
    and "reading s = listening t" and "written (conn s) = transport t"
  shows "abs_rendezvous s = t"
  using assms by (simp add: abs_rendezvous_def)

lemma outcome_table_None: "outcome_table s i = None \<longleftrightarrow> i \<notin> fst ` set (calls s)"
  by (simp add: outcome_table_def map_of_eq_None_iff)

lemma outcome_table_Some:
  assumes "packet_inv s"
  shows "outcome_table s i = Some f \<longleftrightarrow> (\<exists>a. (i, a) \<in> set (calls s) \<and> futures (conn s) ! a = f)"
  using packet_invD(1) [OF assms] by (auto simp: outcome_table_def)

lemma outcome_table_call:
  assumes "packet_inv s" and "(i, a) \<in> set (calls s)"
  shows "outcome_table s i = Some (futures (conn s) ! a)"
  using assms by (auto simp: outcome_table_Some)

text \<open>Two systems with the same calls have the tables their futures say.\<close>

lemma outcome_table_cong:
  assumes "calls s' = calls s" and "\<And>i a. (i, a) \<in> set (calls s) \<Longrightarrow>
      futures (conn s') ! a = futures (conn s) ! a"
  shows "outcome_table s' = outcome_table s"
  using assms by (auto simp: outcome_table_def fun_eq_iff dest!: map_of_SomeD intro!: option.map_cong0)

lemma outcome_table_settle:
  assumes inv: "packet_inv s" and cl: "clear_pending_replies ((conn s)\<lparr>state := st\<rparr>) = (as, c)"
    and calls: "calls s' = calls s" and conn: "conn s' = resolve as f c"
  shows "outcome_table s' = settle f (outcome_table s)"
proof
  fix i
  show "outcome_table s' i = settle f (outcome_table s) i"
  proof (cases "map_of (calls s) i")
    case None
    then show ?thesis by (simp add: outcome_table_def settle_def calls)
  next
    case (Some a)
    then have ia: "(i, a) \<in> set (calls s)" by (rule map_of_SomeD)
    have c: "futures c = futures (conn s)" using cleared(1) [OF cl] by simp
    have "a \<in> set as \<longleftrightarrow> futures (conn s) ! a = Pending"
      using packet_invD(6) [OF inv ia] by (force simp: cleared(2) [OF cl])
    then have "futures (conn s') ! a = (if futures (conn s) ! a = Pending then f else futures (conn s) ! a)"
      using packet_invD(5) [OF inv ia] by (simp add: conn resolve_nth c)
    with Some show ?thesis by (simp add: outcome_table_def settle_def calls)
  qed
qed

lemma map_of_remove1:
  assumes "distinct (map fst al)" and "(k, v) \<in> set al"
  shows "map_of (remove1 (k, v) al) = (map_of al)(k := None)"
  using assms
proof (induction al)
  case (Cons p al)
  show ?case
  proof (cases "p = (k, v)")
    case True
    with Cons.prems(1) have "map_of al k = None" by (simp add: map_of_eq_None_iff)
    with True show ?thesis by (auto simp: fun_eq_iff)
  next
    case False
    with Cons.prems have "fst p \<noteq> k" by (auto simp: rev_image_eqI)
    with False Cons show ?thesis by (cases p) (auto simp: fun_eq_iff)
  qed
qed simp

lemma outcome_table_removed:
  assumes inv: "packet_inv s" and ia: "(i, a) \<in> set (calls s)"
    and "calls s' = remove1 (i, a) (calls s)" and "futures (conn s') = futures (conn s)"
  shows "outcome_table s' = (outcome_table s)(i := None)"
  using map_of_remove1 [OF packet_invD(1) [OF inv] ia] assms(3,4)
  by (auto simp: outcome_table_def fun_eq_iff)

text \<open>One call's future gets an outcome.\<close>

lemma outcome_table_resolve:
  assumes inv: "packet_inv s" and ia: "(i, a) \<in> set (calls s)"
    and calls: "calls s' = calls s" and futs: "futures (conn s') = (futures (conn s))[a := f]"
  shows "outcome_table s' = (outcome_table s)(i \<mapsto> f)"
proof
  fix j
  show "outcome_table s' j = ((outcome_table s)(i \<mapsto> f)) j"
  proof (cases "map_of (calls s) j")
    case None
    with ia have "j \<noteq> i" by (force simp: map_of_eq_None_iff)
    with None show ?thesis by (simp add: outcome_table_def calls)
  next
    case (Some b)
    then have jb: "(j, b) \<in> set (calls s)" by (rule map_of_SomeD)
    have "j = i \<longleftrightarrow> b = a" using call_unique [OF inv jb ia] .
    with Some packet_invD(5) [OF inv ia] show ?thesis by (auto simp: outcome_table_def calls futs)
  qed
qed

section \<open>Every step is one of the specification\<close>

lemma send_abs:
  assumes inv: "packet_inv s" and sb: "send_begin p (conn s) = (Inr a, c)"
    and fresh: "JdwpCommandPacket.id' p \<notin> fst ` set (calls s)"
  shows "rendezvous_step (abs_rendezvous s) (Ask p)
    (abs_rendezvous (s\<lparr>conn := c, calls := (JdwpCommandPacket.id' p, a) # calls s\<rparr>))"
proof -
  let ?i = "JdwpCommandPacket.id' p"
  let ?s' = "s\<lparr>conn := c, calls := (?i, a) # calls s\<rparr>"
  obtain bs where st: "open_state (state (conn s))" and a: "a = length (futures (conn s))"
    and bs: "packet_to_bytes (CommandPacket p) = Inr bs"
    and c: "state c = state (conn s)" "futures c = futures (conn s) @ [Pending]"
      "written c = written (conn s) @ bs"
    using sb by (auto simp: send_begin_def Let_def check_eq_Inl simp del: packet_to_bytes.simps
        split: sum.splits if_splits)
  have "outcome_table ?s' = (outcome_table s)(?i \<mapsto> Pending)"
    using packet_invD(5) [OF inv] a c(2)
    by (auto simp: outcome_table_def fun_eq_iff nth_append split: option.split dest!: map_of_SomeD
        intro!: option.map_cong0)
  with st c have "abs_rendezvous ?s' = (abs_rendezvous s)
      \<lparr>outcomes := (outcomes (abs_rendezvous s))(?i \<mapsto> Pending), transport := transport (abs_rendezvous s) @ bs\<rparr>"
    by (intro abs_rendezvous_eqI) simp_all
  moreover have "outcomes (abs_rendezvous s) ?i = None" using fresh by (simp add: outcome_table_None)
  ultimately show ?thesis using rendezvous_step.ask [of "abs_rendezvous s" p bs] st bs by simp
qed

lemma send_raises_abs:
  assumes inv: "packet_inv s" and sb: "send_begin p (conn s) = (Inl e, c)"
  shows "rendezvous_step (abs_rendezvous s) (Refused p e) (abs_rendezvous (s\<lparr>conn := c\<rparr>))"
proof -
  let ?i = "JdwpCommandPacket.id' p"
  obtain fs where c: "state c = state (conn s)" "futures c = futures (conn s) @ fs"
    using send_begin_Inl [OF sb] by blast
  have w: "written c = written (conn s)"
    using sb by (auto simp: send_begin_def Let_def simp del: packet_to_bytes.simps split: sum.splits if_splits)
  have "outcome_table (s\<lparr>conn := c\<rparr>) = outcome_table s"
    using packet_invD(5) [OF inv] c(2) by (intro outcome_table_cong) (auto simp: nth_append)
  with c w have "abs_rendezvous (s\<lparr>conn := c\<rparr>) = abs_rendezvous s"
    by (intro abs_rendezvous_eqI) simp_all
  moreover have "(\<not> open_state (state (conn s)) \<or> outcome_table s ?i \<noteq> None) \<and> e = RuntimeError \<or>
      packet_to_bytes (CommandPacket p) = Inl e"
    using sb packet_invD(4) [OF inv] unfolding outcome_table_None
    by (auto simp: send_begin_def Let_def check_eq_Inl simp del: packet_to_bytes.simps
        split: sum.splits if_splits)
  ultimately show ?thesis using rendezvous_step.refused [of "abs_rendezvous s" p e] by simp
qed

lemma reply_abs:
  assumes inv: "packet_inv s" and rd: "reading s" and rp: "receive_packet (ReplyPacket r) (conn s) = (ev, c)"
  shows "rendezvous_step (abs_rendezvous s) (Reply_Arrives r) (abs_rendezvous (s\<lparr>conn := c\<rparr>))"
proof -
  let ?i = "JdwpReplyPacket.id' r"
  have rest: "state c = state (conn s)" "written c = written (conn s)"
    using rp by (auto simp: Let_def split: option.splits if_splits)
  have "outcome_table (s\<lparr>conn := c\<rparr>) = (if outcome_table s ?i = Some Pending
      then (outcome_table s)(?i \<mapsto> Finished r) else outcome_table s)"
  proof (cases "outcome_table s ?i = Some Pending")
    case True
    then obtain a where a: "(?i, a) \<in> set (calls s)" "futures (conn s) ! a = Pending"
      by (auto simp: outcome_table_Some [OF inv])
    have "map_of (pending_replies (conn s)) ?i = Some a"
      using packet_invD(6) [OF inv a] packet_invD(3) [OF inv] by simp
    with rp a(2) have "futures c = (futures (conn s))[a := Finished r]"
      by (auto simp: Let_def resolve_def)
    with outcome_table_resolve [OF inv a(1), of "s\<lparr>conn := c\<rparr>"] True show ?thesis by simp
  next
    case False
    have "futures c = futures (conn s)"
    proof (cases "map_of (pending_replies (conn s)) ?i")
      case (Some a)
      then have "(?i, a) \<in> set (calls s)" using packet_invD(4) [OF inv] map_of_SomeD [OF Some] by blast
      with False have "futures (conn s) ! a \<noteq> Pending" by (auto simp: outcome_table_Some [OF inv])
      with rp Some show ?thesis by (auto simp: Let_def)
    qed (use rp in \<open>auto simp: Let_def\<close>)
    with False show ?thesis by (auto intro: outcome_table_cong)
  qed
  with rest have "abs_rendezvous (s\<lparr>conn := c\<rparr>) = (abs_rendezvous s)\<lparr>outcomes :=
      (if outcomes (abs_rendezvous s) ?i = Some Pending
       then (outcomes (abs_rendezvous s))(?i \<mapsto> Finished r) else outcomes (abs_rendezvous s))\<rparr>"
    by (intro abs_rendezvous_eqI) simp_all
  with rendezvous_step.reply_arrives [of "abs_rendezvous s" ?i r] rd show ?thesis by simp
qed

lemma removed_abs:
  assumes "packet_inv s" and "(i, a) \<in> set (calls s)"
  shows "abs_rendezvous (s\<lparr>conn := send_end i (conn s), calls := remove1 (i, a) (calls s)\<rparr>) =
    (abs_rendezvous s)\<lparr>outcomes := (outcomes (abs_rendezvous s))(i := None)\<rparr>"
  using outcome_table_removed [OF assms] by (intro abs_rendezvous_eqI) (simp_all add: send_end_def)

lemma packet_step_abs:
  assumes "packet_step s act s'" and "packet_inv s" and "fresh_send act s"
  shows "rendezvous_step (abs_rendezvous s) (abs_action act) (abs_rendezvous s')"
  using assms
proof (induction rule: packet_step.induct)
  case (send p s a c)
  then show ?case by (simp add: send_abs)
next
  case (send_raises p s e c)
  then show ?case by (simp add: send_raises_abs)
next
  case (send_direct p s r c)
  then have "state c = state (conn s)" "futures c = futures (conn s)"
    and w: "written c = (case packet_to_bytes p of Inl _ \<Rightarrow> written (conn s) | Inr bs \<Rightarrow> written (conn s) @ bs)"
    by (auto simp: sender_send_def simp del: packet_to_bytes.simps split: sum.splits)
  then have "abs_rendezvous (s\<lparr>conn := c\<rparr>) = (abs_rendezvous s)\<lparr>transport := written c\<rparr>"
    by (intro abs_rendezvous_eqI) (auto intro: outcome_table_cong)
  moreover have "rendezvous_step (abs_rendezvous s) (Tell p) ((abs_rendezvous s)\<lparr>transport := written c\<rparr>)"
    using w by (intro rendezvous_step.tell) (simp split: sum.split)
  ultimately show ?case by simp
next
  case (call_returns i a s r)
  then show ?case
    using rendezvous_step.answered [of "abs_rendezvous s" i _ r]
    by (simp add: removed_abs outcome_table_call)
next
  case (call_interrupted i a s e)
  then show ?case
    using rendezvous_step.interrupted [of "abs_rendezvous s" i e]
    by (simp add: removed_abs outcome_table_call)
next
  case (call_cancelled i a s)
  have "outcome_table (s\<lparr>conn := resolve [a] Cancelled (conn s)\<rparr>) = (outcome_table s)(i \<mapsto> Cancelled)"
    using outcome_table_resolve [OF call_cancelled.prems(1) call_cancelled.hyps(1)]
    by (simp add: resolve_def)
  then have "abs_rendezvous (s\<lparr>conn := resolve [a] Cancelled (conn s)\<rparr>) =
      (abs_rendezvous s)\<lparr>outcomes := (outcomes (abs_rendezvous s))(i \<mapsto> Cancelled)\<rparr>"
    by (intro abs_rendezvous_eqI) simp_all
  with rendezvous_step.withdrawn [of "abs_rendezvous s" i] call_cancelled show ?case
    by (simp add: outcome_table_call)
next
  case (receive_enter s)
  then have "abs_rendezvous (s\<lparr>reading := True\<rparr>) = (abs_rendezvous s)\<lparr>listening := True\<rparr>"
    by (intro abs_rendezvous_eqI) (auto intro: outcome_table_cong)
  with rendezvous_step.listen [of "abs_rendezvous s"] receive_enter show ?case by simp
next
  case (receive_reply s r ev c)
  then show ?case by (simp add: reply_abs)
next
  case (receive_returns s p c)
  then have "abs_rendezvous (s\<lparr>conn := c, reading := False\<rparr>) = (abs_rendezvous s)\<lparr>listening := False\<rparr>"
    by (intro abs_rendezvous_eqI) (auto intro: outcome_table_cong)
  with rendezvous_step.command_arrives [of "abs_rendezvous s" p] receive_returns show ?case by simp
next
  case (receive_raises s e)
  obtain as d where d: "clear_pending_replies ((conn s)\<lparr>state := mark_error e (state (conn s))\<rparr>) = (as, d)"
    and r: "receive_failed e (conn s) = resolve as (failure e) d"
    using receive_failed_eq by blast
  have "abs_rendezvous (s\<lparr>conn := receive_failed e (conn s), reading := False\<rparr>) = (abs_rendezvous s)
      \<lparr>outcomes := settle (failure e) (outcomes (abs_rendezvous s)), available := False, listening := False\<rparr>"
    using cleared(1) [OF d] outcome_table_settle [OF receive_raises.prems(1) d]
    by (intro abs_rendezvous_eqI) (simp_all add: r)
  with rendezvous_step.breaks [of "abs_rendezvous s" e] receive_raises show ?case by simp
next
  case (close s)
  obtain as d where d: "clear_pending_replies ((conn s)\<lparr>state := mark_closed (state (conn s))\<rparr>) = (as, d)"
    and r: "packet_connection_close (conn s) = resolve as Cancelled d"
    using packet_connection_close_eq by blast
  have "abs_rendezvous (s\<lparr>conn := packet_connection_close (conn s)\<rparr>) = (abs_rendezvous s)
      \<lparr>outcomes := settle Cancelled (outcomes (abs_rendezvous s)), available := False\<rparr>"
    using cleared(1) [OF d] outcome_table_settle [OF close.prems(1) d]
    by (intro abs_rendezvous_eqI) (simp_all add: r)
  with rendezvous_step.shut [of "abs_rendezvous s"] show ?case by simp
qed

text \<open>
  So the specification simulates the packet connection, along whole runs.
\<close>

lemma rendezvous_simulates:
  assumes "fresh_step s act s'" and "packet_inv s"
  shows "rendezvous_step (abs_rendezvous s) (abs_action act) (abs_rendezvous s')"
  using assms by (auto simp: fresh_step_def intro: packet_step_abs)

lemma rendezvous_simulates_run:
  "run fresh_step s acts s' \<Longrightarrow> packet_inv s \<Longrightarrow>
    run rendezvous_step (abs_rendezvous s) (map abs_action acts) (abs_rendezvous s')"
proof (induction rule: run.induct)
  case (Cons s act s' as s'')
  then have "packet_inv s'" using packet.step_inv by blast
  with Cons rendezvous_simulates show ?case by (auto intro: run.Cons)
qed (simp add: run.Nil)

lemma abs_rendezvous_init: "abs_rendezvous packet_system_init = rendezvous_init"
  by (rule abs_rendezvous_eqI)
    (simp_all add: rendezvous_init_def packet_system_init_def packet_connection_init_def outcome_table_def
      fun_eq_iff)

section \<open>Every step of the specification can be made\<close>

text \<open>
  A refusal may have a reason the specification does not tell from others: an id whose call was
  cancelled stays registered or not, depending on whether its reply has come.
\<close>

fun refusal :: "rendezvous_action \<Rightarrow> bool" where
  "refusal (Refused p e) = True"
| "refusal _ = False"

lemma abs_action_realised:
  assumes "rendezvous_step (abs_rendezvous s) l t" and "packet_inv s" and "\<not> refusal l"
  shows "\<exists>act s'. fresh_step s act s' \<and> abs_action act = l"
  using assms(1)
proof cases
  case (ask p bs)
  then have i: "JdwpCommandPacket.id' p \<notin> fst ` set (calls s)" by (simp add: outcome_table_None)
  then have "JdwpCommandPacket.id' p \<notin> fst ` set (pending_replies (conn s))"
    using packet_invD(4) [OF assms(2)] by auto
  then obtain a c where "send_begin p (conn s) = (Inr a, c)"
    using ask by (cases "check (state (conn s))")
      (auto simp: send_begin_def Let_def check_eq_Inl simp del: packet_to_bytes.simps)
  then have "fresh_step s (Send p) (s\<lparr>conn := c, calls := (JdwpCommandPacket.id' p, a) # calls s\<rparr>)"
    using i by (simp add: fresh_step_def packet_step.send)
  then show ?thesis using ask(1) by (intro exI conjI) auto
next
  case (tell tr p)
  obtain r c where "sender_send p (conn s) = (r, c)" by fastforce
  then have "fresh_step s (Send_Direct p) (s\<lparr>conn := c\<rparr>)" by (simp add: fresh_step_def packet_step.send_direct)
  then show ?thesis using tell(1) by (intro exI conjI) auto
next
  case (answered i f r)
  then obtain a where "(i, a) \<in> set (calls s)" "await_result (futures (conn s) ! a) = Some r"
    using outcome_table_Some [OF assms(2)] by auto
  then show ?thesis using answered(1) packet_step.call_returns
    by (intro exI [of _ "Call_Returns i a r"]) (simp add: fresh_step_def, blast)
next
  case (interrupted i e)
  then obtain a where "(i, a) \<in> set (calls s)" by (auto simp: outcome_table_None)
  then show ?thesis using interrupted(1) packet_step.call_interrupted
    by (intro exI [of _ "Call_Interrupted i a e"]) (simp add: fresh_step_def, blast)
next
  case (withdrawn i)
  then obtain a where "(i, a) \<in> set (calls s)" "futures (conn s) ! a = Pending"
    using outcome_table_Some [OF assms(2)] by auto
  then show ?thesis using withdrawn(1) packet_step.call_cancelled
    by (intro exI [of _ "Call_Cancelled i a"]) (simp add: fresh_step_def, blast)
next
  case listen
  then show ?thesis using packet_step.receive_enter
    by (intro exI [of _ Receive_Enter]) (simp add: fresh_step_def, blast)
next
  case (reply_arrives i r)
  obtain ev c where "receive_packet (ReplyPacket r) (conn s) = (ev, c)" by fastforce
  then have "fresh_step s (Receive_Reply r) (s\<lparr>conn := c\<rparr>)"
    using reply_arrives packet_step.receive_reply by (auto simp: fresh_step_def)
  then show ?thesis using reply_arrives(1) by (intro exI conjI) auto
next
  case (command_arrives p)
  then show ?thesis using packet_step.receive_returns [of s p]
    by (intro exI [of _ "Receive_Returns p"]) (simp add: fresh_step_def, blast)
next
  case (breaks e)
  then show ?thesis using packet_step.receive_raises
    by (intro exI [of _ "Receive_Raises e"]) (simp add: fresh_step_def, blast)
next
  case shut
  then show ?thesis using packet_step.close
    by (intro exI [of _ Close]) (simp add: fresh_step_def, blast)
qed (use assms(3) in auto)

text \<open>The specification is deterministic in its labels, so the step made is the step asked for.\<close>

lemma rendezvous_deterministic:
  assumes "rendezvous_step t l u" and "rendezvous_step t l v"
  shows "u = v"
  using assms by (auto elim!: rendezvous_step.cases)

lemma rendezvous_realised:
  assumes "rendezvous_step (abs_rendezvous s) l t" and "packet_inv s" and "\<not> refusal l"
  shows "\<exists>act s'. fresh_step s act s' \<and> abs_action act = l \<and> abs_rendezvous s' = t"
proof -
  obtain act s' where "fresh_step s act s'" "abs_action act = l"
    using abs_action_realised [OF assms] by blast
  with rendezvous_simulates [OF this(1) assms(2)] rendezvous_deterministic [OF assms(1)] show ?thesis by blast
qed

end
