(* ===== verification/Proxy.thy ===== *)
theory Proxy
  imports Connection
begin

text \<open>
  \<^verbatim>\<open>proxy.py\<close>: the logging proxy between a debugger and a VM. A session forwards every packet, keeps
  the commands that wait for replies, and follows the replies to \<open>IDSizes\<close> to know the sizes of the
  identifiers. The handlers are functions on the session; the step relation interleaves the loops
  of the two directions. Log lines are strings; the text of a parsed message is not modelled, only
  which message it is.
\<close>

section \<open>Text\<close>

text \<open>Decimal and hexadecimal digits, and the padding of \<open>str.ljust\<close> and of the format \<open><n\<close>.\<close>

fun show_nat :: "nat \<Rightarrow> string" where
  "show_nat n = (if n < 10 then [char_of (48 + n)] else show_nat (n div 10) @ [char_of (48 + n mod 10)])"

declare show_nat.simps [simp del]

definition show_int :: "int \<Rightarrow> string" where
  "show_int i = (if i < 0 then CHR ''-'' # show_nat (nat (- i)) else show_nat (nat i))"

definition ljust :: "nat \<Rightarrow> string \<Rightarrow> string" where
  "ljust n s = s @ replicate (n - length s) CHR '' ''"

definition hex_digit :: "nat \<Rightarrow> char" where
  "hex_digit d = (if d < 10 then char_of (48 + d) else char_of (55 + d))"

text \<open>\<open>{b:02X}\<close> of a byte, and \<open>{i:04X}\<close>, which has at least four digits.\<close>

definition hex_byte :: "byte \<Rightarrow> string" where
  "hex_byte b = [hex_digit (unat b div 16), hex_digit (unat b mod 16)]"

fun hex_nat :: "nat \<Rightarrow> string" where
  "hex_nat n = (if n < 16 then [hex_digit n] else hex_nat (n div 16) @ [hex_digit (n mod 16)])"

declare hex_nat.simps [simp del]

definition hex_offset :: "nat \<Rightarrow> string" where
  "hex_offset n = replicate (4 - length (hex_nat n)) CHR ''0'' @ hex_nat n"

text \<open>\<open>sep.join(xs)\<close>.\<close>

fun join :: "string \<Rightarrow> string list \<Rightarrow> string" where
  "join sep [] = []"
| "join sep [x] = x"
| "join sep (x # y # xs) = x @ sep @ join sep (y # xs)"

section \<open>format_hexdump\<close>

definition printable :: "byte \<Rightarrow> char" where
  "printable b = (if 32 \<le> unat b \<and> unat b < 127 then char_of (unat b) else CHR ''.'')"

definition hex_part :: "bytes \<Rightarrow> string" where
  "hex_part chunk =
     (let s = join '' '' (map hex_byte chunk);
          s = (if length chunk > 8 then take 23 s @ ''  '' @ drop 23 s else s)
      in ljust 49 s)"

definition hexdump_line :: "string \<Rightarrow> nat \<Rightarrow> bytes \<Rightarrow> string" where
  "hexdump_line prefix i chunk =
     prefix @ hex_offset i @ ''  '' @ hex_part chunk @ ''  |'' @ map printable chunk @ ''|''"

function hexdump_lines :: "string \<Rightarrow> nat \<Rightarrow> bytes \<Rightarrow> string list" where
  "hexdump_lines prefix i dat =
     (if dat = [] then []
      else hexdump_line prefix i (take 16 dat) # hexdump_lines prefix (i + 16) (drop 16 dat))"
  by pat_completeness auto
termination by (relation "measure (\<lambda>(p, i, dat). length dat)") auto

declare hexdump_lines.simps [simp del]

definition format_hexdump :: "bytes \<Rightarrow> string \<Rightarrow> string" where
  "format_hexdump dat prefix = join [CHR 0x0A] (hexdump_lines prefix 0 dat)"

section \<open>Log lines\<close>

record JdwpDirection =
  label :: string
  arrow :: string
  color :: string
  reset :: string

definition DBG_TO_VM :: JdwpDirection where
  "DBG_TO_VM = \<lparr>label = ''Debugger -> VM'', arrow = ''>>>'', color = CHR 0x1B # ''[92m'',
     reset = CHR 0x1B # ''[0m''\<rparr>"

definition VM_TO_DBG :: JdwpDirection where
  "VM_TO_DBG = \<lparr>label = ''VM -> Debugger'', arrow = ''<<<'', color = CHR 0x1B # ''[94m'',
     reset = CHR 0x1B # ''[0m''\<rparr>"

definition format_raw_command :: "JdwpCommandPacket \<Rightarrow> JdwpDirection \<Rightarrow> string" where
  "format_raw_command packet direction =
     (let cmd_name = (case get_command_class (command_set packet) (command packet) of
          Some cls \<Rightarrow> command_name cls
        | None \<Rightarrow> ''UnknownCmd('' @ show_int (command_set packet) @ '':'' @
            show_int (command packet) @ '')'')
      in color direction @ arrow direction @ '' [Command]'' @ reset direction @
         '' ID: '' @ ljust 4 (show_int (JdwpCommandPacket.id' packet)) @ '' | '' @
         ljust 18 cmd_name @ '' | Set: '' @ ljust 2 (show_int (command_set packet)) @
         '' Cmd: '' @ ljust 2 (show_int (command packet)) @ '' | Payload: '' @
         ljust 3 (show_nat (length (JdwpCommandPacket.data packet))) @ '' bytes'')"

text \<open>The names of the error codes, as \<open>e.name\<close> gives them.\<close>

primrec error_name :: "JdwpErrorCode \<Rightarrow> string" where
  "error_name ERR_NONE = ''NONE''"
| "error_name ERR_INVALID_THREAD = ''INVALID_THREAD''"
| "error_name ERR_INVALID_THREAD_GROUP = ''INVALID_THREAD_GROUP''"
| "error_name ERR_INVALID_PRIORITY = ''INVALID_PRIORITY''"
| "error_name ERR_THREAD_NOT_SUSPENDED = ''THREAD_NOT_SUSPENDED''"
| "error_name ERR_THREAD_SUSPENDED = ''THREAD_SUSPENDED''"
| "error_name ERR_THREAD_NOT_ALIVE = ''THREAD_NOT_ALIVE''"
| "error_name ERR_INVALID_OBJECT = ''INVALID_OBJECT''"
| "error_name ERR_INVALID_CLASS = ''INVALID_CLASS''"
| "error_name ERR_CLASS_NOT_PREPARED = ''CLASS_NOT_PREPARED''"
| "error_name ERR_INVALID_METHODID = ''INVALID_METHODID''"
| "error_name ERR_INVALID_LOCATION = ''INVALID_LOCATION''"
| "error_name ERR_INVALID_FIELDID = ''INVALID_FIELDID''"
| "error_name ERR_INVALID_FRAMEID = ''INVALID_FRAMEID''"
| "error_name ERR_NO_MORE_FRAMES = ''NO_MORE_FRAMES''"
| "error_name ERR_OPAQUE_FRAME = ''OPAQUE_FRAME''"
| "error_name ERR_NOT_CURRENT_FRAME = ''NOT_CURRENT_FRAME''"
| "error_name ERR_TYPE_MISMATCH = ''TYPE_MISMATCH''"
| "error_name ERR_INVALID_SLOT = ''INVALID_SLOT''"
| "error_name ERR_DUPLICATE = ''DUPLICATE''"
| "error_name ERR_NOT_FOUND = ''NOT_FOUND''"
| "error_name ERR_INVALID_MODULE = ''INVALID_MODULE''"
| "error_name ERR_INVALID_MONITOR = ''INVALID_MONITOR''"
| "error_name ERR_NOT_MONITOR_OWNER = ''NOT_MONITOR_OWNER''"
| "error_name ERR_INTERRUPT = ''INTERRUPT''"
| "error_name ERR_INVALID_CLASS_FORMAT = ''INVALID_CLASS_FORMAT''"
| "error_name ERR_CIRCULAR_CLASS_DEFINITION = ''CIRCULAR_CLASS_DEFINITION''"
| "error_name ERR_FAILS_VERIFICATION = ''FAILS_VERIFICATION''"
| "error_name ERR_ADD_METHOD_NOT_IMPLEMENTED = ''ADD_METHOD_NOT_IMPLEMENTED''"
| "error_name ERR_SCHEMA_CHANGE_NOT_IMPLEMENTED = ''SCHEMA_CHANGE_NOT_IMPLEMENTED''"
| "error_name ERR_INVALID_TYPESTATE = ''INVALID_TYPESTATE''"
| "error_name ERR_HIERARCHY_CHANGE_NOT_IMPLEMENTED = ''HIERARCHY_CHANGE_NOT_IMPLEMENTED''"
| "error_name ERR_DELETE_METHOD_NOT_IMPLEMENTED = ''DELETE_METHOD_NOT_IMPLEMENTED''"
| "error_name ERR_UNSUPPORTED_VERSION = ''UNSUPPORTED_VERSION''"
| "error_name ERR_NAMES_DONT_MATCH = ''NAMES_DONT_MATCH''"
| "error_name ERR_CLASS_MODIFIERS_CHANGE_NOT_IMPLEMENTED = ''CLASS_MODIFIERS_CHANGE_NOT_IMPLEMENTED''"
| "error_name ERR_METHOD_MODIFIERS_CHANGE_NOT_IMPLEMENTED = ''METHOD_MODIFIERS_CHANGE_NOT_IMPLEMENTED''"
| "error_name ERR_CLASS_ATTRIBUTE_CHANGE_NOT_IMPLEMENTED = ''CLASS_ATTRIBUTE_CHANGE_NOT_IMPLEMENTED''"
| "error_name ERR_NOT_IMPLEMENTED = ''NOT_IMPLEMENTED''"
| "error_name ERR_NULL_POINTER = ''NULL_POINTER''"
| "error_name ERR_ABSENT_INFORMATION = ''ABSENT_INFORMATION''"
| "error_name ERR_INVALID_EVENT_TYPE = ''INVALID_EVENT_TYPE''"
| "error_name ERR_ILLEGAL_ARGUMENT = ''ILLEGAL_ARGUMENT''"
| "error_name ERR_OUT_OF_MEMORY = ''OUT_OF_MEMORY''"
| "error_name ERR_ACCESS_DENIED = ''ACCESS_DENIED''"
| "error_name ERR_VM_DEAD = ''VM_DEAD''"
| "error_name ERR_INTERNAL = ''INTERNAL''"
| "error_name ERR_UNATTACHED_THREAD = ''UNATTACHED_THREAD''"
| "error_name ERR_INVALID_TAG = ''INVALID_TAG''"
| "error_name ERR_ALREADY_INVOKING = ''ALREADY_INVOKING''"
| "error_name ERR_INVALID_INDEX = ''INVALID_INDEX''"
| "error_name ERR_INVALID_LENGTH = ''INVALID_LENGTH''"
| "error_name ERR_INVALID_STRING = ''INVALID_STRING''"
| "error_name ERR_INVALID_CLASS_LOADER = ''INVALID_CLASS_LOADER''"
| "error_name ERR_INVALID_ARRAY = ''INVALID_ARRAY''"
| "error_name ERR_TRANSPORT_LOAD = ''TRANSPORT_LOAD''"
| "error_name ERR_TRANSPORT_INIT = ''TRANSPORT_INIT''"
| "error_name ERR_NATIVE_METHOD = ''NATIVE_METHOD''"
| "error_name ERR_INVALID_COUNT = ''INVALID_COUNT''"

text \<open>
  A member of an \<open>IntEnum\<close> counts as false when its value is 0, so the name of \<open>NONE\<close> is never
  looked up.
\<close>

definition reply_error_name :: "int \<Rightarrow> string" where
  "reply_error_name err_val =
     (case JdwpErrorCode_of err_val of
        Some err_enum \<Rightarrow>
          (if error_value err_enum \<noteq> 0 then error_name err_enum
           else ''Unknown('' @ show_int err_val @ '')'')
      | None \<Rightarrow> ''Unknown('' @ show_int err_val @ '')'')"

definition format_raw_reply :: "JdwpReplyPacket \<Rightarrow> JdwpDirection \<Rightarrow> string" where
  "format_raw_reply packet direction =
     (let err_val = error_field_value (error_code packet)
      in color direction @ arrow direction @ '' [Reply  ]'' @ reset direction @
         '' ID: '' @ ljust 4 (show_int (JdwpReplyPacket.id' packet)) @ '' | Error: '' @
         ljust 18 (reply_error_name err_val) @ '' | Code: '' @ ljust 4 (show_int err_val) @
         '' | Payload: '' @ ljust 3 (show_nat (length (JdwpReplyPacket.data packet))) @ '' bytes'')"

text \<open>What the parsed line of a log message shows.\<close>

datatype (plugins only: code) parsed_line =
    No_Line
  | Parsed_Command JdwpCommand
  | Parsed_Response JdwpResponse
  | Parse_Error py_exc

definition format_parsed_command :: "JdwpCommandPacket \<Rightarrow> IdSizesSpec \<Rightarrow> parsed_line" where
  "format_parsed_command packet sp =
     (case get_command_class (command_set packet) (command packet) of
        None \<Rightarrow> No_Line
      | Some cmd_cls \<Rightarrow>
          (if length (JdwpCommandPacket.data packet) > 0 then
             (case from_bytes (command_deserialize cmd_cls) (JdwpCommandPacket.data packet) sp of
                Inl e \<Rightarrow> Parse_Error e
              | Inr cmd \<Rightarrow> Parsed_Command cmd)
           else No_Line))"

definition format_parsed_reply ::
    "JdwpReplyPacket \<Rightarrow> (int \<times> int \<times> int) list \<Rightarrow> IdSizesSpec \<Rightarrow> parsed_line" where
  "format_parsed_reply packet outstanding sp =
     (case map_of outstanding (JdwpReplyPacket.id' packet) of
        None \<Rightarrow> No_Line
      | Some (cmd_set, cmd_cmd) \<Rightarrow>
          (if error_field_value (error_code packet) = 0 \<and> length (JdwpReplyPacket.data packet) > 0 then
             (case get_command_class cmd_set cmd_cmd of
                None \<Rightarrow> No_Line
              | Some cmd_cls \<Rightarrow>
                  (case get_response_class cmd_cls of
                     None \<Rightarrow> No_Line
                   | Some resp_cls \<Rightarrow>
                       (case from_bytes (response_deserialize resp_cls)
                           (JdwpReplyPacket.data packet) sp of
                          Inl e \<Rightarrow> Parse_Error e
                        | Inr resp \<Rightarrow> Parsed_Response resp)))
           else No_Line))"

record log_entry =
  raw :: string
  hexdump :: string
  parsed_as :: parsed_line

section \<open>The session\<close>

text \<open>
  \<open>to_vm\<close> and \<open>to_dbg\<close> are what was written to the two peers; \<open>log\<close> is what was logged.
  \<open>outstanding_commands\<close> is the dictionary from packet ids to command set and command.
\<close>

record JdwpProxySession =
  spec :: IdSizesSpec
  idsizes_cmd_ids :: "int set"
  outstanding_commands :: "(int \<times> int \<times> int) list"
  close_event :: bool
  to_vm :: bytes
  to_dbg :: bytes
  log :: "log_entry list"

definition session_init :: JdwpProxySession where
  "session_init = \<lparr>spec = default_spec, idsizes_cmd_ids = {}, outstanding_commands = [],
     close_event = False, to_vm = [], to_dbg = [], log = []\<rparr>"

text \<open>
  \<open>create\<close>: the handshake with the VM first, then the one of the debugger, which is answered.
  \<open>vm\<close> and \<open>dbg\<close> are what the two peers send; the result is the rest of both.
\<close>

definition create_session :: "bytes \<Rightarrow> bytes \<Rightarrow> (JdwpProxySession \<times> bytes \<times> bytes) result" where
  "create_session vm dbg =
     res_bind (establish_jdwp_connection vm) (\<lambda>(out, vm).
     res_bind (readexactly (int (length HANDSHAKE)) dbg) (\<lambda>(dbg_handshake, dbg).
       if dbg_handshake \<noteq> HANDSHAKE then Inl RuntimeError
       else Inr (session_init\<lparr>to_vm := out, to_dbg := HANDSHAKE\<rparr>, vm, dbg)))"

text \<open>
  \<open>_log_packet\<close>. The packet was serialized just before, so \<open>to_bytes\<close> does not raise; the model's
  hex dump is empty if it did.
\<close>

definition log_packet :: "JdwpPacket \<Rightarrow> JdwpDirection \<Rightarrow> JdwpProxySession \<Rightarrow> JdwpProxySession" where
  "log_packet packet direction s =
     (let dump = (case packet_to_bytes packet of
          Inl _ \<Rightarrow> ''''
        | Inr raw_bytes \<Rightarrow> format_hexdump raw_bytes ''      '');
          entry = (case packet of
             CommandPacket p \<Rightarrow> \<lparr>raw = format_raw_command p direction, hexdump = dump,
               parsed_as = format_parsed_command p (JdwpProxySession.spec s)\<rparr>
           | ReplyPacket p \<Rightarrow> \<lparr>raw = format_raw_reply p direction, hexdump = dump,
               parsed_as = format_parsed_reply p (outstanding_commands s) (JdwpProxySession.spec s)\<rparr>)
      in s\<lparr>log := log s @ [entry]\<rparr>)"

text \<open>
  \<open>_handle_debugger_packet\<close>, before and after the \<open>await\<close> of the write.
\<close>

definition track_command :: "JdwpPacket \<Rightarrow> JdwpProxySession \<Rightarrow> JdwpProxySession" where
  "track_command packet s =
     (case packet of
        CommandPacket p \<Rightarrow>
          (let s = s\<lparr>outstanding_commands := AList.update (JdwpCommandPacket.id' p)
               (command_set p, command p) (outstanding_commands s)\<rparr>
           in if command_set p = 1 \<and> command p = 7
              then s\<lparr>idsizes_cmd_ids := insert (JdwpCommandPacket.id' p) (idsizes_cmd_ids s)\<rparr>
              else s)
      | ReplyPacket _ \<Rightarrow> s)"

definition debugger_packet_begin ::
    "JdwpPacket \<Rightarrow> JdwpProxySession \<Rightarrow> unit result \<times> JdwpProxySession" where
  "debugger_packet_begin packet s =
     (let s = track_command packet s
      in case packet_to_bytes packet of
           Inl e \<Rightarrow> (Inl e, s)
         | Inr bs \<Rightarrow> (Inr (), s\<lparr>to_vm := to_vm s @ bs\<rparr>))"

definition debugger_packet_end :: "JdwpPacket \<Rightarrow> JdwpProxySession \<Rightarrow> JdwpProxySession" where
  "debugger_packet_end packet s = log_packet packet DBG_TO_VM s"

text \<open>\<open>_handle_vm_packet\<close>, likewise; the reply to an \<open>IDSizes\<close> is looked at before it is sent on.\<close>

definition intercept_idsizes ::
    "JdwpPacket \<Rightarrow> JdwpProxySession \<Rightarrow> unit result \<times> JdwpProxySession" where
  "intercept_idsizes packet s =
     (case packet of
        CommandPacket _ \<Rightarrow> (Inr (), s)
      | ReplyPacket p \<Rightarrow>
          if JdwpReplyPacket.id' p \<in> idsizes_cmd_ids s then
            (let s = s\<lparr>idsizes_cmd_ids := idsizes_cmd_ids s - {JdwpReplyPacket.id' p}\<rparr>
             in if error_field_value (error_code p) = 0 then
                  (case from_bytes IDSizesResponse_deserialize (JdwpReplyPacket.data p)
                       (JdwpProxySession.spec s) of
                     Inl e \<Rightarrow> (Inl e, s)
                   | Inr resp \<Rightarrow>
                       (case from_response resp of
                          Inl e \<Rightarrow> (Inl e, s)
                        | Inr sp \<Rightarrow> (Inr (), s\<lparr>JdwpProxySession.spec := sp\<rparr>)))
                else (Inr (), s))
          else (Inr (), s))"

definition vm_packet_begin ::
    "JdwpPacket \<Rightarrow> JdwpProxySession \<Rightarrow> unit result \<times> JdwpProxySession" where
  "vm_packet_begin packet s =
     (case intercept_idsizes packet s of
        (Inl e, s) \<Rightarrow> (Inl e, s)
      | (Inr _, s) \<Rightarrow>
          (case packet_to_bytes packet of
             Inl e \<Rightarrow> (Inl e, s)
           | Inr bs \<Rightarrow> (Inr (), s\<lparr>to_dbg := to_dbg s @ bs\<rparr>)))"

definition vm_packet_end :: "JdwpPacket \<Rightarrow> JdwpProxySession \<Rightarrow> JdwpProxySession" where
  "vm_packet_end packet s =
     (let s = log_packet packet VM_TO_DBG s
      in case packet of
           CommandPacket _ \<Rightarrow> s
         | ReplyPacket p \<Rightarrow>
             s\<lparr>outstanding_commands := AList.delete (JdwpReplyPacket.id' p) (outstanding_commands s)\<rparr>)"

text \<open>\<open>_handle_debugger_exception\<close> and \<open>_handle_vm_exception\<close> only differ in what they log.\<close>

definition handle_exception :: "py_exc \<Rightarrow> JdwpProxySession \<Rightarrow> JdwpProxySession" where
  "handle_exception e s = (if e = CancelledError then s else s\<lparr>close_event := True\<rparr>)"

section \<open>The two loops\<close>

text \<open>
  Where a loop is: waiting for a packet, waiting for the write of a packet it has handled, or
  ended. Before waiting again a loop looks at \<open>close_event\<close>. \<open>dbg_in\<close> and \<open>vm_in\<close> are the bytes the
  peers have sent that were not read yet.
\<close>

datatype loop = Receiving | Sending JdwpPacket | Stopped

record proxy =
  session :: JdwpProxySession
  dbg_loop :: loop
  vm_loop :: loop
  dbg_in :: bytes
  vm_in :: bytes

definition next_turn :: "JdwpProxySession \<Rightarrow> loop" where
  "next_turn s = (if close_event s then Stopped else Receiving)"

datatype proxy_action =
    Dbg_Packet JdwpPacket
  | Dbg_Raises py_exc
  | Dbg_Sent JdwpPacket
  | Vm_Packet JdwpPacket
  | Vm_Raises py_exc
  | Vm_Sent JdwpPacket
  | Arrive_Dbg bytes
  | Arrive_Vm bytes
  | Shutdown

text \<open>
  What a receive that raises leaves in the stream's buffer (\<^verbatim>\<open>packet.py\<close>, \<open>readexactly\<close>). A length below
  the header's raises when the header has been taken; at the end of the stream \<open>readexactly\<close> throws
  away the incomplete rest, whether the header was taken before or not; any other exception, a
  cancellation included, comes before the header or between a header with a good length and its
  payload. A loop that waits for a write takes nothing.
\<close>

definition receive_stops :: "py_exc \<Rightarrow> bytes \<Rightarrow> bytes \<Rightarrow> bool" where
  "receive_stops e input rest =
     (if e = ValueError then deserialize_packet input = Inl ValueError \<and> rest = drop 11 input
      else if e = IncompleteReadError then deserialize_packet input = Inl IncompleteReadError \<and> rest = []
      else rest = input \<or> 11 \<le> length input \<and> 11 \<le> be_uint (take 4 input) \<and> rest = drop 11 input)"

fun loop_stops :: "loop \<Rightarrow> py_exc \<Rightarrow> bytes \<Rightarrow> bytes \<Rightarrow> bool" where
  "loop_stops Receiving e input rest = receive_stops e input rest"
| "loop_stops (Sending p) e input rest = (rest = input)"
| "loop_stops Stopped e input rest = False"

fun loop_cancelled :: "loop \<Rightarrow> bytes \<Rightarrow> bytes \<Rightarrow> bool" where
  "loop_cancelled Stopped input rest = (rest = input)"
| "loop_cancelled l input rest = loop_stops l CancelledError input rest"

text \<open>
  A handler that raises and a receiver that raises (at any moment: the stream may end) leave the
  loop through the same exception handler. \<open>run\<close> waits for \<open>close_event\<close> and then cancels both.
\<close>

inductive proxy_step :: "proxy \<Rightarrow> proxy_action \<Rightarrow> proxy \<Rightarrow> bool" where
  dbg_packet: "dbg_loop s = Receiving \<Longrightarrow> deserialize_packet (dbg_in s) = Inr (p, rest) \<Longrightarrow>
    debugger_packet_begin p (session s) = (Inr (), s') \<Longrightarrow>
    proxy_step s (Dbg_Packet p) (s\<lparr>session := s', dbg_in := rest, dbg_loop := Sending p\<rparr>)"
| dbg_packet_raises: "dbg_loop s = Receiving \<Longrightarrow> deserialize_packet (dbg_in s) = Inr (p, rest) \<Longrightarrow>
    debugger_packet_begin p (session s) = (Inl e, s') \<Longrightarrow>
    proxy_step s (Dbg_Raises e)
      (s\<lparr>session := handle_exception e s', dbg_in := rest, dbg_loop := Stopped\<rparr>)"
| dbg_raises: "loop_stops (dbg_loop s) e (dbg_in s) rest \<Longrightarrow>
    proxy_step s (Dbg_Raises e)
      (s\<lparr>session := handle_exception e (session s), dbg_in := rest, dbg_loop := Stopped\<rparr>)"
| dbg_sent: "dbg_loop s = Sending p \<Longrightarrow> debugger_packet_end p (session s) = s' \<Longrightarrow>
    proxy_step s (Dbg_Sent p) (s\<lparr>session := s', dbg_loop := next_turn s'\<rparr>)"
| vm_packet: "vm_loop s = Receiving \<Longrightarrow> deserialize_packet (vm_in s) = Inr (p, rest) \<Longrightarrow>
    vm_packet_begin p (session s) = (Inr (), s') \<Longrightarrow>
    proxy_step s (Vm_Packet p) (s\<lparr>session := s', vm_in := rest, vm_loop := Sending p\<rparr>)"
| vm_packet_raises: "vm_loop s = Receiving \<Longrightarrow> deserialize_packet (vm_in s) = Inr (p, rest) \<Longrightarrow>
    vm_packet_begin p (session s) = (Inl e, s') \<Longrightarrow>
    proxy_step s (Vm_Raises e)
      (s\<lparr>session := handle_exception e s', vm_in := rest, vm_loop := Stopped\<rparr>)"
| vm_raises: "loop_stops (vm_loop s) e (vm_in s) rest \<Longrightarrow>
    proxy_step s (Vm_Raises e)
      (s\<lparr>session := handle_exception e (session s), vm_in := rest, vm_loop := Stopped\<rparr>)"
| vm_sent: "vm_loop s = Sending p \<Longrightarrow> vm_packet_end p (session s) = s' \<Longrightarrow>
    proxy_step s (Vm_Sent p) (s\<lparr>session := s', vm_loop := next_turn s'\<rparr>)"
| arrive_dbg: "proxy_step s (Arrive_Dbg bs) (s\<lparr>dbg_in := dbg_in s @ bs\<rparr>)"
| arrive_vm: "proxy_step s (Arrive_Vm bs) (s\<lparr>vm_in := vm_in s @ bs\<rparr>)"
| shutdown: "close_event (session s) \<Longrightarrow>
    loop_cancelled (dbg_loop s) (dbg_in s) dbg_rest \<Longrightarrow> loop_cancelled (vm_loop s) (vm_in s) vm_rest \<Longrightarrow>
    proxy_step s Shutdown
      (s\<lparr>dbg_loop := Stopped, vm_loop := Stopped, dbg_in := dbg_rest, vm_in := vm_rest\<rparr>)"

definition proxy_init :: "JdwpProxySession \<Rightarrow> bytes \<Rightarrow> bytes \<Rightarrow> proxy" where
  "proxy_init s dbg vm = \<lparr>session = s, dbg_loop = Receiving, vm_loop = Receiving, dbg_in = dbg, vm_in = vm\<rparr>"

section \<open>Transparency\<close>

text \<open>
  What the proxy wrote to a peer and what it has not read from the other one are together what
  the other one sent, while the loop between them runs: no byte is changed, added, dropped or
  reordered. The receive that ends a loop can lose one piece, which stands between the two.
\<close>

fun from_dbg :: "proxy_action \<Rightarrow> bytes" where
  "from_dbg (Arrive_Dbg bs) = bs"
| "from_dbg _ = []"

fun from_vm :: "proxy_action \<Rightarrow> bytes" where
  "from_vm (Arrive_Vm bs) = bs"
| "from_vm _ = []"

lemma track_command_simps [simp]:
  "to_vm (track_command p s) = to_vm s" "to_dbg (track_command p s) = to_dbg s"
  "JdwpProxySession.spec (track_command p s) = JdwpProxySession.spec s"
  "close_event (track_command p s) = close_event s" "log (track_command p s) = log s"
  by (cases p; simp add: track_command_def Let_def)+

lemma log_packet_simps [simp]:
  "to_vm (log_packet p d s) = to_vm s" "to_dbg (log_packet p d s) = to_dbg s"
  "JdwpProxySession.spec (log_packet p d s) = JdwpProxySession.spec s"
  "close_event (log_packet p d s) = close_event s"
  "idsizes_cmd_ids (log_packet p d s) = idsizes_cmd_ids s"
  "outstanding_commands (log_packet p d s) = outstanding_commands s"
  by (simp_all add: log_packet_def Let_def)

lemma handle_exception_simps [simp]:
  "to_vm (handle_exception e s) = to_vm s" "to_dbg (handle_exception e s) = to_dbg s"
  "JdwpProxySession.spec (handle_exception e s) = JdwpProxySession.spec s"
  "close_event (handle_exception e s) \<longleftrightarrow> close_event s \<or> e \<noteq> CancelledError"
  by (simp_all add: handle_exception_def)

lemma vm_packet_end_simps [simp]:
  "to_vm (vm_packet_end p s) = to_vm s" "to_dbg (vm_packet_end p s) = to_dbg s"
  "JdwpProxySession.spec (vm_packet_end p s) = JdwpProxySession.spec s"
  "close_event (vm_packet_end p s) = close_event s"
  by (cases p; simp add: vm_packet_end_def Let_def)+

lemma debugger_packet_end_simps [simp]:
  "to_vm (debugger_packet_end p s) = to_vm s" "to_dbg (debugger_packet_end p s) = to_dbg s"
  "JdwpProxySession.spec (debugger_packet_end p s) = JdwpProxySession.spec s"
  "close_event (debugger_packet_end p s) = close_event s"
  by (simp_all add: debugger_packet_end_def)

lemma intercept_idsizes_rest:
  assumes "intercept_idsizes p s = (r, s')"
  shows "to_vm s' = to_vm s" "to_dbg s' = to_dbg s" "close_event s' = close_event s" "log s' = log s"
    "outstanding_commands s' = outstanding_commands s" "idsizes_cmd_ids s' \<subseteq> idsizes_cmd_ids s"
  using assms by (auto simp: intercept_idsizes_def Let_def split: JdwpPacket.splits if_splits sum.splits)

lemma debugger_packet_begin_ok:
  assumes "packet_to_bytes p = Inr bs" and "debugger_packet_begin p s = (r, s')"
  shows "r = Inr ()" and "to_vm s' = to_vm s @ bs" and "to_dbg s' = to_dbg s"
  using assms by (auto simp: debugger_packet_begin_def Let_def)

lemma vm_packet_begin_ok:
  assumes "packet_to_bytes p = Inr bs" and "vm_packet_begin p s = (r, s')"
  shows "to_vm s' = to_vm s" and "to_dbg s' = to_dbg s @ (case r of Inl _ \<Rightarrow> [] | Inr _ \<Rightarrow> bs)"
proof -
  obtain q t where q: "intercept_idsizes p s = (q, t)" by fastforce
  with assms intercept_idsizes_rest [OF q] show "to_vm s' = to_vm s"
    and "to_dbg s' = to_dbg s @ (case r of Inl _ \<Rightarrow> [] | Inr _ \<Rightarrow> bs)"
    by (auto simp: vm_packet_begin_def split: sum.splits)
qed

text \<open>The piece a receive loses when it raises: nothing, a header, or an incomplete packet.\<close>

definition lost_piece :: "bytes \<Rightarrow> bool" where
  "lost_piece lost \<longleftrightarrow> length lost = 11 \<or> deserialize_packet lost = Inl IncompleteReadError"

lemma lost_piece_Nil [simp]: "lost_piece []"
  by (simp add: lost_piece_def deserialize_packet_error_iff)

lemma receive_stops_lost:
  assumes "receive_stops e input rest"
  obtains lost where "input = lost @ rest" and "lost_piece lost"
proof -
  consider "rest = input" | "11 \<le> length input" "rest = drop 11 input"
    | "deserialize_packet input = Inl IncompleteReadError" "rest = []"
    using assms by (auto simp: receive_stops_def deserialize_packet_error_iff split: if_splits)
  then show thesis
  proof cases
    case 1
    then show thesis using that [of "[]"] by simp
  next
    case 2
    then show thesis using that [of "take 11 input"] by (simp add: lost_piece_def)
  next
    case 3
    then show thesis using that [of input] by (simp add: lost_piece_def)
  qed
qed

lemma loop_stops_lost:
  assumes "loop_stops l e input rest"
  obtains lost where "l \<noteq> Stopped" and "input = lost @ rest" and "lost_piece lost"
  using assms receive_stops_lost [of e input rest] by (cases l) auto

lemma loop_cancelled_lost:
  assumes "loop_cancelled l input rest"
  obtains lost where "input = lost @ rest" and "lost_piece lost" and "l = Stopped \<longrightarrow> lost = []"
  using assms loop_stops_lost [of l CancelledError input rest] by (cases l) auto

lemma loop_cancelled_refl: "loop_cancelled l input input"
  by (cases l) (simp_all add: receive_stops_def)

definition to_vm_inv :: "bytes \<Rightarrow> proxy \<Rightarrow> bool" where
  "to_vm_inv sent s \<longleftrightarrow>
     (\<exists>lost. sent = to_vm (session s) @ lost @ dbg_in s \<and> lost_piece lost \<and>
       (dbg_loop s \<noteq> Stopped \<longrightarrow> lost = []))"

lemma to_vm_invI:
  assumes "to_vm_inv sent s" and "to_vm (session s') = to_vm (session s)" and "dbg_in s' = dbg_in s"
    and "dbg_loop s' \<noteq> Stopped \<Longrightarrow> dbg_loop s \<noteq> Stopped"
  shows "to_vm_inv sent s'"
  using assms unfolding to_vm_inv_def by auto

text \<open>A loop that loses a piece has lost nothing before.\<close>

lemma to_vm_inv_lost:
  assumes "to_vm_inv sent s" and "dbg_in s = lost @ rest" and "lost_piece lost"
    and "dbg_loop s = Stopped \<longrightarrow> lost = []"
    and "to_vm (session s') = to_vm (session s)" and "dbg_in s' = rest" and "dbg_loop s' = Stopped"
  shows "to_vm_inv sent s'"
  using assms unfolding to_vm_inv_def by (cases "dbg_loop s = Stopped") auto

lemma to_vm_step:
  assumes "proxy_step s act s'" and "to_vm_inv sent s"
  shows "to_vm_inv (sent @ from_dbg act) s'"
  using assms
proof (induction rule: proxy_step.induct)
  case (dbg_packet s p rest t)
  then obtain bs where bs: "packet_to_bytes p = Inr bs" "dbg_in s = bs @ rest"
    using packets.dec_sound by blast
  with debugger_packet_begin_ok [OF bs(1) dbg_packet.hyps(3)] dbg_packet show ?case
    by (auto simp: to_vm_inv_def)
next
  case (dbg_packet_raises s p rest e t)
  then obtain bs where "packet_to_bytes p = Inr bs" using packets.dec_sound by blast
  with debugger_packet_begin_ok [OF this dbg_packet_raises.hyps(3)] show ?case by simp
next
  case (dbg_raises s e rest)
  then obtain lost where "dbg_loop s \<noteq> Stopped" "dbg_in s = lost @ rest" "lost_piece lost"
    using loop_stops_lost by blast
  then show ?case using to_vm_inv_lost [OF dbg_raises.prems] by simp
next
  case (vm_packet s p rest t)
  then obtain bs where "packet_to_bytes p = Inr bs" using packets.dec_sound by blast
  with vm_packet_begin_ok [OF this vm_packet.hyps(3)] vm_packet.prems show ?case
    by (simp add: to_vm_inv_def)
next
  case (vm_packet_raises s p rest e t)
  then obtain bs where "packet_to_bytes p = Inr bs" using packets.dec_sound by blast
  with vm_packet_begin_ok [OF this vm_packet_raises.hyps(3)] vm_packet_raises.prems show ?case
    by (simp add: to_vm_inv_def)
next
  case (arrive_dbg s bs)
  then show ?case by (auto simp: to_vm_inv_def)
next
  case (shutdown s dbg_rest vm_rest)
  obtain lost where "dbg_in s = lost @ dbg_rest" "lost_piece lost" "dbg_loop s = Stopped \<longrightarrow> lost = []"
    using shutdown.hyps(2) by (rule loop_cancelled_lost)
  from to_vm_inv_lost [OF shutdown.prems this] show ?case by simp
qed (auto elim!: to_vm_invI)

lemma to_vm_run:
  "run proxy_step s acts s' \<Longrightarrow> to_vm_inv sent s \<Longrightarrow> to_vm_inv (sent @ concat (map from_dbg acts)) s'"
proof (induction arbitrary: sent rule: run.induct)
  case (Cons s act s' as s'')
  have "to_vm_inv ((sent @ from_dbg act) @ concat (map from_dbg as)) s''"
    using Cons.IH to_vm_step [OF Cons.hyps(1) Cons.prems] by blast
  then show ?case by simp
qed simp

text \<open>
  Towards the debugger a packet is also lost when it is a reply to \<open>IDSizes\<close> that cannot be used; the
  loop has then ended.
\<close>

definition to_dbg_inv :: "bytes \<Rightarrow> proxy \<Rightarrow> bool" where
  "to_dbg_inv sent s \<longleftrightarrow>
     (\<exists>lost. sent = to_dbg (session s) @ lost @ vm_in s \<and> (vm_loop s \<noteq> Stopped \<longrightarrow> lost = []))"

lemma to_dbg_invI:
  assumes "to_dbg_inv sent s" and "to_dbg (session s') = to_dbg (session s)" and "vm_in s' = vm_in s"
    and "vm_loop s' \<noteq> Stopped \<Longrightarrow> vm_loop s \<noteq> Stopped"
  shows "to_dbg_inv sent s'"
  using assms unfolding to_dbg_inv_def by auto

lemma to_dbg_step:
  assumes "proxy_step s act s'" and "to_dbg_inv sent s"
  shows "to_dbg_inv (sent @ from_vm act) s'"
  using assms
proof (induction rule: proxy_step.induct)
  case (vm_packet s p rest t)
  then obtain bs where bs: "packet_to_bytes p = Inr bs" "vm_in s = bs @ rest"
    using packets.dec_sound by blast
  with vm_packet_begin_ok [OF bs(1) vm_packet.hyps(3)] vm_packet show ?case
    by (auto simp: to_dbg_inv_def)
next
  case (vm_packet_raises s p rest e t)
  then obtain bs where bs: "packet_to_bytes p = Inr bs" "vm_in s = bs @ rest"
    using packets.dec_sound by blast
  with vm_packet_begin_ok [OF bs(1) vm_packet_raises.hyps(3)] vm_packet_raises show ?case
    by (auto simp: to_dbg_inv_def)
next
  case (dbg_packet s p rest t)
  then obtain bs where "packet_to_bytes p = Inr bs" using packets.dec_sound by blast
  with debugger_packet_begin_ok [OF this dbg_packet.hyps(3)] dbg_packet.prems show ?case
    by (simp add: to_dbg_inv_def)
next
  case (dbg_packet_raises s p rest e t)
  then obtain bs where "packet_to_bytes p = Inr bs" using packets.dec_sound by blast
  with debugger_packet_begin_ok [OF this dbg_packet_raises.hyps(3)] dbg_packet_raises.prems show ?case
    by (simp add: to_dbg_inv_def)
next
  case (arrive_vm s bs)
  then show ?case by (auto simp: to_dbg_inv_def)
next
  case (vm_raises s e rest)
  then obtain lost where "vm_loop s \<noteq> Stopped" "vm_in s = lost @ rest" "lost_piece lost"
    using loop_stops_lost by blast
  with vm_raises.prems show ?case by (auto simp: to_dbg_inv_def)
next
  case (shutdown s dbg_rest vm_rest)
  then obtain lost where "vm_in s = lost @ vm_rest" "vm_loop s = Stopped \<longrightarrow> lost = []"
    using loop_cancelled_lost by blast
  with shutdown.prems show ?case by (cases "vm_loop s = Stopped") (auto simp: to_dbg_inv_def)
qed (auto elim!: to_dbg_invI)

lemma to_dbg_run:
  "run proxy_step s acts s' \<Longrightarrow> to_dbg_inv sent s \<Longrightarrow> to_dbg_inv (sent @ concat (map from_vm acts)) s'"
proof (induction arbitrary: sent rule: run.induct)
  case (Cons s act s' as s'')
  have "to_dbg_inv ((sent @ from_vm act) @ concat (map from_vm as)) s''"
    using Cons.IH to_dbg_step [OF Cons.hyps(1) Cons.prems] by blast
  then show ?case by simp
qed simp

section \<open>The spec of a session\<close>

text \<open>
  A session reads a reply to \<open>IDSizes\<close> exactly as the debugger's own connection would, so both
  have the same sizes afterwards; nothing else changes them.
\<close>

lemma from_bytes_of_class:
  "from_bytes (of_class des obj) bs sp =
    (case from_bytes des bs sp of Inl e \<Rightarrow> Inl e | Inr x \<Rightarrow> Inr (obj x))"
  by (simp add: from_bytes_def of_class_def rbind_def rreturn_def res_bind_def
      split: sum.split prod.split)

lemma intercept_idsizes_agrees:
  assumes "handle_reply cmd (vm_response_cls IDSizesResponse_cls) reply (JdwpProxySession.spec s) = (Inr resp, w, sp)"
    and "JdwpReplyPacket.id' reply \<in> idsizes_cmd_ids s"
  shows "intercept_idsizes (ReplyPacket reply) s =
    (Inr (), s\<lparr>idsizes_cmd_ids := idsizes_cmd_ids s - {JdwpReplyPacket.id' reply},
       JdwpProxySession.spec := sp\<rparr>)"
  using assms
  by (auto simp: handle_reply_def from_bytes_of_class update_spec_def intercept_idsizes_def Let_def
      split: if_splits sum.splits)

lemma intercept_idsizes_spec:
  assumes "intercept_idsizes p s = (r, s')" and "JdwpProxySession.spec s' \<noteq> JdwpProxySession.spec s"
  obtains reply resp where "p = ReplyPacket reply" and "JdwpReplyPacket.id' reply \<in> idsizes_cmd_ids s"
    and "error_field_value (error_code reply) = 0"
    and "from_bytes IDSizesResponse_deserialize (JdwpReplyPacket.data reply) (JdwpProxySession.spec s) = Inr resp"
    and "from_response resp = Inr (JdwpProxySession.spec s')"
  using assms that
  by (auto simp: intercept_idsizes_def Let_def split: JdwpPacket.splits if_splits sum.splits)

section \<open>The hex dump shows the bytes\<close>

text \<open>Reading the digits back: spaces are skipped, two digits make a byte.\<close>

definition hex_value :: "char \<Rightarrow> nat" where
  "hex_value c = (if of_char c < (58 :: nat) then of_char c - 48 else of_char c - 55)"

fun unhex_digits :: "string \<Rightarrow> bytes" where
  "unhex_digits (c # d # cs) = word_of_nat (16 * hex_value c + hex_value d) # unhex_digits cs"
| "unhex_digits _ = []"

definition unhex :: "string \<Rightarrow> bytes" where
  "unhex s = unhex_digits (filter (\<lambda>c. c \<noteq> CHR '' '') s)"

lemma of_char_hex_digit:
  assumes "d < 16"
  shows "of_char (hex_digit d) = (if d < 10 then 48 + d else 55 + d)"
  using assms by (simp add: hex_digit_def)

lemma hex_digit_value:
  assumes "d < 16"
  shows "hex_value (hex_digit d) = d" and "hex_digit d \<noteq> CHR '' ''"
proof -
  show "hex_value (hex_digit d) = d"
    using assms by (simp add: hex_value_def of_char_hex_digit)
  have "of_char (CHR '' '') = (32 :: nat)" by simp
  then show "hex_digit d \<noteq> CHR '' ''"
    using of_char_hex_digit [OF assms] by (auto split: if_splits)
qed

lemma nibbles: "unat (b :: byte) div 16 < 16" "unat b mod 16 < 16"
proof -
  have "int (unat b) < 256" using uint_byte_bounds [of b] by simp
  then have "unat b < 256" by linarith
  then show "unat b div 16 < 16" by (simp add: less_mult_imp_div_less)
qed simp

lemma filter_join: "filter (\<lambda>c. c \<noteq> CHR '' '') (join '' '' (map hex_byte bs)) = concat (map hex_byte bs)"
proof (induction bs rule: induct_list012)
  case (3 b c bs)
  then show ?case by (simp add: hex_byte_def hex_digit_value nibbles)
qed (simp_all add: hex_byte_def hex_digit_value nibbles)

lemma unhex_digits_hex: "unhex_digits (concat (map hex_byte bs)) = bs"
proof (induction bs)
  case (Cons b bs)
  have "16 * (unat b div 16) + unat b mod 16 = unat b" by simp
  with Cons show ?case by (simp add: hex_byte_def hex_digit_value nibbles)
qed simp

lemma filter_replicate_space: "filter (\<lambda>c. c \<noteq> CHR '' '') (replicate n CHR '' '') = []"
  by (induction n) simp_all

lemma unhex_hex_part: "unhex (hex_part chunk) = chunk"
proof -
  let ?s = "join '' '' (map hex_byte chunk)"
  have "filter (\<lambda>c. c \<noteq> CHR '' '') (take 23 ?s) @ filter (\<lambda>c. c \<noteq> CHR '' '') (drop 23 ?s) =
      concat (map hex_byte chunk)"
    by (simp only: filter_append [symmetric] append_take_drop_id filter_join)
  then show ?thesis
    by (simp add: unhex_def hex_part_def ljust_def Let_def filter_replicate_space filter_join
        unhex_digits_hex)
qed

lemma length_join_hex: "length (join '' '' (map hex_byte bs)) = 3 * length bs - 1"
  by (induction bs rule: induct_list012) (simp_all add: hex_byte_def)

lemma length_hex_part: "length chunk \<le> 16 \<Longrightarrow> length (hex_part chunk) = 49"
  by (auto simp: hex_part_def ljust_def Let_def length_join_hex)

lemma hexdump_lines_Nil [simp]: "hexdump_lines prefix i [] = []"
  by (subst hexdump_lines.simps) simp

lemma hexdump_lines_Cons:
  "dat \<noteq> [] \<Longrightarrow> hexdump_lines prefix i dat =
    hexdump_line prefix i (take 16 dat) # hexdump_lines prefix (i + 16) (drop 16 dat)"
  by (subst hexdump_lines.simps) simp

lemma hexdump_lines_length: "length (hexdump_lines prefix i dat) = (length dat + 15) div 16"
proof (induction prefix i dat rule: hexdump_lines.induct)
  case (1 prefix i dat)
  show ?case
  proof (cases "dat = []")
    case False
    then have "0 < length dat" by simp
    have "(n - 16 + 15) div 16 + 1 = (n + 15) div 16" if "0 < n" for n :: nat
    proof (cases "n \<le> 16")
      case True
      with that have "(n + 15) div 16 = 1" by (intro div_nat_eqI) auto
      with True show ?thesis by simp
    next
      case False
      then obtain m where "n = m + 16" by (metis add.commute le_Suc_ex nat_le_linear)
      then show ?thesis by simp
    qed
    from this [OF \<open>0 < length dat\<close>] have "(length dat - 16 + 15) div 16 + 1 = (length dat + 15) div 16" .
    with 1 False show ?thesis by (simp add: hexdump_lines_Cons)
  qed simp
qed

lemma hexdump_lines_nth:
  "16 * k < length dat \<Longrightarrow>
    hexdump_lines prefix i dat ! k = hexdump_line prefix (i + 16 * k) (take 16 (drop (16 * k) dat))"
proof (induction k arbitrary: i dat)
  case 0
  then have "dat \<noteq> []" by auto
  then show ?case by (simp add: hexdump_lines_Cons)
next
  case (Suc k)
  then have "dat \<noteq> []" "16 * k < length (drop 16 dat)" by auto
  then have "hexdump_lines prefix i dat ! Suc k =
      hexdump_line prefix (i + 16 + 16 * k) (take 16 (drop (16 * k) (drop 16 dat)))"
    by (simp add: hexdump_lines_Cons [of dat] Suc.IH)
  moreover have "i + 16 + 16 * k = i + 16 * Suc k" by simp
  moreover have "drop (16 * k) (drop 16 dat) = drop (16 * Suc k) dat" by (simp add: add.commute)
  ultimately show ?case by (simp only:)
qed

section \<open>The end of a session\<close>

text \<open>An exception in either direction raises \<open>close_event\<close>, which stays set and ends both loops.\<close>

lemma close_event_step:
  assumes "proxy_step s act s'" and "close_event (session s)"
  shows "close_event (session s')"
  using assms
proof (induction rule: proxy_step.induct)
  case (dbg_packet s p rest t)
  then show ?case by (auto simp: debugger_packet_begin_def Let_def split: sum.splits)
next
  case (dbg_packet_raises s p rest e t)
  then show ?case by (auto simp: debugger_packet_begin_def Let_def split: sum.splits)
next
  case (vm_packet s p rest t)
  obtain q u where q: "intercept_idsizes p (session s) = (q, u)" by fastforce
  with vm_packet intercept_idsizes_rest [OF q] show ?case
    by (auto simp: vm_packet_begin_def split: sum.splits)
next
  case (vm_packet_raises s p rest e t)
  obtain q u where q: "intercept_idsizes p (session s) = (q, u)" by fastforce
  with vm_packet_raises intercept_idsizes_rest [OF q] show ?case
    by (auto simp: vm_packet_begin_def split: sum.splits)
qed auto

interpretation closing: step_invariant proxy_step "\<lambda>s. close_event (session s)"
  by unfold_locales (rule close_event_step)

lemma raises_closes:
  assumes "proxy_step s (Dbg_Raises e) s' \<or> proxy_step s (Vm_Raises e) s'" and "e \<noteq> CancelledError"
  shows "close_event (session s')"
  using assms by (auto elim!: proxy_step.cases)

text \<open>
  How many moves a loop can still make once the session is closed: it may handle the packet it waits
  for and finish sending it, and then it looks at the event.
\<close>

fun loop_rank :: "loop \<Rightarrow> nat" where
  "loop_rank Receiving = 2"
| "loop_rank (Sending p) = 1"
| "loop_rank Stopped = 0"

definition proxy_rank :: "proxy \<Rightarrow> nat" where
  "proxy_rank s = loop_rank (dbg_loop s) + loop_rank (vm_loop s)"

fun loop_move :: "proxy_action \<Rightarrow> bool" where
  "loop_move (Arrive_Dbg bs) = False"
| "loop_move (Arrive_Vm bs) = False"
| "loop_move Shutdown = False"
| "loop_move _ = True"

lemma loop_rank_le: "l \<noteq> Stopped \<Longrightarrow> 1 \<le> loop_rank l"
  by (cases l) simp_all

lemma proxy_rank_step:
  assumes "proxy_step s act s'" and "close_event (session s)"
  shows "(if loop_move act then 1 else 0) + proxy_rank s' \<le> proxy_rank s"
  using assms close_event_step [OF assms]
  by (cases rule: proxy_step.cases)
    (auto simp: proxy_rank_def next_turn_def dest: loop_rank_le elim!: loop_stops_lost)

lemma proxy_rank_run:
  "run proxy_step s acts s' \<Longrightarrow> close_event (session s) \<Longrightarrow>
    length (filter loop_move acts) + proxy_rank s' \<le> proxy_rank s"
proof (induction rule: run.induct)
  case (Cons s act s' as s'')
  have "length (filter loop_move as) + proxy_rank s'' \<le> proxy_rank s'"
    using Cons.IH close_event_step [OF Cons.hyps(1) Cons.prems] by blast
  with proxy_rank_step [OF Cons.hyps(1) Cons.prems] show ?case by (simp split: if_splits)
qed simp

lemma raises_rank:
  assumes "proxy_step s (Dbg_Raises e) s' \<or> proxy_step s (Vm_Raises e) s'"
  shows "proxy_rank s' \<le> 2"
proof -
  have "loop_rank l \<le> 2" for l by (cases l) simp_all
  moreover have "dbg_loop s' = Stopped \<or> vm_loop s' = Stopped"
    using assms by (auto elim!: proxy_step.cases)
  ultimately show ?thesis by (auto simp: proxy_rank_def)
qed

end
