(* ===== verification/System.thy ===== *)
theory System
  imports Rendezvous Proxy
begin

text \<open>
  A debugger's connection, the proxy and a VM together: the connection of \<^verbatim>\<open>connection.py\<close> writes to
  the socket from which a session of \<^verbatim>\<open>proxy.py\<close> reads, and reads what the session sends back. The
  network delivers bytes in order, in pieces of any size; the VM may send any bytes. What the VM
  reads is the session's \<open>to_vm\<close>.
\<close>

section \<open>The composed system\<close>

text \<open>
  \<open>up_count\<close> and \<open>down_count\<close> say how much of what each side wrote has arrived at the other,
  \<open>inbox\<close> is what arrived at the connection after the last packet it has read. \<open>issued\<close> is history: the packet id,
  the command and the spec of every command the connection wrote.
\<close>

record system =
  client :: connection
  middle :: proxy
  inbox :: bytes
  up_count :: nat
  down_count :: nat
  issued :: "(int \<times> JdwpCommand \<times> IdSizesSpec) list"

abbreviation client_wire :: "system \<Rightarrow> bytes" where
  "client_wire s \<equiv> written (conn (packets (client s)))"

abbreviation vm_wire :: "system \<Rightarrow> bytes" where
  "vm_wire s \<equiv> to_vm (session (middle s))"

abbreviation dbg_wire :: "system \<Rightarrow> bytes" where
  "dbg_wire s \<equiv> to_dbg (session (middle s))"

text \<open>
  The system after the handshakes: \<open>s0\<close> is the session the proxy created when it read the
  connection's handshake, \<open>vm\<close> what the VM has already sent after its own.
\<close>

definition system_init :: "JdwpProxySession \<Rightarrow> bytes \<Rightarrow> system" where
  "system_init s0 vm = \<lparr>client = connection_init, middle = proxy_init s0 [] vm, inbox = [],
     up_count = 0, down_count = length HANDSHAKE, issued = []\<rparr>"

text \<open>The steps of the connection that take a packet off the stream, and the commands it writes.\<close>

fun reads_packet :: "connection_action \<Rightarrow> JdwpPacket option" where
  "reads_packet (Loop_Reply r) = Some (ReplyPacket r)"
| "reads_packet (Loop_Command p res) = Some (CommandPacket p)"
| "reads_packet _ = None"

fun issued_by :: "connection_action \<Rightarrow> connection \<Rightarrow> (int \<times> JdwpCommand \<times> IdSizesSpec) list" where
  "issued_by (Send_Command cmd (Send_Waits a)) c = [(next_packet_id c, cmd, connection.spec c)]"
| "issued_by (Send_Command cmd Send_Done) c = [(next_packet_id c, cmd, connection.spec c)]"
| "issued_by _ c = []"

fun network_action :: "proxy_action \<Rightarrow> bool" where
  "network_action (Arrive_Dbg bs) = True"
| "network_action (Arrive_Vm bs) = True"
| "network_action _ = False"

datatype system_action =
    Client connection_action
  | Client_Reads connection_action
  | Middle proxy_action
  | Uplink bytes
  | Downlink bytes
  | Machine bytes

inductive system_step :: "system \<Rightarrow> system_action \<Rightarrow> system \<Rightarrow> bool" where
  client_acts: "connection_step (client s) act c \<Longrightarrow> reads_packet act = None \<Longrightarrow>
    system_step s (Client act) (s\<lparr>client := c, issued := issued s @ issued_by act (client s)\<rparr>)"
| client_reads: "deserialize_packet (inbox s) = Inr (p, rest) \<Longrightarrow> reads_packet act = Some p \<Longrightarrow>
    connection_step (client s) act c \<Longrightarrow>
    system_step s (Client_Reads act) (s\<lparr>client := c, inbox := rest\<rparr>)"
| proxy_acts: "proxy_step (middle s) act m \<Longrightarrow> \<not> network_action act \<Longrightarrow>
    system_step s (Middle act) (s\<lparr>middle := m\<rparr>)"
| uplink: "drop (up_count s) (client_wire s) = bs @ later \<Longrightarrow> proxy_step (middle s) (Arrive_Dbg bs) m \<Longrightarrow>
    system_step s (Uplink bs) (s\<lparr>middle := m, up_count := up_count s + length bs\<rparr>)"
| downlink: "drop (down_count s) (dbg_wire s) = bs @ later \<Longrightarrow>
    system_step s (Downlink bs) (s\<lparr>inbox := inbox s @ bs, down_count := down_count s + length bs\<rparr>)"
| machine: "proxy_step (middle s) (Arrive_Vm bs) m \<Longrightarrow> system_step s (Machine bs) (s\<lparr>middle := m\<rparr>)"

fun from_machine :: "system_action \<Rightarrow> bytes" where
  "from_machine (Machine bs) = bs"
| "from_machine _ = []"

section \<open>What a connection writes\<close>

text \<open>The packet a command is written as.\<close>

definition issued_as :: "int \<times> JdwpCommand \<times> IdSizesSpec \<Rightarrow> JdwpPacket \<Rightarrow> bool" where
  "issued_as ics p \<longleftrightarrow>
     (\<exists>q. p = CommandPacket q \<and> command_packet (fst ics) (fst (snd ics)) (snd (snd ics)) = Inr q)"

definition writes :: "connection_action \<Rightarrow> connection \<Rightarrow> connection \<Rightarrow> bool" where
  "writes act s s' \<longleftrightarrow> (\<exists>ps bs. written (conn (packets s')) = written (conn (packets s)) @ bs \<and>
     packets.framed ps bs \<and> list_all2 issued_as (issued_by act s) ps)"

lemma writes_one:
  assumes "command_packet (next_packet_id s) cmd (connection.spec s) = Inr p"
    and "packet_to_bytes (CommandPacket p) = Inr bs"
    and "written (conn (packets s')) = written (conn (packets s)) @ bs" and "out = Send_Done \<or> out = Send_Waits a"
  shows "writes (Send_Command cmd out) s s'"
proof -
  have "packets.framed [CommandPacket p] bs"
    using packets.framed_one [OF command_packet_ok [OF assms(1)] assms(2)] .
  moreover have "list_all2 issued_as (issued_by (Send_Command cmd out) s) [CommandPacket p]"
    using assms(1,4) by (auto simp: issued_as_def)
  ultimately show ?thesis using assms(3) unfolding writes_def by blast
qed

lemma writes_nothing:
  "written (conn (packets s')) = written (conn (packets s)) \<Longrightarrow> issued_by act s = [] \<Longrightarrow> writes act s s'"
  by (simp add: writes_def)

lemma send_begin_Inl_written: "send_begin p c = (Inl e, c') \<Longrightarrow> written c' = written c"
  by (auto simp: send_begin_def Let_def simp del: packet_to_bytes.simps split: sum.splits if_splits)

lemma send_command_written:
  assumes "send_command cmd s = (out, s')"
  shows "writes (Send_Command cmd out) s s'"
proof (cases "command_packet (next_packet_id s) cmd (connection.spec s)")
  case (Inl e)
  with assms show ?thesis by (auto simp: send_command_def allocate_packet_id_def intro: writes_nothing)
next
  case p: (Inr p)
  show ?thesis
  proof (cases "get_response_class (command_class_of cmd)")
    case None
    with p assms show ?thesis
      by (auto simp: send_command_def allocate_packet_id_def sender_send_def
          simp del: packet_to_bytes.simps split: sum.splits intro: writes_nothing writes_one)
  next
    case (Some cls)
    obtain r c where r: "send_begin p (conn (packets s)) = (r, c)" by fastforce
    show ?thesis
    proof (cases r)
      case (Inl e)
      with Some p r assms send_begin_Inl_written [of p _ e c] show ?thesis
        by (auto simp: send_command_def allocate_packet_id_def intro: writes_nothing)
    next
      case (Inr a)
      then obtain bs where bs: "packet_to_bytes (CommandPacket p) = Inr bs"
          "written c = written (conn (packets s)) @ bs"
        using r send_begin_written by blast
      from Inr Some p r assms have "out = Send_Waits a" "conn (packets s') = c"
        by (auto simp: send_command_def allocate_packet_id_def)
      with bs show ?thesis by (intro writes_one [OF p bs(1)]) simp_all
    qed
  qed
qed

lemma resolve_written: "clear_pending_replies c = (as, d) \<Longrightarrow> written d = written c"
  by (auto simp: clear_pending_replies_def)

lemma receive_written [simp]:
  "written (snd (receive_packet p c)) = written c"
  "written (receive_failed e c) = written c" "written (packet_connection_close c) = written c"
  by (cases p) (auto simp: Let_def receive_failed_def packet_connection_close_def clear_pending_replies_def
      split: option.splits)

lemma loop_turn_conn [simp]: "conn (packets (loop_turn s)) = conn (packets s)"
  by (cases rule: loop_turn_cases [of s]) simp_all

lemma loop_command_conn [simp]: "conn (packets (loop_command p s)) = conn (packets s)"
  by (cases rule: loop_command_cases [of p s]) simp_all

lemma connection_step_written:
  assumes "connection_step s act s'"
  shows "writes act s s'"
  using assms
proof (induction rule: connection_step.induct)
  case (send_command cmd s out s')
  then show ?case
  proof (cases rule: loop_send_command_cases)
    case sends
    then show ?thesis using send_command_written [OF sends(1)] by (cases out) (simp_all add: writes_def)
  qed (simp add: writes_nothing)
next
  case (command_returns i a s res cmd out s')
  with resume_call_packets [OF command_returns.hyps(4)] show ?case
    by (intro writes_nothing) (simp_all add: send_end_def)
next
  case (receive_command s res s')
  then have "packets s' = packets s"
    by (auto simp: receive_command_def Let_def split: list.splits sum.splits if_splits)
  then show ?case by (simp add: writes_nothing)
qed (auto simp: send_end_def loop_raises_def close_begin_def close_end_def Let_def
    simp del: receive_packet.simps intro!: writes_nothing)

section \<open>What a session sends on\<close>

lemma proxy_step_framed:
  assumes "proxy_step s act s'"
  shows "\<exists>ps t. to_vm (session s') = to_vm (session s) @ t \<and> packets.framed ps t"
    and "\<exists>ps t. to_dbg (session s') = to_dbg (session s) @ t \<and> packets.framed ps t"
proof -
  have none: "\<exists>ps t. w = w @ t \<and> packets.framed ps t" for w
    by (intro exI [of _ "[]"]) simp
  have nil: "\<exists>ps. packets.framed ps []" by (rule exI [of _ "[]"]) simp
  have "(\<exists>ps t. to_vm (session s') = to_vm (session s) @ t \<and> packets.framed ps t) \<and>
      (\<exists>ps t. to_dbg (session s') = to_dbg (session s) @ t \<and> packets.framed ps t)"
    using assms
  proof (induction rule: proxy_step.induct)
    case (dbg_packet s p rest t)
    then obtain bs where bs: "packet_ok p" "packet_to_bytes p = Inr bs" using packets.dec_sound by blast
    with debugger_packet_begin_ok [OF bs(2) dbg_packet.hyps(3)] packets.framed_one [OF bs] none show ?case
      by auto
  next
    case (dbg_packet_raises s p rest e t)
    then obtain bs where bs: "packet_ok p" "packet_to_bytes p = Inr bs" using packets.dec_sound by blast
    with debugger_packet_begin_ok [OF bs(2) dbg_packet_raises.hyps(3)] packets.framed_one [OF bs] none
    show ?case by auto
  next
    case (vm_packet s p rest t)
    then obtain bs where bs: "packet_ok p" "packet_to_bytes p = Inr bs" using packets.dec_sound by blast
    with vm_packet_begin_ok [OF bs(2) vm_packet.hyps(3)] packets.framed_one [OF bs] none show ?case
      by auto
  next
    case (vm_packet_raises s p rest e t)
    then obtain bs where bs: "packet_ok p" "packet_to_bytes p = Inr bs" using packets.dec_sound by blast
    with vm_packet_begin_ok [OF bs(2) vm_packet_raises.hyps(3)] none show ?case by auto
  qed (auto simp: none nil)
  then show "\<exists>ps t. to_vm (session s') = to_vm (session s) @ t \<and> packets.framed ps t"
    and "\<exists>ps t. to_dbg (session s') = to_dbg (session s) @ t \<and> packets.framed ps t" by blast+
qed

section \<open>Towards the VM\<close>

text \<open>
  What the connection wrote are the packets of the commands it issued; what the session wrote to the
  VM, after the handshake, are whole packets, the first ones of what has arrived.
\<close>

definition up_inv :: "system \<Rightarrow> bool" where
  "up_inv s \<longleftrightarrow> (\<exists>ps. packets.framed ps (client_wire s) \<and> list_all2 issued_as (issued s) ps) \<and>
     (\<exists>qs t. vm_wire s = HANDSHAKE @ t \<and> packets.framed qs t) \<and>
     to_vm_inv (HANDSHAKE @ take (up_count s) (client_wire s)) (middle s) \<and>
     up_count s \<le> length (client_wire s)"

lemma up_inv_client:
  assumes "up_inv s" and "connection_step (client s) act c"
  shows "up_inv (s\<lparr>client := c, issued := issued s @ issued_by act (client s)\<rparr>)"
proof -
  obtain ps bs where w: "written (conn (packets c)) = client_wire s @ bs" "packets.framed ps bs"
      "list_all2 issued_as (issued_by act (client s)) ps"
    using connection_step_written [OF assms(2)] by (auto simp: writes_def)
  then have "packets.framed (qs @ ps) (written (conn (packets c))) \<and>
      list_all2 issued_as (issued s @ issued_by act (client s)) (qs @ ps)"
    if "packets.framed qs (client_wire s)" "list_all2 issued_as (issued s) qs" for qs
    using that packets.framed_append by (auto intro: list_all2_appendI)
  with assms(1) w(1) show ?thesis unfolding up_inv_def by auto
qed

lemma up_inv_proxy:
  assumes inv: "up_inv s" and step: "proxy_step (middle s) act m"
    and bs: "drop (up_count s) (client_wire s) = from_dbg act @ later"
  shows "up_inv (s\<lparr>middle := m, up_count := up_count s + length (from_dbg act)\<rparr>)"
proof -
  obtain qs t where t: "vm_wire s = HANDSHAKE @ t" "packets.framed qs t"
    using inv by (auto simp: up_inv_def)
  obtain rs u where u: "to_vm (session m) = vm_wire s @ u" "packets.framed rs u"
    using proxy_step_framed(1) [OF step] by blast
  have "packets.framed (qs @ rs) (t @ u)" using t(2) u(2) by (rule packets.framed_append)
  moreover have "to_vm (session m) = HANDSHAKE @ (t @ u)" using t(1) u(1) by simp
  moreover have "to_vm_inv ((HANDSHAKE @ take (up_count s) (client_wire s)) @ from_dbg act) m"
    using to_vm_step [OF step, of "HANDSHAKE @ take (up_count s) (client_wire s)"] inv
    by (simp only: up_inv_def)
  moreover have "take (up_count s) (client_wire s) @ from_dbg act =
      take (up_count s + length (from_dbg act)) (client_wire s)"
    using bs by (simp add: take_add)
  moreover have "up_count s + length (from_dbg act) \<le> length (client_wire s)"
  proof -
    have "length (client_wire s) - up_count s = length (from_dbg act) + length later"
      using arg_cong [OF bs, of length] by simp
    moreover have "up_count s \<le> length (client_wire s)" using inv by (simp add: up_inv_def)
    ultimately show ?thesis by linarith
  qed
  ultimately show ?thesis using inv unfolding up_inv_def by auto
qed

lemma issued_by_reads: "reads_packet act = Some p \<Longrightarrow> issued_by act c = []"
  by (cases act) simp_all

lemma up_inv_step:
  assumes "system_step s act s'" and "up_inv s"
  shows "up_inv s'"
  using assms
proof (induction rule: system_step.induct)
  case (client_acts s act c)
  then show ?case by (simp add: up_inv_client)
next
  case (client_reads s p rest act c)
  have "up_inv (s\<lparr>client := c, issued := issued s @ issued_by act (client s)\<rparr>)"
    using client_reads.prems client_reads.hyps(3) by (rule up_inv_client)
  with issued_by_reads [OF client_reads.hyps(2)] show ?case by (simp add: up_inv_def)
next
  case (proxy_acts s act m)
  then have "from_dbg act = []" by (cases act) simp_all
  with up_inv_proxy [OF proxy_acts.prems proxy_acts.hyps(1)] show ?case by simp
next
  case (uplink s bs later m)
  then show ?case using up_inv_proxy [of s "Arrive_Dbg bs" m later] by simp
next
  case (downlink s bs later)
  then show ?case by (simp add: up_inv_def)
next
  case (machine s bs m)
  then show ?case using up_inv_proxy [of s "Arrive_Vm bs" m] by simp
qed

interpretation up: step_invariant system_step up_inv
  by unfold_locales (rule up_inv_step)

lemma created_session:
  assumes "create_session vm HANDSHAKE = Inr (s0, vm', dbg')"
  shows "vm = HANDSHAKE @ vm'" "dbg' = []" "s0 = session_init\<lparr>to_vm := HANDSHAKE, to_dbg := HANDSHAKE\<rparr>"
  using assms by (auto simp: create_session_def establish_jdwp_connection_eq_Inr readexactly_eq_Inr split: if_splits)

lemma up_inv_init:
  assumes "create_session vm HANDSHAKE = Inr (s0, vm', dbg')"
  shows "up_inv (system_init s0 vm')"
  using created_session [OF assms]
  by (auto simp: up_inv_def system_init_def connection_init_def packet_system_init_def
      packet_connection_init_def proxy_init_def to_vm_inv_def intro!: exI [of _ "[]"])

text \<open>What the VM reads are the first of the issued commands.\<close>

lemma up_inv_commands:
  assumes "up_inv s"
  shows "\<exists>ps. packets.dec_all (drop (length HANDSHAKE) (vm_wire s)) = (ps, IncompleteReadError) \<and>
    length ps \<le> length (issued s) \<and>
    list_all2 (\<lambda>(i, cmd, sp) p. \<exists>q. p = CommandPacket q \<and> JdwpCommandPacket.id' q = i \<and>
      (parse_command q sp = Inr cmd \<longleftrightarrow> command_ok cmd)) (take (length ps) (issued s)) ps"
proof -
  obtain ps qs t where ps: "packets.framed ps (client_wire s)" "list_all2 issued_as (issued s) ps"
    and t: "vm_wire s = HANDSHAKE @ t" "packets.framed qs t"
    using assms by (auto simp: up_inv_def)
  obtain lost where "HANDSHAKE @ take (up_count s) (client_wire s) = vm_wire s @ lost @ dbg_in (middle s)"
    using assms by (auto simp: up_inv_def to_vm_inv_def)
  then have "take (up_count s) (client_wire s) = t @ lost @ dbg_in (middle s)" using t(1) by simp
  then have "client_wire s = t @ (lost @ dbg_in (middle s)) @ drop (up_count s) (client_wire s)"
    by (metis append.assoc append_take_drop_id)
  with packets.framed_prefix [OF t(2)] ps(1) obtain rs where rs: "ps = qs @ rs" by metis
  have "packets.dec_all (t @ []) = (qs @ fst (packets.dec_all []), snd (packets.dec_all []))"
    using t(2) by (rule packets.framed_dec_all)
  moreover have "packets.dec_all [] = ([], IncompleteReadError)"
    by (rule packets.dec_all_stop) (simp add: deserialize_packet_error_iff)
  moreover have "length (issued s) = length ps" using ps(2) by (rule list_all2_lengthD)
  moreover have "list_all2 issued_as (take (length qs) (issued s)) qs"
    using list_all2_takeI [OF ps(2), of "length qs"] rs by simp
  then have "list_all2 (\<lambda>(i, cmd, sp) p. \<exists>q. p = CommandPacket q \<and> JdwpCommandPacket.id' q = i \<and>
      (parse_command q sp = Inr cmd \<longleftrightarrow> command_ok cmd)) (take (length qs) (issued s)) qs"
    by (rule list.rel_mono_strong)
      (auto simp: issued_as_def command_packet_id command_packet_parse)
  ultimately show ?thesis using t(1) rs by (intro exI [of _ qs]) auto
qed

section \<open>The connection's part of a run\<close>

fun client_part :: "system_action \<Rightarrow> connection_action list" where
  "client_part (Client act) = [act]"
| "client_part (Client_Reads act) = [act]"
| "client_part _ = []"

lemma client_run:
  "run system_step s acts s' \<Longrightarrow> run connection_step (client s) (concat (map client_part acts)) (client s')"
proof (induction rule: run.induct)
  case (Cons s act s' as s'')
  from Cons.hyps(1) Cons.IH show ?case by cases (auto intro: run.Cons)
qed (simp add: run.Nil)

lemma client_reachable:
  "run system_step (system_init s0 vm) acts s \<Longrightarrow>
    run connection_step connection_init (concat (map client_part acts)) (client s)"
  by (drule client_run) (simp add: system_init_def)

text \<open>A reply gets into a future only when it is read.\<close>

lemma set_resolve: "set (futures (resolve as f c)) \<subseteq> insert f (set (futures c))"
proof -
  have "set (fold (\<lambda>a fs. fs[a := f]) as fs) \<subseteq> insert f (set fs)" for fs
    by (induction as arbitrary: fs) (auto dest!: subsetD dest: set_update_subset_insert [THEN subsetD])
  then show ?thesis by (simp add: resolve_def)
qed

lemma resolve_finished:
  "Finished r \<in> set (futures (resolve as f c)) \<Longrightarrow> Finished r \<in> set (futures c) \<or> f = Finished r"
  using set_resolve [of as f c] by auto

lemma clearing_finished:
  "Finished r \<in> set (futures (receive_failed e c)) \<Longrightarrow> Finished r \<in> set (futures c)"
  "Finished r \<in> set (futures (packet_connection_close c)) \<Longrightarrow> Finished r \<in> set (futures c)"
  using resolve_finished
  by (fastforce simp: receive_failed_def packet_connection_close_def clear_pending_replies_def Let_def)+

lemma receive_finished:
  assumes "Finished q \<in> set (futures (snd (receive_packet (ReplyPacket r) c)))"
  shows "Finished q \<in> set (futures c) \<or> q = r"
  using assms resolve_finished by (fastforce simp: Let_def split: option.splits if_splits)

lemma send_begin_finished:
  "send_begin p c = (out, c') \<Longrightarrow> Finished r \<in> set (futures c') \<Longrightarrow> Finished r \<in> set (futures c)"
  by (auto simp: send_begin_def Let_def simp del: packet_to_bytes.simps split: sum.splits if_splits)

lemma connection_step_finished:
  assumes "connection_step s act s'" and "Finished r \<in> set (futures (conn (packets s')))"
  shows "Finished r \<in> set (futures (conn (packets s))) \<or> act = Loop_Reply r"
  using assms
proof (induction rule: connection_step.induct)
  case (send_command cmd s out s')
  from send_command.hyps show ?case
  proof (cases rule: loop_send_command_cases)
    case sends
    from sends(1) show ?thesis
    proof (cases rule: send_command_cases)
      case (direct p q c)
      with send_command.prems show ?thesis by (auto simp: sender_send_def split: sum.splits)
    qed (use send_command.prems send_begin_finished in auto)
  qed (use send_command.prems in simp)
next
  case (command_returns i a s res cmd out s')
  with resume_call_packets [OF command_returns.hyps(4)] show ?case by (simp add: send_end_def)
next
  case (command_cancelled i a s)
  then show ?case using resolve_finished [of r "[a]" Cancelled] by auto
next
  case (receive_command s res s')
  then have "packets s' = packets s"
    by (auto simp: receive_command_def Let_def split: list.splits sum.splits if_splits)
  with receive_command.prems show ?case by simp
next
  case (loop_reply s q)
  then show ?case using receive_finished [of r q] by (auto simp del: receive_packet.simps)
next
  case (loop_raises s e)
  then show ?case using clearing_finished(1) by (simp add: loop_raises_def)
next
  case (close_begin s)
  then show ?case by (simp add: close_begin_def Let_def split: if_splits)
next
  case (close_end s)
  then show ?case using clearing_finished(2) by (simp add: close_end_def)
qed (simp_all add: send_end_def)

text \<open>The command packets the loop read are the commands it parsed, up to one that ended it.\<close>

fun command_read :: "connection_action \<Rightarrow> JdwpCommandPacket list" where
  "command_read (Loop_Command p res) = [p]"
| "command_read _ = []"

definition parses_to :: "JdwpCommandPacket \<Rightarrow> JdwpCommand \<Rightarrow> bool" where
  "parses_to p cmd \<longleftrightarrow> (\<exists>sp. parse_command p sp = Inr cmd)"

lemma ended_stays:
  assumes "connection_step s act s'" and "read_task s = Ended"
  shows "read_task s' = Ended \<and> command_read act = []"
  using assms
proof (induction rule: connection_step.induct)
  case (send_command cmd s out s')
  then show ?case by (cases rule: loop_send_command_cases) (auto simp: send_command_rest)
next
  case (command_returns i a s res cmd out s')
  with resume_call_packets [OF command_returns.hyps(4)] show ?case by simp
next
  case (receive_command s res s')
  then show ?case
    by (auto simp: receive_command_def start_def Let_def split: list.splits sum.splits if_splits)
qed (auto simp: close_begin_def close_end_def Let_def)

lemma ended_reads_nothing:
  "run connection_step s acts s' \<Longrightarrow> read_task s = Ended \<Longrightarrow> concat (map command_read acts) = []"
  by (induction rule: run.induct) (use ended_stays in auto)

lemma read_commands_parsed:
  "run connection_step s acts s' \<Longrightarrow>
    length (concat (map parsed acts)) \<le> length (concat (map command_read acts)) \<and>
    list_all2 parses_to
      (take (length (concat (map parsed acts))) (concat (map command_read acts))) (concat (map parsed acts))"
proof (induction rule: run.induct)
  case (Cons s act s' as s'')
  show ?case
  proof (cases "command_read act = []")
    case True
    then have "parsed act = []" by (cases act) simp_all
    with Cons.IH True show ?thesis by simp
  next
    case False
    then obtain p res where act: "act = Loop_Command p res" by (cases act) simp_all
    show ?thesis
    proof (cases res)
      case (Inl e)
      with Cons.hyps(1) act have "read_task s' = Ended"
        by (auto elim!: connection_step.cases simp: loop_command_def Let_def split: sum.split)
      with Cons.hyps(2) have none: "concat (map command_read as) = []" by (rule ended_reads_nothing)
      have "length (concat (map parsed as)) \<le> 0" using Cons.IH unfolding none by simp
      then have "concat (map parsed as) = []" by (simp only: le_zero_eq length_0_conv)
      with none show ?thesis by (simp only: act Inl list.map concat.simps parsed.simps) simp
    next
      case (Inr cmd)
      have "parse_command p (connection.spec s) = Inr cmd"
        using Cons.hyps(1) unfolding act Inr by cases simp
      then have "parses_to p cmd" by (auto simp: parses_to_def)
      with Cons.IH act Inr show ?thesis by simp
    qed
  qed
qed simp

section \<open>Towards the connection\<close>

text \<open>
  \<open>sent\<close> is what the VM has sent after its handshake, \<open>ps\<close> the packets the connection has read.
\<close>

definition down_inv :: "bytes \<Rightarrow> JdwpPacket list \<Rightarrow> system \<Rightarrow> bool" where
  "down_inv sent ps s \<longleftrightarrow> to_dbg_inv (HANDSHAKE @ sent) (middle s) \<and>
     down_count s \<le> length (dbg_wire s) \<and>
     (\<exists>t. packets.framed ps t \<and> HANDSHAKE @ t @ inbox s = take (down_count s) (dbg_wire s)) \<and>
     (\<forall>r. Finished r \<in> set (futures (conn (packets (client s)))) \<longrightarrow> ReplyPacket r \<in> set ps)"

fun packet_read :: "system_action \<Rightarrow> JdwpPacket list" where
  "packet_read (Client_Reads act) = (case reads_packet act of Some p \<Rightarrow> [p] | None \<Rightarrow> [])"
| "packet_read _ = []"

lemma down_inv_proxy:
  assumes inv: "down_inv sent ps s" and step: "proxy_step (middle s) act m"
  shows "down_inv (sent @ from_vm act) ps (s\<lparr>middle := m, up_count := n\<rparr>)"
proof -
  obtain t where t: "to_dbg (session m) = dbg_wire s @ t" using proxy_step_framed(2) [OF step] by blast
  moreover have "to_dbg_inv ((HANDSHAKE @ sent) @ from_vm act) m"
    using to_dbg_step [OF step, of "HANDSHAKE @ sent"] inv by (simp only: down_inv_def)
  ultimately show ?thesis using inv by (simp add: down_inv_def)
qed

lemma down_inv_step:
  assumes "system_step s act s'" and "down_inv sent ps s"
  shows "down_inv (sent @ from_machine act) (ps @ packet_read act) s'"
  using assms
proof (induction rule: system_step.induct)
  case (client_acts s act c)
  have "act \<noteq> Loop_Reply r" for r using client_acts.hyps(2) by auto
  with connection_step_finished [OF client_acts.hyps(1)] client_acts.prems show ?case
    by (auto simp: down_inv_def)
next
  case (client_reads s p rest act c)
  obtain bs where bs: "packet_ok p" "packet_to_bytes p = Inr bs" "inbox s = bs @ rest"
    using packets.dec_sound [OF client_reads.hyps(1)] by blast
  have "p = ReplyPacket r" if "act = Loop_Reply r" for r using that client_reads.hyps(2) by simp
  with connection_step_finished [OF client_reads.hyps(3)] client_reads.prems
  have "\<forall>r. Finished r \<in> set (futures (conn (packets c))) \<longrightarrow> ReplyPacket r \<in> set (ps @ [p])"
    by (auto simp: down_inv_def)
  moreover obtain t where "packets.framed ps t" "HANDSHAKE @ t @ inbox s = take (down_count s) (dbg_wire s)"
    using client_reads.prems by (auto simp: down_inv_def)
  then have "packets.framed (ps @ [p]) (t @ bs) \<and>
      HANDSHAKE @ (t @ bs) @ rest = take (down_count s) (dbg_wire s)"
    using packets.framed_append packets.framed_one [OF bs(1,2)] bs(3) by simp
  ultimately show ?case using client_reads.prems client_reads.hyps(2) by (auto simp: down_inv_def)
next
  case (proxy_acts s act m)
  then have "from_vm act = []" by (cases act) simp_all
  with down_inv_proxy [OF proxy_acts.prems proxy_acts.hyps(1), of "up_count s"] show ?case by simp
next
  case (uplink s bs later m)
  from down_inv_proxy [OF uplink.prems uplink.hyps(2)] show ?case by simp
next
  case (downlink s bs later)
  have "length (dbg_wire s) - down_count s = length bs + length later"
    using arg_cong [OF downlink.hyps, of length] by simp
  moreover have "down_count s \<le> length (dbg_wire s)" using downlink.prems by (simp add: down_inv_def)
  ultimately have "down_count s + length bs \<le> length (dbg_wire s)" by linarith
  moreover have "take (down_count s + length bs) (dbg_wire s) = take (down_count s) (dbg_wire s) @ bs"
    using downlink.hyps by (simp add: take_add)
  ultimately show ?case using downlink.prems by (auto simp: down_inv_def)
next
  case (machine s bs m)
  from down_inv_proxy [OF machine.prems machine.hyps, of "up_count s"] show ?case by simp
qed

lemma down_inv_run:
  "run system_step s acts s' \<Longrightarrow> down_inv sent ps s \<Longrightarrow>
    down_inv (sent @ concat (map from_machine acts)) (ps @ concat (map packet_read acts)) s'"
proof (induction arbitrary: sent ps rule: run.induct)
  case (Cons s act s' as s'')
  from Cons.IH [OF down_inv_step [OF Cons.hyps(1) Cons.prems]] show ?case by simp
qed simp

lemma down_inv_init:
  assumes "create_session vm HANDSHAKE = Inr (s0, vm', dbg')"
  shows "down_inv vm' [] (system_init s0 vm')"
  using created_session [OF assms]
  by (simp add: down_inv_def system_init_def connection_init_def packet_system_init_def
      packet_connection_init_def proxy_init_def to_dbg_inv_def)

text \<open>What the connection has read are the first packets of what the VM sent.\<close>

lemma down_inv_packets:
  assumes "down_inv sent ps s"
  shows "\<exists>rs. fst (packets.dec_all sent) = ps @ rs"
proof -
  obtain t where t: "packets.framed ps t" "HANDSHAKE @ t @ inbox s = take (down_count s) (dbg_wire s)"
    using assms by (auto simp: down_inv_def)
  obtain lost where "HANDSHAKE @ sent = dbg_wire s @ lost @ vm_in (middle s)"
    using assms by (auto simp: down_inv_def to_dbg_inv_def)
  then have "HANDSHAKE @ sent = (HANDSHAKE @ t @ inbox s) @ drop (down_count s) (dbg_wire s) @ lost @ vm_in (middle s)"
    using t(2) by (metis append.assoc append_take_drop_id)
  then have "sent = t @ inbox s @ drop (down_count s) (dbg_wire s) @ lost @ vm_in (middle s)" by simp
  with packets.framed_dec_all [OF t(1)] show ?thesis by (metis fst_conv)
qed

definition command_packets :: "JdwpPacket list \<Rightarrow> JdwpCommandPacket list" where
  "command_packets ps = concat (map (\<lambda>p. case p of CommandPacket q \<Rightarrow> [q] | ReplyPacket r \<Rightarrow> []) ps)"

lemma commands_read:
  "run system_step s acts s' \<Longrightarrow>
    command_packets (concat (map packet_read acts)) = concat (map command_read (concat (map client_part acts)))"
proof (induction rule: run.induct)
  case (Cons s act s' as s'')
  have "command_packets (packet_read act) = concat (map command_read (client_part act))"
    using Cons.hyps(1)
  proof cases
    case (client_acts act c)
    then show ?thesis by (cases act) (simp_all add: command_packets_def)
  next
    case (client_reads p rest act c)
    then show ?thesis by (cases act) (auto simp: command_packets_def)
  qed (simp_all add: command_packets_def)
  with Cons.IH show ?case by (simp add: command_packets_def)
qed (simp add: command_packets_def)

lemma command_packets_append [simp]:
  "command_packets (ps @ qs) = command_packets ps @ command_packets qs"
  by (simp add: command_packets_def)

text \<open>The events the application has got are the first ones the VM sent.\<close>

lemma delivered_from_machine:
  assumes "create_session vm HANDSHAKE = Inr (s0, vm', dbg')" and "run system_step (system_init s0 vm') acts s"
  shows "\<exists>ps. list_all2 parses_to ps (concat (map delivered (concat (map client_part acts)))) \<and>
    (\<exists>rest. command_packets (fst (packets.dec_all (vm' @ concat (map from_machine acts)))) = ps @ rest)"
proof -
  let ?acts = "concat (map client_part acts)"
  let ?read = "concat (map command_read ?acts)" and ?got = "concat (map delivered ?acts)"
  have run: "run connection_step connection_init ?acts (client s)"
    using assms(2) by (rule client_reachable)
  have "concat (map parsed ?acts) = ?got @ incoming_commands (client s)"
    using queue_run [OF run] by (simp add: connection_init_def)
  then have "list_all2 parses_to (take (length (?got @ incoming_commands (client s))) ?read)
      (?got @ incoming_commands (client s))"
    using read_commands_parsed [OF run] by metis
  then obtain ps qs where "take (length (?got @ incoming_commands (client s))) ?read = ps @ qs"
      "list_all2 parses_to ps ?got"
    by (auto simp: list_all2_append2)
  moreover obtain rs where "fst (packets.dec_all (vm' @ concat (map from_machine acts))) =
      concat (map packet_read acts) @ rs"
    using down_inv_packets [OF down_inv_run [OF assms(2) down_inv_init [OF assms(1)]]] by auto
  then have "command_packets (fst (packets.dec_all (vm' @ concat (map from_machine acts)))) =
      ?read @ command_packets rs"
    using commands_read [OF assms(2)] by simp
  ultimately show ?thesis by (metis append.assoc append_take_drop_id)
qed

text \<open>A reply in a future of the connection was sent by the VM.\<close>

lemma finished_from_machine:
  assumes "create_session vm HANDSHAKE = Inr (s0, vm', dbg')" and "run system_step (system_init s0 vm') acts s"
    and "Finished r \<in> set (futures (conn (packets (client s))))"
  shows "ReplyPacket r \<in> set (fst (packets.dec_all (vm' @ concat (map from_machine acts))))"
proof -
  have inv: "down_inv (vm' @ concat (map from_machine acts)) ([] @ concat (map packet_read acts)) s"
    using down_inv_run [OF assms(2) down_inv_init [OF assms(1)]] .
  with down_inv_packets [OF inv] assms(3) show ?thesis by (auto simp: down_inv_def)
qed

text \<open>What a call returns was decoded from the reply in its future.\<close>

lemma returned_response:
  assumes "connection_step s (Command_Returns i a cmd (Inr resp)) s'" and "conn_inv s"
  obtains reply cls where "Finished reply \<in> set (futures (conn (packets s)))"
    and "JdwpReplyPacket.id' reply = i" and "error_field_value (error_code reply) = 0"
    and "get_response_class (command_class_of cmd) = Some cls"
    and "from_bytes (response_deserialize cls) (JdwpReplyPacket.data reply) (connection.spec s) = Inr resp"
  using assms(1)
proof cases
  case (command_returns res)
  then obtain reply cls w sp where r: "res = Inr reply"
    and cls: "get_response_class (command_class_of cmd) = Some cls"
    and h: "handle_reply cmd cls reply (connection.spec (end_call i a s)) = (Inr resp, w, sp)"
    by (auto simp: resume_call_def split: sum.splits option.splits prod.splits)
  have inv: "packet_inv (packets s)" using assms(2) by (simp add: conn_inv_def)
  have f: "futures (conn (packets s)) ! a = Finished reply"
    using command_returns(2) r by (cases "futures (conn (packets s)) ! a") auto
  have "Finished reply \<in> set (futures (conn (packets s)))"
    using f packet_invD(5) [OF inv command_returns(1)] by (metis nth_mem)
  moreover have "JdwpReplyPacket.id' reply = i" using packet_invD(7) [OF inv command_returns(1) f] .
  moreover have "connection.spec (end_call i a s) = connection.spec s" by (simp add: end_call_def)
  then have "error_field_value (error_code reply) = 0"
      "from_bytes (response_deserialize cls) (JdwpReplyPacket.data reply) (connection.spec s) = Inr resp"
    using h by (auto simp: handle_reply_def split: if_splits sum.splits)
  ultimately show thesis using that cls by blast
qed

section \<open>A reply on its way\<close>

lemma reply_completes:
  assumes "conn_inv s" and "(i, a) \<in> set (calls (packets s))"
    and "(a, cmd) \<in> set (requests s)" and "futures (conn (packets s)) ! a = Pending"
    and "read_task s = Running" and "JdwpReplyPacket.id' r = i"
    and "get_response_class (command_class_of cmd) = Some cls"
    and "handle_reply cmd cls r (connection.spec s) = (out, w, sp)"
  shows "\<exists>s' s''. connection_step s (Loop_Reply r) s' \<and>
    connection_step s' (Command_Returns i a cmd out) s'' \<and> connection.spec s'' = sp"
proof -
  let ?s' = "with_conn (\<lambda>c. snd (receive_packet (ReplyPacket r) c)) s"
  have inv: "packet_inv (packets s)" using assms(1) by (simp add: conn_inv_def)
  have "futures (conn (packets ?s')) ! a = Finished r"
    using inv_reply_resolves(2) [OF inv assms(2,4,6)] by simp
  moreover have "resume_call cmd (Inr r) (end_call i a ?s') =
      (out, (end_call i a ?s')\<lparr>connection.spec := sp\<rparr>)"
    using assms(7,8) by (simp add: resume_call_def end_call_def)
  ultimately have "connection_step ?s' (Command_Returns i a cmd out)
      ((end_call i a ?s')\<lparr>connection.spec := sp\<rparr>)"
    using assms(2,3) by (intro connection_step.command_returns [of _ _ _ "Inr r"]) simp_all
  moreover have "connection_step s (Loop_Reply r) ?s'" using assms(5) by (rule connection_step.loop_reply)
  ultimately show ?thesis by (intro exI conjI) auto
qed

text \<open>When nothing else is on the way, the reply of the VM reaches the caller through the proxy.\<close>

lemma reply_gets_through:
  assumes client: "connection_step (client s) (Loop_Reply r) c" "connection_step c (Command_Returns i a cmd out) c'"
    and quiet: "inbox s = []" "down_count s = length (dbg_wire s)" "vm_in (middle s) = []"
    and proxy: "vm_loop (middle s) = Receiving" "vm_packet_begin (ReplyPacket r) (session (middle s)) = (Inr (), t)"
    and bs: "packet_ok (ReplyPacket r)" "packet_to_bytes (ReplyPacket r) = Inr bs"
  shows "\<exists>s'. run system_step s [Machine bs, Middle (Vm_Packet (ReplyPacket r)), Downlink bs,
      Client_Reads (Loop_Reply r), Client (Command_Returns i a cmd out)] s' \<and> client s' = c'"
proof -
  let ?m1 = "(middle s)\<lparr>vm_in := bs\<rparr>"
  let ?m2 = "?m1\<lparr>session := t, vm_in := [], vm_loop := Sending (ReplyPacket r)\<rparr>"
  have dec: "deserialize_packet bs = Inr (ReplyPacket r, [])"
    using packets.dec_enc [OF bs, of "[]"] by simp
  have "proxy_step (middle s) (Arrive_Vm bs) ?m1" using arrive_vm [of "middle s" bs] quiet(3) by simp
  then have 1: "system_step s (Machine bs) (s\<lparr>middle := ?m1\<rparr>)" by (rule machine)
  have "proxy_step ?m1 (Vm_Packet (ReplyPacket r)) ?m2"
    by (rule vm_packet) (use proxy dec in simp_all)
  then have 2: "system_step (s\<lparr>middle := ?m1\<rparr>) (Middle (Vm_Packet (ReplyPacket r))) (s\<lparr>middle := ?m2\<rparr>)"
    using proxy_acts [of "s\<lparr>middle := ?m1\<rparr>" "Vm_Packet (ReplyPacket r)" ?m2] by simp
  have "to_dbg t = dbg_wire s @ bs"
    using vm_packet_begin_ok(2) [OF bs(2) proxy(2)] by simp
  then have "drop (down_count (s\<lparr>middle := ?m2\<rparr>)) (dbg_wire (s\<lparr>middle := ?m2\<rparr>)) = bs @ []"
    using quiet(2) by simp
  from downlink [OF this] have 3: "system_step (s\<lparr>middle := ?m2\<rparr>) (Downlink bs)
      (s\<lparr>middle := ?m2, inbox := bs, down_count := down_count s + length bs\<rparr>)" (is "system_step _ _ ?s3")
    using quiet(1) by simp
  have 4: "system_step ?s3 (Client_Reads (Loop_Reply r)) (?s3\<lparr>client := c, inbox := []\<rparr>)"
    by (rule System.client_reads) (use dec client(1) in simp_all)
  have 5: "system_step (?s3\<lparr>client := c, inbox := []\<rparr>) (Client (Command_Returns i a cmd out))
      (?s3\<lparr>client := c, inbox := [], client := c', issued := issued s\<rparr>)"
    using client_acts [of "?s3\<lparr>client := c, inbox := []\<rparr>" "Command_Returns i a cmd out" c'] client(2) by simp
  show ?thesis
    by (intro exI conjI, (rule run.Cons, rule 1 2 3 4 5)+, rule run.Nil) simp
qed

end
