(* ===== verification/Proxy_Main.thy ===== *)
theory Proxy_Main
  imports Proxy
begin

text \<open>
  \<^verbatim>\<open>proxy.py\<close>, the life of a session: who closes the two connections when \<open>create\<close>, \<open>run\<close> and
  \<open>client_connected\<close> of \<open>main\<close> are left, and what is logged about the session. A writer is
  followed from \<open>open_connection\<close> to its \<open>close\<close>, or to its finaliser when nobody closes it;
  \<open>wait_closed\<close> may raise.
\<close>

section \<open>Connections\<close>

text \<open>
  \<open>Closed\<close>: the program or its task's callback closed the connection; \<open>Finalized\<close>: nobody did, and the
  \<open>StreamWriter\<close>'s \<open>__del__\<close> closed it when the last reference to it was dropped, with a
  \<open>ResourceWarning\<close>.
\<close>

datatype peer_writer = Unconnected | Opened | Closed | Finalized

text \<open>
  The exceptions of a session: \<open>IncompleteReadError\<close> with how much was read and how much was
  expected, and the others.
\<close>

datatype (plugins only: code) session_error = Incomplete nat nat | Raised py_exc

datatype (plugins only: code) session_line =
    Handshake_Incomplete nat nat
  | Disconnected_Before_Handshake
  | Session_Failed py_exc
  | Session_Closed

record session_sockets =
  dbg_writer :: peer_writer
  vm_writer :: peer_writer
  session_lines :: "session_line list"

text \<open>The debugger has connected; the server has given its writer to \<open>client_connected\<close>.\<close>

definition accepted :: session_sockets where
  "accepted = \<lparr>dbg_writer = Opened, vm_writer = Unconnected, session_lines = []\<rparr>"

text \<open>
  \<open>writer.close()\<close> and \<open>await writer.wait_closed()\<close>, which is \<open>StreamJdwpPacketSender.close\<close>; the
  parameter is what \<open>wait_closed\<close> raises, if it does.
\<close>

definition close_dbg ::
    "session_error option \<Rightarrow> session_sockets \<Rightarrow> (session_error + unit) \<times> session_sockets" where
  "close_dbg waited s = (case waited of None \<Rightarrow> Inr () | Some e \<Rightarrow> Inl e, s\<lparr>dbg_writer := Closed\<rparr>)"

definition close_vm ::
    "session_error option \<Rightarrow> session_sockets \<Rightarrow> (session_error + unit) \<times> session_sockets" where
  "close_vm waited s = (case waited of None \<Rightarrow> Inr () | Some e \<Rightarrow> Inl e, s\<lparr>vm_writer := Closed\<rparr>)"

definition log_session :: "session_line \<Rightarrow> session_sockets \<Rightarrow> session_sockets" where
  "log_session l s = s\<lparr>session_lines := session_lines s @ [l]\<rparr>"

section \<open>create\<close>

text \<open>
  \<open>readexactly(len(HANDSHAKE))\<close>, with what is reported when the stream ends before.
\<close>

definition read_handshake :: "bytes \<Rightarrow> session_error + (bytes \<times> bytes)" where
  "read_handshake s =
     (case readexactly (int (length HANDSHAKE)) s of
        Inl _ \<Rightarrow> Inl (Incomplete (length s) (length HANDSHAKE))
      | Inr r \<Rightarrow> Inr r)"

text \<open>
  \<open>establish_jdwp_connection\<close>: \<open>vm\<close> is what \<open>open_connection\<close> raises or what the VM sends. Only the
  branch of a wrong answer closes the writer; when the answer is cut short the exception carries
  the frame that refers to it, so that it stays open until the exception is dropped.
\<close>

definition establish_sockets ::
    "session_error + bytes \<Rightarrow> session_error option \<Rightarrow> session_sockets \<Rightarrow>
     (session_error + bytes) \<times> session_sockets" where
  "establish_sockets vm vm_wait s =
     (case vm of
        Inl e \<Rightarrow> (Inl e, s)
      | Inr vm \<Rightarrow>
          (let s = s\<lparr>vm_writer := Opened\<rparr>
           in case read_handshake vm of
                Inl e \<Rightarrow> (Inl e, s)
              | Inr (response, rest) \<Rightarrow>
                  if response \<noteq> HANDSHAKE then
                    (case close_vm vm_wait s of
                       (Inl e, s) \<Rightarrow> (Inl e, s)
                     | (Inr _, s) \<Rightarrow> (Inl (Raised RuntimeError), s))
                  else (Inr rest, s)))"

text \<open>The handshake of the debugger; \<open>vm\<close> is what the VM has sent after its own.\<close>

definition greet_debugger ::
    "bytes \<Rightarrow> bytes \<Rightarrow> session_error + (JdwpProxySession \<times> bytes \<times> bytes)" where
  "greet_debugger vm dbg =
     (case read_handshake dbg of
        Inl e \<Rightarrow> Inl e
      | Inr (dbg_handshake, dbg) \<Rightarrow>
          if dbg_handshake \<noteq> HANDSHAKE then Inl (Raised RuntimeError)
          else Inr (session_init\<lparr>to_vm := HANDSHAKE, to_dbg := HANDSHAKE\<rparr>, vm, dbg))"

definition create_sockets ::
    "session_error + bytes \<Rightarrow> session_error option \<Rightarrow> bytes \<Rightarrow> session_sockets \<Rightarrow>
     (session_error + (JdwpProxySession \<times> bytes \<times> bytes)) \<times> session_sockets" where
  "create_sockets vm vm_wait dbg s =
     (case establish_sockets vm vm_wait s of
        (Inl e, s) \<Rightarrow> (Inl e, s)
      | (Inr vm, s) \<Rightarrow> (greet_debugger vm dbg, s))"

section \<open>run and client_connected\<close>

text \<open>
  The end of \<open>run\<close>: \<open>interrupt\<close> is what ended the wait for \<open>close_event\<close>, if it was an exception. The
  receivers' \<open>close\<close> does nothing; an exception of the first \<open>close\<close> leaves the \<^verbatim>\<open>finally\<close> clause.
\<close>

definition run_sockets ::
    "session_error option \<Rightarrow> session_error option \<Rightarrow> session_error option \<Rightarrow> session_sockets \<Rightarrow>
     (session_error + unit) \<times> session_sockets" where
  "run_sockets interrupt dbg_wait vm_wait s =
     (case close_dbg dbg_wait s of
        (Inl e, s) \<Rightarrow> (Inl e, s)
      | (Inr _, s) \<Rightarrow>
          (case close_vm vm_wait s of
             (Inl e, s) \<Rightarrow> (Inl e, s)
           | (Inr _, s) \<Rightarrow> (case interrupt of None \<Rightarrow> Inr () | Some e \<Rightarrow> Inl e, s)))"

text \<open>
  The handlers of \<open>client_connected\<close>: a cancellation is not an \<open>Exception\<close> and passes them by.
\<close>

definition session_failed ::
    "session_error \<Rightarrow> session_error option \<Rightarrow> session_sockets \<Rightarrow> (session_error + unit) \<times> session_sockets" where
  "session_failed e dbg_wait s =
     (case e of
        Incomplete n m \<Rightarrow>
          close_dbg dbg_wait
            (log_session (if n \<noteq> 0 then Handshake_Incomplete n m else Disconnected_Before_Handshake) s)
      | Raised e' \<Rightarrow>
          if e' = CancelledError then (Inl e, s)
          else close_dbg dbg_wait (log_session (Session_Failed e') s))"

text \<open>
  What happens when the task of \<open>client_connected\<close> is done: the callback that \<open>asyncio\<close>'s server adds
  to it closes the debugger's transport if the task was cancelled or raised; the exception and the
  session are dropped by then, so a writer to the VM that is still open is finalised.
\<close>

definition task_done :: "session_error + unit \<Rightarrow> session_sockets \<Rightarrow> session_sockets" where
  "task_done res s =
     (let s = (case res of Inl _ \<Rightarrow> s\<lparr>dbg_writer := Closed\<rparr> | Inr _ \<Rightarrow> s)
      in if vm_writer s = Opened then s\<lparr>vm_writer := Finalized\<rparr> else s)"

definition client_connected ::
    "session_error + bytes \<Rightarrow> bytes \<Rightarrow> session_error option \<Rightarrow> session_error option \<Rightarrow> session_error option \<Rightarrow>
     (session_error + unit) \<times> session_sockets" where
  "client_connected vm dbg interrupt dbg_wait vm_wait =
     (let (res, s) =
        (case create_sockets vm vm_wait dbg accepted of
           (Inl e, s) \<Rightarrow> session_failed e dbg_wait s
         | (Inr _, s) \<Rightarrow>
             (case run_sockets interrupt dbg_wait vm_wait s of
                (Inl e, s) \<Rightarrow> session_failed e dbg_wait s
              | (Inr u, s) \<Rightarrow> (Inr u, s)))
      in (res, task_done res (log_session Session_Closed s)))"

section \<open>Who closes the connections\<close>

text \<open>\<open>create\<close> returns the session \<open>create_session\<close> describes, or its exception.\<close>

definition error_of :: "session_error \<Rightarrow> py_exc" where
  "error_of e = (case e of Incomplete _ _ \<Rightarrow> IncompleteReadError | Raised e' \<Rightarrow> e')"

lemma read_handshake_Inl:
  "read_handshake s = Inl e \<longleftrightarrow> length s < length HANDSHAKE \<and> e = Incomplete (length s) (length HANDSHAKE)"
  by (auto simp: read_handshake_def readexactly_def split: sum.splits)

lemma read_handshake_Inr:
  "read_handshake s = Inr (h, rest) \<longleftrightarrow> s = h @ rest \<and> length h = length HANDSHAKE"
  by (auto simp: read_handshake_def readexactly_eq_Inr split: sum.splits)

lemma read_handshake_cases:
  obtains (short) "length s < length HANDSHAKE" "read_handshake s = Inl (Incomplete (length s) (length HANDSHAKE))"
  | (full) h rest where "s = h @ rest" "length h = length HANDSHAKE" "read_handshake s = Inr (h, rest)"
proof (cases "read_handshake s")
  case (Inl e)
  with short show thesis by (simp add: read_handshake_Inl)
next
  case (Inr b)
  then obtain h rest where "read_handshake s = Inr (h, rest)" by (cases b) simp
  with full show thesis by (auto simp: read_handshake_Inr)
qed

lemma create_sockets_session:
  assumes "create_sockets (Inr vm) None dbg s = (res, s')"
  shows "create_session vm dbg = (case res of Inl e \<Rightarrow> Inl (error_of e) | Inr r \<Rightarrow> Inr r)"
proof -
  have rd: "readexactly (int (length HANDSHAKE)) x =
      (case read_handshake x of Inl e \<Rightarrow> Inl IncompleteReadError | Inr r \<Rightarrow> Inr r)" for x
    by (auto simp: read_handshake_def readexactly_def)
  show ?thesis
    using assms
    by (cases rule: read_handshake_cases [of vm]; cases rule: read_handshake_cases [of dbg])
      (auto simp: create_session_def establish_jdwp_connection_def rd create_sockets_def greet_debugger_def
        establish_sockets_def close_vm_def error_of_def Let_def split: if_splits)
qed

text \<open>
  The connection to the debugger is closed by the handlers, except when the session was cancelled
  before it ran; then the task's callback closes it.
\<close>

lemma close_dbg_writer [simp]: "dbg_writer (snd (close_dbg w s)) = Closed"
  "vm_writer (snd (close_dbg w s)) = vm_writer s" "session_lines (snd (close_dbg w s)) = session_lines s"
  by (simp_all add: close_dbg_def)

lemma log_session_simps [simp]:
  "dbg_writer (log_session l s) = dbg_writer s" "vm_writer (log_session l s) = vm_writer s"
  "session_lines (log_session l s) = session_lines s @ [l]"
  by (simp_all add: log_session_def)

lemma task_done_simps [simp]:
  "dbg_writer (task_done (Inl e) s) = Closed" "dbg_writer (task_done (Inr u) s) = dbg_writer s"
  "vm_writer (task_done r s) = (if vm_writer s = Opened then Finalized else vm_writer s)"
  "session_lines (task_done r s) = session_lines s"
  by (cases r; simp add: task_done_def Let_def)+

lemma session_failed_vm [simp]: "vm_writer (snd (session_failed e w s)) = vm_writer s"
  by (simp add: session_failed_def split: session_error.split)

lemma session_failed_dbg:
  "e \<noteq> Raised CancelledError \<Longrightarrow> dbg_writer (snd (session_failed e w s)) = Closed"
  by (simp add: session_failed_def split: session_error.split)

lemma session_failed_cancelled:
  "session_failed (Raised CancelledError) w s = (Inl (Raised CancelledError), s)"
  by (simp add: session_failed_def)

lemma run_sockets_dbg [simp]: "dbg_writer (snd (run_sockets i w v s)) = Closed"
  by (simp add: run_sockets_def close_dbg_def close_vm_def split: option.split)

lemma client_connected_dbg: "dbg_writer (snd (client_connected vm dbg interrupt dbg_wait vm_wait)) = Closed"
proof -
  obtain cr t where c: "create_sockets vm vm_wait dbg accepted = (cr, t)" by fastforce
  obtain rr u where r: "run_sockets interrupt dbg_wait vm_wait t = (rr, u)" by fastforce
  have u: "dbg_writer u = Closed" using run_sockets_dbg [of interrupt dbg_wait vm_wait t] r by simp
  have failed: "dbg_writer (task_done res (log_session Session_Closed y)) = Closed"
    if "session_failed e dbg_wait x = (res, y)" for e x res y
    using that session_failed_dbg [of e dbg_wait x] session_failed_cancelled [of dbg_wait x]
    by (cases "e = Raised CancelledError"; cases res) auto
  obtain res y where f: "session_failed (case cr of Inl e \<Rightarrow> e | Inr _ \<Rightarrow> case rr of Inl e \<Rightarrow> e) dbg_wait
      (case cr of Inl _ \<Rightarrow> t | Inr _ \<Rightarrow> u) = (res, y)" by fastforce
  from failed [OF f] u c r f show ?thesis
    by (cases cr; cases rr) (simp_all add: client_connected_def Let_def)
qed

text \<open>
  Nobody closes the connection to the VM when a handshake is cut short, when the debugger's is
  wrong, and when closing the debugger's connection raises.
\<close>

lemma establish_sockets_vm:
  "vm_writer (snd (establish_sockets (Inr v) w s)) =
    (if length v < length HANDSHAKE \<or> take (length HANDSHAKE) v = HANDSHAKE then Opened else Closed)"
  "(\<exists>r. fst (establish_sockets (Inr v) w s) = Inr r) \<longleftrightarrow> take (length HANDSHAKE) v = HANDSHAKE"
  by (cases rule: read_handshake_cases [of v];
      auto simp: establish_sockets_def Let_def close_vm_def split: option.split)+

lemma create_sockets_vm:
  "vm_writer (snd (create_sockets (Inr v) w dbg s)) = vm_writer (snd (establish_sockets (Inr v) w s))"
  "(\<exists>r. fst (create_sockets (Inr v) w dbg s) = Inr r) \<longleftrightarrow>
    take (length HANDSHAKE) v = HANDSHAKE \<and> take (length HANDSHAKE) dbg = HANDSHAKE"
  unfolding establish_sockets_vm(2) [of v w s, symmetric]
  by (cases rule: read_handshake_cases [of dbg];
      auto simp: create_sockets_def greet_debugger_def split: prod.split sum.split)+

lemma run_sockets_vm:
  "vm_writer (snd (run_sockets i w v s)) = (if w = None then Closed else vm_writer s)"
  by (simp add: run_sockets_def close_dbg_def close_vm_def split: option.split)

lemma client_connected_vm:
  "vm_writer (snd (client_connected (Inr v) dbg i w vw)) =
    (if length v < length HANDSHAKE \<or> (take (length HANDSHAKE) v = HANDSHAKE \<and>
        (take (length HANDSHAKE) dbg \<noteq> HANDSHAKE \<or> w \<noteq> None)) then Finalized else Closed)"
proof -
  obtain cr t where c: "create_sockets (Inr v) vw dbg accepted = (cr, t)" by fastforce
  obtain rr u where r: "run_sockets i w vw t = (rr, u)" by fastforce
  have t: "vm_writer t = (if length v < length HANDSHAKE \<or> take (length HANDSHAKE) v = HANDSHAKE
      then Opened else Closed)"
    and cr: "(\<exists>x. cr = Inr x) \<longleftrightarrow> take (length HANDSHAKE) v = HANDSHAKE \<and> take (length HANDSHAKE) dbg = HANDSHAKE"
    using create_sockets_vm [of v vw dbg accepted] c by (simp_all add: establish_sockets_vm)
  have u: "vm_writer u = (if w = None then Closed else vm_writer t)"
    using run_sockets_vm [of i w vw t] r by simp
  have "vm_writer (snd (client_connected (Inr v) dbg i w vw)) =
      (let x = (case cr of Inl e \<Rightarrow> vm_writer t | Inr x \<Rightarrow> vm_writer u) in if x = Opened then Finalized else x)"
    using c r by (cases cr; cases rr) (auto simp: client_connected_def split_def Let_def)
  with t cr u show ?thesis by (cases cr) (auto simp: Let_def)
qed

end
