(* ===== verification/Command_Line.thy ===== *)
theory Command_Line
  imports Proxy
begin

text \<open>
  \<^verbatim>\<open>proxy.py\<close>, the options of the command line: three options declared to \<^verbatim>\<open>argparse\<close>, two of them
  converted by \<open>int\<close>. The words are read from left to right, as \<open>parse_args\<close> does: exact names,
  \<open>--name=value\<close>, unambiguous abbreviations of long names, \<open>-h\<close> and \<open>--help\<close>. Words are strings of
  the first 256 code points.
\<close>

section \<open>int of a string\<close>

text \<open>Surrounding white space, a sign, digits with single underscores between them.\<close>

definition is_space :: "char \<Rightarrow> bool" where
  "is_space c \<longleftrightarrow> (let n = of_char c :: nat in (9 \<le> n \<and> n \<le> 13) \<or> n = 32 \<or> n = 133 \<or> n = 160)"

definition strip :: "string \<Rightarrow> string" where
  "strip s = rev (dropWhile is_space (rev (dropWhile is_space s)))"

definition is_digit :: "char \<Rightarrow> bool" where
  "is_digit c \<longleftrightarrow> (let n = of_char c :: nat in 48 \<le> n \<and> n \<le> 57)"

text \<open>\<open>after_digit\<close>: whether the character before was a digit.\<close>

fun read_digits :: "bool \<Rightarrow> nat \<Rightarrow> string \<Rightarrow> nat option" where
  "read_digits after_digit acc [] = (if after_digit then Some acc else None)"
| "read_digits after_digit acc (c # cs) =
     (if is_digit c then read_digits True (10 * acc + (of_char c - 48)) cs
      else if c = CHR ''_'' \<and> after_digit then read_digits False acc cs
      else None)"

text \<open>\<open>int(s)\<close>; \<open>None\<close> is \<open>ValueError\<close>, which a string of more than 4300 digits raises too.\<close>

definition py_int :: "string \<Rightarrow> int option" where
  "py_int s =
     (let t = strip s;
          signed = t \<noteq> [] \<and> (hd t = CHR ''-'' \<or> hd t = CHR ''+'');
          digits = (if signed then tl t else t)
      in if length (filter is_digit digits) > 4300 then None
         else map_option (\<lambda>n. if signed \<and> hd t = CHR ''-'' then - int n else int n)
           (read_digits False 0 digits))"

section \<open>Options\<close>

record proxy_options =
  listen_port :: int
  target_host :: string
  target_port :: int

definition default_options :: proxy_options where
  "default_options = \<lparr>listen_port = 5005, target_host = ''127.0.0.1'', target_port = 8700\<rparr>"

datatype (plugins only: code) option_name = Help | Listen_Port | Target_Host | Target_Port

definition option_strings :: "(string \<times> option_name) list" where
  "option_strings = [(''-h'', Help), (''--help'', Help), (''--listen-port'', Listen_Port),
     (''--target-host'', Target_Host), (''--target-port'', Target_Port)]"

text \<open>What a word is: an argument, the separator \<open>--\<close>, an option with the value attached to it.\<close>

datatype (plugins only: code) word_kind =
    Argument
  | Separator
  | Chosen option_name "string option"
  | Short_Help string
  | Ambiguous
  | Unknown

definition partition_eq :: "string \<Rightarrow> string \<times> string option" where
  "partition_eq w = (takeWhile (\<lambda>c. c \<noteq> CHR ''='') w,
     (case dropWhile (\<lambda>c. c \<noteq> CHR ''='') w of [] \<Rightarrow> None | _ # v \<Rightarrow> Some v))"

text \<open>A number with a minus sign is an argument, and so is an unknown word with a space in it.\<close>

definition negative_number :: "string \<Rightarrow> bool" where
  "negative_number w \<longleftrightarrow>
     (let whole = takeWhile is_digit (tl w); rest = dropWhile is_digit (tl w)
      in if rest = [] then whole \<noteq> []
         else hd rest = CHR ''.'' \<and> tl rest \<noteq> [] \<and> list_all is_digit (tl rest))"

definition no_option :: "string \<Rightarrow> word_kind" where
  "no_option w = (if negative_number w \<or> CHR '' '' \<in> set w then Argument else Unknown)"

definition classify :: "string \<Rightarrow> word_kind" where
  "classify w =
     (if w = [] \<or> hd w \<noteq> CHR ''-'' \<or> w = ''-'' then Argument
      else if w = ''--'' then Separator
      else
        (case map_of option_strings w of
           Some opt \<Rightarrow> Chosen opt None
         | None \<Rightarrow>
             (let (n, v) = partition_eq w
              in case (if v = None then None else map_of option_strings n) of
                   Some opt \<Rightarrow> Chosen opt v
                 | None \<Rightarrow>
                     if w ! 1 = CHR ''-'' then
                       (case filter (\<lambda>(s, _). take (length n) s = n) option_strings of
                          [] \<Rightarrow> no_option w
                        | [(_, opt)] \<Rightarrow> Chosen opt v
                        | _ \<Rightarrow> Ambiguous)
                     else if w ! 1 = CHR ''h'' then Short_Help (drop 2 w)
                     else no_option w)))"

text \<open>
  \<open>-h\<close> with letters attached: more short options, of which only \<open>h\<close> exists. An unknown one ends the
  word, and the help is printed; an attached value is an error.
\<close>

fun short_help :: "string \<Rightarrow> bool" where
  "short_help [] = True"
| "short_help (c # cs) =
     (if c = CHR ''='' \<or> c = CHR ''-'' then False else if c = CHR ''h'' then short_help cs else True)"

section \<open>parse_args\<close>

text \<open>The options, or the status \<open>parse_args\<close> exits with: 0 after the help, 2 after an error.\<close>

datatype (plugins only: code) parsed_args = Parsed_Options proxy_options | Exits_With int

definition set_option :: "option_name \<Rightarrow> string \<Rightarrow> proxy_options \<Rightarrow> proxy_options option" where
  "set_option opt v opts =
     (case opt of
        Help \<Rightarrow> None
      | Listen_Port \<Rightarrow> map_option (\<lambda>i. opts\<lparr>listen_port := i\<rparr>) (py_int v)
      | Target_Host \<Rightarrow> Some (opts\<lparr>target_host := v\<rparr>)
      | Target_Port \<Rightarrow> map_option (\<lambda>i. opts\<lparr>target_port := i\<rparr>) (py_int v))"

text \<open>\<open>extras\<close>: whether a word was left over, which is an error at the end.\<close>

fun parse_from :: "proxy_options \<Rightarrow> bool \<Rightarrow> string list \<Rightarrow> parsed_args" where
  "parse_from opts extras [] = (if extras then Exits_With 2 else Parsed_Options opts)"
| "parse_from opts extras (w # ws) =
     (case classify w of
        Argument \<Rightarrow> parse_from opts True ws
      | Unknown \<Rightarrow> parse_from opts True ws
      | Separator \<Rightarrow> Exits_With 2
      | Ambiguous \<Rightarrow> Exits_With 2
      | Short_Help cs \<Rightarrow> Exits_With (if short_help cs then 0 else 2)
      | Chosen opt (Some v) \<Rightarrow>
          (case set_option opt v opts of
             None \<Rightarrow> Exits_With 2
           | Some opts \<Rightarrow> parse_from opts extras ws)
      | Chosen opt None \<Rightarrow>
          (if opt = Help then Exits_With 0
           else
             (case ws of
                [] \<Rightarrow> Exits_With 2
              | v # ws' \<Rightarrow>
                  (if classify v = Argument then
                     (case set_option opt v opts of
                        None \<Rightarrow> Exits_With 2
                      | Some opts \<Rightarrow> parse_from opts extras ws')
                   else Exits_With 2))))"

definition parse_args :: "string list \<Rightarrow> parsed_args" where
  "parse_args argv = parse_from default_options False argv"

section \<open>Reading back printed numbers\<close>

lemma is_digit_char [simp]: "d < 10 \<Longrightarrow> is_digit (char_of (48 + d :: nat))"
  by (simp add: is_digit_def Let_def)

lemma show_nat_induct [case_names digit more]:
  fixes n :: nat
  assumes "\<And>n. n < 10 \<Longrightarrow> P n" and "\<And>n. 10 \<le> n \<Longrightarrow> P (n div 10) \<Longrightarrow> P n"
  shows "P n"
  by (induction n rule: show_nat.induct) (metis assms not_less)

lemma show_nat_eq:
  "n < 10 \<Longrightarrow> show_nat n = [char_of (48 + n)]"
  "10 \<le> n \<Longrightarrow> show_nat n = show_nat (n div 10) @ [char_of (48 + n mod 10)]"
  by (simp_all add: show_nat.simps [of n])

lemma show_nat_digits: "show_nat n \<noteq> [] \<and> list_all is_digit (show_nat n)"
  by (induction n rule: show_nat_induct) (simp_all add: show_nat_eq)

lemma show_nat_length: "0 < k \<Longrightarrow> n < 10 ^ k \<Longrightarrow> length (show_nat n) \<le> k"
proof (induction k arbitrary: n)
  case (Suc k)
  show ?case
  proof (cases "n < 10")
    case False
    with Suc.prems(2) have "n div 10 < 10 ^ k" and "0 < k" by (simp_all add: less_mult_imp_div_less mult.commute, cases k, simp_all)
    with Suc.IH [of "n div 10"] False show ?thesis by (simp add: show_nat_eq)
  qed (simp add: show_nat_eq)
qed simp

lemma read_digits_append:
  "list_all is_digit s \<Longrightarrow> read_digits b acc (s @ t) =
    read_digits (b \<or> s \<noteq> []) (foldl (\<lambda>n c. 10 * n + (of_char c - 48)) acc s) t"
  by (induction s arbitrary: b acc) auto

lemma foldl_show_nat: "foldl (\<lambda>n c. 10 * n + (of_char c - 48)) 0 (show_nat n) = n"
  by (induction n rule: show_nat_induct) (simp_all add: show_nat_eq)

lemma read_digits_show_nat: "read_digits False 0 (show_nat n) = Some n"
  using read_digits_append [of "show_nat n" False 0 "[]"] show_nat_digits [of n] foldl_show_nat [of n] by simp

lemma digit_no_space: "is_digit c \<Longrightarrow> \<not> is_space c"
  by (auto simp: is_digit_def is_space_def Let_def)

lemma digits_strip: "list_all is_digit s \<Longrightarrow> strip s = s"
  unfolding strip_def list_all_iff
  by (subst (1 2) dropWhile_id) (auto simp: digit_no_space dest: hd_in_set)

text \<open>The first character of a printed number is no sign and no dash.\<close>

lemma hd_show_nat: "is_digit (hd (show_nat n))"
  using show_nat_digits [of n] by (cases "show_nat n") simp_all

lemma digit_no_sign: "is_digit c \<Longrightarrow> c \<noteq> CHR ''-'' \<and> c \<noteq> CHR ''+''"
  by (auto simp: is_digit_def)

lemma py_int_show_nat:
  assumes "n < 10 ^ 4300"
  shows "py_int (show_nat n) = Some (int n)"
proof -
  have "length (show_nat n) \<le> 4300" by (rule show_nat_length [OF _ assms]) simp
  moreover have "filter is_digit (show_nat n) = show_nat n"
    using show_nat_digits [of n] by (simp add: list_all_iff)
  ultimately show ?thesis
    using show_nat_digits [of n] hd_show_nat [of n] digit_no_sign [of "hd (show_nat n)"]
    by (simp add: py_int_def Let_def digits_strip read_digits_show_nat)
qed

lemma classify_show_nat: "classify (show_nat n) = Argument"
  using digit_no_sign [OF hd_show_nat [of n]] show_nat_digits [of n] by (simp add: classify_def)

section \<open>Command lines\<close>

lemma classify_options [simp]:
  "classify ''--listen-port'' = Chosen Listen_Port None"
  "classify ''--target-host'' = Chosen Target_Host None"
  "classify ''--target-port'' = Chosen Target_Port None"
  by (simp_all add: classify_def option_strings_def)

text \<open>The value may be attached to the name.\<close>

lemma partition_eq_append:
  assumes "CHR ''='' \<notin> set n"
  shows "partition_eq (n @ CHR ''='' # v) = (n, Some v)"
proof -
  have "\<And>c. c \<in> set n \<Longrightarrow> c \<noteq> CHR ''=''" using assms by blast
  then show ?thesis by (simp add: partition_eq_def takeWhile_append2 dropWhile_append2)
qed

lemma option_strings_facts:
  "\<forall>s \<in> fst ` set option_strings. CHR ''='' \<notin> set s \<and> 2 \<le> length s \<and> hd s = CHR ''-''"
  by (simp add: option_strings_def)

lemma classify_attached:
  assumes "map_of option_strings n = Some opt" and "CHR ''='' \<notin> set n"
  shows "classify (n @ CHR ''='' # v) = Chosen opt (Some v)"
proof -
  let ?w = "n @ CHR ''='' # v"
  have eq: "CHR ''='' \<in> set ?w" by (simp only: set_append list.set Un_iff insert_iff) simp
  then have "?w \<notin> fst ` set option_strings" using option_strings_facts by blast
  then have none: "map_of option_strings ?w = None" by (simp only: map_of_eq_None_iff) simp
  from assms(1) have "n \<in> fst ` set option_strings" by (metis map_of_eq_None_iff option.distinct(1))
  then have n: "2 \<le> length n" "hd n = CHR ''-''" using option_strings_facts by blast+
  then have hd: "hd ?w = CHR ''-''" and len: "3 \<le> length ?w" by (cases n, simp_all)+
  then have "?w \<noteq> ''-''" "?w \<noteq> ''--''" "?w \<noteq> []"
    by (auto dest!: arg_cong [where f = length])
  with hd show ?thesis
    unfolding classify_def none partition_eq_append [OF assms(2)] using assms(1) by simp
qed

lemma parse_options:
  assumes "l < 10 ^ 4300" and "t < 10 ^ 4300" and "classify h = Argument"
  shows "parse_args [''--listen-port'', show_nat l, ''--target-host'', h, ''--target-port'', show_nat t] =
    Parsed_Options \<lparr>listen_port = int l, target_host = h, target_port = int t\<rparr>"
  by (simp add: parse_args_def default_options_def set_option_def py_int_show_nat [OF assms(1)]
      py_int_show_nat [OF assms(2)] assms(3) classify_show_nat)

lemma parse_ports:
  assumes "l < 10 ^ 4300" and "t < 10 ^ 4300"
  shows "parse_args [''--listen-port'', show_nat l, ''--target-port'', show_nat t] =
    Parsed_Options \<lparr>listen_port = int l, target_host = ''127.0.0.1'', target_port = int t\<rparr>"
  by (simp add: parse_args_def default_options_def set_option_def py_int_show_nat [OF assms(1)]
      py_int_show_nat [OF assms(2)] classify_show_nat)

text \<open>A parser that does not return options exits with status 0, after the help, or 2.\<close>

lemma parse_status: "parse_from opts extras argv = Exits_With n \<Longrightarrow> n = 0 \<or> n = 2"
  by (induction opts extras argv rule: parse_from.induct)
    (auto split: if_splits word_kind.splits option.splits list.splits)

end
