(* ===== verification/Proxy_Server.thy ===== *)
theory Proxy_Server
  imports Proxy_Main Command_Line
begin

text \<open>
  \<^verbatim>\<open>proxy.py\<close>, the program: \<open>main\<close> reads the options, sets up the logger and serves. Every client is
  served by a task of its own, here a visit; the server interleaves the visits, each of which goes
  through \<open>create\<close>, \<open>run\<close> and the handlers of \<open>client_connected\<close>, cut at their \<^verbatim>\<open>await\<close>s.
\<close>

section \<open>The logger\<close>

text \<open>The numbers of the levels; the handler of \<open>main\<close> prints the message alone, from \<open>INFO\<close> on.\<close>

definition INFO :: int where "INFO = 20"
definition ERROR :: int where "ERROR = 40"

definition root_level :: int where "root_level = INFO"

definition console :: "(int \<times> string) list \<Rightarrow> string list" where
  "console records = map snd (filter (\<lambda>(level, _). root_level \<le> level) records)"

section \<open>The start of main\<close>

text \<open>
  \<open>bind\<close> is what \<open>start_server\<close> raises for a port, if it does. The result: the status the parser
  exits with, the exception, or the options the server runs with; and what is logged.
\<close>

datatype (plugins only: code) start = Parser_Exits int | Bind_Raises py_exc | Serving proxy_options

definition start_lines :: "proxy_options \<Rightarrow> (int \<times> string) list" where
  "start_lines opts =
     [(INFO, ''[*] Starting JDWP Logging Proxy on port '' @ show_int (listen_port opts) @ ''...''),
      (INFO, ''[*] Forwarding traffic to JVM JDWP agent at '' @ target_host opts @ '':'' @
        show_int (target_port opts))]"

definition proxy_main :: "string list \<Rightarrow> (int \<Rightarrow> py_exc option) \<Rightarrow> start \<times> string list" where
  "proxy_main argv bind =
     (case parse_args argv of
        Exits_With n \<Rightarrow> (Parser_Exits n, [])
      | Parsed_Options opts \<Rightarrow>
          (case bind (listen_port opts) of Some e \<Rightarrow> Bind_Raises e | None \<Rightarrow> Serving opts,
           console (start_lines opts)))"

text \<open>
  The program: a server that runs goes on until it is interrupted; the line about that is printed,
  not logged. What it prints about its clients is \<open>session_console\<close> below.
\<close>

definition proxy_program :: "string list \<Rightarrow> (int \<Rightarrow> py_exc option) \<Rightarrow> string list \<Rightarrow> bool \<Rightarrow> string list" where
  "proxy_program argv bind client_lines interrupted =
     (case proxy_main argv bind of
        (Serving opts, ls) \<Rightarrow> ls @ client_lines @
          (if interrupted then [CHR 0x0A # ''[*] Proxy server terminated by user.''] else [])
      | (_, ls) \<Rightarrow> ls)"

text \<open>The lines about a client; \<open>addr\<close> is its address and \<open>err\<close> the text of an exception.\<close>

definition accepted_line :: "string \<Rightarrow> int \<times> string" where
  "accepted_line addr = (INFO, ''[*] Accepted debugger client connection from '' @ addr)"

definition session_record :: "string \<Rightarrow> (py_exc \<Rightarrow> string) \<Rightarrow> session_line \<Rightarrow> int \<times> string" where
  "session_record addr err l =
     (case l of
        Handshake_Incomplete n m \<Rightarrow>
          (ERROR, ''[-] Session error in '' @ addr @ '': JDWP Handshake incomplete (read '' @
             show_nat n @ '' of '' @ show_nat m @ '' bytes)'')
      | Disconnected_Before_Handshake \<Rightarrow>
          (INFO, ''[*] Client '' @ addr @ '' disconnected before JDWP handshake.'')
      | Session_Failed e \<Rightarrow> (ERROR, ''[-] Session error in '' @ addr @ '': '' @ err e)
      | Session_Closed \<Rightarrow> (INFO, ''[*] Session closed for client '' @ addr))"

definition session_console :: "string \<Rightarrow> (py_exc \<Rightarrow> string) \<Rightarrow> session_line list \<Rightarrow> string list" where
  "session_console addr err ls = console (accepted_line addr # map (session_record addr err) ls)"

section \<open>A visit\<close>

text \<open>
  Where a client is: connecting to the VM, waiting for the client's handshake (with what the VM has
  sent after its own), in \<open>run\<close>, or done. \<open>relay\<close> is the session once there is one.
\<close>

datatype (plugins only: code) visit_stage = Connecting | Greeting bytes | Relaying | Gone

record visit =
  stage :: visit_stage
  sockets :: session_sockets
  relay :: proxy

definition visit_init :: visit where
  "visit_init = \<lparr>stage = Connecting, sockets = accepted, relay = proxy_init session_init [] []\<rparr>"

text \<open>
  An exception of \<open>create\<close> or \<open>run\<close>, and a normal end: both log that the session is closed, and then
  the task is done.
\<close>

definition leave :: "session_error + unit \<Rightarrow> session_sockets \<Rightarrow> visit \<Rightarrow> visit" where
  "leave res s v = v\<lparr>stage := Gone, sockets := task_done res (log_session Session_Closed s)\<rparr>"

definition visit_failed :: "session_error \<Rightarrow> session_error option \<Rightarrow> session_sockets \<Rightarrow> visit \<Rightarrow> visit" where
  "visit_failed e dbg_wait s v = (case session_failed e dbg_wait s of (res, s) \<Rightarrow> leave res s v)"

definition visit_establish ::
    "session_error + bytes \<Rightarrow> session_error option \<Rightarrow> session_error option \<Rightarrow> visit \<Rightarrow> visit" where
  "visit_establish vm vm_wait dbg_wait v =
     (case establish_sockets vm vm_wait (sockets v) of
        (Inl e, s) \<Rightarrow> visit_failed e dbg_wait s v
      | (Inr vm, s) \<Rightarrow> v\<lparr>stage := Greeting vm, sockets := s\<rparr>)"

definition visit_greet :: "bytes \<Rightarrow> bytes \<Rightarrow> session_error option \<Rightarrow> visit \<Rightarrow> visit" where
  "visit_greet vm dbg dbg_wait v =
     (case greet_debugger vm dbg of
        Inl e \<Rightarrow> visit_failed e dbg_wait (sockets v) v
      | Inr (s0, vm, dbg) \<Rightarrow> v\<lparr>stage := Relaying, relay := proxy_init s0 dbg vm\<rparr>)"

text \<open>The end of \<open>run\<close>, after both loops were cancelled and awaited.\<close>

definition visit_finish ::
    "session_error option \<Rightarrow> session_error option \<Rightarrow> session_error option \<Rightarrow> visit \<Rightarrow> visit" where
  "visit_finish interrupt dbg_wait vm_wait v =
     (case run_sockets interrupt dbg_wait vm_wait (sockets v) of
        (Inl e, s) \<Rightarrow> visit_failed e dbg_wait s v
      | (Inr u, s) \<Rightarrow> leave (Inr u) s v)"

datatype visit_action =
    Establish "session_error + bytes" "session_error option" "session_error option"
  | Greet bytes "session_error option"
  | Relay proxy_action
  | Finish "session_error option" "session_error option" "session_error option"
  | Cancel bool

text \<open>
  \<open>run\<close> ends after \<open>close_event\<close>, or by an exception in its wait for it. A task that is cancelled in
  \<open>create\<close> waits for one of the handshakes or for the connection to the VM; the label says whether
  this connection had just been opened.
\<close>

inductive visit_step :: "visit \<Rightarrow> visit_action \<Rightarrow> visit \<Rightarrow> bool" where
  establish: "stage v = Connecting \<Longrightarrow>
    visit_step v (Establish vm vm_wait dbg_wait) (visit_establish vm vm_wait dbg_wait v)"
| greet: "stage v = Greeting vm \<Longrightarrow>
    visit_step v (Greet dbg dbg_wait) (visit_greet vm dbg dbg_wait v)"
| relays: "stage v = Relaying \<Longrightarrow> proxy_step (relay v) act p \<Longrightarrow>
    visit_step v (Relay act) (v\<lparr>relay := p\<rparr>)"
| finish: "stage v = Relaying \<Longrightarrow> close_event (session (relay v)) \<or> interrupt \<noteq> None \<Longrightarrow>
    loop_cancelled (dbg_loop (relay v)) (dbg_in (relay v)) dbg_rest \<Longrightarrow>
    loop_cancelled (vm_loop (relay v)) (vm_in (relay v)) vm_rest \<Longrightarrow>
    visit_step v (Finish interrupt dbg_wait vm_wait) (visit_finish interrupt dbg_wait vm_wait
      (v\<lparr>relay := (relay v)\<lparr>dbg_loop := Stopped, vm_loop := Stopped, dbg_in := dbg_rest, vm_in := vm_rest\<rparr>\<rparr>))"
| cancel_connecting: "stage v = Connecting \<Longrightarrow>
    visit_step v (Cancel opened) (visit_failed (Raised CancelledError) None
      (if opened then (sockets v)\<lparr>vm_writer := Opened\<rparr> else sockets v) v)"
| cancel_greeting: "stage v = Greeting vm \<Longrightarrow>
    visit_step v (Cancel False) (visit_failed (Raised CancelledError) None (sockets v) v)"

inductive_cases visit_stepE: "visit_step v a v'"

section \<open>The server\<close>

text \<open>The clients in the order in which they were accepted; each task runs on its own.\<close>

type_synonym server = "visit list"

datatype server_action = Accept | At nat visit_action

inductive server_step :: "server \<Rightarrow> server_action \<Rightarrow> server \<Rightarrow> bool" where
  accept: "server_step s Accept (s @ [visit_init])"
| at: "i < length s \<Longrightarrow> visit_step (s ! i) a v \<Longrightarrow> server_step s (At i a) (s[i := v])"

inductive_cases server_stepE: "server_step s a s'"

fun action_at :: "nat \<Rightarrow> server_action \<Rightarrow> visit_action list" where
  "action_at i Accept = []"
| "action_at i (At j a) = (if i = j then [a] else [])"

definition actions_at :: "nat \<Rightarrow> server_action list \<Rightarrow> visit_action list" where
  "actions_at i acts = concat (map (action_at i) acts)"

section \<open>Tasks that run on their own\<close>

text \<open>
  The contract of a list of tasks that only grows and whose members step one at a time, each seeing
  nothing but its own state: a run of the whole is, for every member, a run of that member.
\<close>

locale tasks =
  fixes step :: "'c \<Rightarrow> 'a \<Rightarrow> 'c \<Rightarrow> bool" and all_step :: "'c list \<Rightarrow> 'l \<Rightarrow> 'c list \<Rightarrow> bool"
    and init :: 'c and part :: "nat \<Rightarrow> 'l \<Rightarrow> 'a list"
  assumes one_at_a_time: "all_step s l s' \<Longrightarrow>
    (s' = s @ [init] \<and> (\<forall>i. part i l = [])) \<or>
    (\<exists>i a c. i < length s \<and> step (s ! i) a c \<and> s' = s[i := c] \<and> (\<forall>j. part j l = (if j = i then [a] else [])))"
begin

lemma length_step: "all_step s l s' \<Longrightarrow> length s \<le> length s'"
  using one_at_a_time by fastforce

lemma length_run: "run all_step s ls s' \<Longrightarrow> length s \<le> length s'"
  by (induction rule: run.induct) (auto dest: length_step)

lemma project_run:
  "run all_step s ls s' \<Longrightarrow> i < length s' \<Longrightarrow>
    run step (if i < length s then s ! i else init) (concat (map (part i) ls)) (s' ! i)"
proof (induction rule: run.induct)
  case (Cons s l s1 ls s2)
  from one_at_a_time [OF Cons.hyps(1)] show ?case
  proof (elim disjE exE conjE)
    assume "s1 = s @ [init]" and "\<forall>i. part i l = []"
    with Cons show ?thesis by (auto simp: nth_append less_Suc_eq split: if_splits)
  next
    fix j a c
    assume j: "j < length s" "step (s ! j) a c" "s1 = s[j := c]" "\<forall>k. part k l = (if k = j then [a] else [])"
    show ?thesis
    proof (cases "i = j")
      case True
      with Cons j show ?thesis by (auto intro: run.Cons)
    next
      case False
      with Cons j show ?thesis by (cases "i < length s") simp_all
    qed
  qed
qed (auto intro: run.Nil)

lemma project_init:
  "run all_step [] ls s \<Longrightarrow> i < length s \<Longrightarrow> run step init (concat (map (part i) ls)) (s ! i)"
  using project_run [of "[]" ls s i] by simp

end

interpretation clients: tasks visit_step server_step visit_init action_at
  by unfold_locales (erule server_stepE; auto)

section \<open>What a visit does\<close>

text \<open>What a visit has done so far, told by its actions.\<close>

definition relaying ::
    "visit_action list \<Rightarrow> bytes \<Rightarrow> bytes \<Rightarrow> proxy_action list \<Rightarrow> visit \<Rightarrow> bool" where
  "relaying acts vm dbg pacts v \<longleftrightarrow>
     (\<exists>vw w w' s0 vm' dbg'. acts = Establish (Inr vm) vw w # Greet dbg w' # map Relay pacts \<and>
       create_sockets (Inr vm) vw dbg accepted = (Inr (s0, vm', dbg'), sockets v) \<and>
       run proxy_step (proxy_init s0 dbg' vm') pacts (relay v))"

definition served :: "visit_action list \<Rightarrow> session_sockets \<Rightarrow> bool" where
  "served acts s \<longleftrightarrow>
     (\<exists>vm dbg interrupt dbg_wait vm_wait. (\<forall>x w w'. Establish x w w' \<in> set acts \<longrightarrow> x = vm) \<and>
       (\<forall>x w. Greet x w \<in> set acts \<longrightarrow> x = dbg) \<and>
       (\<forall>i w w'. Finish i w w' \<in> set acts \<longrightarrow> i = interrupt \<and> w = dbg_wait \<and> w' = vm_wait) \<and>
       s = snd (client_connected vm dbg interrupt dbg_wait vm_wait))"

definition visit_trace :: "visit_action list \<Rightarrow> visit \<Rightarrow> bool" where
  "visit_trace acts v =
     (case stage v of
        Connecting \<Rightarrow> acts = [] \<and> v = visit_init
      | Greeting vm' \<Rightarrow> (\<exists>vm vw w. acts = [Establish (Inr vm) vw w] \<and>
          establish_sockets (Inr vm) vw accepted = (Inr vm', sockets v))
      | Relaying \<Rightarrow> (\<exists>vm dbg pacts. relaying acts vm dbg pacts v)
      | Gone \<Rightarrow> (\<exists>b. Cancel b \<in> set acts) \<or> served acts (sockets v))"

lemma visit_trace_init: "visit_trace [] visit_init"
  by (simp add: visit_trace_def visit_init_def)

lemma leave_simps [simp]:
  "stage (leave r s v) = Gone" "sockets (leave r s v) = task_done r (log_session Session_Closed s)"
  "relay (leave r s v) = relay v"
  by (simp_all add: leave_def)

lemma visit_failed_simps [simp]:
  "stage (visit_failed e w s v) = Gone" "relay (visit_failed e w s v) = relay v"
  "sockets (visit_failed e w s v) =
    (case session_failed e w s of (r, t) \<Rightarrow> task_done r (log_session Session_Closed t))"
  by (simp_all add: visit_failed_def split: prod.split)

lemma servedI:
  assumes "s = snd (client_connected vm dbg interrupt dbg_wait vm_wait)"
    and "\<And>x w w'. Establish x w w' \<in> set acts \<Longrightarrow> x = vm"
    and "\<And>x w. Greet x w \<in> set acts \<Longrightarrow> x = dbg"
    and "\<And>i w w'. Finish i w w' \<in> set acts \<Longrightarrow> i = interrupt \<and> w = dbg_wait \<and> w' = vm_wait"
  shows "served acts s"
  unfolding served_def using assms by blast

lemma visit_trace_goneI: "stage v = Gone \<Longrightarrow> served acts (sockets v) \<Longrightarrow> visit_trace acts v"
  by (simp add: visit_trace_def)

text \<open>The pieces of \<open>client_connected\<close>.\<close>

lemma client_connected_failed:
  "create_sockets vm vw dbg accepted = (Inl e, s) \<Longrightarrow>
    snd (client_connected vm dbg i w vw) =
      (case session_failed e w s of (r, t) \<Rightarrow> task_done r (log_session Session_Closed t))"
  by (simp add: client_connected_def split_def Let_def)

lemma client_connected_ran:
  assumes "create_sockets vm vw dbg accepted = (Inr x, s)"
  shows "snd (client_connected vm dbg i w vw') =
    (case (case run_sockets i w vw' s of
        (Inl e, t) \<Rightarrow> session_failed e w t | (Inr u, t) \<Rightarrow> (Inr u, t)) of
      (r, t) \<Rightarrow> task_done r (log_session Session_Closed t))"
proof -
  have "create_sockets vm vw' dbg accepted = (Inr x, s)"
    using assms by (auto simp: create_sockets_def establish_sockets_def Let_def
        split: sum.splits prod.splits if_splits)
  then show ?thesis by (simp add: client_connected_def split_def Let_def)
qed

lemma visit_trace_step:
  assumes "visit_trace acts v" and "visit_step v a v'"
  shows "visit_trace (acts @ [a]) v'"
  using assms(2)
proof cases
  case (establish vm vw w)
  with assms(1) have t: "acts = []" "sockets v = accepted" by (simp_all add: visit_trace_def visit_init_def)
  obtain r s where e: "establish_sockets vm vw accepted = (r, s)" by fastforce
  show ?thesis
  proof (cases r)
    case (Inl x)
    with e have "create_sockets vm vw [] accepted = (Inl x, s)" by (simp add: create_sockets_def)
    from client_connected_failed [OF this, of None w] establish t e Inl show ?thesis
      by (intro visit_trace_goneI servedI [of _ vm "[]" None w vw]) (simp_all add: visit_establish_def)
  next
    case (Inr vm')
    moreover from e Inr obtain v0 where "vm = Inr v0" by (cases vm) (auto simp: establish_sockets_def)
    ultimately show ?thesis using establish t e by (auto simp: visit_trace_def visit_establish_def)
  qed
next
  case (greet vm' dbg w)
  with assms(1) obtain vm vw u where t: "acts = [Establish (Inr vm) vw u]"
      "establish_sockets (Inr vm) vw accepted = (Inr vm', sockets v)" by (auto simp: visit_trace_def)
  show ?thesis
  proof (cases "greet_debugger vm' dbg")
    case (Inl x)
    with t have "create_sockets (Inr vm) vw dbg accepted = (Inl x, sockets v)" by (simp add: create_sockets_def)
    from client_connected_failed [OF this, of None w] greet Inl t show ?thesis
      by (intro visit_trace_goneI servedI [of _ "Inr vm" dbg None w vw]) (simp_all add: visit_greet_def)
  next
    case (Inr x)
    with t have "create_sockets (Inr vm) vw dbg accepted = (Inr x, sockets v)" by (simp add: create_sockets_def)
    with greet Inr t show ?thesis
      by (cases x) (auto simp: visit_trace_def visit_greet_def relaying_def intro: run.Nil)
  qed
next
  case (relays act p)
  with assms(1) obtain vm dbg pacts where "relaying acts vm dbg pacts v" by (auto simp: visit_trace_def)
  with relays have "relaying (acts @ [a]) vm dbg (pacts @ [act]) v'"
    by (fastforce simp: relaying_def intro: run_snoc)
  with relays show ?thesis by (auto simp: visit_trace_def)
next
  case (finish i dr vr w vw)
  with assms(1) obtain vm dbg vw0 x u u' pacts where ran: "create_sockets (Inr vm) vw0 dbg accepted = (Inr x, sockets v)"
      and acts: "acts = Establish (Inr vm) vw0 u # Greet dbg u' # map Relay pacts"
    by (auto simp: visit_trace_def relaying_def)
  from client_connected_ran [OF ran, of i w vw] finish acts show ?thesis
    by (intro visit_trace_goneI servedI [of _ "Inr vm" dbg i w vw])
      (auto simp: visit_finish_def Let_def split: prod.split sum.split)
next
  case (cancel_connecting opened)
  then show ?thesis by (auto simp: visit_trace_def)
next
  case (cancel_greeting vm)
  then show ?thesis by (auto simp: visit_trace_def)
qed

lemma visit_trace_run: "run visit_step v acts v' \<Longrightarrow> visit_trace pre v \<Longrightarrow> visit_trace (pre @ acts) v'"
proof (induction arbitrary: pre rule: run.induct)
  case (Cons v a v1 acts v2)
  from Cons.IH [OF visit_trace_step [OF Cons.prems Cons.hyps(1)]] show ?case by simp
qed simp

lemma server_visit:
  assumes "run server_step [] acts s" and "i < length s"
  shows "visit_trace (actions_at i acts) (s ! i)"
  using visit_trace_run [OF clients.project_init [OF assms] visit_trace_init]
  by (simp add: actions_at_def)

section \<open>What goes between a client and the VM\<close>

text \<open>The bytes a client sent and the bytes the VM sent on the connection made for that client.\<close>

fun client_bytes :: "visit_action \<Rightarrow> bytes" where
  "client_bytes (Greet dbg _) = dbg"
| "client_bytes (Relay act) = from_dbg act"
| "client_bytes _ = []"

fun target_bytes :: "visit_action \<Rightarrow> bytes" where
  "target_bytes (Establish (Inr vm) _ _) = vm"
| "target_bytes (Relay act) = from_vm act"
| "target_bytes _ = []"

lemma create_sockets_Inr:
  assumes "create_sockets (Inr vm) vw dbg s = (Inr (s0, vm', dbg'), s')"
  shows "vm = HANDSHAKE @ vm'" "dbg = HANDSHAKE @ dbg'" "to_vm s0 = HANDSHAKE" "to_dbg s0 = HANDSHAKE"
    "s' = s\<lparr>vm_writer := Opened\<rparr>"
  using assms
  by (auto simp: create_sockets_def establish_sockets_def greet_debugger_def read_handshake_Inr Let_def
      split: sum.splits prod.splits if_splits)

lemma relaying_transparent:
  assumes "relaying acts vm dbg pacts v"
  shows "to_vm_inv (concat (map client_bytes acts)) (relay v)"
    and "to_dbg_inv (concat (map target_bytes acts)) (relay v)"
proof -
  obtain vw w w' s0 vm' dbg' where acts: "acts = Establish (Inr vm) vw w # Greet dbg w' # map Relay pacts"
    and c: "create_sockets (Inr vm) vw dbg accepted = (Inr (s0, vm', dbg'), sockets v)"
    and r: "run proxy_step (proxy_init s0 dbg' vm') pacts (relay v)"
    using assms by (auto simp: relaying_def)
  have "client_bytes \<circ> Relay = from_dbg" "target_bytes \<circ> Relay = from_vm" by auto
  moreover have "to_dbg_inv vm (proxy_init s0 dbg' vm')"
    using create_sockets_Inr [OF c] by (simp add: to_dbg_inv_def proxy_init_def)
  note to_dbg_run [OF r this]
  moreover have "to_vm_inv dbg (proxy_init s0 dbg' vm')"
    using create_sockets_Inr [OF c] by (simp add: to_vm_inv_def proxy_init_def)
  note to_vm_run [OF r this]
  ultimately show "to_vm_inv (concat (map client_bytes acts)) (relay v)"
    and "to_dbg_inv (concat (map target_bytes acts)) (relay v)"
    using create_sockets_Inr [OF c] acts by simp_all
qed

section \<open>What is logged about a client\<close>

text \<open>Nothing until the end, then that the session is closed, once and last.\<close>

definition lines_ok :: "visit \<Rightarrow> bool" where
  "lines_ok v \<longleftrightarrow>
     (if stage v = Gone then \<exists>ls. session_lines (sockets v) = ls @ [Session_Closed] \<and> length ls \<le> 1 \<and> Session_Closed \<notin> set ls
      else session_lines (sockets v) = [])"

lemma session_lines_close [simp]:
  "session_lines (snd (close_vm w s)) = session_lines s" "vm_writer (snd (close_vm w s)) = Closed"
  "dbg_writer (snd (close_vm w s)) = dbg_writer s"
  by (simp_all add: close_vm_def)

lemma session_lines_failed:
  "\<exists>ls. session_lines (snd (session_failed e w s)) = session_lines s @ ls \<and> length ls \<le> 1 \<and> Session_Closed \<notin> set ls"
  by (auto simp: session_failed_def split: session_error.split)

lemma session_lines_establish: "session_lines (snd (establish_sockets vm w s)) = session_lines s"
  by (auto simp: establish_sockets_def Let_def close_vm_def split: sum.split prod.split option.split)

lemma session_lines_run: "session_lines (snd (run_sockets i w vw s)) = session_lines s"
  by (auto simp: run_sockets_def close_dbg_def close_vm_def split: option.split)

lemma lines_ok_failed: "session_lines s = [] \<Longrightarrow> lines_ok (visit_failed e w s v)"
  using session_lines_failed [of e w s] by (auto simp: lines_ok_def split: prod.split)

lemma lines_ok_finish:
  assumes "session_lines (sockets v) = []"
  shows "lines_ok (visit_finish i w vw v)"
proof -
  obtain r s where e: "run_sockets i w vw (sockets v) = (r, s)" by fastforce
  with assms session_lines_run [of i w vw "sockets v"] have "session_lines s = []" by simp
  with e show ?thesis by (cases r) (auto simp: visit_finish_def lines_ok_failed, simp add: lines_ok_def)
qed

lemma lines_ok_step:
  assumes "visit_step v a v'" and "lines_ok v"
  shows "lines_ok v'"
  using assms(1)
proof cases
  case (establish vm w u)
  obtain r s where e: "establish_sockets vm w (sockets v) = (r, s)" by fastforce
  with assms(2) establish session_lines_establish [of vm w "sockets v"] have "session_lines s = []"
    by (simp add: lines_ok_def)
  with e establish show ?thesis
    by (cases r) (auto simp: visit_establish_def lines_ok_failed, simp add: lines_ok_def)
next
  case (greet vm dbg w)
  then have "session_lines (sockets v) = []" using assms(2) by (simp add: lines_ok_def)
  with greet show ?thesis
    by (cases "greet_debugger vm dbg") (auto simp: visit_greet_def lines_ok_failed, simp add: lines_ok_def)
next
  case (finish i dr vr w vw)
  with assms(2) show ?thesis by (simp add: lines_ok_def [of v] lines_ok_finish)
qed (use assms(2) in \<open>auto simp: lines_ok_def session_failed_cancelled\<close>)

interpretation visit_lines: step_invariant visit_step lines_ok
  by unfold_locales (rule lines_ok_step)

lemma visit_lines_ok:
  assumes "run server_step [] acts s" and "i < length s"
  shows "lines_ok (s ! i)"
  using clients.project_init [OF assms] by (rule visit_lines.run_inv) (simp add: lines_ok_def visit_init_def accepted_def)

end
