(* ===== verification/Examples.thy ===== *)
theory Examples
  imports Proxy
begin

text \<open>
  The programs of \<^verbatim>\<open>examples/\<close>. A program that talks to a VM through a \<open>JdwpConnection\<close> is a tree of
  its calls, each with the continuation that gets the result; the peer, which stands for the VM
  behind the connection, is a parameter. Running a program gives how it ended and its trace.
\<close>

section \<open>Programs over a connection\<close>

text \<open>The exceptions of the examples: those of the connection and those the programs add.\<close>

datatype (plugins only: code) client_error =
    Command_Error command_error
  | AssertionError
  | StopIteration
  | AttributeError

text \<open>What \<open>print\<close> is given: text, or a message or value that is formatted by its class.\<close>

datatype (plugins only: code) printed =
    Text pystr
  | Shown_Command JdwpCommand
  | Shown_Response JdwpResponse
  | Shown_Value pystr py_value

datatype (plugins only: code) client =
    Return
  | Throw client_error
  | Print printed client
  | Request JdwpCommand "JdwpResponse \<Rightarrow> client"
  | Next_Command "JdwpCommand \<Rightarrow> client"

text \<open>A string literal.\<close>

definition py :: "string \<Rightarrow> pystr" where
  "py s = map of_char s"

abbreviation say :: "string \<Rightarrow> client \<Rightarrow> client" where
  "say s \<equiv> Print (Text (py s))"

section \<open>Running a program\<close>

text \<open>
  A peer answers a command with a response or an exception, or never (\<open>None\<close>); likewise for the
  commands the VM sends.
\<close>

record 'v peer =
  answer :: "JdwpCommand \<Rightarrow> 'v \<Rightarrow> (command_error + JdwpResponse) option \<times> 'v"
  announce :: "'v \<Rightarrow> (py_exc + JdwpCommand) option \<times> 'v"

datatype (plugins only: code) client_effect =
    Opened_Connection
  | Printed printed
  | Sent JdwpCommand JdwpResponse
  | Send_Failed JdwpCommand command_error
  | Got JdwpCommand
  | Closed_Connection
  | Printed_Error client_error

datatype (plugins only: code) client_ending = Completed | Threw client_error | Waits

definition emit :: "client_effect \<Rightarrow> client_ending \<times> client_effect list \<Rightarrow> client_ending \<times> client_effect list" where
  "emit e r = (fst r, e # snd r)"

lemma emit_simps [simp]: "fst (emit e r) = fst r" "snd (emit e r) = e # snd r"
  by (simp_all add: emit_def)

primrec run_client :: "'v peer \<Rightarrow> client \<Rightarrow> 'v \<Rightarrow> client_ending \<times> client_effect list" where
  "run_client P Return v = (Completed, [])"
| "run_client P (Throw e) v = (Threw e, [])"
| "run_client P (Print l k) v = emit (Printed l) (run_client P k v)"
| "run_client P (Request cmd k) v =
     (case answer P cmd v of
        (None, v') \<Rightarrow> (Waits, [])
      | (Some (Inl e), v') \<Rightarrow> (Threw (Command_Error e), [Send_Failed cmd e])
      | (Some (Inr resp), v') \<Rightarrow> emit (Sent cmd resp) (run_client P (k resp) v'))"
| "run_client P (Next_Command k) v =
     (case announce P v of
        (None, v') \<Rightarrow> (Waits, [])
      | (Some (Inl e), v') \<Rightarrow> (Threw (Command_Error (Builtin e)), [])
      | (Some (Inr cmd), v') \<Rightarrow> emit (Got cmd) (run_client P (k cmd) v'))"

text \<open>
  The frame both examples have: \<^verbatim>\<open>async with\<close> around the program, which closes the connection in every
  case, and \<^verbatim>\<open>except Exception\<close> around both, which prints the exception and exits with status 1; a
  cancellation is not an \<open>Exception\<close>. \<open>connecting\<close> and \<open>closing\<close> are what \<open>connect\<close> and \<open>close\<close>
  raise, if they do.
\<close>

datatype (plugins only: code) client_exit = Exit int | Uncaught client_error | Blocked

definition handled :: "client_error \<Rightarrow> client_exit \<times> client_effect list" where
  "handled e = (if e = Command_Error (Builtin CancelledError) then (Uncaught e, [])
     else (Exit 1, [Printed_Error e]))"

definition run_main ::
    "'v peer \<Rightarrow> client \<Rightarrow> py_exc option \<Rightarrow> py_exc option \<Rightarrow> 'v \<Rightarrow> client_exit \<times> client_effect list" where
  "run_main P program connecting closing v =
     (case connecting of
        Some e \<Rightarrow> handled (Command_Error (Builtin e))
      | None \<Rightarrow>
          (let (ending, trace) = run_client P program v;
               trace = Opened_Connection # trace
           in case ending of
                Waits \<Rightarrow> (Blocked, trace)
              | _ \<Rightarrow>
                  (let trace = trace @ [Closed_Connection];
                       raised = (case closing of
                           Some e \<Rightarrow> Some (Command_Error (Builtin e))
                         | None \<Rightarrow> (case ending of Threw e \<Rightarrow> Some e | _ \<Rightarrow> None))
                   in case raised of
                        None \<Rightarrow> (Exit 0, trace)
                      | Some e \<Rightarrow> (fst (handled e), trace @ snd (handled e)))))"

section \<open>Commands of the examples\<close>

definition id_sizes_command :: JdwpCommand where
  "id_sizes_command = vm_command_obj (IDSizesCommand_obj IDSizesCommand)"

definition version_command :: JdwpCommand where
  "version_command = vm_command_obj (VersionCommand_obj VersionCommand)"

definition capabilities_command :: JdwpCommand where
  "capabilities_command = vm_command_obj (CapabilitiesCommand_obj CapabilitiesCommand)"

definition resume_command :: JdwpCommand where
  "resume_command = vm_command_obj (VM_ResumeCommand_obj VM_ResumeCommand)"

definition set_command :: "JdwpEventKind \<Rightarrow> EventModifier \<Rightarrow> JdwpCommand" where
  "set_command kind modifier =
     event_request_command_obj (SetCommand_obj (SetCommand.make kind SUSPEND_ALL [modifier]))"

definition methods_command :: "ReferenceTypeID \<Rightarrow> JdwpCommand" where
  "methods_command c = reference_type_command_obj (MethodsCommand_obj (MethodsCommand.make c))"

definition variable_table_command :: "ReferenceTypeID \<Rightarrow> MethodID \<Rightarrow> JdwpCommand" where
  "variable_table_command c m =
     method_command_obj (VariableTableCommand_obj (VariableTableCommand.make c m))"

definition top_frame_command :: "ThreadID \<Rightarrow> JdwpCommand" where
  "top_frame_command t = thread_reference_command_obj (FramesCommand_obj (FramesCommand.make t 0 1))"

definition int_slot_command :: "ThreadID \<Rightarrow> FrameID \<Rightarrow> int \<Rightarrow> JdwpCommand" where
  "int_slot_command t f n =
     stack_frame_command_obj (StackFrame_GetValuesCommand_obj
       (StackFrame_GetValuesCommand.make t f [GetValuesRequestSlot.make n TAG_INT]))"

section \<open>get_version.py\<close>

definition get_version :: client where
  "get_version =
     say ''[+] Connected!'' (
     say ''[*] Waiting for VMStartEvent...'' (
     Next_Command (\<lambda>start_event. Print (Shown_Command start_event) (
     say ''[*] Configuring dynamic ID sizes...'' (
     Request id_sizes_command (\<lambda>id_sizes. Print (Shown_Response id_sizes) (
     say ''[*] Fetching VM version...'' (
     Request version_command (\<lambda>version. Print (Shown_Response version) (
     say ''[*] Fetching VM capabilities...'' (
     Request capabilities_command (\<lambda>capabilities. Print (Shown_Response capabilities) (
     say ''[*] Resuming JVM debuggee...'' (
     Request resume_command (\<lambda>_.
     say ''[+] VM Resumed.''
     Return)))))))))))))))"

section \<open>breakpoint_example.py\<close>

text \<open>
  \<open>composite.events[0]\<close> after the assertion that \<open>composite\<close> is a \<open>CompositeCommand\<close>; attributes of
  the responses; \<open>next\<close> of a generator, which raises \<open>StopIteration\<close> when nothing matches; \<open>xs[0]\<close>.
\<close>

definition first_event :: "JdwpCommand \<Rightarrow> (JdwpEvent \<Rightarrow> client) \<Rightarrow> client" where
  "first_event composite k =
     (case composite of
        event_command_obj (CompositeCommand_obj c) \<Rightarrow>
          (case py_index (CompositeCommand.events c) 0 of
             Inl e \<Rightarrow> Throw (Command_Error (Builtin e))
           | Inr ev \<Rightarrow> k ev)
      | _ \<Rightarrow> Throw AssertionError)"

definition attr_methods :: "JdwpResponse \<Rightarrow> (MethodsEntry list \<Rightarrow> client) \<Rightarrow> client" where
  "attr_methods resp k =
     (case resp of
        reference_type_response_obj (MethodsResponse_obj r) \<Rightarrow> k (MethodsResponse.methods r)
      | _ \<Rightarrow> Throw AttributeError)"

definition attr_slots :: "JdwpResponse \<Rightarrow> (VariableTableEntry list \<Rightarrow> client) \<Rightarrow> client" where
  "attr_slots resp k =
     (case resp of
        method_response_obj (VariableTableResponse_obj r) \<Rightarrow> k (VariableTableResponse.slots r)
      | _ \<Rightarrow> Throw AttributeError)"

definition attr_frames :: "JdwpResponse \<Rightarrow> (FramesEntry list \<Rightarrow> client) \<Rightarrow> client" where
  "attr_frames resp k =
     (case resp of
        thread_reference_response_obj (FramesResponse_obj r) \<Rightarrow> k (FramesResponse.frames r)
      | _ \<Rightarrow> Throw AttributeError)"

definition attr_values :: "JdwpResponse \<Rightarrow> (JdwpValue list \<Rightarrow> client) \<Rightarrow> client" where
  "attr_values resp k =
     (case resp of
        stack_frame_response_obj (StackFrame_GetValuesResponse_obj r) \<Rightarrow>
          k (StackFrame_GetValuesResponse.values r)
      | _ \<Rightarrow> Throw AttributeError)"

definition first_matching :: "('a \<Rightarrow> bool) \<Rightarrow> 'a list \<Rightarrow> ('a \<Rightarrow> client) \<Rightarrow> client" where
  "first_matching P xs k = (case find P xs of None \<Rightarrow> Throw StopIteration | Some x \<Rightarrow> k x)"

definition first_item :: "'a list \<Rightarrow> ('a \<Rightarrow> client) \<Rightarrow> client" where
  "first_item xs k =
     (case py_index xs 0 of Inl e \<Rightarrow> Throw (Command_Error (Builtin e)) | Inr x \<Rightarrow> k x)"

text \<open>The assertions on the class of an event.\<close>

definition assert_breakpoint :: "JdwpEvent \<Rightarrow> (BreakpointEvent \<Rightarrow> client) \<Rightarrow> client" where
  "assert_breakpoint ev k = (case ev of BreakpointEvent_obj e \<Rightarrow> k e | _ \<Rightarrow> Throw AssertionError)"

definition assert_class_prepare :: "JdwpEvent \<Rightarrow> (ClassPrepareEvent \<Rightarrow> client) \<Rightarrow> client" where
  "assert_class_prepare ev k = (case ev of ClassPrepareEvent_obj e \<Rightarrow> k e | _ \<Rightarrow> Throw AssertionError)"

text \<open>Steps 9 to 12: the breakpoint was hit.\<close>

definition breakpoint_hit :: "int \<Rightarrow> client" where
  "breakpoint_hit iteration_slot =
     Next_Command (\<lambda>bp_composite.
     first_event bp_composite (\<lambda>bp_event.
     assert_breakpoint bp_event (\<lambda>bp_event.
     say (''[+] Breakpoint hit on thread: '' @ show_int (BreakpointEvent.thread bp_event)) (
     Request (top_frame_command (BreakpointEvent.thread bp_event)) (\<lambda>frames_resp.
     attr_frames frames_resp (\<lambda>frames.
     first_item frames (\<lambda>top_frame.
     say (''[+] Top stack frame: '' @ show_int (FramesEntry.frame_id top_frame)) (
     say ''[*] Reading value of variable 'iteration'...'' (
     Request (int_slot_command (BreakpointEvent.thread bp_event) (FramesEntry.frame_id top_frame)
         iteration_slot) (\<lambda>val_resp.
     attr_values val_resp (\<lambda>values.
     first_item values (\<lambda>iteration_value.
     Print (Shown_Value (py ''[+] Value of 'iteration': '') (JdwpValue.value iteration_value)) (
     say ''[*] Cleaning up and resuming VM...'' (
     Request resume_command (\<lambda>_.
     say ''[*] Done!''
     Return)))))))))))))))"

text \<open>Steps 5 to 8: the class was prepared.\<close>

definition class_prepared :: "ClassPrepareEvent \<Rightarrow> client" where
  "class_prepared prep_event =
     (let c = ClassPrepareEvent.type_id prep_event in
     say (''[+] Class prepared: SimpleApp (Type ID: '' @ show_int c @ '')'') (
     say ''[*] Querying class methods...'' (
     Request (methods_command c) (\<lambda>methods_resp.
     attr_methods methods_resp (\<lambda>methods.
     first_matching (\<lambda>m. MethodsEntry.name m = py ''testMethod'') methods (\<lambda>test_method.
     Print (Text (py ''[+] Method found: '' @ MethodsEntry.name test_method @
         py ('' (Method ID: '' @ show_int (MethodsEntry.method_id test_method) @ '')''))) (
     say ''[*] Querying method variable table...'' (
     Request (variable_table_command c (MethodsEntry.method_id test_method)) (\<lambda>var_table_resp.
     attr_slots var_table_resp (\<lambda>slots.
     first_matching (\<lambda>v. VariableTableEntry.name v = py ''iteration'') slots (\<lambda>iteration_var.
     say (''[+] Variable slot found: iteration (Slot: '' @
         show_int (VariableTableEntry.slot iteration_var) @ '')'') (
     say ''[*] Setting breakpoint at testMethod:0...'' (
     Request (set_command EVENT_BREAKPOINT (LocationOnlyModifier_obj (LocationOnlyModifier.make
         (Location.make (ClassPrepareEvent.ref_type_tag prep_event) c
            (MethodsEntry.method_id test_method) 0)))) (\<lambda>_.
     say ''[*] Resuming VM to trigger breakpoint...'' (
     Request resume_command (\<lambda>_.
     breakpoint_hit (VariableTableEntry.slot iteration_var)))))))))))))))))"

text \<open>Steps 1 to 4.\<close>

definition breakpoint_example :: client where
  "breakpoint_example =
     say ''[+] Connected! Consuming startup events...'' (
     Next_Command (\<lambda>_.
     Request id_sizes_command (\<lambda>_.
     say ''[*] Registering for ClassPrepare of 'SimpleApp'...'' (
     Request (set_command EVENT_CLASS_PREPARE
         (ClassMatchModifier_obj (ClassMatchModifier.make (py ''SimpleApp'')))) (\<lambda>_.
     say ''[*] Resuming VM to allow class preparation...'' (
     Request resume_command (\<lambda>_.
     Next_Command (\<lambda>composite.
     first_event composite (\<lambda>prep_event.
     assert_class_prepare prep_event class_prepared)))))))))"

section \<open>Runs that end without an exception\<close>

text \<open>The commands a program sent, and its exchange with the VM without what it printed.\<close>

definition sent_commands :: "client_effect list \<Rightarrow> JdwpCommand list" where
  "sent_commands tr = concat (map (\<lambda>e. case e of Sent cmd _ \<Rightarrow> [cmd] | Send_Failed cmd _ \<Rightarrow> [cmd] | _ \<Rightarrow> []) tr)"

definition exchange :: "client_effect list \<Rightarrow> client_effect list" where
  "exchange tr = filter (\<lambda>e. case e of Printed _ \<Rightarrow> False | _ \<Rightarrow> True) tr"

lemma run_main_exit_0:
  assumes "run_main P program connecting closing v = (Exit 0, tr)"
  obtains body where "run_client P program v = (Completed, body)" "tr = Opened_Connection # body @ [Closed_Connection]"
  using assms
  by (auto simp: run_main_def handled_def Let_def split: option.splits prod.splits client_ending.splits if_splits)

lemma emit_eq: "emit e r = (x, tr) \<longleftrightarrow> (\<exists>tr'. r = (x, tr') \<and> tr = e # tr')"
  by (cases r) (auto simp: emit_def)

lemma run_request_ended:
  "run_client P (Request cmd k) v = (Completed, tr) \<longleftrightarrow> (\<exists>resp v' tr'. answer P cmd v = (Some (Inr resp), v') \<and>
    run_client P (k resp) v' = (Completed, tr') \<and> tr = Sent cmd resp # tr')"
  by (auto simp: emit_eq split: prod.splits option.splits sum.splits)

lemma run_next_ended:
  "run_client P (Next_Command k) v = (Completed, tr) \<longleftrightarrow> (\<exists>cmd v' tr'. announce P v = (Some (Inr cmd), v') \<and>
    run_client P (k cmd) v' = (Completed, tr') \<and> tr = Got cmd # tr')"
  by (auto simp: emit_eq split: prod.splits option.splits sum.splits)

lemma run_print_ended:
  "run_client P (Print l k) v = (Completed, tr) \<longleftrightarrow> (\<exists>tr'. run_client P k v = (Completed, tr') \<and> tr = Printed l # tr')"
  by (auto simp: emit_eq)

lemmas run_ended = run_request_ended run_next_ended run_print_ended

declare run_client.simps(3-5) [simp del]

text \<open>What the messages of the VM must be for the program to go on.\<close>

definition composite_of :: "JdwpEvent \<Rightarrow> JdwpCommand \<Rightarrow> bool" where
  "composite_of ev cmd \<longleftrightarrow> (\<exists>c evs. cmd = event_command_obj (CompositeCommand_obj c) \<and>
     CompositeCommand.events c = ev # evs)"

definition methods_of :: "MethodsEntry list \<Rightarrow> JdwpResponse \<Rightarrow> bool" where
  "methods_of ms resp \<longleftrightarrow>
     (\<exists>r. resp = reference_type_response_obj (MethodsResponse_obj r) \<and> MethodsResponse.methods r = ms)"

definition slots_of :: "VariableTableEntry list \<Rightarrow> JdwpResponse \<Rightarrow> bool" where
  "slots_of vs resp \<longleftrightarrow>
     (\<exists>r. resp = method_response_obj (VariableTableResponse_obj r) \<and> VariableTableResponse.slots r = vs)"

definition top_frame_of :: "FramesEntry \<Rightarrow> JdwpResponse \<Rightarrow> bool" where
  "top_frame_of f resp \<longleftrightarrow> (\<exists>r fs. resp = thread_reference_response_obj (FramesResponse_obj r) \<and>
     FramesResponse.frames r = f # fs)"

definition first_value_of :: "JdwpValue \<Rightarrow> JdwpResponse \<Rightarrow> bool" where
  "first_value_of x resp \<longleftrightarrow> (\<exists>r xs. resp = stack_frame_response_obj (StackFrame_GetValuesResponse_obj r) \<and>
     StackFrame_GetValuesResponse.values r = x # xs)"

lemma first_item_ended:
  "run_client P (first_item xs k) v = (Completed, tr) \<longleftrightarrow>
    (\<exists>x ys. xs = x # ys \<and> run_client P (k x) v = (Completed, tr))"
  by (cases xs) (simp_all add: first_item_def py_index_def)

lemma first_event_item:
  "first_event (event_command_obj (CompositeCommand_obj c)) k = first_item (CompositeCommand.events c) k"
  by (simp add: first_event_def first_item_def)

lemma first_event_ended:
  "run_client P (first_event cmd k) v = (Completed, tr) \<longleftrightarrow>
    (\<exists>ev. composite_of ev cmd \<and> run_client P (k ev) v = (Completed, tr))"
proof (cases "\<exists>c. cmd = event_command_obj (CompositeCommand_obj c)")
  case True
  then show ?thesis by (auto simp: first_event_item first_item_ended composite_of_def)
next
  case False
  then show ?thesis
    by (auto simp: first_event_def composite_of_def split: JdwpCommand.split event_command.split)
qed

lemma assert_ended:
  "run_client P (assert_breakpoint ev k1) v = (Completed, tr) \<longleftrightarrow>
    (\<exists>e. ev = BreakpointEvent_obj e \<and> run_client P (k1 e) v = (Completed, tr))"
  "run_client P (assert_class_prepare ev k2) v = (Completed, tr) \<longleftrightarrow>
    (\<exists>e. ev = ClassPrepareEvent_obj e \<and> run_client P (k2 e) v = (Completed, tr))"
  by (cases ev; simp add: assert_breakpoint_def assert_class_prepare_def)+

lemma first_matching_ended:
  "run_client P (first_matching Q xs k) v = (Completed, tr) \<longleftrightarrow>
    (\<exists>x. find Q xs = Some x \<and> run_client P (k x) v = (Completed, tr))"
  by (auto simp: first_matching_def split: option.split)

lemma attr_ended:
  "run_client P (attr_methods resp k1) v = (Completed, tr) \<longleftrightarrow>
    (\<exists>ms. methods_of ms resp \<and> run_client P (k1 ms) v = (Completed, tr))"
  "run_client P (attr_slots resp k2) v = (Completed, tr) \<longleftrightarrow>
    (\<exists>vs. slots_of vs resp \<and> run_client P (k2 vs) v = (Completed, tr))"
  by (auto simp: attr_methods_def attr_slots_def methods_of_def slots_of_def
      split: JdwpResponse.split reference_type_response.split method_response.split)

lemma attr_first_ended:
  "run_client P (attr_frames resp (\<lambda>fs. first_item fs k3)) v = (Completed, tr) \<longleftrightarrow>
    (\<exists>f. top_frame_of f resp \<and> run_client P (k3 f) v = (Completed, tr))"
  "run_client P (attr_values resp (\<lambda>xs. first_item xs k4)) v = (Completed, tr) \<longleftrightarrow>
    (\<exists>x. first_value_of x resp \<and> run_client P (k4 x) v = (Completed, tr))"
  by (auto simp: attr_frames_def attr_values_def top_frame_of_def first_value_of_def first_item_ended
      split: JdwpResponse.split thread_reference_response.split stack_frame_response.split)

lemma exchange_simps [simp]:
  "exchange [] = []" "exchange (Printed l # tr) = exchange tr"
  "exchange (Got cmd # tr) = Got cmd # exchange tr"
  "exchange (Sent cmd resp # tr) = Sent cmd resp # exchange tr"
  "exchange (Opened_Connection # tr) = Opened_Connection # exchange tr"
  "exchange (Closed_Connection # tr) = Closed_Connection # exchange tr"
  "exchange (tr @ tr') = exchange tr @ exchange tr'"
  by (simp_all add: exchange_def)

lemma breakpoint_hit_ended:
  assumes "run_client P (breakpoint_hit n) v = (Completed, tr)"
  shows "\<exists>bp_composite bp fs f xs x r. composite_of (BreakpointEvent_obj bp) bp_composite \<and>
    top_frame_of f fs \<and> first_value_of x xs \<and>
    exchange tr = [Got bp_composite, Sent (top_frame_command (BreakpointEvent.thread bp)) fs,
      Sent (int_slot_command (BreakpointEvent.thread bp) (FramesEntry.frame_id f) n) xs, Sent resume_command r] \<and>
    Printed (Shown_Value (py ''[+] Value of 'iteration': '') (JdwpValue.value x)) \<in> set tr"
  using assms unfolding breakpoint_hit_def
  by (simp only: run_ended first_event_ended assert_ended attr_first_ended run_client.simps(1) Pair_inject)
    (clarify, intro exI conjI, assumption, assumption, assumption, simp_all)

text \<open>The breakpoint of step 7.\<close>

definition breakpoint_at :: "ClassPrepareEvent \<Rightarrow> MethodsEntry \<Rightarrow> EventModifier" where
  "breakpoint_at prep m = LocationOnlyModifier_obj (LocationOnlyModifier.make
     (Location.make (ClassPrepareEvent.ref_type_tag prep) (ClassPrepareEvent.type_id prep)
        (MethodsEntry.method_id m) 0))"

lemma class_prepared_ended:
  assumes "run_client P (class_prepared prep) v = (Completed, tr)"
  shows "\<exists>ms m mr vs u vr r3 r4 v' tr'. methods_of ms mr \<and>
    find (\<lambda>m. MethodsEntry.name m = py ''testMethod'') ms = Some m \<and> slots_of vs vr \<and>
    find (\<lambda>u. VariableTableEntry.name u = py ''iteration'') vs = Some u \<and>
    run_client P (breakpoint_hit (VariableTableEntry.slot u)) v' = (Completed, tr') \<and> set tr' \<subseteq> set tr \<and>
    exchange tr = [Sent (methods_command (ClassPrepareEvent.type_id prep)) mr,
      Sent (variable_table_command (ClassPrepareEvent.type_id prep) (MethodsEntry.method_id m)) vr,
      Sent (set_command EVENT_BREAKPOINT (breakpoint_at prep m)) r3, Sent resume_command r4] @ exchange tr'"
  using assms unfolding class_prepared_def Let_def
  by (simp only: run_ended first_matching_ended attr_ended)
    (clarify, intro exI conjI, assumption, assumption, assumption, assumption, assumption,
      auto simp: breakpoint_at_def)

lemma breakpoint_example_ended:
  assumes "run_client P breakpoint_example v = (Completed, tr)"
  shows "\<exists>start r0 r1 r2 pc prep v' tr'. composite_of (ClassPrepareEvent_obj prep) pc \<and>
    run_client P (class_prepared prep) v' = (Completed, tr') \<and> set tr' \<subseteq> set tr \<and>
    exchange tr = [Got start, Sent id_sizes_command r0,
      Sent (set_command EVENT_CLASS_PREPARE
        (ClassMatchModifier_obj (ClassMatchModifier.make (py ''SimpleApp'')))) r1,
      Sent resume_command r2, Got pc] @ exchange tr'"
  using assms unfolding breakpoint_example_def
  by (simp only: run_ended first_event_ended assert_ended)
    (clarify, intro exI conjI, assumption, assumption, auto)

lemma get_version_ended:
  assumes "run_client P get_version v = (Completed, tr)"
  shows "\<exists>start r0 r1 r2 r3. exchange tr = [Got start, Sent id_sizes_command r0, Sent version_command r1,
    Sent capabilities_command r2, Sent resume_command r3]"
  using assms unfolding get_version_def
  by (simp only: run_ended run_client.simps(1) Pair_inject) (clarify, intro exI, simp)

text \<open>Whatever the peer does, nothing is sent before the sizes are asked for.\<close>

lemma sent_commands_simps [simp]:
  "sent_commands [] = []" "sent_commands (Printed l # tr) = sent_commands tr"
  "sent_commands (Got cmd # tr) = sent_commands tr"
  "sent_commands (Opened_Connection # tr) = sent_commands tr"
  "sent_commands (Closed_Connection # tr) = sent_commands tr"
  "sent_commands (Printed_Error e # tr) = sent_commands tr"
  "sent_commands (Sent cmd resp # tr) = cmd # sent_commands tr"
  "sent_commands (Send_Failed cmd ce # tr) = cmd # sent_commands tr"
  "sent_commands (tr @ tr') = sent_commands tr @ sent_commands tr'"
  by (simp_all add: sent_commands_def)

definition asks_sizes_first :: "JdwpCommand list \<Rightarrow> bool" where
  "asks_sizes_first cmds \<longleftrightarrow> cmds = [] \<or> (\<exists>rest. cmds = id_sizes_command # rest)"

lemma run_request_sent:
  "asks_sizes_first (sent_commands (snd (run_client P (Request id_sizes_command k) v)))"
  by (auto simp: asks_sizes_first_def run_client.simps(4) split: prod.split option.split sum.split)

lemma run_next_sent:
  assumes "\<And>cmd v. asks_sizes_first (sent_commands (snd (run_client P (k cmd) v)))"
  shows "asks_sizes_first (sent_commands (snd (run_client P (Next_Command k) v)))"
  using assms
  by (auto simp: run_client.simps(5) asks_sizes_first_def split: prod.split option.split sum.split)

lemma run_print_sent [simp]:
  "sent_commands (snd (run_client P (Print l k) v)) = sent_commands (snd (run_client P k v))"
  by (simp add: run_client.simps(3))

lemma examples_ask_sizes_first:
  assumes "program \<in> {get_version, breakpoint_example}"
  shows "asks_sizes_first (sent_commands (snd (run_client P program v)))"
proof -
  have "asks_sizes_first (sent_commands (snd (run_client P get_version v)))"
    unfolding get_version_def run_print_sent
    by (rule run_next_sent) (simp only: run_print_sent run_request_sent)
  moreover have "asks_sizes_first (sent_commands (snd (run_client P breakpoint_example v)))"
    unfolding breakpoint_example_def run_print_sent
    by (rule run_next_sent) (simp only: run_print_sent run_request_sent)
  ultimately show ?thesis using assms by blast
qed

lemma run_main_sent:
  "sent_commands (snd (run_main P program connecting closing v)) =
    (if connecting = None then sent_commands (snd (run_client P program v)) else [])"
  by (auto simp: run_main_def handled_def Let_def split_def split: option.split client_ending.split)

text \<open>Leaving the frame of a program: the connection is closed whenever it was opened.\<close>

lemma run_main_closes:
  assumes "run_main P program connecting closing v = (ex, tr)" and "ex \<noteq> Blocked"
  shows "Closed_Connection \<in> set tr \<longleftrightarrow> connecting = None"
    and "ex = Exit 0 \<longleftrightarrow> connecting = None \<and> closing = None \<and> fst (run_client P program v) = Completed"
proof -
  have no: "Closed_Connection \<notin> set (snd (handled e))" for e by (simp add: handled_def)
  have e: "fst (handled e) \<noteq> Exit 0" for e by (simp add: handled_def)
  show "Closed_Connection \<in> set tr \<longleftrightarrow> connecting = None"
    using assms no by (auto simp: run_main_def Let_def handled_def split: option.splits prod.splits client_ending.splits if_splits)
  show "ex = Exit 0 \<longleftrightarrow> connecting = None \<and> closing = None \<and> fst (run_client P program v) = Completed"
    using assms e by (auto simp: run_main_def Let_def handled_def split: option.splits prod.splits client_ending.splits if_splits)
qed

section \<open>The text of a JdwpException\<close>

text \<open>
  What the examples print of an exception that a failed command raised. A code without a member is
  \<open>UNKNOWN\<close>, and so would be \<open>NONE\<close>, which counts as false; but \<open>NONE\<close> raises no exception.
\<close>

definition exception_text :: "JdwpErrorCode option \<Rightarrow> int \<Rightarrow> JdwpCommand \<Rightarrow> string" where
  "exception_text code value_no cmd =
     (let err_name = (case code of
          Some e \<Rightarrow> (if error_value e \<noteq> 0 then error_name e else ''UNKNOWN'')
        | None \<Rightarrow> ''UNKNOWN'')
      in ''JDWP Command '' @ command_name (command_class_of cmd) @ '' failed with error: '' @
         err_name @ '' ('' @ show_int value_no @ '')'')"

lemma exception_text_of_reply:
  assumes "handle_reply cmd response_class reply sp = (Inl (JdwpException code value_no cmd'), w, sp')"
  shows "exception_text code value_no cmd' =
    ''JDWP Command '' @ command_name (command_class_of cmd) @ '' failed with error: '' @
      (case JdwpErrorCode_of value_no of Some e \<Rightarrow> error_name e | None \<Rightarrow> ''UNKNOWN'') @ '' ('' @ show_int value_no @ '')''"
proof -
  from assms have value_no: "value_no = error_field_value (error_code reply)" "value_no \<noteq> error_value ERR_NONE"
    and code: "code = from_int value_no" and cmd: "cmd' = cmd"
    by (auto simp: handle_reply_def split: if_splits sum.splits)
  have "error_value e \<noteq> 0" if "JdwpErrorCode_of value_no = Some e" for e
    using that value_no(2) by (auto simp: JdwpErrorCode_of_def dest: error.of_value_SomeD)
  with code cmd show ?thesis
    by (simp add: exception_text_def from_int_def split: option.split)
qed

end
