(* ===== verification/Testing.thy ===== *)
theory Testing
  imports Proxy Complex_Main
begin

text \<open>
  \<^verbatim>\<open>testing.py\<close>: compiling a Java file, finding a free port, waiting for a port. What the operating
  system does is a parameter: the exceptions of a call, the return codes of the programs that are
  run, the readings of the clock.
\<close>

section \<open>Exceptions\<close>

text \<open>
  The exceptions of the scripts: those of \<open>compile_java\<close>, whatever a system call raises, and
  \<open>KeyboardInterrupt\<close>, which is not an \<open>Exception\<close>.
\<close>

datatype (plugins only: code) os_error =
    FileNotFoundError
  | Compile_Failed
  | OS_Error
  | KeyboardInterrupt

section \<open>compile_java and find_free_port\<close>

text \<open>
  \<open>exists\<close> is whether the source is there, \<open>mkdir\<close> what creating the directory raises, \<open>javac\<close> what
  \<open>subprocess.run\<close> raises or the return code. The result has the command that was run.
\<close>

definition compile_java ::
    "string \<Rightarrow> string \<Rightarrow> bool \<Rightarrow> os_error option \<Rightarrow> os_error + int \<Rightarrow> (os_error + unit) \<times> string list list" where
  "compile_java source_path output_dir source_exists mkdir javac =
     (if \<not> source_exists then (Inl FileNotFoundError, [])
      else
        (case mkdir of
           Some e \<Rightarrow> (Inl e, [])
         | None \<Rightarrow>
             (let cmd = [''javac'', ''-g'', ''-d'', output_dir, source_path]
              in case javac of
                   Inl e \<Rightarrow> (Inl e, [cmd])
                 | Inr returncode \<Rightarrow>
                     (if returncode \<noteq> 0 then (Inl Compile_Failed, [cmd]) else (Inr (), [cmd])))))"

text \<open>
  \<open>find_free_port\<close> binds a socket to port 0 and returns the number it got; the socket is closed
  before the function returns, so that the port is free again. \<open>in_use\<close> are the ports bound at the
  moment, \<open>pick\<close> the kernel's choice among the others.
\<close>

definition find_free_port :: "(nat set \<Rightarrow> os_error + nat) \<Rightarrow> nat set \<Rightarrow> (os_error + nat) \<times> nat set" where
  "find_free_port pick in_use =
     (case pick in_use of
        Inl e \<Rightarrow> (Inl e, in_use)
      | Inr port \<Rightarrow> (let bound = insert port in_use in (Inr port, bound - {port})))"

section \<open>wait_for_port\<close>

text \<open>
  The readings of \<open>time.time()\<close> in order, and what each \<open>lsof\<close> raises or returns; the loop reads the
  clock for the \<open>k\<close>-th time when it has polled \<open>k\<close> times. A loop that never ends is \<open>None\<close>.
\<close>

record poller =
  clock :: "nat \<Rightarrow> real"
  lsof :: "nat \<Rightarrow> os_error + int"

partial_function (option) poll_from :: "poller \<Rightarrow> real \<Rightarrow> nat \<Rightarrow> (os_error + bool) option" where
  "poll_from w limit k =
     (if clock w (Suc k) - clock w 0 < limit then
        (case lsof w k of
           Inl e \<Rightarrow> Some (Inl e)
         | Inr returncode \<Rightarrow>
             (if returncode = 0 then Some (Inr True) else poll_from w limit (Suc k)))
      else Some (Inr False))"

definition wait_for_port :: "poller \<Rightarrow> real \<Rightarrow> (os_error + bool) option" where
  "wait_for_port w limit = poll_from w limit 0"

text \<open>The command that is polled; the argument \<open>host\<close> is not used.\<close>

definition lsof_command :: "nat \<Rightarrow> string list" where
  "lsof_command port = [''lsof'', ''-iTCP:'' @ show_nat port, ''-sTCP:LISTEN'']"

definition in_time :: "poller \<Rightarrow> real \<Rightarrow> nat \<Rightarrow> bool" where
  "in_time w limit k \<longleftrightarrow> clock w (Suc k) - clock w 0 < limit"

text \<open>\<open>time.sleep(0.1)\<close> takes at least that long between two readings of the loop.\<close>

definition clock_advances :: "poller \<Rightarrow> bool" where
  "clock_advances w \<longleftrightarrow> clock w 0 \<le> clock w 1 \<and> (\<forall>k. clock w (Suc k) + 1 / 10 \<le> clock w (Suc (Suc k)))"

lemma clock_lower: "clock_advances w \<Longrightarrow> clock w 0 + real k / 10 \<le> clock w (Suc k)"
proof (induction k)
  case (Suc k)
  then have "clock w (Suc k) + 1 / 10 \<le> clock w (Suc (Suc k))" by (simp add: clock_advances_def)
  with Suc show ?case by (simp add: field_simps)
qed (simp add: clock_advances_def)

lemma late: "clock_advances w \<Longrightarrow> 10 * limit \<le> real k \<Longrightarrow> \<not> in_time w limit k"
  using clock_lower [of w k] by (simp add: in_time_def)

text \<open>The polls that find nobody listening.\<close>

definition quiet :: "poller \<Rightarrow> real \<Rightarrow> nat \<Rightarrow> bool" where
  "quiet w limit k \<longleftrightarrow> in_time w limit k \<and> (\<exists>c. lsof w k = Inr c \<and> c \<noteq> 0)"

lemma poll_from_step:
  "poll_from w limit k =
    (if \<not> in_time w limit k then Some (Inr False)
     else if quiet w limit k then poll_from w limit (Suc k)
     else Some (case lsof w k of Inl e \<Rightarrow> Inl e | Inr _ \<Rightarrow> Inr True))"
  by (subst poll_from.simps) (auto simp: in_time_def quiet_def split: sum.split)

lemma poll_from_quiet:
  "(\<And>j. j < n \<Longrightarrow> quiet w limit (k + j)) \<Longrightarrow> poll_from w limit k = poll_from w limit (k + n)"
proof (induction n)
  case (Suc n)
  then have "poll_from w limit k = poll_from w limit (k + n)" by simp
  also have "\<dots> = poll_from w limit (Suc (k + n))"
    using Suc.prems [of n] by (subst poll_from_step) (simp add: quiet_def)
  finally show ?case by simp
qed simp

text \<open>The number of polls before the loop ends.\<close>

definition quiet_polls :: "poller \<Rightarrow> real \<Rightarrow> nat" where
  "quiet_polls w limit = (LEAST k. \<not> quiet w limit k)"

lemma quiet_polls_least:
  assumes "clock_advances w"
  shows "\<not> quiet w limit (quiet_polls w limit)" and "quiet_polls w limit \<le> nat \<lceil>10 * limit\<rceil>"
    and "j < quiet_polls w limit \<Longrightarrow> quiet w limit j"
proof -
  have "10 * limit \<le> real (nat \<lceil>10 * limit\<rceil>)" by (rule real_nat_ceiling_ge)
  then have "\<not> quiet w limit (nat \<lceil>10 * limit\<rceil>)" using late [OF assms] by (auto simp: quiet_def)
  then show "\<not> quiet w limit (quiet_polls w limit)" "quiet_polls w limit \<le> nat \<lceil>10 * limit\<rceil>"
    unfolding quiet_polls_def by (rule LeastI [of "\<lambda>k. \<not> quiet w limit k"], rule Least_le)
  show "j < quiet_polls w limit \<Longrightarrow> quiet w limit j"
    using not_less_Least [of j "\<lambda>k. \<not> quiet w limit k"] by (auto simp: quiet_polls_def)
qed

lemma wait_for_port_result:
  assumes "clock_advances w"
  shows "wait_for_port w limit =
    (if \<not> in_time w limit (quiet_polls w limit) then Some (Inr False)
     else Some (case lsof w (quiet_polls w limit) of Inl e \<Rightarrow> Inl e | Inr _ \<Rightarrow> Inr True))"
    and "real (quiet_polls w limit) < max 0 (10 * limit) + 1"
proof -
  let ?n = "quiet_polls w limit"
  define m where "m = nat \<lceil>10 * limit\<rceil>"
  note n = quiet_polls_least(1,2) [OF assms, of limit, folded m_def]
  have "quiet w limit j" if "j < ?n" for j using quiet_polls_least(3) [OF assms that] .
  then have "poll_from w limit 0 = poll_from w limit ?n"
    using poll_from_quiet [of ?n w limit 0] by simp
  with n(1) show "wait_for_port w limit =
    (if \<not> in_time w limit ?n then Some (Inr False)
     else Some (case lsof w ?n of Inl e \<Rightarrow> Inl e | Inr _ \<Rightarrow> Inr True))"
    unfolding wait_for_port_def by (simp add: poll_from_step [of w limit ?n])
  have "real m < max 0 (10 * limit) + 1"
  proof (cases "0 \<le> limit")
    case True
    then have "0 \<le> \<lceil>10 * limit\<rceil>" by (simp add: zero_le_ceiling)
    then have "real m = real_of_int \<lceil>10 * limit\<rceil>" by (simp add: m_def)
    also have "\<dots> < 10 * limit + 1" using ceiling_correct [of "10 * limit"] by linarith
    finally show ?thesis using True by simp
  next
    case False
    then have "\<lceil>10 * limit\<rceil> \<le> 0" by simp
    then show ?thesis by (simp add: m_def)
  qed
  with n(2) show "real ?n < max 0 (10 * limit) + 1" by (meson of_nat_le_iff le_less_trans)
qed

lemma wait_for_port_ends: "clock_advances w \<Longrightarrow> wait_for_port w limit \<noteq> None"
  by (simp add: wait_for_port_result)

end
