(* ===== verification/Jdb_Session.thy ===== *)
theory Jdb_Session
  imports Testing
begin

text \<open>
  \<^verbatim>\<open>scripts/run_jdb_session.py\<close>: a debugging session with a JVM, the proxy and \<^verbatim>\<open>jdb\<close>. The state is
  what the script has started, run and opened; what the operating system and the programs do is a
  parameter. A \<^verbatim>\<open>with\<close> statement is a function of its body that runs the exit code in every case.
\<close>

section \<open>The state of the script\<close>

text \<open>
  A process with its command line and its environment, when it is given one; \<open>alive\<close> until it
  has exited. \<open>stubborn\<close> processes do not exit within two seconds of \<open>terminate\<close>.
\<close>

type_synonym environment = "string \<Rightarrow> string option"

record os_process =
  argv :: "string list"
  proc_env :: "environment option"
  alive :: bool
  stubborn :: bool

record script_state =
  processes :: "os_process list"
  commands :: "(string list \<times> environment option) list"
  temp_dir :: bool
  open_logs :: nat

text \<open>How the script or a part of it ends; \<open>Hangs\<close> when it never does.\<close>

datatype (plugins only: code) script_end = Returns | Exits int | Raises os_error | Hangs

type_synonym script = "script_state \<Rightarrow> script_end \<times> script_state"

text \<open>
  What is outside: the source file and the compiler, the ports, what \<open>Popen\<close> and \<open>subprocess.run\<close>
  raise for a command line, the pollers of the ports, the processes that exit by themselves while
  the session is on, the processes that are stubborn, and whether there is a \<^verbatim>\<open>tmux\<close>. A
  \<open>KeyboardInterrupt\<close> comes while the script waits for something outside: it can be what one of these
  calls raises, and it can come in either wait for a process that was terminated.
\<close>

record outside =
  os_environ :: environment
  python :: string
  root_dir :: string
  session_dir :: string
  source_exists :: bool
  mkdir_raises :: "os_error option"
  javac :: "os_error + int"
  jvm_port_pick :: "nat set \<Rightarrow> os_error + nat"
  proxy_port_pick :: "nat set \<Rightarrow> os_error + nat"
  popen_raises :: "string list \<Rightarrow> os_error option"
  run_raises :: "string list \<Rightarrow> os_error option"
  is_stubborn :: "string list \<Rightarrow> bool"
  wait_interrupted :: "string list \<Rightarrow> bool"
  last_wait_interrupted :: "string list \<Rightarrow> bool"
  exits_early :: "string list \<Rightarrow> bool"
  jvm_poller :: poller
  proxy_poller :: poller
  has_tmux :: bool

section \<open>Sequencing\<close>

definition then_run :: "script \<Rightarrow> script \<Rightarrow> script" where
  "then_run a b s = (case a s of (Returns, s) \<Rightarrow> b s | r \<Rightarrow> r)"

fun run_all :: "script list \<Rightarrow> script" where
  "run_all [] s = (Returns, s)"
| "run_all (a # as) s = then_run a (run_all as) s"

text \<open>The exit of a \<^verbatim>\<open>with\<close>: it runs unless the body never ends; its own exception replaces the body's.\<close>

definition finally_run :: "script \<Rightarrow> script \<Rightarrow> script" where
  "finally_run body exit s =
     (case body s of
        (Hangs, s) \<Rightarrow> (Hangs, s)
      | (out, s) \<Rightarrow> (case exit s of (Returns, s) \<Rightarrow> (out, s) | r \<Rightarrow> r))"

definition subprocess_run :: "outside \<Rightarrow> string list \<Rightarrow> environment option \<Rightarrow> script" where
  "subprocess_run os cmd env s =
     (let s = s\<lparr>commands := commands s @ [(cmd, env)]\<rparr>
      in case run_raises os cmd of Some e \<Rightarrow> (Raises e, s) | None \<Rightarrow> (Returns, s))"

section \<open>Processes\<close>

definition change_process :: "(os_process \<Rightarrow> os_process) \<Rightarrow> nat \<Rightarrow> script_state \<Rightarrow> script_state" where
  "change_process f p s = s\<lparr>processes := (processes s)[p := f (processes s ! p)]\<rparr>"

text \<open>\<open>terminate\<close> ends a process that is not stubborn, \<open>kill\<close> ends any.\<close>

definition send_terminate :: "nat \<Rightarrow> script_state \<Rightarrow> script_state" where
  "send_terminate = change_process (\<lambda>q. if stubborn q then q else q\<lparr>alive := False\<rparr>)"

definition send_kill :: "nat \<Rightarrow> script_state \<Rightarrow> script_state" where
  "send_kill = change_process (\<lambda>q. q\<lparr>alive := False\<rparr>)"

text \<open>\<open>wait()\<close> returns when the process has exited.\<close>

definition wait_process :: "nat \<Rightarrow> script" where
  "wait_process p s = (if alive (processes s ! p) then (Hangs, s) else (Returns, s))"

text \<open>
  \<open>terminate_process\<close>: \<open>poll\<close> is \<open>None\<close> while the process is alive; \<open>wait(timeout=2.0)\<close> raises
  \<open>TimeoutExpired\<close> for a process that is alive after that time. Nothing else is caught: an interrupt
  in this wait leaves the function before the process is killed.
\<close>

definition terminate_process :: "outside \<Rightarrow> nat \<Rightarrow> script" where
  "terminate_process os p s =
     (if alive (processes s ! p) then
        (let cmd = argv (processes s ! p);
             s = send_terminate p s
         in if wait_interrupted os cmd then (Raises KeyboardInterrupt, s)
            else if alive (processes s ! p) then
              (let s = send_kill p s
               in if last_wait_interrupted os cmd then (Raises KeyboardInterrupt, s) else wait_process p s)
            else (Returns, s))
      else (Returns, s))"

text \<open>\<open>Popen\<close>, and a \<^verbatim>\<open>with\<close> whose exit terminates the process.\<close>

definition popen :: "outside \<Rightarrow> string list \<Rightarrow> environment option \<Rightarrow> script_state \<Rightarrow> (os_error + nat) \<times> script_state" where
  "popen os cmd env s =
     (case popen_raises os cmd of
        Some e \<Rightarrow> (Inl e, s)
      | None \<Rightarrow> (Inr (length (processes s)), s\<lparr>processes := processes s @
          [\<lparr>argv = cmd, proc_env = env, alive = True, stubborn = is_stubborn os cmd\<rparr>]\<rparr>))"

definition with_process :: "outside \<Rightarrow> string list \<Rightarrow> environment option \<Rightarrow> script \<Rightarrow> script" where
  "with_process os cmd env body s =
     (case popen os cmd env s of
        (Inl e, s) \<Rightarrow> (Raises e, s)
      | (Inr p, s) \<Rightarrow> finally_run body (terminate_process os p) s)"

definition jvm_cmd :: "string \<Rightarrow> nat \<Rightarrow> string list" where
  "jvm_cmd classpath port =
     [''java'',
      ''-agentlib:jdwp=transport=dt_socket,server=y,suspend=y,address=127.0.0.1:'' @ show_nat port,
      ''-cp'', classpath, ''SimpleApp'']"

definition running_jvm_debuggee :: "outside \<Rightarrow> string \<Rightarrow> nat \<Rightarrow> script \<Rightarrow> script" where
  "running_jvm_debuggee os classpath port body = with_process os (jvm_cmd classpath port) None body"

definition proxy_cmd :: "string \<Rightarrow> nat \<Rightarrow> nat \<Rightarrow> string list" where
  "proxy_cmd executable listen target =
     [executable, ''-u'', ''-m'', ''jdwpy.proxy'', ''--listen-port'', show_nat listen,
      ''--target-port'', show_nat target]"

definition running_jdwp_proxy :: "outside \<Rightarrow> nat \<Rightarrow> nat \<Rightarrow> script \<Rightarrow> script" where
  "running_jdwp_proxy os listen target body =
     with_process os (proxy_cmd (python os) listen target)
       (Some ((os_environ os)(''PYTHONPATH'' \<mapsto> root_dir os @ ''/src''))) body"

section \<open>The sessions\<close>

definition launch_tmux_session :: "outside \<Rightarrow> string \<Rightarrow> nat \<Rightarrow> string \<Rightarrow> string \<Rightarrow> script" where
  "launch_tmux_session os title proxy_port proxy_log jvm_log =
     (let tmux_env = Some ((os_environ os)(''TMUX'' := None));
          jdb_cmd = ''jdb -attach 127.0.0.1:'' @ show_nat proxy_port @ ''; tmux kill-session -t '' @ title
      in run_all
        [subprocess_run os [''tmux'', ''kill-session'', ''-t'', title] None,
         subprocess_run os [''tmux'', ''new-session'', ''-d'', ''-s'', title, ''-n'', ''Debugging'', jdb_cmd] tmux_env,
         subprocess_run os [''tmux'', ''split-window'', ''-h'', ''-t'', title @ '':Debugging'',
           ''tail -f '' @ [CHR 0x27] @ proxy_log @ [CHR 0x27]] tmux_env,
         subprocess_run os [''tmux'', ''split-window'', ''-v'', ''-t'', title @ '':Debugging.top-left'',
           ''tail -f '' @ [CHR 0x27] @ jvm_log @ [CHR 0x27]] tmux_env,
         subprocess_run os [''tmux'', ''select-pane'', ''-t'', title @ '':Debugging.top-left''] tmux_env,
         subprocess_run os [''tmux'', ''attach-session'', ''-t'', title] tmux_env])"

text \<open>Only \<open>KeyboardInterrupt\<close> is caught.\<close>

definition launch_fallback_session :: "outside \<Rightarrow> nat \<Rightarrow> script" where
  "launch_fallback_session os proxy_port s =
     (case subprocess_run os [''jdb'', ''-attach'', ''127.0.0.1:'' @ show_nat proxy_port] None s of
        (Raises KeyboardInterrupt, s) \<Rightarrow> (Returns, s)
      | r \<Rightarrow> r)"

section \<open>main\<close>

definition compile_debuggee :: "outside \<Rightarrow> string \<Rightarrow> string \<Rightarrow> script" where
  "compile_debuggee os java_file output_dir s =
     (let (res, cmds) = compile_java java_file output_dir (source_exists os) (mkdir_raises os) (javac os);
          s = s\<lparr>commands := commands s @ map (\<lambda>cmd. (cmd, None)) cmds\<rparr>
      in case res of
           Inr _ \<Rightarrow> (Returns, s)
         | Inl e \<Rightarrow> (if e = KeyboardInterrupt then Raises e else Exits 1, s))"

text \<open>\<^verbatim>\<open>not wait_for_port(jvm_port) or not wait_for_port(proxy_port)\<close>, with the default timeout.\<close>

definition ports_ready :: "outside \<Rightarrow> (os_error + bool) option" where
  "ports_ready os =
     (case wait_for_port (jvm_poller os) 5 of
        Some (Inr True) \<Rightarrow> wait_for_port (proxy_poller os) 5
      | r \<Rightarrow> r)"

text \<open>Processes that exit by themselves do so before the session ends.\<close>

definition early_exits :: "outside \<Rightarrow> script_state \<Rightarrow> script_state" where
  "early_exits os s = s\<lparr>processes :=
     map (\<lambda>q. if exits_early os (argv q) then q\<lparr>alive := False\<rparr> else q) (processes s)\<rparr>"

definition run_session :: "outside \<Rightarrow> nat \<Rightarrow> string \<Rightarrow> string \<Rightarrow> script" where
  "run_session os proxy_port proxy_log jvm_log s =
     (let s = early_exits os s
      in case ports_ready os of
           None \<Rightarrow> (Hangs, s)
         | Some (Inl e) \<Rightarrow> (Raises e, s)
         | Some (Inr False) \<Rightarrow> (Exits 1, s)
         | Some (Inr True) \<Rightarrow>
             (if has_tmux os then launch_tmux_session os ''jdwp_debug'' proxy_port proxy_log jvm_log s
              else launch_fallback_session os proxy_port s))"

text \<open>Opening and closing the two log files, the temporary directory around everything.\<close>

definition with_logs :: "script \<Rightarrow> script" where
  "with_logs body s =
     finally_run body (\<lambda>s. (Returns, s\<lparr>open_logs := open_logs s - 2\<rparr>)) (s\<lparr>open_logs := open_logs s + 2\<rparr>)"

definition with_temp_dir :: "script \<Rightarrow> script" where
  "with_temp_dir body s =
     finally_run body (\<lambda>s. (Returns, s\<lparr>temp_dir := False\<rparr>)) (s\<lparr>temp_dir := True\<rparr>)"

definition jdb_session_main :: "outside \<Rightarrow> script" where
  "jdb_session_main os =
     (let java_file = root_dir os @ ''/tests/testdata/SimpleApp.java'';
          classpath = session_dir os @ ''/classes'';
          proxy_log = session_dir os @ ''/proxy.log'';
          jvm_log = session_dir os @ ''/jvm.log''
      in with_temp_dir (then_run (compile_debuggee os java_file classpath) (\<lambda>s.
           case find_free_port (jvm_port_pick os) {} of
             (Inl e, _) \<Rightarrow> (Raises e, s)
           | (Inr jvm_port, in_use) \<Rightarrow>
               (case find_free_port (proxy_port_pick os) in_use of
                  (Inl e, _) \<Rightarrow> (Raises e, s)
                | (Inr proxy_port, _) \<Rightarrow>
                    with_logs (running_jvm_debuggee os classpath jvm_port
                      (running_jdwp_proxy os proxy_port jvm_port
                        (run_session os proxy_port proxy_log jvm_log))) s))))"

definition script_init :: script_state where
  "script_init = \<lparr>processes = [], commands = [], temp_dir = False, open_logs = 0\<rparr>"

section \<open>What a script leaves behind\<close>

text \<open>
  A script is \<open>contained\<close> when, however it ends, the processes it started have exited, those that were
  there have not come back, and what it opened is closed. The exception is a stubborn process whose
  wait was interrupted; the script has raised that interrupt then.
\<close>

definition left_alive :: "outside \<Rightarrow> os_process \<Rightarrow> bool" where
  "left_alive os q \<longleftrightarrow> stubborn q \<and> wait_interrupted os (argv q)"

definition contains :: "outside \<Rightarrow> script_state \<Rightarrow> script_end \<Rightarrow> script_state \<Rightarrow> bool" where
  "contains os s out t \<longleftrightarrow> length (processes s) \<le> length (processes t) \<and>
     (\<forall>p < length (processes t). alive (processes t ! p) \<longrightarrow>
        p < length (processes s) \<and> alive (processes s ! p) \<or>
        left_alive os (processes t ! p) \<and> out = Raises KeyboardInterrupt) \<and>
     temp_dir t = temp_dir s \<and> open_logs t = open_logs s"

definition contained :: "outside \<Rightarrow> script \<Rightarrow> bool" where
  "contained os a \<longleftrightarrow> (\<forall>s out t. a s = (out, t) \<longrightarrow> out \<noteq> Hangs \<longrightarrow> contains os s out t)"

lemma contains_refl [simp]: "contains os s out s"
  by (simp add: contains_def)

lemma contains_trans: "contains os s Returns t \<Longrightarrow> contains os t out u \<Longrightarrow> contains os s out u"
  unfolding contains_def by (metis order_trans script_end.distinct(3))

lemma containsI:
  "processes t = processes s \<Longrightarrow> temp_dir t = temp_dir s \<Longrightarrow> open_logs t = open_logs s \<Longrightarrow>
    contains os s out t"
  by (simp add: contains_def)

lemma containedD: "contained os a \<Longrightarrow> a s = (out, t) \<Longrightarrow> out \<noteq> Hangs \<Longrightarrow> contains os s out t"
  by (simp add: contained_def)

lemma contained_then_run:
  assumes "contained os a" and "contained os b"
  shows "contained os (then_run a b)"
  unfolding contained_def
proof (intro allI impI)
  fix s out t assume r: "then_run a b s = (out, t)" "out \<noteq> Hangs"
  obtain out' u where u: "a s = (out', u)" by fastforce
  show "contains os s out t"
  proof (cases "out' = Returns")
    case True
    with u r have "b u = (out, t)" by (simp add: then_run_def)
    with containedD [OF assms(1) u] containedD [OF assms(2)] True r(2) contains_trans show ?thesis by blast
  next
    case False
    with u r have "out' = out" "u = t" by (auto simp: then_run_def split: script_end.splits)
    with containedD [OF assms(1) u] r(2) show ?thesis by simp
  qed
qed

lemma contained_returns: "contained os (\<lambda>s. (Returns, s))"
  by (simp add: contained_def)

lemma run_all_Nil_fun: "run_all [] = (\<lambda>s. (Returns, s))"
  and run_all_Cons_fun: "run_all (a # as) = then_run a (run_all as)"
  by (simp_all add: fun_eq_iff)

lemma contained_run_all: "\<forall>a \<in> set as. contained os a \<Longrightarrow> contained os (run_all as)"
  by (induction as) (simp_all add: run_all_Nil_fun run_all_Cons_fun contained_returns contained_then_run
      del: run_all.simps)

lemma contained_subprocess_run: "contained os (subprocess_run os' cmd env)"
  by (auto simp: contained_def subprocess_run_def Let_def intro!: containsI split: option.splits)

lemma contained_tmux: "contained os (launch_tmux_session os' title port l1 l2)"
  unfolding launch_tmux_session_def Let_def
  by (rule contained_run_all) (simp add: contained_subprocess_run)

lemma subprocess_run_state:
  "processes (snd (subprocess_run os cmd env s)) = processes s"
  "temp_dir (snd (subprocess_run os cmd env s)) = temp_dir s"
  "open_logs (snd (subprocess_run os cmd env s)) = open_logs s"
  by (simp_all add: subprocess_run_def Let_def split: option.split)

lemma contained_fallback: "contained os (launch_fallback_session os' port)"
  unfolding contained_def
proof (intro allI impI)
  fix s out t assume "launch_fallback_session os' port s = (out, t)"
  then have "t = snd (subprocess_run os' [''jdb'', ''-attach'', ''127.0.0.1:'' @ show_nat port] None s)"
    by (auto simp: launch_fallback_session_def split: prod.splits script_end.splits os_error.splits)
  then show "contains os s out t" by (simp add: containsI subprocess_run_state)
qed

lemma terminate_process_ends:
  assumes "p < length (processes s)"
  obtains out t where "terminate_process os p s = (out, t)" and "out \<in> {Returns, Raises KeyboardInterrupt}"
    and "length (processes t) = length (processes s)"
    and "alive (processes t ! p) \<Longrightarrow> left_alive os (processes t ! p) \<and> out = Raises KeyboardInterrupt"
    and "\<And>q. q \<noteq> p \<Longrightarrow> processes t ! q = processes s ! q"
    and "temp_dir t = temp_dir s" and "open_logs t = open_logs s"
proof -
  obtain out t where r: "terminate_process os p s = (out, t)" by fastforce
  show thesis
    by (rule that [OF r])
      (use r assms in \<open>auto simp: terminate_process_def send_terminate_def send_kill_def change_process_def
        wait_process_def left_alive_def Let_def nth_list_update split: if_splits\<close>)
qed

lemma finally_run_cases:
  assumes "finally_run body exit s = (out, t)" and "out \<noteq> Hangs"
  obtains out' out'' u where "body s = (out', u)" "out' \<noteq> Hangs" "exit u = (out'', t)"
    "out = (if out'' = Returns then out' else out'')"
  using assms by (auto simp: finally_run_def split: prod.splits script_end.splits)

lemma contained_with_process:
  assumes "contained os body"
  shows "contained os (with_process os cmd env body)"
  unfolding contained_def
proof (intro allI impI)
  fix s out t assume r: "with_process os cmd env body s = (out, t)" "out \<noteq> Hangs"
  show "contains os s out t"
  proof (cases "popen_raises os cmd")
    case (Some e)
    with r show ?thesis by (auto simp: with_process_def popen_def)
  next
    case None
    let ?q = "\<lparr>argv = cmd, proc_env = env, alive = True, stubborn = is_stubborn os cmd\<rparr>"
    let ?s = "s\<lparr>processes := processes s @ [?q]\<rparr>" and ?p = "length (processes s)"
    have "finally_run body (terminate_process os ?p) ?s = (out, t)"
      using r None by (simp add: with_process_def popen_def)
    then obtain out' out'' u where u: "body ?s = (out', u)" "out' \<noteq> Hangs"
        "terminate_process os ?p u = (out'', t)" "out = (if out'' = Returns then out' else out'')"
      using r(2) by (rule finally_run_cases)
    have c: "contains os ?s out' u" using containedD [OF assms u(1,2)] .
    then have "?p < length (processes u)" by (simp add: contains_def)
    then obtain t: "out'' \<in> {Returns, Raises KeyboardInterrupt}" "length (processes t) = length (processes u)"
        "alive (processes t ! ?p) \<Longrightarrow> left_alive os (processes t ! ?p) \<and> out'' = Raises KeyboardInterrupt"
        "\<And>q. q \<noteq> ?p \<Longrightarrow> processes t ! q = processes u ! q"
        "temp_dir t = temp_dir u" "open_logs t = open_logs u"
      using u(3) by (elim terminate_process_ends [of ?p u os]) simp
    have "p < length (processes s) \<and> alive (processes s ! p) \<or>
        left_alive os (processes t ! p) \<and> out = Raises KeyboardInterrupt"
      if p: "p < length (processes t)" "alive (processes t ! p)" for p
    proof (cases "p = ?p")
      case True
      with t(3) p(2) u(4) show ?thesis by simp
    next
      case False
      with p t(2,4) have "p < length (processes u)" "alive (processes u ! p)" by simp_all
      with c have "p < length (processes ?s) \<and> alive (processes ?s ! p) \<or>
          left_alive os (processes u ! p) \<and> out' = Raises KeyboardInterrupt"
        by (simp add: contains_def)
      with False t(1,4) u(4) show ?thesis by (auto simp: nth_append split: if_splits)
    qed
    with t(2,5,6) c show ?thesis by (simp add: contains_def)
  qed
qed

lemma contained_logs:
  assumes "contained os body"
  shows "contained os (with_logs body)"
  unfolding contained_def with_logs_def
proof (intro allI impI)
  fix s out t
  assume "finally_run body (\<lambda>s. (Returns, s\<lparr>open_logs := open_logs s - 2\<rparr>))
      (s\<lparr>open_logs := open_logs s + 2\<rparr>) = (out, t)" and "out \<noteq> Hangs"
  then obtain u where "body (s\<lparr>open_logs := open_logs s + 2\<rparr>) = (out, u)" "out \<noteq> Hangs"
      "u\<lparr>open_logs := open_logs u - 2\<rparr> = t" by (rule finally_run_cases) simp
  with containedD [OF assms] show "contains os s out t" by (fastforce simp: contains_def)
qed

lemma contained_compile: "contained os (compile_debuggee os' source out_dir)"
  by (auto simp: contained_def compile_debuggee_def Let_def intro!: containsI split: sum.splits prod.splits)

lemma contains_early_exits: "contains os s out (early_exits os' s)"
  by (auto simp: contains_def early_exits_def split: if_splits)

lemma contained_session: "contained os (run_session os' port l1 l2)"
  unfolding contained_def
proof (intro allI impI)
  fix s out t assume r: "run_session os' port l1 l2 s = (out, t)" "out \<noteq> Hangs"
  have "contains os (early_exits os' s) out t"
    using r containedD [OF contained_tmux] containedD [OF contained_fallback]
    by (auto simp: run_session_def Let_def split: option.splits sum.splits bool.splits if_splits)
  with contains_early_exits show "contains os s out t" by (rule contains_trans)
qed

text \<open>The part of \<open>main\<close> inside the temporary directory.\<close>

lemma contained_ports:
  assumes "\<And>a b. contained os (body a b)"
  shows "contained os (\<lambda>s. case find_free_port pick {} of
      (Inl e, _) \<Rightarrow> (Raises e, s)
    | (Inr a, in_use) \<Rightarrow> (case find_free_port pick' in_use of
        (Inl e, _) \<Rightarrow> (Raises e, s) | (Inr b, _) \<Rightarrow> body a b s))"
  unfolding contained_def using containedD [OF assms]
  by (auto split: prod.splits sum.splits)

lemma with_temp_dir_contained:
  assumes "contained os body" and "with_temp_dir body s = (out, t)" and "out \<noteq> Hangs"
  shows "contains os (s\<lparr>temp_dir := False\<rparr>) out t"
proof -
  obtain u where "body (s\<lparr>temp_dir := True\<rparr>) = (out, u)" "out \<noteq> Hangs" "u\<lparr>temp_dir := False\<rparr> = t"
    using assms(2,3) unfolding with_temp_dir_def by (rule finally_run_cases) simp
  with containedD [OF assms(1)] show ?thesis by (fastforce simp: contains_def)
qed

lemma main_contained:
  assumes "jdb_session_main os s = (out, t)" and "out \<noteq> Hangs"
  shows "contains os (s\<lparr>temp_dir := False\<rparr>) out t"
  using assms(1) unfolding jdb_session_main_def Let_def running_jvm_debuggee_def running_jdwp_proxy_def
  by (rule with_temp_dir_contained [rotated])
    (intro assms(2) contained_then_run contained_compile contained_ports contained_logs
      contained_with_process contained_session)+

section \<open>That a session ends\<close>

definition ends :: "script \<Rightarrow> bool" where
  "ends a \<longleftrightarrow> (\<forall>s. fst (a s) \<noteq> Hangs)"

lemma ends_then_run:
  assumes "ends a" and "ends b"
  shows "ends (then_run a b)"
  unfolding ends_def
proof
  fix s
  obtain out t where t: "a s = (out, t)" by fastforce
  then have "out \<noteq> Hangs" using assms(1) unfolding ends_def by (metis fst_conv)
  then show "fst (then_run a b s) \<noteq> Hangs"
    using t assms(2) by (cases out) (simp_all add: then_run_def ends_def)
qed

lemma ends_run_all: "\<forall>a \<in> set as. ends a \<Longrightarrow> ends (run_all as)"
  unfolding atomize_imp by (induction as)
    (auto simp: run_all_Nil_fun run_all_Cons_fun simp del: run_all.simps intro: ends_then_run,
      simp add: ends_def)

lemma ends_subprocess_run: "ends (subprocess_run os cmd env)"
  by (simp add: ends_def subprocess_run_def Let_def split: option.split)

lemma ends_tmux: "ends (launch_tmux_session os title port l1 l2)"
  unfolding launch_tmux_session_def Let_def by (rule ends_run_all) (simp add: ends_subprocess_run)

lemma ends_fallback: "ends (launch_fallback_session os port)"
  using ends_subprocess_run [of os _ None]
  by (auto simp: ends_def launch_fallback_session_def split: prod.split script_end.split os_error.split)
    (metis fst_conv)

lemma ends_finally:
  assumes "fst (body s) \<noteq> Hangs" and "\<And>out t. body s = (out, t) \<Longrightarrow> fst (exit t) \<noteq> Hangs"
  shows "fst (finally_run body exit s) \<noteq> Hangs"
  using assms by (auto simp: finally_run_def split: prod.split script_end.split)

lemma ends_with_process:
  assumes "contained os body" and "ends body"
  shows "ends (with_process os cmd env body)"
  unfolding ends_def
proof
  fix s
  show "fst (with_process os cmd env body s) \<noteq> Hangs"
  proof (cases "popen_raises os cmd")
    case (Some e)
    then show ?thesis by (simp add: with_process_def popen_def)
  next
    case None
    let ?q = "\<lparr>argv = cmd, proc_env = env, alive = True, stubborn = is_stubborn os cmd\<rparr>"
    let ?s = "s\<lparr>processes := processes s @ [?q]\<rparr>" and ?p = "length (processes s)"
    have "fst (finally_run body (terminate_process os ?p) ?s) \<noteq> Hangs"
    proof (rule ends_finally)
      show b: "fst (body ?s) \<noteq> Hangs" using assms(2) by (simp add: ends_def)
      fix out t assume t: "body ?s = (out, t)"
      with b have "contains os ?s out t" using containedD [OF assms(1) t] by simp
      then have "?p < length (processes t)" by (simp add: contains_def)
      then show "fst (terminate_process os ?p t) \<noteq> Hangs"
        by (rule terminate_process_ends [of ?p t os]) auto
    qed
    with None show ?thesis by (simp add: with_process_def popen_def)
  qed
qed

lemma ends_compile: "ends (compile_debuggee os source out_dir)"
  by (simp add: ends_def compile_debuggee_def Let_def split: sum.split prod.split)

lemma ports_ready_ends:
  "clock_advances (jvm_poller os) \<Longrightarrow> clock_advances (proxy_poller os) \<Longrightarrow> ports_ready os \<noteq> None"
  using wait_for_port_ends [of "jvm_poller os" 5] wait_for_port_ends [of "proxy_poller os" 5]
  by (auto simp: ports_ready_def split: option.split sum.split bool.split)

lemma ends_session:
  assumes "clock_advances (jvm_poller os)" and "clock_advances (proxy_poller os)"
  shows "ends (run_session os port l1 l2)"
  using ports_ready_ends [OF assms] ends_tmux [of os] ends_fallback [of os]
  by (auto simp: ends_def run_session_def Let_def split: option.split sum.split bool.split)

lemma ends_logs: "ends body \<Longrightarrow> ends (with_logs body)"
  unfolding ends_def with_logs_def by (intro allI ends_finally) simp_all

lemma ends_temp_dir: "ends body \<Longrightarrow> ends (with_temp_dir body)"
  unfolding ends_def with_temp_dir_def by (intro allI ends_finally) simp_all

lemma ends_ports:
  assumes "\<And>a b. ends (body a b)"
  shows "ends (\<lambda>s. case find_free_port pick {} of
      (Inl e, _) \<Rightarrow> (Raises e, s)
    | (Inr a, in_use) \<Rightarrow> (case find_free_port pick' in_use of
        (Inl e, _) \<Rightarrow> (Raises e, s) | (Inr b, _) \<Rightarrow> body a b s))"
  using assms by (auto simp: ends_def split: prod.split sum.split)

lemma main_ends:
  assumes "clock_advances (jvm_poller os)" and "clock_advances (proxy_poller os)"
  shows "ends (jdb_session_main os)"
  unfolding jdb_session_main_def Let_def running_jvm_debuggee_def running_jdwp_proxy_def
  by (intro ends_temp_dir ends_then_run ends_compile ends_ports ends_logs ends_with_process ends_session
      contained_with_process contained_session assms)

section \<open>How the programs of a session are connected\<close>

lemma finally_run_Returns:
  "finally_run body exit s = (Returns, t) \<longleftrightarrow> (\<exists>u. body s = (Returns, u) \<and> exit u = (Returns, t))"
  by (auto simp: finally_run_def split: prod.splits script_end.splits)

lemma then_run_Returns:
  "then_run a b s = (Returns, t) \<longleftrightarrow> (\<exists>u. a s = (Returns, u) \<and> b u = (Returns, t))"
  by (auto simp: then_run_def split: prod.splits script_end.splits)

text \<open>The command lines of the processes, and the commands that were run.\<close>

definition started :: "script_state \<Rightarrow> string list list" where
  "started s = map argv (processes s)"

definition ran :: "script_state \<Rightarrow> string list list" where
  "ran s = map fst (commands s)"

lemma started_change:
  assumes "\<And>q. argv (f q) = argv q"
  shows "started (change_process f p s) = started s" and "ran (change_process f p s) = ran s"
proof -
  have "map argv ((processes s)[p := f (processes s ! p)]) = map argv (processes s)"
    by (cases "p < length (processes s)")
      (simp_all add: map_update assms list_update_same_conv list_update_beyond)
  then show "started (change_process f p s) = started s" and "ran (change_process f p s) = ran s"
    by (simp_all add: started_def ran_def change_process_def)
qed

lemma terminate_process_started:
  "started (snd (terminate_process os p s)) = started s" "ran (snd (terminate_process os p s)) = ran s"
  by (simp_all add: terminate_process_def send_terminate_def send_kill_def wait_process_def Let_def started_change)

lemma with_process_Returns:
  assumes "with_process os cmd env body s = (Returns, t)"
  obtains s1 u where "body s1 = (Returns, u)" "started s1 = started s @ [cmd]" "ran s1 = ran s"
    "started t = started u" "ran t = ran u"
proof (cases "popen_raises os cmd")
  case (Some e)
  with assms show thesis by (simp add: with_process_def popen_def)
next
  case None
  let ?s = "s\<lparr>processes := processes s @ [\<lparr>argv = cmd, proc_env = env, alive = True, stubborn = is_stubborn os cmd\<rparr>]\<rparr>"
  from assms None obtain u where u: "body ?s = (Returns, u)"
      "terminate_process os (length (processes s)) u = (Returns, t)"
    by (auto simp: with_process_def popen_def finally_run_Returns)
  show thesis
    using that [OF u(1)] terminate_process_started [of os "length (processes s)" u] u(2)
    by (simp add: started_def ran_def)
qed

lemma subprocess_run_ran:
  "started (snd (subprocess_run os cmd env s)) = started s" "ran (snd (subprocess_run os cmd env s)) = ran s @ [cmd]"
  by (simp_all add: subprocess_run_def Let_def started_def ran_def split: option.split)

text \<open>The command that attaches \<^verbatim>\<open>jdb\<close> to a port.\<close>

definition attach_command :: "outside \<Rightarrow> nat \<Rightarrow> string list" where
  "attach_command os port =
     (if has_tmux os then
        [''tmux'', ''new-session'', ''-d'', ''-s'', ''jdwp_debug'', ''-n'', ''Debugging'',
          ''jdb -attach 127.0.0.1:'' @ show_nat port @ ''; tmux kill-session -t '' @ ''jdwp_debug'']
      else [''jdb'', ''-attach'', ''127.0.0.1:'' @ show_nat port])"

lemma subprocess_run_Returns:
  assumes "subprocess_run os cmd env s = (Returns, t)"
  shows "started t = started s" and "ran t = ran s @ [cmd]"
  using subprocess_run_ran [of os cmd env s] assms by simp_all

lemma run_commands_Returns:
  "run_all (map (\<lambda>(cmd, env). subprocess_run os cmd env) cs) s = (Returns, t) \<Longrightarrow>
    started t = started s \<and> ran t = ran s @ map fst cs"
proof (induction cs arbitrary: s)
  case (Cons c cs)
  obtain cmd env where c: "c = (cmd, env)" by fastforce
  with Cons.prems obtain u where "subprocess_run os cmd env s = (Returns, u)"
      "run_all (map (\<lambda>(cmd, env). subprocess_run os cmd env) cs) u = (Returns, t)"
    by (auto simp: then_run_Returns)
  with Cons.IH [OF this(2)] subprocess_run_Returns [OF this(1)] c show ?case by simp
qed simp

lemma tmux_ran:
  assumes "launch_tmux_session os ''jdwp_debug'' port l1 l2 s = (Returns, t)" and "has_tmux os"
  shows "started t = started s \<and> attach_command os port \<in> set (ran t)"
proof -
  let ?env = "Some ((os_environ os)(''TMUX'' := None))"
  obtain c1 c3 where "launch_tmux_session os ''jdwp_debug'' port l1 l2 =
      run_all (map (\<lambda>(cmd, env). subprocess_run os cmd env) (c1 # (attach_command os port, ?env) # c3))"
    by (rule that [of "(_, _)" "[(_, _), (_, _), (_, _), (_, _)]"])
      (simp only: launch_tmux_session_def attach_command_def assms(2) Let_def list.map prod.case if_True)
  with assms(1) run_commands_Returns [of os "c1 # (attach_command os port, ?env) # c3" s t]
  show ?thesis by simp
qed

lemma fallback_ran:
  assumes "launch_fallback_session os port s = (Returns, t)" and "\<not> has_tmux os"
  shows "started t = started s \<and> attach_command os port \<in> set (ran t)"
  using assms subprocess_run_ran [of os "attach_command os port" None s]
  by (auto simp: launch_fallback_session_def attach_command_def
      split: prod.splits script_end.splits os_error.splits)

lemma session_ran:
  assumes "run_session os port l1 l2 s = (Returns, t)"
  shows "started t = started s \<and> attach_command os port \<in> set (ran t)"
proof -
  have e: "started (early_exits os s) = started s" by (auto simp: started_def early_exits_def)
  from assms consider "has_tmux os" "launch_tmux_session os ''jdwp_debug'' port l1 l2 (early_exits os s) = (Returns, t)"
    | "\<not> has_tmux os" "launch_fallback_session os port (early_exits os s) = (Returns, t)"
    by (auto simp: run_session_def Let_def split: option.splits sum.splits bool.splits if_splits)
  then show ?thesis using e tmux_ran fallback_ran by (cases; metis)
qed

text \<open>A session that returns has started a JVM and a proxy, and attached \<^verbatim>\<open>jdb\<close> to the proxy.\<close>

lemma main_started:
  assumes "jdb_session_main os s = (Returns, t)"
  obtains jvm_port proxy_port in_use
  where "fst (find_free_port (jvm_port_pick os) {}) = Inr jvm_port"
    and "fst (find_free_port (proxy_port_pick os) in_use) = Inr proxy_port"
    and "started t = started s @ [jvm_cmd (session_dir os @ ''/classes'') jvm_port, proxy_cmd (python os) proxy_port jvm_port]"
    and "attach_command os proxy_port \<in> set (ran t)"
proof -
  let ?src = "root_dir os @ ''/tests/testdata/SimpleApp.java''" and ?cp = "session_dir os @ ''/classes''"
  let ?l1 = "session_dir os @ ''/proxy.log''" and ?l2 = "session_dir os @ ''/jvm.log''"
  let ?body = "\<lambda>j p. running_jvm_debuggee os ?cp j (running_jdwp_proxy os p j (run_session os p ?l1 ?l2))"
  from assms obtain s1 u0 where c: "compile_debuggee os ?src ?cp (s\<lparr>temp_dir := True\<rparr>) = (Returns, s1)"
    and b: "(case find_free_port (jvm_port_pick os) {} of
        (Inl e, _) \<Rightarrow> (Raises e, s1)
      | (Inr a, in_use) \<Rightarrow> (case find_free_port (proxy_port_pick os) in_use of
          (Inl e, _) \<Rightarrow> (Raises e, s1) | (Inr b, _) \<Rightarrow> with_logs (?body a b) s1)) = (Returns, u0)"
    and u0: "started t = started u0" "ran t = ran u0"
    unfolding jdb_session_main_def Let_def with_temp_dir_def finally_run_Returns then_run_Returns
    by (auto simp: started_def ran_def)
  from b obtain j u p u' where j: "find_free_port (jvm_port_pick os) {} = (Inr j, u)"
    and p: "find_free_port (proxy_port_pick os) u = (Inr p, u')" and w: "with_logs (?body j p) s1 = (Returns, u0)"
    by (auto split: prod.splits sum.splits)
  from w obtain s2 where r: "?body j p (s1\<lparr>open_logs := open_logs s1 + 2\<rparr>) = (Returns, s2)"
    and s2: "started u0 = started s2" "ran u0 = ran s2"
    unfolding with_logs_def finally_run_Returns by (auto simp: started_def ran_def)
  note t = u0 [unfolded s2]
  have s1: "started s1 = started s"
    using c by (auto simp: compile_debuggee_def Let_def started_def split: prod.splits sum.splits if_splits)
  from r obtain a b where 1: "running_jdwp_proxy os p j (run_session os p ?l1 ?l2) a = (Returns, b)"
      "started a = started s1 @ [jvm_cmd ?cp j]" "started s2 = started b" "ran s2 = ran b"
    unfolding running_jvm_debuggee_def by (rule with_process_Returns) (simp add: started_def)
  from 1(1) obtain a' b' where 2: "run_session os p ?l1 ?l2 a' = (Returns, b')"
      "started a' = started a @ [proxy_cmd (python os) p j]" "started b = started b'" "ran b = ran b'"
    unfolding running_jdwp_proxy_def by (rule with_process_Returns)
  from session_ran [OF 2(1)] 1 2 t s1 j p show thesis by (intro that [of j u p]) simp_all
qed

end
