(* ===== verification/Spec2Isabelle.thy ===== *)
theory Spec2Isabelle
  imports System Proxy_Server Examples Jdb_Session
begin

text \<open>
  A model of \<^verbatim>\<open>jdwpy\<close>, a client library and logging proxy for the Java Debug Wire Protocol, written in
  Python with \<^verbatim>\<open>asyncio\<close>. The package is \<^verbatim>\<open>src/src/jdwpy\<close>, and file names below are relative to it;
  \<^verbatim>\<open>examples/\<close> and \<^verbatim>\<open>scripts/\<close> are in \<^verbatim>\<open>src/\<close>.

  \<^bold>\<open>The program.\<close> A debugger sends commands to a virtual machine and receives replies, and the
  machine sends commands that carry events. Four layers do this: messages (\<^verbatim>\<open>commands/\<close>, with \<^verbatim>\<open>io.py\<close>,
  \<^verbatim>\<open>spec.py\<close> and \<^verbatim>\<open>constants.py\<close>) are turned into bytes, with identifiers as wide as the machine says;
  packets (\<^verbatim>\<open>packet.py\<close>) frame these bytes on a stream; a packet connection matches replies to requests
  by id; a connection turns commands into packets, has a background task that reads, and queues the
  commands of the machine (\<^verbatim>\<open>connection.py\<close>). The proxy (\<^verbatim>\<open>proxy.py\<close>) sits between a debugger and a
  machine, forwards the packets of both and logs them.

  \<^bold>\<open>The theories.\<close>
  \<^item> Prelude: exceptions and results, indexing and slicing, enumerations looked up by value, runs of
    labelled transition systems. The locale \<open>int_enum\<close> is the contract of an enumeration class,
    \<open>step_invariant\<close> the one of a step relation and what its steps keep.
  \<^item> Py_Struct, Py_Utf8, Py_Float: what the code uses of \<^verbatim>\<open>struct\<close>, of the UTF-8 codec and of floats: integer
    formats with their ranges, the strict codec, the conversion between the two float formats on bit
    patterns, with rounding.
  \<^item> Constants, Spec_Types: \<^verbatim>\<open>constants.py\<close> and \<^verbatim>\<open>spec.py\<close>. An \<open>IntEnum\<close> is a datatype with the values of its
    members; an instance of an \<open>IntFlag\<close> is a natural number. Identifiers are integers.
  \<^item> Io: \<^verbatim>\<open>io.py\<close>. A reader operation maps the reader to a value and the reader after it, or to the
    exception; a writer operation maps the writer to the writer after it, or to the exception.
  \<^item> Codec: \<^verbatim>\<open>commands/base.py\<close>, and the relation \<open>paired\<close> of a write and a read that gives the value back, with
    one rule for every primitive; \<open>yields\<close> says what a read can return. The locale \<open>codec\<close> is the contract of a message class (its
    \<open>serialize\<close> and \<open>deserialize\<close> are paired), from which round trip, injectivity and prefix freedom
    follow; \<open>message_family\<close> is the contract of the classes together, as the registry needs them.
  \<^item> Cmd_VM to Cmd_Event: the sixteen modules of \<^verbatim>\<open>commands/\<close>. Every dataclass is a record with its
    \<open>serialize\<close> and \<open>deserialize\<close>, every command has its class variables; names that several modules
    use have the name of the command set in front. Every class is an interpretation of \<open>codec\<close>.
    Where a class does not read back every value it can write, its \<open>_ok\<close> predicate says which ones it
    reads back; it is exact.
  \<^item> Registry: \<^verbatim>\<open>commands/registry.py\<close>. The dictionaries as the decorators fill them; commands and responses of
    all modules as one type each, with the dispatch on their classes.
  \<^item> Packet: \<^verbatim>\<open>packet.py\<close>. The locale \<open>framing\<close> is the contract of writing and reading packets on a stream.
  \<^item> Packet_Connection, Connection: \<^verbatim>\<open>connection.py\<close> and \<^verbatim>\<open>exceptions.py\<close>. An operation is cut at its
    \<^verbatim>\<open>await\<close>s into functions on the state of the objects; futures are a heap of outcomes. The relations
    \<open>packet_step\<close> and \<open>connection_step\<close> interleave the pieces of any number of callers with the reading
    task, as the event loop may. The labels of the steps say what the peer sent and what a caller got.
  \<^item> Rendezvous: what the packet connection promises, without dictionary and futures: a table from ids to
    outcomes. An abstraction function and a simulation in both directions.
  \<^item> Proxy: \<^verbatim>\<open>proxy.py\<close>. The handlers as functions on the session, both loops as a step relation over the
    bytes that arrive, with what a read that raises has taken off the stream, the hex dump and the log
    lines as strings. Proxy_Main: which sockets a session opens, from \<^verbatim>\<open>create\<close> to the end of the task of
    \<^verbatim>\<open>client_connected\<close>, and whether the program closes them or the finaliser of the stream writer. Command_Line: the options of the
    proxy, as \<^verbatim>\<open>argparse\<close> and \<open>int\<close> read them. Proxy_Server: \<^verbatim>\<open>main\<close>, its logger, and the server, which
    interleaves the tasks of any number of clients. The locale \<open>tasks\<close> is the contract of tasks that
    see only their own state; its lemma projects a run of the server to a run of one client.
  \<^item> System: a connection, the proxy and a machine composed; the network delivers what each side wrote in
    pieces of any size, and the machine may send anything.
  \<^item> Examples: the two programs of \<^verbatim>\<open>examples/\<close> as trees of their calls, run against any peer; the text of
    a \<open>JdwpException\<close>.
  \<^item> Testing, Jdb_Session: \<^verbatim>\<open>testing.py\<close> and \<^verbatim>\<open>scripts/run_jdb_session.py\<close>. What the operating system does
    is a parameter, a \<open>KeyboardInterrupt\<close> in a call that blocks included; a \<^verbatim>\<open>with\<close> statement is a
    function of its body.

  \<^bold>\<open>What is shown.\<close> Messages: which commands and which responses are read back from their bytes through the
  registry, exactly: all but those with values that do not belong to their tag, floats that do not
  fit, and array writes of other values than integers (C1 to C3). Primitive values: tagged values and strings are read as
  they are written, integers are big-endian at the width of the protocol (C4 to C6). Packets: exactly the bytes of a packet are taken off a stream, in
  order, and when reading fails (C7 to C9). Connection: what is sent arrives; every response
  and every exception belongs to the caller's own request; no caller waits on a connection that is
  closed or whose receiver has failed; the connection refines the packet connection with ids that
  are fresh; the sizes of identifiers change by the reply to \<open>IDSizes\<close> only; commands of the machine are
  delivered in order (C10 to C18). C19 to C21 show three ways a caller is left waiting: a
  command that cannot be parsed, closing between the creation of the background task and its first
  turn, reusing a packet id.
  The packet connection meets its abstract specification and implements all of it (C22, C23).
  Proxy: transparency in both directions, up to the one piece that the read that ends a loop can lose,
  agreement with the connection on the sizes, how a session
  ends and that it does, the hex dump (C24 to C29). The composed system: the machine reads the
  commands the application sent, each parsed to the same command under the condition above, every response and every event the application gets was sent by
  the machine, in order, and a reply can travel all the way (C30 to C33). The life of a session:
  which connections the program closes (C34). The server: each client is served as if it were
  alone (C35).
  Programs: what the breakpoint example exchanges with a machine, that no example
  sends anything before it asks for the sizes, how many polls waiting for a port takes, that a debugging
  session ends, what it cleans up and which processes an interrupt can leave, and that its programs are
  connected to one another (C36 to C40). The
  states of the concrete instances are defined before they are
  used. The lemmas beside the properties show more: no message begins another of its class, which
  sizes make a spec, when the handshake succeeds, that an outcome is final, that the sizes of a proxy
  session change by a reply to \<open>IDSizes\<close> only, which names its log gives to errors, how malformed
  strings are read, which kinds of events have a class, what the text of an exception says.

  \<^bold>\<open>Bounds.\<close> Nothing uses fuel: loops over a count are recursive in the count, the other recursive
  functions are proved to terminate by the length of their argument, and the loop of \<^verbatim>\<open>wait_for_port\<close>,
  which ends only because the clock advances, is a partial function that is proved to return.
  Integers of the protocol keep their widths through the ranges of \<^verbatim>\<open>struct\<close> formats; Python's own
  integers are unbounded.

  \<^bold>\<open>Not modelled.\<close> \<^verbatim>\<open>drain\<close>, which can only raise or let others run (steps for both are there); the
  event loop's choice of the next step, which is arbitrary; the text of built-in exceptions and of
  parsed messages (the format of a dataclass needs the tables of printable characters and the
  shortest decimal of a float); a log sink other than the logger; exceptions of opening a log file;
  the server socket, of which only the exception of binding it is there; command line words outside
  the first 256 code points; the package exports and the tests, which have no behaviour of their own.
  What \<^verbatim>\<open>print\<close> writes is modelled for the proxy and the examples, not for the session script, which
  only reports its progress.
\<close>

section \<open>Evaluation\<close>

text \<open>The equations that compute the bytes of a message, for the concrete instances below.\<close>

lemmas write_eval =
  to_bytes_def Io.extend_def pack_def writer_init_def get_bytes_def write_int_def write_long_def
  write_byte_def write_boolean_def write_string_def be_bytes_numeral

section \<open>Messages\<close>

text \<open>C1: a command of any of the ninety classes, written by \<open>to_bytes\<close>, is found again by its command
  set and command number in the registry, and the class found there reads back the same command,
  whatever bytes follow, exactly when \<open>command_ok\<close> holds of it: when every tagged value in it is a
  Python value of its tag (an integer for an integer or object tag, a boolean for \<open>BOOLEAN\<close>, \<open>None\<close> for
  \<open>VOID\<close>, a float for \<open>DOUBLE\<close>, a float that binary32 represents for \<open>FLOAT\<close>), and, for
  \<open>ArrayReference.SetValues\<close>, when its tag and those of its elements are \<open>INT\<close>. A \<open>SetValues\<close> of elements
  of any other type never comes back; commands that carry no values always do. The same means
  identical, the types of the values included: \<open>True\<close> and 1, or 1 and 1.0, are equal in Python but not the same.\<close>

theorem command_dispatch_roundtrip:
  assumes "to_bytes command_serialize cmd sp = Inr bs"
  shows "\<exists>cls. get_command_class (COMMAND_SET (command_vars (command_class_of cmd)))
      (COMMAND (command_vars (command_class_of cmd))) = Some cls \<and>
    (from_bytes (command_deserialize cls) (bs @ junk) sp = Inr cmd \<longleftrightarrow> command_ok cmd)"
  using assms by (rule command_dispatch_iff) simp

lemma command_dispatch_roundtrip_witness:
  "\<exists>cls. get_command_class 1 10 = Some cls \<and>
    from_bytes (command_deserialize cls) [0, 0, 1, 2, 9] default_spec =
      Inr (vm_command_obj (ExitCommand_obj (ExitCommand.make 258)))"
  using command_dispatch_roundtrip [of "vm_command_obj (ExitCommand_obj (ExitCommand.make 258))"
      default_spec "[0, 0, 1, 2]" "[9]"]
  by (simp add: write_eval ExitCommand_serialize_def ExitCommand.make_def ExitCommand_class_def
      command_class.make_def)

text \<open>C2: a response of any class, written by \<open>to_bytes\<close>, is read back by its class, whatever bytes
  follow, identical with the types of its values, exactly when \<open>response_ok\<close> holds of it: when every tagged value in it is a Python value of
  its tag (a \<open>FLOAT\<close> is represented by binary32), and the elements of an array region of primitives
  have the region's tag.\<close>

theorem response_roundtrip:
  assumes "to_bytes response_serialize resp sp = Inr bs"
  shows "from_bytes (response_deserialize (response_class_of resp)) (bs @ junk) sp = Inr resp \<longleftrightarrow>
    response_ok resp"
  using assms by (rule response.family_roundtrip_iff)

lemma response_roundtrip_witness:
  "from_bytes (response_deserialize (vm_response_cls CreateStringResponse_cls)) [0, 0, 0, 7, 5]
    (default_spec\<lparr>object_id_struct := STRUCT_32\<rparr>) =
    Inr (vm_response_obj (CreateStringResponse_obj (CreateStringResponse.make 7)))"
  using response_roundtrip [of "vm_response_obj (CreateStringResponse_obj (CreateStringResponse.make 7))"
      "default_spec\<lparr>object_id_struct := STRUCT_32\<rparr>" "[0, 0, 0, 7]" "[5]"]
  by (simp add: write_eval CreateStringResponse_serialize_def CreateStringResponse.make_def
      write_string_id_def write_object_id_def default_spec_def IdSizesSpec.make_def)

text \<open>What \<open>ArrayReference.SetValues\<close> loses: the tag is not on the wire, and whatever was written is
  read as a command for integers.\<close>

lemma set_values_read_as_ints:
  assumes "to_bytes command_serialize (array_reference_command_obj (ArrayReference_SetValuesCommand_obj cmd)) sp = Inr bs"
    and "ArrayReference_SetValuesCommand.tag cmd \<noteq> TAG_INT"
  shows "from_bytes (array_reference_command_deserialize ArrayReference_SetValuesCommand_cls) (bs @ junk) sp \<noteq>
    Inr (ArrayReference_SetValuesCommand_obj cmd)"
  using array_reference_command.from_bytes_ok [of ArrayReference_SetValuesCommand_cls "bs @ junk" sp
      "ArrayReference_SetValuesCommand_obj cmd"] assms(2)
  by (auto simp: ArrayReference_SetValuesCommand_ok_def)

text \<open>No two commands of a class have the same bytes, and none has bytes that begin another's.\<close>

lemma command_prefix_free:
  assumes "command_ok cmd" and "command_ok cmd'" and "command_class_of cmd' = command_class_of cmd"
    and "to_bytes command_serialize cmd sp = Inr bs"
    and "to_bytes command_serialize cmd' sp = Inr (bs @ junk)"
  shows "cmd' = cmd \<and> junk = []"
  by (rule codec.prefix_free [OF command.member_codec [of "command_class_of cmd"]])
    (use assms in auto)

text \<open>C3: the types of messages: the registry finds exactly the class whose command set and command
  number are asked for, no registration hides another; and every command has a response class except
  the composite command of events, which the VM sends and nobody answers.\<close>

theorem get_command_class_iff:
  "(get_command_class s n = Some cls \<longleftrightarrow>
      COMMAND_SET (command_vars cls) = s \<and> COMMAND (command_vars cls) = n) \<and>
   (get_response_class cls = None \<longleftrightarrow> cls = event_command_cls CompositeCommand_cls)"
  using commands.lookup_eq_Some [of "(s, n)" cls] get_response_class_None [of cls]
  by (simp add: command_key_def)

section \<open>Primitive values\<close>

text \<open>C4: a tagged value that its tag stands for, written by \<open>write_value\<close>, is what \<open>read_value\<close>
  returns, and the reader stands behind it.\<close>

theorem value_roundtrip:
  assumes "jdwp_value_ok v" and "write_value v w = Inr w'"
    and "JdwpReader.spec r = JdwpWriter.spec w" and "array_element_tag r = None"
    and "JdwpReader.data r = pre @ bs @ post" and "JdwpReader.offset r = int (length pre)"
    and "buffer w' = buffer w @ bs"
  shows "read_value r = Inr (v, r\<lparr>offset := offset r + int (length bs)\<rparr>)"
proof -
  obtain bs' where "w' = w\<lparr>buffer := buffer w @ bs'\<rparr>" "reads_back (JdwpWriter.spec w) bs' read_value v"
    using paired_value [OF assms(1)] assms(2) by (rule pairedE)
  moreover from this(1) have "bs' = bs" using assms(7) by simp
  ultimately have "reads_back (JdwpWriter.spec w) bs read_value v" by simp
  from reads_backD [OF this assms(3-6)] show ?thesis .
qed

lemma value_roundtrip_witness:
  "read_value (reader_init [66, 255, 7] default_spec) =
    Inr (JdwpValue.make TAG_BYTE (PyInt (- 1)), (reader_init [66, 255, 7] default_spec)\<lparr>offset := 2\<rparr>)"
proof -
  have "read_value (reader_init [66, 255, 7] default_spec) =
    Inr (JdwpValue.make TAG_BYTE (PyInt (- 1)), (reader_init [66, 255, 7] default_spec)
      \<lparr>offset := offset (reader_init [66, 255, 7] default_spec) + int (length [66 :: byte, 255])\<rparr>)"
    by (rule value_roundtrip [of _ "writer_init default_spec"
          "(writer_init default_spec)\<lparr>buffer := [66, 255]\<rparr>" _ "[]" _ "[7]"])
      (simp_all add: write_eval jdwp_value_ok_def value_ok_def JdwpValue.make_def write_value_def
        write_untagged_value_def is_object_def pack_value_def reader_init_def)
  then show ?thesis by (simp add: reader_init_def)
qed

lemma read_string_at:
  assumes "JdwpReader.data r = pre @ (hdr @ enc) @ post" and "JdwpReader.offset r = int (length pre)"
    and "length hdr = 4"
  shows "read_string r = Inr (s, r\<lparr>offset := offset r + int (length (hdr @ enc))\<rparr>) \<longleftrightarrow>
    decode_int (Signed 4) hdr = int (length enc) \<and> utf8_decode enc = Inr s" (is "?lhs \<longleftrightarrow> ?valid")
proof -
  have "field_at 4 (pre @ hdr @ (enc @ post)) (int (length pre)) = Inr hdr"
    using assms(3) by (rule field_at_append)
  then have int: "read_int r = Inr (decode_int (Signed 4) hdr, r\<lparr>offset := offset r + 4\<rparr>)"
    using assms by (simp add: read_int_def read_struct_def unpack_from_def del: decode_int.simps)
  have "py_slice ((pre @ hdr) @ enc @ post) (int (length (pre @ hdr)))
      (int (length (pre @ hdr)) + int (length enc)) = enc"
    by (rule py_slice_append)
  then have slice: "py_slice (JdwpReader.data r) (offset r + 4) (offset r + 4 + int (length enc)) = enc"
    using assms by simp
  show ?thesis
  proof
    assume ?lhs
    then have "offset r + 4 + decode_int (Signed 4) hdr = offset r + int (length (hdr @ enc))"
      by (auto simp: read_string_def rbind_def int simp del: decode_int.simps length_append
          dest!: arg_cong [of _ _ offset])
    with assms(3) have "decode_int (Signed 4) hdr = int (length enc)" by simp
    with \<open>?lhs\<close> slice show ?valid
      by (auto simp: read_string_def rbind_def int simp del: decode_int.simps)
  next
    assume ?valid
    with slice assms(3) show ?lhs
      by (auto simp: add.assoc read_string_def rbind_def int simp del: decode_int.simps)
  qed
qed

lemma write_string_bytes:
  assumes "length hdr = 4"
  shows "write_string s w = Inr (w\<lparr>buffer := buffer w @ (hdr @ enc)\<rparr>) \<longleftrightarrow>
    pack (Signed 4) (int (length enc)) = Inr hdr \<and> utf8_encode s = Inr enc" (is "?lhs \<longleftrightarrow> ?valid")
proof
  assume ?lhs
  then obtain hdr' enc' where enc: "utf8_encode s = Inr enc'" "pack (Signed 4) (int (length enc')) = Inr hdr'"
    and "w\<lparr>buffer := buffer w @ (hdr @ enc)\<rparr> = w\<lparr>buffer := buffer w @ hdr' @ enc'\<rparr>"
    by (auto simp: write_string_def write_int_def Io.extend_def)
  then have "hdr @ enc = hdr' @ enc'" by (cases w) simp
  moreover have "length hdr' = 4" using pack_length [OF enc(2)] by simp
  ultimately show ?valid using enc assms by simp
qed (use assms in \<open>simp add: write_string_def write_int_def Io.extend_def\<close>)

text \<open>C5: strings are read exactly as they are written: a piece of the data that holds a length field is
  read as a string, with the reader behind the piece afterwards, if and only if \<open>write_string\<close> writes
  that piece for that string. The bytes are strict UTF-8 in both directions.\<close>

theorem string_read_iff_written:
  assumes "JdwpReader.data r = pre @ bs @ post" and "JdwpReader.offset r = int (length pre)"
    and "4 \<le> length bs"
  shows "read_string r = Inr (s, r\<lparr>offset := offset r + int (length bs)\<rparr>) \<longleftrightarrow>
    write_string s w = Inr (w\<lparr>buffer := buffer w @ bs\<rparr>)"
proof -
  obtain hdr enc where bs: "bs = hdr @ enc" "length hdr = 4"
    using assms(3) by (metis append_take_drop_id length_take min_absorb2)
  have "pack (Signed 4) v = Inr hdr \<longleftrightarrow> v = decode_int (Signed 4) hdr" for v
    using pack_unpack [of "Signed 4" hdr v] unpack_pack [of "Signed 4" v hdr] bs(2)
    by (auto simp: unpack_def simp del: decode_int.simps)
  then show ?thesis
    using read_string_at [OF _ assms(2) bs(2), of enc post s] write_string_bytes [OF bs(2), of s w enc]
      utf8_decode_encode [of s enc] utf8_encode_decode [of enc s] assms(1) bs
    by (metis append_assoc)
qed

lemma string_read_iff_written_witness:
  "read_string ((reader_init [7, 0, 0, 0, 1, 97, 9] default_spec)\<lparr>offset := 1\<rparr>) =
      Inr ([97], (reader_init [7, 0, 0, 0, 1, 97, 9] default_spec)
        \<lparr>offset := 1, offset := 1 + int (length ([0, 0, 0, 1, 97] :: bytes))\<rparr>) \<longleftrightarrow>
    write_string [97] (writer_init default_spec) =
      Inr ((writer_init default_spec)\<lparr>buffer := buffer (writer_init default_spec) @ [0, 0, 0, 1, 97]\<rparr>)"
  using string_read_iff_written [of "(reader_init [7, 0, 0, 0, 1, 97, 9] default_spec)\<lparr>offset := 1\<rparr>" "[7]"
      "[0, 0, 0, 1, 97]" "[9]" "[97]" "writer_init default_spec"]
  by (simp add: reader_init_def)

text \<open>C6: integers have the width and the byte order of the protocol: \<open>write_int\<close> and \<open>write_long\<close> append
  exactly four and eight bytes, the most significant first, in two's complement, and raise
  \<open>struct.error\<close> exactly for the values that do not fit; \<open>read_int\<close> and \<open>read_long\<close> give the signed
  value of the four or eight bytes at the cursor and move behind them, and raise \<open>struct.error\<close> when
  fewer are left; \<open>write_byte\<close> never raises, it appends the value modulo 256.\<close>

theorem integers_at_their_width:
  "(write_int v w = (if - (2 ^ 31) \<le> v \<and> v < 2 ^ 31
      then Inr (w\<lparr>buffer := buffer w @ map word_of_int [v div 2 ^ 24, v div 2 ^ 16, v div 2 ^ 8, v]\<rparr>)
      else Inl StructError)) \<and>
   (write_long v w = (if - (2 ^ 63) \<le> v \<and> v < 2 ^ 63
      then Inr (w\<lparr>buffer := buffer w @ map word_of_int [v div 2 ^ 56, v div 2 ^ 48, v div 2 ^ 40,
        v div 2 ^ 32, v div 2 ^ 24, v div 2 ^ 16, v div 2 ^ 8, v]\<rparr>)
      else Inl StructError)) \<and>
   read_int (r\<lparr>JdwpReader.data := pre @ [a, b, c, d] @ post, offset := int (length pre)\<rparr>) =
     Inr ((uint a * 2 ^ 24 + uint b * 2 ^ 16 + uint c * 2 ^ 8 + uint d + 2 ^ 31) mod 2 ^ 32 - 2 ^ 31,
       r\<lparr>JdwpReader.data := pre @ [a, b, c, d] @ post, offset := int (length pre) + 4\<rparr>) \<and>
   read_long (r\<lparr>JdwpReader.data := pre @ [a, b, c, d, e, f, g, h] @ post, offset := int (length pre)\<rparr>) =
     Inr ((uint a * 2 ^ 56 + uint b * 2 ^ 48 + uint c * 2 ^ 40 + uint d * 2 ^ 32 +
         uint e * 2 ^ 24 + uint f * 2 ^ 16 + uint g * 2 ^ 8 + uint h + 2 ^ 63) mod 2 ^ 64 - 2 ^ 63,
       r\<lparr>JdwpReader.data := pre @ [a, b, c, d, e, f, g, h] @ post, offset := int (length pre) + 8\<rparr>) \<and>
   read_int (r\<lparr>JdwpReader.data := pre @ take 3 bs, offset := int (length pre)\<rparr>) = Inl StructError \<and>
   read_long (r\<lparr>JdwpReader.data := pre @ take 7 bs, offset := int (length pre)\<rparr>) = Inl StructError \<and>
   write_byte v w = Inr (w\<lparr>buffer := buffer w @ [word_of_int v]\<rparr>)"
proof (intro conjI)
  have "read_struct (Signed 4) (r\<lparr>JdwpReader.data := pre @ [a, b, c, d] @ post, offset := int (length pre)\<rparr>) =
      Inr (decode_int (Signed 4) [a, b, c, d], r\<lparr>JdwpReader.data := pre @ [a, b, c, d] @ post, offset := int (length pre) + 4\<rparr>)"
    using read_struct_at [of "[a, b, c, d]" "Signed 4" pre post r] by (simp del: decode_int.simps)
  then show "read_int (r\<lparr>JdwpReader.data := pre @ [a, b, c, d] @ post, offset := int (length pre)\<rparr>) =
     Inr ((uint a * 2 ^ 24 + uint b * 2 ^ 16 + uint c * 2 ^ 8 + uint d + 2 ^ 31) mod 2 ^ 32 - 2 ^ 31,
       r\<lparr>JdwpReader.data := pre @ [a, b, c, d] @ post, offset := int (length pre) + 4\<rparr>)"
    by (simp add: read_int_def decode_signed be_uint_explicit del: decode_int.simps)
next
  have "read_struct (Signed 8) (r\<lparr>JdwpReader.data := pre @ [a, b, c, d, e, f, g, h] @ post, offset := int (length pre)\<rparr>) =
      Inr (decode_int (Signed 8) [a, b, c, d, e, f, g, h],
        r\<lparr>JdwpReader.data := pre @ [a, b, c, d, e, f, g, h] @ post, offset := int (length pre) + 8\<rparr>)"
    using read_struct_at [of "[a, b, c, d, e, f, g, h]" "Signed 8" pre post r] by (simp del: decode_int.simps)
  then show "read_long (r\<lparr>JdwpReader.data := pre @ [a, b, c, d, e, f, g, h] @ post, offset := int (length pre)\<rparr>) =
     Inr ((uint a * 2 ^ 56 + uint b * 2 ^ 48 + uint c * 2 ^ 40 + uint d * 2 ^ 32 +
         uint e * 2 ^ 24 + uint f * 2 ^ 16 + uint g * 2 ^ 8 + uint h + 2 ^ 63) mod 2 ^ 64 - 2 ^ 63,
       r\<lparr>JdwpReader.data := pre @ [a, b, c, d, e, f, g, h] @ post, offset := int (length pre) + 8\<rparr>)"
    by (simp add: read_long_def decode_signed be_uint_explicit del: decode_int.simps)
next
  show "read_int (r\<lparr>JdwpReader.data := pre @ take 3 bs, offset := int (length pre)\<rparr>) = Inl StructError"
    unfolding read_int_def by (rule read_struct_short) simp
  show "read_long (r\<lparr>JdwpReader.data := pre @ take 7 bs, offset := int (length pre)\<rparr>) = Inl StructError"
    unfolding read_long_def by (rule read_struct_short) simp
qed (simp_all add: write_int_def write_long_def write_byte_def Io.extend_def pack_def be_bytes_4 be_bytes_8
    word_of_int_and_255 del: be_bytes.simps)

text \<open>A spec is built exactly when all five sizes are four or eight, and then each identifier is
  packed in that many bytes.\<close>

lemma create_iff:
  "create a b c d e = Inr sp \<longleftrightarrow>
    {a, b, c, d, e} \<subseteq> {4, 8} \<and>
    int (fmt_size (id_format (field_id_struct sp))) = a \<and>
    int (fmt_size (id_format (method_id_struct sp))) = b \<and>
    int (fmt_size (id_format (object_id_struct sp))) = c \<and>
    int (fmt_size (id_format (reference_type_id_struct sp))) = d \<and>
    int (fmt_size (id_format (frame_id_struct sp))) = e"
proof -
  have size: "get_struct_for_size n = Inr x \<longleftrightarrow> n \<in> {4, 8} \<and> int (fmt_size (id_format x)) = n" for n x
    by (cases x) (auto simp: get_struct_for_size_eq_Inr)
  show ?thesis
    by (cases sp) (auto simp: create_def size IdSizesSpec.make_def)
qed

section \<open>Packets on a stream\<close>

text \<open>C7: reading a packet off a stream and serializing it are inverse to each other. Exactly the bytes
  of a well-formed packet are taken off the stream, whichever packet it is.\<close>

theorem packet_read_iff_written:
  "deserialize_packet s = Inr (p, rest) \<longleftrightarrow>
    (\<exists>bs. packet_ok p \<and> packet_to_bytes p = Inr bs \<and> s = bs @ rest)"
  using packets.dec_enc packets.dec_sound by blast

text \<open>C8: packets written one after the other are read in the same order, up to the exception the rest
  of the stream raises.\<close>

theorem packet_stream_roundtrip:
  assumes "list_all2 (\<lambda>p bs. packet_ok p \<and> packet_to_bytes p = Inr bs) ps bss"
    and "deserialize_packet rest = Inl e"
  shows "packets.dec_all (concat bss @ rest) = (ps, e)"
  using assms by (rule packets.dec_all_enc)

lemma packet_stream_roundtrip_witness:
  "packets.dec_all ([0, 0, 0, 11, 0, 0, 0, 1, 0, 1, 7] @ [0, 0, 0, 12, 0, 0, 0, 1, 128, 0, 35, 9] @ [0, 0]) =
    ([CommandPacket (JdwpCommandPacket.make 1 0 [] 1 7),
      ReplyPacket (JdwpReplyPacket.make 1 128 [9] (Known ERR_INVALID_SLOT))], IncompleteReadError)"
  using packet_stream_roundtrip [of
      "[CommandPacket (JdwpCommandPacket.make 1 0 [] 1 7),
        ReplyPacket (JdwpReplyPacket.make 1 128 [9] (Known ERR_INVALID_SLOT))]"
      "[[0, 0, 0, 11, 0, 0, 0, 1, 0, 1, 7], [0, 0, 0, 12, 0, 0, 0, 1, 128, 0, 35, 9]]" "[0, 0]"
      IncompleteReadError]
  by (simp add: packet_ok_def is_reply_def JdwpCommandPacket.make_def JdwpReplyPacket.make_def
      packet_length_def header_structs pack_def be_bytes_numeral
      error_field_of_known [of ERR_INVALID_SLOT, simplified] deserialize_packet_def readexactly_def)

text \<open>C9: reading fails in three cases only: the stream ends inside the header or inside the payload,
  or the announced length is below the header's. The flags never fail the check of the packet's
  constructor, and every command set, command and error code is accepted.\<close>

theorem packet_read_error_iff:
  "deserialize_packet s = Inl e \<longleftrightarrow>
    (length s < 11 \<and> e = IncompleteReadError) \<or>
    (11 \<le> length s \<and> be_uint (take 4 s) < 11 \<and> e = ValueError) \<or>
    (11 \<le> length s \<and> 11 \<le> be_uint (take 4 s) \<and> int (length s) < be_uint (take 4 s) \<and>
      e = IncompleteReadError)"
  by (rule deserialize_packet_error_iff)

text \<open>The bytes of a packet are as many as its header announces, eleven more than its payload.\<close>

lemma packet_length_announced:
  assumes "packet_to_bytes p = Inr bs"
  shows "int (length bs) = 11 + int (length (packet_data p)) \<and> be_uint (take 4 bs) = int (length bs)"
proof -
  have "int (length bs) = packet_length p" using assms by (rule packet_to_bytes_length)
  moreover have "be_uint (take 4 bs) = packet_length p" using assms by (rule packet_to_bytes_header)
  ultimately show ?thesis by (simp add: packet_length_def)
qed

text \<open>The handshake succeeds exactly when the peer answers with the same fourteen bytes.\<close>

lemma handshake_iff:
  "establish_jdwp_connection s = Inr (out, rest) \<longleftrightarrow> s = HANDSHAKE @ rest \<and> out = HANDSHAKE"
  by (rule establish_jdwp_connection_eq_Inr)

section \<open>Concrete states of a connection\<close>

text \<open>
  A \<open>Dispose\<close> command sent on a new connection, the background task after its first turn, and
  the reply to the command: the states in which the properties below are instantiated.
\<close>

definition dispose :: JdwpCommand where
  "dispose = vm_command_obj (DisposeCommand_obj DisposeCommand)"

definition sent_state :: connection where
  "sent_state = connection_init
     \<lparr>packets := \<lparr>conn = \<lparr>state = ConnectionState_init, pending_replies = [(1, 0)], futures = [Pending],
        written = [0, 0, 0, 11, 0, 0, 0, 1, 0, 1, 6]\<rparr>, calls = [(1, 0)], reading = False\<rparr>,
      next_packet_id := 2, requests := [(0, dispose)], read_task := Created\<rparr>"

definition dispose_reply :: JdwpReplyPacket where
  "dispose_reply = JdwpReplyPacket.make 1 128 [] (Known ERR_NONE)"

definition answered_state :: "JdwpReplyPacket \<Rightarrow> connection" where
  "answered_state r = sent_state
     \<lparr>packets := \<lparr>conn = \<lparr>state = ConnectionState_init, pending_replies = [], futures = [Finished r],
        written = [0, 0, 0, 11, 0, 0, 0, 1, 0, 1, 6]\<rparr>, calls = [(1, 0)], reading = True\<rparr>,
      read_task := Running\<rparr>"

definition replied_state :: connection where
  "replied_state = answered_state dispose_reply"

lemma dispose_class:
  "command_class_of dispose = vm_command_cls DisposeCommand_cls"
  "get_response_class (vm_command_cls DisposeCommand_cls) = Some (vm_response_cls DisposeResponse_cls)"
proof -
  have "(Some (vm_response_cls DisposeResponse_cls), vm_command_cls DisposeCommand_cls) \<in> set registrations"
    by (simp add: registrations_def vm_registrations_def)
  then show "get_response_class (vm_command_cls DisposeCommand_cls) = Some (vm_response_cls DisposeResponse_cls)"
    by (rule get_response_class_registered)
qed (simp add: dispose_def)

lemma dispose_packet:
  "command_packet i dispose sp = Inr (JdwpCommandPacket.make i 0 [] 1 6)"
  by (simp add: command_packet_def dispose_def write_eval DisposeCommand_serialize_def
      new_command_packet_def is_reply_def post_init_def DisposeCommand_class_def
      command_class.make_def JdwpCommandPacket.make_def)

lemma send_dispose: "loop_send_command dispose connection_init = (Send_Waits 0, sent_state)"
  by (simp add: loop_send_command_def send_command_def allocate_packet_id_def dispose_packet
      dispose_class start_def connection_init_def packet_system_init_def packet_connection_init_def
      check_def ConnectionState_init_def send_begin_def packet_length_def JdwpCommandPacket.make_def
      header_structs pack_def be_bytes_numeral sent_state_def)

lemma run_sent: "run connection_step connection_init [Send_Command dispose (Send_Waits 0)] sent_state"
  by (simp add: connection_step.send_command send_dispose)

lemma sent_turn: "loop_turn sent_state = sent_state\<lparr>packets := (packets sent_state)\<lparr>reading := True\<rparr>, read_task := Running\<rparr>"
  by (simp add: loop_turn_def sent_state_def check_def ConnectionState_init_def)

lemma sent_reply:
  assumes "JdwpReplyPacket.id' r = 1"
  shows "with_conn (\<lambda>c. snd (receive_packet (ReplyPacket r) c)) (loop_turn sent_state) = answered_state r"
  unfolding sent_turn using assms
  by (simp add: answered_state_def with_conn_def sent_state_def connection_init_def pop_pending_def
      resolve_def Let_def)

lemma run_turned: "run connection_step connection_init
    [Send_Command dispose (Send_Waits 0), Loop_Starts] (loop_turn sent_state)"
  using run_snoc [OF run_sent connection_step.loop_starts] by (simp add: sent_state_def)

lemma run_answered:
  assumes "JdwpReplyPacket.id' r = 1"
  shows "run connection_step connection_init
    [Send_Command dispose (Send_Waits 0), Loop_Starts, Loop_Reply r] (answered_state r)"
  using run_snoc [OF run_turned connection_step.loop_reply [of _ r]]
  unfolding sent_reply [OF assms] by (simp add: sent_turn)

lemma dispose_reply_id: "JdwpReplyPacket.id' dispose_reply = 1"
  by (simp add: dispose_reply_def JdwpReplyPacket.make_def)

lemma run_replied: "run connection_step connection_init
    [Send_Command dispose (Send_Waits 0), Loop_Starts, Loop_Reply dispose_reply] replied_state"
  unfolding replied_state_def by (rule run_answered [OF dispose_reply_id])

section \<open>Requests and replies\<close>

text \<open>C10: the bytes a sent command adds to the transport are one packet with a fresh id, whatever
  follows it on the stream; and the peer that reads it off the stream and looks it up gets the same
  command, with the same types of values, exactly when every value in the command belongs to its tag and floats are
  representable, and a \<open>SetValues\<close> of an array has integers only (\<open>command_ok\<close>).\<close>

theorem sent_command_arrives:
  assumes "send_command cmd s = (Send_Waits a, s')"
  shows "\<exists>bs p. written (conn (packets s')) = written (conn (packets s)) @ bs \<and>
    (\<forall>rest. deserialize_packet (bs @ rest) = Inr (CommandPacket p, rest)) \<and>
    JdwpCommandPacket.id' p = next_packet_id s \<and>
    (parse_command p (connection.spec s) = Inr cmd \<longleftrightarrow> command_ok cmd)"
  using assms by (rule send_command_on_wire)

lemma sent_command_arrives_witness:
  "\<exists>bs p. written (conn (packets sent_state)) = written (conn (packets connection_init)) @ bs \<and>
    (\<forall>rest. deserialize_packet (bs @ rest) = Inr (CommandPacket p, rest)) \<and>
    JdwpCommandPacket.id' p = next_packet_id (start connection_init) \<and>
    parse_command p (connection.spec (start connection_init)) = Inr dispose"
proof -
  have "send_command dispose (start connection_init) = (Send_Waits 0, sent_state)"
    using send_dispose
    by (simp add: loop_send_command_def connection_init_def check_def ConnectionState_init_def start_def)
  moreover have "command_ok dispose" by (simp add: dispose_def)
  ultimately show ?thesis using sent_command_arrives [of dispose "start connection_init" 0 sent_state] by simp
qed

text \<open>C11: in every run, with any interleaving of calls and replies, a call of \<open>send_command\<close> only
  returns a response that came in the reply with the id of its own request, whose error code is
  \<open>NONE\<close>, and the response has the class registered for the command.\<close>

theorem response_is_for_own_request:
  assumes "run connection_step connection_init acts s"
    and "connection_step s (Command_Returns i a cmd (Inr resp)) s'"
  shows "\<exists>reply. futures (conn (packets s)) ! a = Finished reply \<and> JdwpReplyPacket.id' reply = i \<and>
    error_field_value (error_code reply) = 0 \<and>
    get_response_class (command_class_of cmd) = Some (response_class_of resp)"
proof -
  obtain reply where r: "futures (conn (packets s)) ! a = Finished reply"
      "(i, a) \<in> set (calls (packets s))" "error_field_value (error_code reply) = 0"
      "get_response_class (command_class_of cmd) = Some (response_class_of resp)"
    using end_of_call [OF assms(2)] by metis
  moreover have "packet_inv (packets s)" using reachable_inv [OF assms(1)] by (simp add: conn_inv_def)
  ultimately show ?thesis using packet_invD(7) by blast
qed

lemma response_is_for_own_request_witness:
  "\<exists>reply. futures (conn (packets replied_state)) ! 0 = Finished reply \<and> JdwpReplyPacket.id' reply = 1 \<and>
    error_field_value (error_code reply) = 0 \<and>
    get_response_class (command_class_of dispose) =
      Some (response_class_of (vm_response_obj (DisposeResponse_obj DisposeResponse)))"
proof -
  obtain s' where "resume_call dispose (Inr dispose_reply) (end_call 1 0 replied_state) =
      (Inr (vm_response_obj (DisposeResponse_obj DisposeResponse)), s')"
    by (simp add: resume_call_def dispose_class handle_reply_def dispose_reply_def JdwpReplyPacket.make_def
        from_bytes_def of_class_def DisposeResponse_deserialize_def rbind_def rreturn_def update_spec_def)
  then have "connection_step replied_state (Command_Returns 1 0 dispose
      (Inr (vm_response_obj (DisposeResponse_obj DisposeResponse)))) s'"
    by (intro connection_step.command_returns) (simp_all add: replied_state_def answered_state_def sent_state_def)
  with run_replied show ?thesis by (rule response_is_for_own_request)
qed

text \<open>C12: no call waits for ever on a connection that is closed or whose receiver has failed: in every
  reachable state in which the packet connection is not open, the future of every call has an
  outcome.\<close>

theorem closed_connection_resolves_calls:
  assumes "run connection_step connection_init acts s" and "\<not> open_state (state (conn (packets s)))"
    and "(i, a) \<in> set (calls (packets s))"
  shows "\<exists>r. await_result (futures (conn (packets s)) ! a) = Some r"
  using reachable_inv [OF assms(1)] assms(2,3) by (auto simp: conn_inv_def intro: inv_not_stuck)

lemma closed_connection_resolves_calls_witness:
  "\<exists>r. await_result (futures (conn (packets (loop_raises IncompleteReadError (loop_turn sent_state)))) ! 0) =
    Some r"
proof (rule closed_connection_resolves_calls)
  have "connection_step (loop_turn sent_state) (Loop_Raises IncompleteReadError)
      (loop_raises IncompleteReadError (loop_turn sent_state))"
    by (rule connection_step.loop_raises) (simp add: sent_turn)
  from run_snoc [OF run_turned this]
  show "run connection_step connection_init ([Send_Command dispose (Send_Waits 0), Loop_Starts] @
      [Loop_Raises IncompleteReadError]) (loop_raises IncompleteReadError (loop_turn sent_state))" .
  show "\<not> open_state (state (conn (packets (loop_raises IncompleteReadError (loop_turn sent_state)))))"
    by (simp add: loop_raises_def with_conn_def sent_turn receive_failed_def clear_pending_replies_def
        Let_def)
  show "(1, 0) \<in> set (calls (packets (loop_raises IncompleteReadError (loop_turn sent_state))))"
    unfolding loop_raises_def sent_turn by (simp add: sent_state_def)
qed

text \<open>C13: while a call waits, the first reply with its packet id resolves its future, and no other
  call's.\<close>

theorem reply_resolves_its_call:
  assumes "run connection_step connection_init acts s" and "(i, a) \<in> set (calls (packets s))"
    and "futures (conn (packets s)) ! a = Pending" and "JdwpReplyPacket.id' r = i"
    and "connection_step s (Loop_Reply r) s'" and "(j, b) \<in> set (calls (packets s))"
  shows "futures (conn (packets s')) ! b =
    (if b = a then Finished r else futures (conn (packets s)) ! b)"
proof -
  have inv: "packet_inv (packets s)" using reachable_inv [OF assms(1)] by (simp add: conn_inv_def)
  have "conn (packets s') = snd (receive_packet (ReplyPacket r) (conn (packets s)))"
    using assms(5) by cases simp
  with inv_reply_others [OF inv assms(2-4,6)] show ?thesis by simp
qed

lemma reply_resolves_its_call_witness:
  "futures (conn (packets replied_state)) ! 0 =
    (if (0 :: nat) = 0 then Finished dispose_reply else futures (conn (packets (loop_turn sent_state))) ! 0)"
proof (rule reply_resolves_its_call [OF run_turned, where i = 1 and j = 1])
  show "connection_step (loop_turn sent_state) (Loop_Reply dispose_reply) replied_state"
    unfolding replied_state_def sent_reply [OF dispose_reply_id, symmetric]
    by (rule connection_step.loop_reply) (simp add: sent_turn)
  show "(1, 0) \<in> set (calls (packets (loop_turn sent_state)))"
    "(1, 0) \<in> set (calls (packets (loop_turn sent_state)))"
    "futures (conn (packets (loop_turn sent_state))) ! 0 = Pending"
    unfolding sent_turn by (simp_all add: sent_state_def)
qed (simp add: dispose_reply_def JdwpReplyPacket.make_def)

text \<open>C14: every run of the connection is, seen at its packet connection, a run of \<open>JdwpPacketConnection\<close>
  in which no packet id is reused while a call with it is in flight.\<close>

theorem connection_refines_packet_connection:
  assumes "run connection_step connection_init acts s"
  shows "\<exists>acts'. run fresh_step packet_system_init acts' (packets s)"
  using connection_run_refines [OF assms conn_inv_init] by (simp add: connection_init_def)

lemma connection_refines_packet_connection_witness:
  "\<exists>acts'. run fresh_step packet_system_init acts' (packets replied_state)"
  using run_replied by (rule connection_refines_packet_connection)

text \<open>A future is resolved once. Whatever happens later, its outcome does not change.\<close>

lemma outcome_is_final:
  assumes "run connection_step connection_init acts s" and "run connection_step s acts' s'"
    and "a < length (futures (conn (packets s)))" and "futures (conn (packets s)) ! a \<noteq> Pending"
  shows "futures (conn (packets s')) ! a = futures (conn (packets s)) ! a"
  using connection_run_refines [OF assms(2) reachable_inv [OF assms(1)]] resolved_stays_run assms(3,4)
  by blast

text \<open>A reply completes its call. When the reply with the id of a waiting call arrives, the call
  can return, with exactly what \<open>handle_reply\<close> makes of that reply: the decoded response, the
  \<open>JdwpException\<close> of its error code, or the exception of the decoder; the connection has the spec
  \<open>handle_reply\<close> gives.\<close>

lemma reply_completes_its_call:
  assumes "run connection_step connection_init acts s" and "(i, a) \<in> set (calls (packets s))"
    and "(a, cmd) \<in> set (requests s)" and "futures (conn (packets s)) ! a = Pending"
    and "read_task s = Running" and "JdwpReplyPacket.id' r = i"
    and "get_response_class (command_class_of cmd) = Some cls"
    and "handle_reply cmd cls r (connection.spec s) = (out, w, sp)"
  shows "\<exists>s' s''. connection_step s (Loop_Reply r) s' \<and>
    connection_step s' (Command_Returns i a cmd out) s'' \<and> connection.spec s'' = sp"
  using reply_completes [OF reachable_inv [OF assms(1)] assms(2-8)] .

text \<open>C15: a call raises a \<open>JdwpException\<close> only for an error code in the reply to its own request: the
  exception carries that code, which is not \<open>NONE\<close>, the member of \<open>JdwpErrorCode\<close> it has, if any, and
  the command that was sent; the spec stays as it was.\<close>

theorem exception_is_for_own_request:
  assumes "run connection_step connection_init acts s"
    and "connection_step s (Command_Returns i a cmd (Inl (JdwpException err code c))) s'"
  shows "\<exists>reply. futures (conn (packets s)) ! a = Finished reply \<and> JdwpReplyPacket.id' reply = i \<and>
    error_field_value (error_code reply) = code \<and> code \<noteq> 0 \<and> err = from_int code \<and> c = cmd \<and>
    connection.spec s' = connection.spec s"
proof -
  have inv: "packet_inv (packets s)" using reachable_inv [OF assms(1)] by (simp add: conn_inv_def)
  from assms(2) show ?thesis
  proof cases
    case (command_returns res)
    then obtain reply cls w sp where r: "res = Inr reply" "connection.spec s' = sp"
      and h: "handle_reply cmd cls reply (connection.spec s) = (Inl (JdwpException err code c), w, sp)"
      by (auto simp: resume_call_def end_call_def split: sum.splits option.splits prod.splits)
    have "futures (conn (packets s)) ! a = Finished reply"
      using command_returns(2) r by (cases "futures (conn (packets s)) ! a") auto
    with inv command_returns(1) have "JdwpReplyPacket.id' reply = i" using packet_invD(7) by blast
    moreover have "error_field_value (error_code reply) \<noteq> 0"
      using h by (auto simp: handle_reply_def split: if_splits sum.splits)
    ultimately show ?thesis
      using h r(2) \<open>futures _ ! a = _\<close> by (auto simp: handle_reply_error)
  qed
qed

lemma exception_is_for_own_request_witness:
  "\<exists>reply. futures (conn (packets (answered_state (JdwpReplyPacket.make 1 128 [7] (Raw 9999))))) ! 0 = Finished reply \<and>
    JdwpReplyPacket.id' reply = 1 \<and> error_field_value (error_code reply) = 9999 \<and> (9999 :: int) \<noteq> 0 \<and>
    from_int 9999 = from_int 9999 \<and> dispose = dispose \<and>
    connection.spec (end_call 1 0 (answered_state (JdwpReplyPacket.make 1 128 [7] (Raw 9999)))) =
      connection.spec (answered_state (JdwpReplyPacket.make 1 128 [7] (Raw 9999)))"
proof (rule exception_is_for_own_request)
  let ?r = "JdwpReplyPacket.make 1 128 [7] (Raw 9999)"
  show "run connection_step connection_init
      [Send_Command dispose (Send_Waits 0), Loop_Starts, Loop_Reply ?r] (answered_state ?r)"
    by (rule run_answered) (simp add: JdwpReplyPacket.make_def)
  have "resume_call dispose (Inr ?r) (end_call 1 0 (answered_state ?r)) =
      (Inl (JdwpException (from_int 9999) 9999 dispose), end_call 1 0 (answered_state ?r))"
    by (simp add: resume_call_def dispose_class handle_reply_def JdwpReplyPacket.make_def)
  then show "connection_step (answered_state ?r) (Command_Returns 1 0 dispose
      (Inl (JdwpException (from_int 9999) 9999 dispose))) (end_call 1 0 (answered_state ?r))"
    by (intro connection_step.command_returns [of _ _ _ "Inr ?r"])
      (simp_all add: answered_state_def sent_state_def)
qed

text \<open>C16: the sizes of the identifiers change in one way only: a call returns the response to \<open>IDSizes\<close>,
  and the new spec is the one of that response.\<close>

theorem spec_changes_by_id_sizes_only:
  assumes "connection_step s act s'" and "connection.spec s' \<noteq> connection.spec s"
  shows "\<exists>i a cmd resp. act = Command_Returns i a cmd (Inr (vm_response_obj (IDSizesResponse_obj resp))) \<and>
    from_response resp = Inr (connection.spec s') \<and>
    get_response_class (command_class_of cmd) = Some (vm_response_cls IDSizesResponse_cls)"
  using assms by (rule spec_step)

lemma spec_changes_by_id_sizes_only_witness:
  "\<exists>i a cmd resp. Command_Returns 1 0 (vm_command_obj (IDSizesCommand_obj IDSizesCommand))
      (Inr (vm_response_obj (IDSizesResponse_obj (IDSizesResponse.make 4 4 4 4 4)))) =
      Command_Returns i a cmd (Inr (vm_response_obj (IDSizesResponse_obj resp))) \<and>
    from_response resp = Inr (IdSizesSpec.make STRUCT_32 STRUCT_32 STRUCT_32 STRUCT_32 STRUCT_32) \<and>
    get_response_class (command_class_of cmd) = Some (vm_response_cls IDSizesResponse_cls)"
proof -
  let ?cmd = "vm_command_obj (IDSizesCommand_obj IDSizesCommand)"
  let ?resp = "vm_response_obj (IDSizesResponse_obj (IDSizesResponse.make 4 4 4 4 4))"
  let ?sp = "IdSizesSpec.make STRUCT_32 STRUCT_32 STRUCT_32 STRUCT_32 STRUCT_32"
  let ?reply = "JdwpReplyPacket.make 1 128 [0, 0, 0, 4, 0, 0, 0, 4, 0, 0, 0, 4, 0, 0, 0, 4, 0, 0, 0, 4] (Known ERR_NONE)"
  let ?s = "sent_state\<lparr>packets := \<lparr>conn = \<lparr>state = ConnectionState_init, pending_replies = [],
    futures = [Finished ?reply], written = []\<rparr>, calls = [(1, 0)], reading = False\<rparr>, requests := [(0, ?cmd)]\<rparr>"
  have cls: "get_response_class (vm_command_cls IDSizesCommand_cls) = Some (vm_response_cls IDSizesResponse_cls)"
    by (rule get_response_class_registered) (simp add: registrations_def vm_registrations_def)
  have "to_bytes response_serialize ?resp default_spec =
      Inr [0, 0, 0, 4, 0, 0, 0, 4, 0, 0, 0, 4, 0, 0, 0, 4, 0, 0, 0, 4]"
    by (simp add: write_eval IDSizesResponse_serialize_def IDSizesResponse.make_def)
  moreover have up: "update_spec ?resp default_spec = Inr ?sp"
    by (simp add: update_spec_def from_response_def create_def get_struct_for_size_def IDSizesResponse.make_def)
  ultimately have "handle_reply ?cmd (vm_response_cls IDSizesResponse_cls) ?reply default_spec =
      (Inr ?resp, False, ?sp)"
    using handle_reply_response [of ?reply ?resp default_spec _ "[]" ?sp ?cmd]
    by (simp add: JdwpReplyPacket.make_def)
  then have "resume_call ?cmd (Inr ?reply) (end_call 1 0 ?s) = (Inr ?resp, (end_call 1 0 ?s)\<lparr>connection.spec := ?sp\<rparr>)"
    by (simp add: resume_call_def cls end_call_def sent_state_def connection_init_def)
  then have "connection_step ?s (Command_Returns 1 0 ?cmd (Inr ?resp)) ((end_call 1 0 ?s)\<lparr>connection.spec := ?sp\<rparr>)"
    by (intro connection_step.command_returns [of _ _ _ "Inr ?reply"]) (simp_all add: sent_state_def)
  from spec_changes_by_id_sizes_only [OF this] show ?thesis
    by (simp add: sent_state_def connection_init_def default_spec_def IdSizesSpec.make_def)
qed

text \<open>C17: commands of the VM come out of \<open>receive_command\<close> in the order the loop parsed them, each once:
  in every run, those delivered and those queued are together those parsed.\<close>

theorem commands_in_order:
  assumes "run connection_step connection_init acts s"
  shows "concat (map parsed acts) = concat (map delivered acts) @ incoming_commands s"
  using queue_run [OF assms] by (simp add: connection_init_def)

lemma commands_in_order_witness:
  "concat (map parsed [Send_Command dispose (Send_Waits 0), Loop_Starts]) =
    concat (map delivered [Send_Command dispose (Send_Waits 0), Loop_Starts]) @
      incoming_commands (loop_turn sent_state)"
  using run_turned by (rule commands_in_order)

text \<open>C18: when the background task has ended on a connection nobody closed, \<open>receive_command\<close> does not
  wait: queued commands are still delivered, and then a \<open>RuntimeError\<close> is raised, which ends an
  \<^verbatim>\<open>async for\<close> over the connection.\<close>

theorem receive_command_after_end:
  assumes "run connection_step connection_init acts s" and "read_task s = Ended"
    and "\<not> is_closed (loop_state s)"
  shows "fst (receive_command s) =
    Some (case incoming_commands s of cmd # _ \<Rightarrow> Inr cmd | [] \<Rightarrow> Inl RuntimeError) \<and>
    fst (anext s) = Some (Inr (case incoming_commands s of cmd # _ \<Rightarrow> Some cmd | [] \<Rightarrow> None))"
proof -
  have "ended_inv connection_init" by (simp add: ended_inv_def connection_init_def)
  with assms have "queue_shutdown s" using ended.run_inv [OF assms(1)] by (simp add: ended_inv_def)
  then show ?thesis
    by (auto simp: anext_def receive_command_def start_def Let_def check_def split: list.split)
qed

lemma receive_command_after_end_witness:
  "fst (receive_command (loop_raises IncompleteReadError (loop_turn sent_state))) =
    Some (case incoming_commands (loop_raises IncompleteReadError (loop_turn sent_state)) of
      cmd # _ \<Rightarrow> Inr cmd | [] \<Rightarrow> Inl RuntimeError) \<and>
    fst (anext (loop_raises IncompleteReadError (loop_turn sent_state))) =
    Some (Inr (case incoming_commands (loop_raises IncompleteReadError (loop_turn sent_state)) of
      cmd # _ \<Rightarrow> Some cmd | [] \<Rightarrow> None))"
proof (rule receive_command_after_end)
  have "connection_step (loop_turn sent_state) (Loop_Raises IncompleteReadError)
      (loop_raises IncompleteReadError (loop_turn sent_state))"
    by (rule connection_step.loop_raises) (simp add: sent_turn)
  from run_snoc [OF run_turned this]
  show "run connection_step connection_init ([Send_Command dispose (Send_Waits 0), Loop_Starts] @
      [Loop_Raises IncompleteReadError]) (loop_raises IncompleteReadError (loop_turn sent_state))" .
  show "\<not> is_closed (loop_state (loop_raises IncompleteReadError (loop_turn sent_state)))"
    unfolding sent_turn
    by (simp add: loop_raises_def loop_ends_def mark_error_def sent_state_def connection_init_def
        ConnectionState_init_def)
qed (simp add: loop_raises_def)

text \<open>On a packet connection that is closed or has failed, a command that has a response is refused:
  an exception is raised, nothing is written and no call waits.\<close>

lemma closed_connection_refuses_sends:
  assumes "\<not> open_state (state (conn (packets s)))" and "get_response_class (command_class_of cmd) \<noteq> None"
    and "loop_send_command cmd s = (out, s')"
  shows "(\<exists>e. out = Send_Raised e) \<and> packets s' = packets s \<and> requests s' = requests s"
  using assms
  by (auto simp: loop_send_command_def send_command_def allocate_packet_id_def Let_def with_conn_def
      send_begin_closed split: sum.splits prod.splits)

text \<open>C19: a command of the VM that cannot be parsed ends the background task but leaves the packet
  connection open: whatever happens then, short of closing the connection or giving up the call, a
  call that was waiting goes on waiting.\<close>

theorem unparsed_command_strands_calls:
  assumes "run connection_step connection_init acts s" and "parse_command p (connection.spec s) = Inl e"
    and "(i, a) \<in> set (calls (packets s))" and "futures (conn (packets s)) ! a = Pending"
    and "connection_step s (Loop_Command p (Inl e)) s'"
    and "run connection_step s' acts' s''" and "\<forall>act \<in> set acts'. \<not> gives_up a act"
  shows "(i, a) \<in> set (calls (packets s'')) \<and> futures (conn (packets s'')) ! a = Pending"
proof -
  have "read_task s = Running" and s': "s' = loop_command p s" using assms(5) by (auto elim: connection_step.cases)
  with unknown_command_strands [OF reachable_inv [OF assms(1)] _ assms(2-4)] have "stranded i a s'" by simp
  from stranded_run [OF assms(6) this assms(7)] show ?thesis by (simp add: stranded_def)
qed

lemma unparsed_command_strands_calls_witness:
  "(1, 0) \<in> set (calls (packets (loop_command (JdwpCommandPacket.make 9 0 [] 64 100) (loop_turn sent_state)))) \<and>
   futures (conn (packets (loop_command (JdwpCommandPacket.make 9 0 [] 64 100) (loop_turn sent_state)))) ! 0 = Pending"
proof (rule unparsed_command_strands_calls [OF run_turned])
  have "get_command_class 64 100 = Some (event_command_cls CompositeCommand_cls)"
    using get_command_class_of [of "event_command_cls CompositeCommand_cls"]
    by (simp add: CompositeCommand_class_def command_class.make_def)
  then show e: "parse_command (JdwpCommandPacket.make 9 0 [] 64 100) (connection.spec (loop_turn sent_state)) =
      Inl IndexError"
    by (simp add: parse_command_def JdwpCommandPacket.make_def CompositeCommand_deserialize_def
        from_bytes_def of_class_def rbind_def read_enum_def rlift_def read_byte_def reader_init_def
        py_index_def)
  show "connection_step (loop_turn sent_state) (Loop_Command (JdwpCommandPacket.make 9 0 [] 64 100) (Inl IndexError))
      (loop_command (JdwpCommandPacket.make 9 0 [] 64 100) (loop_turn sent_state))"
    using e by (intro connection_step.loop_command) (simp_all add: sent_turn)
  show "(1, 0) \<in> set (calls (packets (loop_turn sent_state)))"
    "futures (conn (packets (loop_turn sent_state))) ! 0 = Pending"
    unfolding sent_turn by (simp_all add: sent_state_def)
  show "run connection_step (loop_command (JdwpCommandPacket.make 9 0 [] 64 100) (loop_turn sent_state)) []
      (loop_command (JdwpCommandPacket.make 9 0 [] 64 100) (loop_turn sent_state))" by (rule run.Nil)
qed simp

text \<open>C20: a connection that is closed after its background task was created and before the task has had
  its first turn never shuts its queue down: afterwards the task has ended, and \<open>receive_command\<close>
  waits for ever, whatever else happens.\<close>

theorem closed_before_first_turn_is_deaf:
  assumes "run connection_step connection_init acts s" and "read_task s = Created"
    and "connection_step s Close_Begin s'" and "run connection_step s' acts' t"
  shows "read_task t = Ended \<and> \<not> queue_shutdown t \<and> fst (receive_command t) = None"
proof -
  have "unused_inv s" using unused.run_inv [OF assms(1)] by (simp add: unused_inv_def connection_init_def)
  from close_before_turn_deafens [OF assms(3) this assms(2)] have "deaf t" by (rule deaf.run_inv [OF assms(4)])
  with deaf_waits show ?thesis by (auto simp: deaf_def)
qed

lemma closed_before_first_turn_is_deaf_witness:
  "read_task (close_begin sent_state) = Ended \<and> \<not> queue_shutdown (close_begin sent_state) \<and>
    fst (receive_command (close_begin sent_state)) = None"
proof (rule closed_before_first_turn_is_deaf [OF _ _ _ run.Nil])
  have "connection_step connection_init (Send_Command dispose (Send_Waits 0)) sent_state"
    by (rule connection_step.send_command [OF send_dispose])
  then show "run connection_step connection_init [Send_Command dispose (Send_Waits 0)] sent_state" by simp
  show "connection_step sent_state Close_Begin (close_begin sent_state)" by (rule connection_step.close_begin)
qed (simp add: sent_state_def)

text \<open>C21: a packet id must not be reused before its caller has resumed. If a command is sent with the id of
  a call that has not returned yet, and the first call returns while the second still waits, then no reply resolves the second call any more, nothing that happens gives it an outcome, and it never
  returns, unless its caller gives up: the first call's \<open>finally\<close> has removed its registration.\<close>

theorem reused_id_loses_reply:
  assumes "run packet_step packet_system_init acts s" and "packet_step s (packet_action.Send p) s1"
    and "run packet_step s1 mid s2" and "futures (conn s2) ! length (futures (conn s)) = Pending"
    and "packet_step s2 (Call_Returns (JdwpCommandPacket.id' p) a res) s3" and "run packet_step s3 later t"
    and "\<forall>i. Call_Cancelled i (length (futures (conn s))) \<notin> set later"
  shows "futures (conn t) ! length (futures (conn s)) = Pending \<and>
    fst (receive_packet (ReplyPacket r) (conn t)) \<noteq> Resolved (length (futures (conn s))) \<and>
    \<not> (\<exists>i res' u. packet_step t (Call_Returns i (length (futures (conn s))) res') u)"
proof -
  let ?b = "length (futures (conn s))"
  have "addresses_inv s"
    using addresses.run_inv [OF assms(1)]
    by (simp add: addresses_inv_def packet_system_init_def packet_connection_init_def)
  with assms(2) have "registered_as (JdwpCommandPacket.id' p) ?b s1" by (rule send_registers)
  then have "registered_as (JdwpCommandPacket.id' p) ?b s2" by (rule registered.run_inv [OF assms(3)])
  from end_of_call_forgets [OF assms(5) this assms(4)] have "forgotten ?b s3" .
  from forgotten_run [OF assms(6) this assms(7)] have "forgotten ?b t" .
  with forgotten_unanswered [OF this] show ?thesis by (auto simp: forgotten_def)
qed

text \<open>A run in which the reply to the first call with the id 5 arrives and a second call with this id is
  made before the first one resumes.\<close>

definition reused_command :: JdwpCommandPacket where
  "reused_command = JdwpCommandPacket.make 5 0 [] 1 6"

definition reused_reply :: JdwpReplyPacket where
  "reused_reply = JdwpReplyPacket.make 5 128 [] (Known ERR_NONE)"

definition reused_bytes :: bytes where
  "reused_bytes = [0, 0, 0, 11, 0, 0, 0, 5, 0, 1, 6]"

definition reused_state :: "(int \<times> nat) list \<Rightarrow> future list \<Rightarrow> bytes \<Rightarrow> (int \<times> nat) list \<Rightarrow> bool \<Rightarrow> packet_system" where
  "reused_state ps fs ws cs rd = \<lparr>conn = \<lparr>state = ConnectionState_init, pending_replies = ps, futures = fs,
     written = ws\<rparr>, calls = cs, reading = rd\<rparr>"

lemma reused_send:
  assumes "5 \<notin> fst ` set ps"
  shows "packet_step (reused_state ps fs ws cs rd) (packet_action.Send reused_command)
    (reused_state (ps @ [(5, length fs)]) (fs @ [Pending]) (ws @ reused_bytes) ((5, length fs) # cs) rd)"
proof -
  have "send_begin reused_command (conn (reused_state ps fs ws cs rd)) =
      (Inr (length fs), conn (reused_state (ps @ [(5, length fs)]) (fs @ [Pending]) (ws @ reused_bytes) [] rd))"
    using assms by (simp add: reused_state_def reused_command_def reused_bytes_def send_begin_def Let_def
        JdwpCommandPacket.make_def packet_length_def header_structs pack_def be_bytes_numeral check_def
        ConnectionState_init_def update_new image_iff)
  from packet_step.send [OF this] show ?thesis
    by (simp add: reused_state_def reused_command_def JdwpCommandPacket.make_def)
qed

lemma reused_received:
  "packet_step (reused_state [(5, 0)] [Pending] ws cs True) (Receive_Reply reused_reply)
    (reused_state [] [Finished reused_reply] ws cs True)"
  using packet_step.receive_reply [of "reused_state [(5, 0)] [Pending] ws cs True" reused_reply "Resolved 0"
      "conn (reused_state [] [Finished reused_reply] ws cs True)"]
  by (simp add: reused_state_def reused_reply_def JdwpReplyPacket.make_def Let_def resolve_def check_def
      ConnectionState_init_def)

lemma reused_first_returns:
  "packet_step (reused_state [(5, 1)] [Finished reused_reply, Pending] ws [(5, 1), (5, 0)] rd)
    (Call_Returns 5 0 (Inr reused_reply)) (reused_state [] [Finished reused_reply, Pending] ws [(5, 1)] rd)"
  using packet_step.call_returns [of 5 0 "reused_state [(5, 1)] [Finished reused_reply, Pending] ws
      [(5, 1), (5, 0)] rd" "Inr reused_reply"]
  by (simp add: reused_state_def send_end_def pop_pending_def)

lemma reused_run:
  "run packet_step packet_system_init
    [packet_action.Send reused_command, Receive_Enter, Receive_Reply reused_reply]
    (reused_state [] [Finished reused_reply] reused_bytes [(5, 0)] True)"
proof -
  have 0: "packet_system_init = reused_state [] [] [] [] False"
    by (simp add: packet_system_init_def packet_connection_init_def reused_state_def)
  have 1: "packet_step (reused_state [] [] [] [] False) (packet_action.Send reused_command)
      (reused_state [(5, 0)] [Pending] reused_bytes [(5, 0)] False)"
    using reused_send [of "[]" "[]" "[]"] by simp
  have 2: "packet_step (reused_state [(5, 0)] [Pending] reused_bytes [(5, 0)] False) Receive_Enter
      (reused_state [(5, 0)] [Pending] reused_bytes [(5, 0)] True)"
    using packet_step.receive_enter [of "reused_state [(5, 0)] [Pending] reused_bytes [(5, 0)] False"]
    by (simp add: reused_state_def check_def ConnectionState_init_def)
  show ?thesis
    unfolding 0 by (rule run.Cons, rule 1, rule run.Cons, rule 2, rule run.Cons, rule reused_received, rule run.Nil)
qed

lemma reused_id_loses_reply_witness:
  "futures (conn (reused_state [] [Finished reused_reply, Pending] (reused_bytes @ reused_bytes) [(5, 1)] True)) ! 1 =
      Pending \<and>
    fst (receive_packet (ReplyPacket reused_reply)
      (conn (reused_state [] [Finished reused_reply, Pending] (reused_bytes @ reused_bytes) [(5, 1)] True))) \<noteq>
      Resolved 1"
proof -
  have "packet_step (reused_state [] [Finished reused_reply] reused_bytes [(5, 0)] True)
      (packet_action.Send reused_command) (reused_state [(5, 1)] [Finished reused_reply, Pending]
        (reused_bytes @ reused_bytes) [(5, 1), (5, 0)] True)"
    using reused_send [of "[]" "[Finished reused_reply]"] by simp
  from reused_id_loses_reply [OF reused_run this run.Nil _ _ run.Nil, of 0 "Inr reused_reply" _ reused_reply]
  show ?thesis
    using reused_first_returns [of "reused_bytes @ reused_bytes" True]
    by (simp add: reused_state_def reused_command_def JdwpCommandPacket.make_def)
qed

section \<open>The specification of the packet connection\<close>

lemma dispose_packet_run:
  "run fresh_step packet_system_init
    [packet_action.Send (JdwpCommandPacket.make 1 0 [] 1 6), Receive_Enter, Receive_Reply dispose_reply]
    (packets replied_state)"
proof -
  let ?p = "JdwpCommandPacket.make 1 0 [] 1 6"
  let ?c = "conn (packets sent_state)"
  have "send_begin ?p packet_connection_init = (Inr 0, ?c)"
    by (simp add: send_begin_def packet_connection_init_def Let_def JdwpCommandPacket.make_def
        packet_length_def header_structs pack_def be_bytes_numeral check_def ConnectionState_init_def sent_state_def)
  then have 1: "fresh_step packet_system_init (packet_action.Send ?p) (packets sent_state)"
    using packet_step.send [of ?p packet_system_init 0 ?c]
    by (simp add: fresh_step_def packet_system_init_def JdwpCommandPacket.make_def sent_state_def)
  have 2: "fresh_step (packets sent_state) Receive_Enter ((packets sent_state)\<lparr>reading := True\<rparr>)"
    using packet_step.receive_enter [of "packets sent_state"]
    by (simp add: fresh_step_def sent_state_def check_def ConnectionState_init_def)
  have "snd (receive_packet (ReplyPacket dispose_reply) ?c) = conn (packets replied_state)"
    using arg_cong [OF sent_reply [OF dispose_reply_id], of "\<lambda>s. conn (packets s)"]
    by (simp add: replied_state_def sent_turn del: receive_packet.simps)
  then obtain ev where "receive_packet (ReplyPacket dispose_reply) ?c = (ev, conn (packets replied_state))"
    by (metis prod.collapse)
  with packet_step.receive_reply [of "(packets sent_state)\<lparr>reading := True\<rparr>" dispose_reply ev]
  have 3: "fresh_step ((packets sent_state)\<lparr>reading := True\<rparr>) (Receive_Reply dispose_reply) (packets replied_state)"
    by (simp add: fresh_step_def replied_state_def answered_state_def sent_state_def)
  show ?thesis by ((rule run.Cons, rule 1 2 3)+, rule run.Nil)
qed

text \<open>C22: the packet connection meets its specification: seen without its dictionary and its future
  objects, every run in which no id is reused while a call with it is in flight is a run of the
  rendezvous of requests and replies. There a request adds its id to a table, a reply settles its
  entry only, a failure or closing settles all entries that wait, and a call takes its outcome away.\<close>

theorem packet_connection_meets_specification:
  assumes "run fresh_step packet_system_init acts s"
  shows "run rendezvous_step rendezvous_init (map abs_action acts) (abs_rendezvous s)"
  using rendezvous_simulates_run [OF assms packet_inv_init] by (simp add: abs_rendezvous_init)

lemma packet_connection_meets_specification_witness:
  "run rendezvous_step rendezvous_init
    (map abs_action [packet_action.Send (JdwpCommandPacket.make 1 0 [] 1 6), Receive_Enter, Receive_Reply dispose_reply])
    (abs_rendezvous (packets replied_state))"
  by (rule packet_connection_meets_specification [OF dispose_packet_run])

text \<open>C23: and it implements all of the specification: in a reachable state the specification allows a step,
  other than the refusal of a request, to some state exactly when the packet connection can make a
  step of that name that leads to a state with that abstraction.\<close>

theorem specification_is_implemented:
  assumes "run fresh_step packet_system_init acts s" and "\<not> refusal l"
  shows "rendezvous_step (abs_rendezvous s) l t \<longleftrightarrow>
    (\<exists>act s'. fresh_step s act s' \<and> abs_action act = l \<and> abs_rendezvous s' = t)"
proof -
  have "packet_inv s" using packet.run_inv [OF assms(1) packet_inv_init] .
  with rendezvous_simulates rendezvous_realised [OF _ this assms(2)] show ?thesis by blast
qed

lemma specification_is_implemented_witness:
  "rendezvous_step (abs_rendezvous (packets replied_state)) (Answered 1 (Inr dispose_reply))
      ((abs_rendezvous (packets replied_state))\<lparr>outcomes := (\<lambda>_. None)\<rparr>) \<longleftrightarrow>
    (\<exists>act s'. fresh_step (packets replied_state) act s' \<and> abs_action act = Answered 1 (Inr dispose_reply) \<and>
      abs_rendezvous s' = (abs_rendezvous (packets replied_state))\<lparr>outcomes := (\<lambda>_. None)\<rparr>)"
  by (rule specification_is_implemented [OF dispose_packet_run]) simp

section \<open>The proxy\<close>

text \<open>
  A session in which the debugger has asked for the sizes and the VM's reply is about to be read.
\<close>

definition id_sizes_reply :: "byte \<Rightarrow> JdwpReplyPacket" where
  "id_sizes_reply n = JdwpReplyPacket.make 1 128
     [0, 0, 0, n, 0, 0, 0, n, 0, 0, 0, n, 0, 0, 0, n, 0, 0, 0, n] (Known ERR_NONE)"

definition open_session :: JdwpProxySession where
  "open_session = session_init\<lparr>to_vm := HANDSHAKE, to_dbg := HANDSHAKE\<rparr>"

lemma create_open_session: "create_session HANDSHAKE HANDSHAKE = Inr (open_session, [], [])"
proof -
  have "establish_jdwp_connection (HANDSHAKE @ []) = Inr (HANDSHAKE, [])"
    unfolding establish_jdwp_connection_eq_Inr by simp
  moreover have "readexactly (int (length HANDSHAKE)) (HANDSHAKE @ []) = Inr (HANDSHAKE, [])"
    unfolding readexactly_eq_Inr by simp
  ultimately show ?thesis by (simp add: create_session_def open_session_def)
qed

definition asked_session :: JdwpProxySession where
  "asked_session = session_init\<lparr>idsizes_cmd_ids := {1}, outstanding_commands := [(1, 1, 7)]\<rparr>"

definition asked_proxy :: "byte \<Rightarrow> proxy" where
  "asked_proxy n = proxy_init asked_session []
     ([0, 0, 0, 31, 0, 0, 0, 1, 128, 0, 0] @ JdwpReplyPacket.data (id_sizes_reply n))"

lemma id_sizes_reply_decoded:
  assumes "uint n < 128"
  shows "from_bytes IDSizesResponse_deserialize (JdwpReplyPacket.data (id_sizes_reply n)) sp =
    Inr (IDSizesResponse.make (uint n) (uint n) (uint n) (uint n) (uint n))"
proof -
  have "- 2147483648 \<le> uint n" by (rule order_trans [OF _ uint_ge_0]) simp
  then have "to_bytes IDSizesResponse_serialize (IDSizesResponse.make (uint n) (uint n) (uint n) (uint n) (uint n)) sp =
      Inr (JdwpReplyPacket.data (id_sizes_reply n))"
    using assms
    by (simp add: write_eval IDSizesResponse_serialize_def IDSizesResponse.make_def id_sizes_reply_def
        JdwpReplyPacket.make_def)
  from IDSizesResponse.roundtrip [OF _ this, of "[]"] show ?thesis by simp
qed

lemma id_sizes_reply_bytes: "packet_to_bytes (ReplyPacket (id_sizes_reply n)) = Inr (vm_in (asked_proxy n))"
  by (simp add: id_sizes_reply_def asked_proxy_def proxy_init_def JdwpReplyPacket.make_def
      packet_length_def header_structs pack_def be_bytes_numeral)

lemma asked_proxy_packet:
  "deserialize_packet (vm_in (asked_proxy n)) = Inr (ReplyPacket (id_sizes_reply n), [])"
proof -
  have "packet_ok (ReplyPacket (id_sizes_reply n))"
    using error_field_of_known [of ERR_NONE]
    by (simp add: packet_ok_def is_reply_def id_sizes_reply_def JdwpReplyPacket.make_def)
  then show ?thesis using packets.dec_enc [OF _ id_sizes_reply_bytes, where rest = "[]"] by simp
qed

lemma id_sizes_reply_handled:
  "handle_reply dispose (vm_response_cls IDSizesResponse_cls) (id_sizes_reply 4) sp =
    (Inr (vm_response_obj (IDSizesResponse_obj (IDSizesResponse.make 4 4 4 4 4))), False,
     IdSizesSpec.make STRUCT_32 STRUCT_32 STRUCT_32 STRUCT_32 STRUCT_32)"
  using id_sizes_reply_decoded [of 4]
  by (simp add: handle_reply_def id_sizes_reply_def JdwpReplyPacket.make_def from_bytes_of_class
      update_spec_def from_response_def create_def get_struct_for_size_def IDSizesResponse.make_def)

lemma asked_proxy_begin:
  "\<exists>t. vm_packet_begin (ReplyPacket (id_sizes_reply 4)) asked_session = (Inr (), t) \<and>
    JdwpProxySession.spec t = IdSizesSpec.make STRUCT_32 STRUCT_32 STRUCT_32 STRUCT_32 STRUCT_32"
proof -
  have "JdwpReplyPacket.id' (id_sizes_reply 4) \<in> idsizes_cmd_ids asked_session"
    by (simp add: id_sizes_reply_def asked_session_def JdwpReplyPacket.make_def)
  from intercept_idsizes_agrees [OF id_sizes_reply_handled this] id_sizes_reply_bytes show ?thesis
    by (simp add: vm_packet_begin_def del: packet_to_bytes.simps)
qed

text \<open>C24: the proxy is transparent towards the VM: from the handshake on, what the debugger has sent is
  what the VM was sent, followed by what the proxy has not read yet; nothing is lost, added, changed or
  reordered while the loop that reads the debugger runs, whatever the packets are and however the two
  directions interleave. Once that loop has ended, at most one piece may be missing between the two,
  which the last read had taken off the stream: the eleven bytes of a header whose length is refused
  or whose payload was waited for, or what an ended stream had of a packet.\<close>

theorem proxy_transparent_to_vm:
  assumes "create_session vm dbg = Inr (s0, vm', dbg')" and "run proxy_step (proxy_init s0 dbg' vm') acts s"
  shows "\<exists>lost. dbg @ concat (map from_dbg acts) = to_vm (session s) @ lost @ dbg_in s \<and>
    (length lost = 11 \<or> deserialize_packet lost = Inl IncompleteReadError) \<and>
    (dbg_loop s \<noteq> Stopped \<longrightarrow> lost = [])"
proof -
  have "dbg = HANDSHAKE @ dbg'" "to_vm s0 = HANDSHAKE"
    using assms(1)
    by (auto simp: create_session_def establish_jdwp_connection_eq_Inr readexactly_eq_Inr split: if_splits)
  then have "to_vm_inv dbg (proxy_init s0 dbg' vm')" by (simp add: to_vm_inv_def proxy_init_def)
  from to_vm_run [OF assms(2) this] show ?thesis by (simp add: to_vm_inv_def lost_piece_def)
qed

text \<open>A debugger that sends a packet whose length is refused: the header is lost, and the loop ends.\<close>

definition refused_header :: bytes where
  "refused_header = [0, 0, 0, 3, 0, 0, 0, 1, 0, 1, 1]"

lemma proxy_transparent_to_vm_witness:
  "\<exists>lost. HANDSHAKE @ concat (map from_dbg [Arrive_Dbg (refused_header @ [7]), Dbg_Raises ValueError]) =
      to_vm (session ((proxy_init (handle_exception ValueError open_session) [7] [])\<lparr>dbg_loop := Stopped\<rparr>)) @ lost @
      dbg_in ((proxy_init (handle_exception ValueError open_session) [7] [])\<lparr>dbg_loop := Stopped\<rparr>) \<and>
    (length lost = 11 \<or> deserialize_packet lost = Inl IncompleteReadError) \<and>
    (dbg_loop ((proxy_init (handle_exception ValueError open_session) [7] [])\<lparr>dbg_loop := Stopped\<rparr>) \<noteq> Stopped \<longrightarrow>
      lost = [])"
proof (rule proxy_transparent_to_vm)
  show "create_session HANDSHAKE HANDSHAKE = Inr (open_session, [], [])" by (rule create_open_session)
  let ?s = "proxy_init open_session [] []" and ?t = "proxy_init open_session (refused_header @ [7]) []"
  have 1: "proxy_step ?s (Arrive_Dbg (refused_header @ [7])) ?t"
    using arrive_dbg [of ?s "refused_header @ [7]"] by (simp add: proxy_init_def)
  have "loop_stops (dbg_loop ?t) ValueError (dbg_in ?t) [7]"
    by (simp add: proxy_init_def receive_stops_def deserialize_packet_error_iff refused_header_def be_uint_def)
  from dbg_raises [OF this]
  have 2: "proxy_step ?t (Dbg_Raises ValueError)
      ((proxy_init (handle_exception ValueError open_session) [7] [])\<lparr>dbg_loop := Stopped\<rparr>)"
    by (simp add: proxy_init_def)
  show "run proxy_step ?s [Arrive_Dbg (refused_header @ [7]), Dbg_Raises ValueError]
      ((proxy_init (handle_exception ValueError open_session) [7] [])\<lparr>dbg_loop := Stopped\<rparr>)"
    by (rule run.Cons, rule 1, rule run.Cons, rule 2, rule run.Nil)
qed

text \<open>C25: towards the debugger the same holds while the loop that reads the VM has not ended; once it
  has ended, what is missing is one piece, between what was sent on and what was not read.\<close>

theorem proxy_transparent_to_debugger:
  assumes "create_session vm dbg = Inr (s0, vm', dbg')" and "run proxy_step (proxy_init s0 dbg' vm') acts s"
  shows "\<exists>lost. vm @ concat (map from_vm acts) = to_dbg (session s) @ lost @ vm_in s \<and>
    (vm_loop s \<noteq> Stopped \<longrightarrow> lost = [])"
proof -
  have "vm = HANDSHAKE @ vm'" "to_dbg s0 = HANDSHAKE"
    using assms(1)
    by (auto simp: create_session_def establish_jdwp_connection_eq_Inr readexactly_eq_Inr split: if_splits)
  then have "to_dbg_inv vm (proxy_init s0 dbg' vm')" by (simp add: to_dbg_inv_def proxy_init_def)
  from to_dbg_run [OF assms(2) this] show ?thesis by (simp add: to_dbg_inv_def)
qed

lemma proxy_transparent_to_debugger_witness:
  "\<exists>lost. HANDSHAKE @ concat (map from_vm []) =
    to_dbg (session (proxy_init open_session [] [])) @ lost @
      vm_in (proxy_init open_session [] []) \<and>
    (vm_loop (proxy_init open_session [] []) \<noteq> Stopped \<longrightarrow> lost = [])"
proof (rule proxy_transparent_to_debugger)
  show "create_session HANDSHAKE HANDSHAKE = Inr (open_session, [], [])" by (rule create_open_session)
qed (rule run.Nil)

text \<open>C26: the proxy follows the connection: when it sees the reply to an \<open>IDSizes\<close> that the debugger's
  own connection decodes, it ends up with the same sizes, and it sends the reply on.\<close>

theorem proxy_spec_follows_connection:
  assumes "handle_reply cmd (vm_response_cls IDSizesResponse_cls) reply (JdwpProxySession.spec s) = (Inr resp, w, sp)"
    and "JdwpReplyPacket.id' reply \<in> idsizes_cmd_ids s" and "packet_to_bytes (ReplyPacket reply) = Inr bs"
  shows "\<exists>s'. vm_packet_begin (ReplyPacket reply) s = (Inr (), s') \<and> JdwpProxySession.spec s' = sp \<and>
    to_dbg s' = to_dbg s @ bs \<and> JdwpReplyPacket.id' reply \<notin> idsizes_cmd_ids s'"
  using intercept_idsizes_agrees [OF assms(1,2)] assms(3)
  by (simp add: vm_packet_begin_def del: packet_to_bytes.simps)

lemma proxy_spec_follows_connection_witness:
  "\<exists>s'. vm_packet_begin (ReplyPacket (id_sizes_reply 4)) asked_session = (Inr (), s') \<and>
    JdwpProxySession.spec s' = IdSizesSpec.make STRUCT_32 STRUCT_32 STRUCT_32 STRUCT_32 STRUCT_32 \<and>
    to_dbg s' = to_dbg asked_session @ vm_in (asked_proxy 4) \<and> JdwpReplyPacket.id' (id_sizes_reply 4) \<notin> idsizes_cmd_ids s'"
  by (rule proxy_spec_follows_connection [OF id_sizes_reply_handled _ id_sizes_reply_bytes])
    (simp add: id_sizes_reply_def asked_session_def JdwpReplyPacket.make_def)

text \<open>The sizes of a proxy session change only by a successful reply to an \<open>IDSizes\<close> command it has
  seen, to the sizes of that reply.\<close>

lemma proxy_spec_changes_by_id_sizes_only:
  assumes "proxy_step s act s'"
    and "JdwpProxySession.spec (session s') \<noteq> JdwpProxySession.spec (session s)"
  shows "\<exists>reply resp rest. act = Vm_Packet (ReplyPacket reply) \<and>
    deserialize_packet (vm_in s) = Inr (ReplyPacket reply, rest) \<and>
    JdwpReplyPacket.id' reply \<in> idsizes_cmd_ids (session s) \<and> error_field_value (error_code reply) = 0 \<and>
    from_bytes IDSizesResponse_deserialize (JdwpReplyPacket.data reply) (JdwpProxySession.spec (session s)) = Inr resp \<and>
    from_response resp = Inr (JdwpProxySession.spec (session s'))"
  using assms
proof (induction rule: proxy_step.induct)
  case (dbg_packet s p rest t)
  then show ?case by (auto simp: debugger_packet_begin_def Let_def split: sum.splits)
next
  case (dbg_packet_raises s p rest e t)
  then show ?case by (auto simp: debugger_packet_begin_def Let_def split: sum.splits)
next
  case (vm_packet s p rest t)
  obtain q u where q: "intercept_idsizes p (session s) = (q, u)" by fastforce
  with vm_packet have "JdwpProxySession.spec t = JdwpProxySession.spec u"
    by (auto simp: vm_packet_begin_def split: sum.splits)
  moreover from this vm_packet.prems
  have "JdwpProxySession.spec u \<noteq> JdwpProxySession.spec (session s)" by simp
  ultimately show ?case using vm_packet.hyps(2) by (auto elim!: intercept_idsizes_spec [OF q])
next
  case (vm_packet_raises s p rest e t)
  obtain q u where q: "intercept_idsizes p (session s) = (q, u)" by fastforce
  moreover obtain bs where "packet_to_bytes p = Inr bs" using vm_packet_raises packets.dec_sound by blast
  ultimately have "q = Inl e" "t = u"
    using vm_packet_raises.hyps(3) by (auto simp: vm_packet_begin_def split: sum.splits)
  with q have "JdwpProxySession.spec t = JdwpProxySession.spec (session s)"
    by (auto simp: intercept_idsizes_def Let_def split: JdwpPacket.splits if_splits sum.splits)
  with vm_packet_raises.prems show ?case by simp
qed auto

text \<open>C27: a reply to an \<open>IDSizes\<close> whose sizes are not supported is withheld from the debugger: the
  bytes are taken off the VM's stream, the loop ends with the exception and the session closes, but
  nothing is sent on.\<close>

theorem unusable_id_sizes_withheld:
  assumes "vm_loop s = Receiving" and "deserialize_packet (vm_in s) = Inr (ReplyPacket reply, rest)"
    and "JdwpReplyPacket.id' reply \<in> idsizes_cmd_ids (session s)" and "error_field_value (error_code reply) = 0"
    and "from_bytes IDSizesResponse_deserialize (JdwpReplyPacket.data reply) (JdwpProxySession.spec (session s)) = Inr resp"
    and "from_response resp = Inl e" and "e \<noteq> CancelledError"
  shows "\<exists>s'. proxy_step s (Vm_Raises e) s' \<and> vm_in s' = rest \<and> to_dbg (session s') = to_dbg (session s) \<and>
    vm_loop s' = Stopped \<and> close_event (session s')"
proof -
  have "vm_packet_begin (ReplyPacket reply) (session s) = (Inl e, (session s)
      \<lparr>idsizes_cmd_ids := idsizes_cmd_ids (session s) - {JdwpReplyPacket.id' reply}\<rparr>)"
    using assms(3-6) by (simp add: vm_packet_begin_def intercept_idsizes_def Let_def)
  from vm_packet_raises [OF assms(1,2) this] show ?thesis
    by - (rule exI, rule conjI, assumption, use assms(7) in simp)
qed

lemma unusable_id_sizes_withheld_witness:
  "\<exists>s'. proxy_step (asked_proxy 2) (Vm_Raises ValueError) s' \<and> vm_in s' = [] \<and>
    to_dbg (session s') = to_dbg (session (asked_proxy 2)) \<and> vm_loop s' = Stopped \<and> close_event (session s')"
proof (rule unusable_id_sizes_withheld [OF _ asked_proxy_packet])
  show "from_bytes IDSizesResponse_deserialize (JdwpReplyPacket.data (id_sizes_reply 2))
      (JdwpProxySession.spec (session (asked_proxy 2))) = Inr (IDSizesResponse.make 2 2 2 2 2)"
    using id_sizes_reply_decoded [of 2] by simp
qed (simp_all add: asked_proxy_def proxy_init_def asked_session_def id_sizes_reply_def
    JdwpReplyPacket.make_def from_response_def create_def get_struct_for_size_def IDSizesResponse.make_def)

text \<open>C28: an exception in either direction, other than a cancellation, ends the session: the close event
  stays set whatever happens next, the other loop makes at most two more moves (it may finish the packet
  it waits for), and \<open>run\<close> can cancel both loops at any time.\<close>

theorem exception_ends_session:
  assumes "proxy_step s (Dbg_Raises e) s' \<or> proxy_step s (Vm_Raises e) s'" and "e \<noteq> CancelledError"
    and "run proxy_step s' acts s''"
  shows "close_event (session s'') \<and> length (filter loop_move acts) \<le> 2 \<and>
    proxy_step s'' Shutdown (s''\<lparr>dbg_loop := Stopped, vm_loop := Stopped\<rparr>)"
proof -
  have "close_event (session s')" using assms(1,2) by (rule raises_closes)
  then have "close_event (session s'')" by (rule closing.run_inv [OF assms(3)])
  from shutdown [OF this loop_cancelled_refl loop_cancelled_refl]
  have "proxy_step s'' Shutdown (s''\<lparr>dbg_loop := Stopped, vm_loop := Stopped\<rparr>)" by simp
  moreover have "length (filter loop_move acts) + proxy_rank s'' \<le> proxy_rank s'"
    using proxy_rank_run [OF assms(3)] raises_closes [OF assms(1,2)] by simp
  ultimately show ?thesis using \<open>close_event (session s'')\<close> raises_rank [OF assms(1)] by simp
qed

lemma exception_ends_session_witness:
  "close_event (session ((asked_proxy 2)\<lparr>session := handle_exception IncompleteReadError asked_session, dbg_loop := Stopped\<rparr>)) \<and>
   length (filter loop_move []) \<le> 2 \<and>
   proxy_step ((asked_proxy 2)\<lparr>session := handle_exception IncompleteReadError asked_session, dbg_loop := Stopped\<rparr>) Shutdown
     ((asked_proxy 2)\<lparr>session := handle_exception IncompleteReadError asked_session, dbg_loop := Stopped,
        dbg_loop := Stopped, vm_loop := Stopped\<rparr>)"
proof (rule exception_ends_session [OF _ _ run.Nil])
  have "proxy_step (asked_proxy 2) (Dbg_Raises IncompleteReadError) ((asked_proxy 2)
      \<lparr>session := handle_exception IncompleteReadError (session (asked_proxy 2)), dbg_loop := Stopped\<rparr>)"
    using dbg_raises [of "asked_proxy 2" IncompleteReadError "[]"]
    by (simp add: asked_proxy_def proxy_init_def receive_stops_def deserialize_packet_error_iff)
  moreover have "session (asked_proxy 2) = asked_session" by (simp add: asked_proxy_def proxy_init_def)
  ultimately show "proxy_step (asked_proxy 2) (Dbg_Raises IncompleteReadError) ((asked_proxy 2)
      \<lparr>session := handle_exception IncompleteReadError asked_session, dbg_loop := Stopped\<rparr>) \<or>
    proxy_step (asked_proxy 2) (Vm_Raises IncompleteReadError) ((asked_proxy 2)
      \<lparr>session := handle_exception IncompleteReadError asked_session, dbg_loop := Stopped\<rparr>)" by simp
qed simp

text \<open>C29: the hex dump of a packet has a line for every sixteen bytes, and every line shows its offset
  and its bytes: the hexadecimal column has a fixed width, and reading its digits back gives the bytes.\<close>

theorem hexdump_shows_the_bytes:
  assumes "16 * k < length dat"
  shows "length (hexdump_lines prefix 0 dat) = (length dat + 15) div 16 \<and>
    (\<exists>h. hexdump_lines prefix 0 dat ! k = prefix @ hex_offset (16 * k) @ ''  '' @ h @ ''  |'' @
        map printable (take 16 (drop (16 * k) dat)) @ ''|'' \<and>
      length h = 49 \<and> unhex h = take 16 (drop (16 * k) dat))"
  using hexdump_lines_nth [OF assms, of prefix 0]
  by (auto simp: hexdump_lines_length hexdump_line_def unhex_hex_part length_hex_part)

lemma hexdump_shows_the_bytes_witness:
  "length (hexdump_lines ''> '' 0 [72, 105]) = (length [72 :: byte, 105] + 15) div 16 \<and>
    (\<exists>h. hexdump_lines ''> '' 0 [72, 105] ! 0 = ''> '' @ hex_offset (16 * 0) @ ''  '' @ h @ ''  |'' @
        map printable (take 16 (drop (16 * 0) [72, 105])) @ ''|'' \<and>
      length h = 49 \<and> unhex h = take 16 (drop (16 * 0) [72, 105]))"
  by (rule hexdump_shows_the_bytes) simp

text \<open>The log names the error of a reply by its member of \<open>JdwpErrorCode\<close>, except \<open>NONE\<close>: the name of
  a successful reply's code is not shown, since the member counts as false.\<close>

lemma reply_error_name_of_member:
  "reply_error_name (error_value e) = (if e = ERR_NONE then ''Unknown(0)'' else error_name e)"
proof -
  have "error_value e = 0 \<longleftrightarrow> e = ERR_NONE"
    using error.val_inj [of e ERR_NONE] by auto
  moreover have "char_of (48 :: nat) = CHR ''0''" by (simp add: char_of_def bit_0)
  ultimately show ?thesis by (simp add: reply_error_name_def show_int_def show_nat.simps)
qed

section \<open>A debugger, the proxy and a VM\<close>

text \<open>
  A system in which the connection has sent \<open>Dispose\<close> and the proxy has passed it on.
\<close>

definition dispose_bytes :: bytes where
  "dispose_bytes = [0, 0, 0, 11, 0, 0, 0, 1, 0, 1, 6]"

definition dispose_command_packet :: JdwpPacket where
  "dispose_command_packet = CommandPacket (JdwpCommandPacket.make 1 0 [] 1 6)"

definition passing_session :: JdwpProxySession where
  "passing_session = open_session\<lparr>outstanding_commands := [(1, 1, 6)], to_vm := HANDSHAKE @ dispose_bytes\<rparr>"

definition passing_system :: system where
  "passing_system = (system_init open_session [])
     \<lparr>client := loop_turn sent_state, issued := [(1, dispose, default_spec)], up_count := 11,
      middle := \<lparr>session = passing_session, dbg_loop = Sending dispose_command_packet,
        vm_loop = Receiving, dbg_in = [], vm_in = []\<rparr>\<rparr>"

definition passing_acts :: "system_action list" where
  "passing_acts = [Client (Send_Command dispose (Send_Waits 0)), Client Loop_Starts, Uplink dispose_bytes,
     Middle (Dbg_Packet dispose_command_packet)]"

lemma dispose_command_packet:
  "packet_ok dispose_command_packet" "packet_to_bytes dispose_command_packet = Inr dispose_bytes"
  by (simp_all add: dispose_command_packet_def dispose_bytes_def packet_ok_def is_reply_def
      JdwpCommandPacket.make_def packet_length_def header_structs pack_def be_bytes_numeral)

lemma passing_run: "run system_step (system_init open_session []) passing_acts passing_system"
proof -
  let ?s1 = "(system_init open_session [])\<lparr>client := sent_state, issued := [(1, dispose, default_spec)]\<rparr>"
  let ?s2 = "(system_init open_session [])\<lparr>client := loop_turn sent_state, issued := [(1, dispose, default_spec)]\<rparr>"
  let ?s3 = "?s2\<lparr>middle := (proxy_init open_session [] [])\<lparr>dbg_in := dispose_bytes\<rparr>, up_count := 11\<rparr>"
  have 1: "system_step (system_init open_session []) (Client (Send_Command dispose (Send_Waits 0))) ?s1"
    using client_acts [of "system_init open_session []" "Send_Command dispose (Send_Waits 0)" sent_state]
      connection_step.send_command [OF send_dispose]
    by (simp add: system_init_def connection_init_def)
  have "connection_step sent_state Loop_Starts (loop_turn sent_state)"
    by (rule connection_step.loop_starts) (simp add: sent_state_def)
  then have 2: "system_step ?s1 (Client Loop_Starts) ?s2"
    using client_acts [of ?s1 Loop_Starts "loop_turn sent_state"] by simp
  have "client_wire ?s2 = dispose_bytes"
    unfolding sent_turn by (simp add: sent_state_def dispose_bytes_def)
  then have "drop (up_count ?s2) (client_wire ?s2) = dispose_bytes @ []" by (simp add: system_init_def)
  moreover have "length dispose_bytes = 11" by (simp add: dispose_bytes_def)
  ultimately have 3: "system_step ?s2 (Uplink dispose_bytes) ?s3"
    using uplink [OF _ arrive_dbg, of ?s2 dispose_bytes "[]"] by (simp add: system_init_def proxy_init_def)
  have "deserialize_packet dispose_bytes = Inr (dispose_command_packet, [])"
    using packets.dec_enc [OF dispose_command_packet, of "[]"] by simp
  moreover have "debugger_packet_begin dispose_command_packet open_session = (Inr (), passing_session)"
    using dispose_command_packet(2)
    by (simp add: debugger_packet_begin_def del: packet_to_bytes.simps)
      (simp add: dispose_command_packet_def track_command_def passing_session_def open_session_def
        session_init_def JdwpCommandPacket.make_def)
  ultimately have "proxy_step (middle ?s3) (Dbg_Packet dispose_command_packet)
      ((middle ?s3)\<lparr>session := passing_session, dbg_in := [], dbg_loop := Sending dispose_command_packet\<rparr>)"
    by (intro dbg_packet) (simp_all add: proxy_init_def)
  then have 4: "system_step ?s3 (Middle (Dbg_Packet dispose_command_packet)) passing_system"
    using proxy_acts [of ?s3 "Dbg_Packet dispose_command_packet"]
    by (simp add: passing_system_def proxy_init_def system_init_def)
  show ?thesis unfolding passing_acts_def by ((rule run.Cons, rule 1 2 3 4)+, rule run.Nil)
qed

text \<open>C30: commands reach the VM through the proxy as they were sent: in every run, with any scheduling
  of the two connections' loops and of the network, what the VM reads after the handshake is a
  sequence of whole packets, namely the first of the packets the debugger's connection issued,
  in order, with their ids; and, at the sizes the connection used, each is parsed to the command
  that was sent, with the same types of values, exactly when every value in that command belongs to its tag and floats are
  representable, and a \<open>SetValues\<close> of an array has integers only (\<open>command_ok\<close>).\<close>

theorem commands_reach_the_vm:
  assumes "create_session vm HANDSHAKE = Inr (s0, vm', dbg')" and "run system_step (system_init s0 vm') acts s"
  shows "\<exists>ps. packets.dec_all (drop (length HANDSHAKE) (vm_wire s)) = (ps, IncompleteReadError) \<and>
    length ps \<le> length (issued s) \<and>
    list_all2 (\<lambda>(i, cmd, sp) p. \<exists>q. p = CommandPacket q \<and> JdwpCommandPacket.id' q = i \<and>
      (parse_command q sp = Inr cmd \<longleftrightarrow> command_ok cmd)) (take (length ps) (issued s)) ps"
proof (rule up_inv_commands)
  show "up_inv s" using up.run_inv [OF assms(2) up_inv_init [OF assms(1)]] .
qed

lemma commands_reach_the_vm_witness:
  "\<exists>ps. packets.dec_all (drop (length HANDSHAKE) (vm_wire passing_system)) = (ps, IncompleteReadError) \<and>
    length ps \<le> length (issued passing_system) \<and>
    list_all2 (\<lambda>(i, cmd, sp) p. \<exists>q. p = CommandPacket q \<and> JdwpCommandPacket.id' q = i \<and>
      (parse_command q sp = Inr cmd \<longleftrightarrow> command_ok cmd)) (take (length ps) (issued passing_system)) ps"
  by (rule commands_reach_the_vm [OF create_open_session passing_run])

text \<open>C31: every response comes from the VM: when a call of \<open>send_command\<close> returns a response, the VM sent,
  through the proxy, a reply with the id of the request and no error, and the response is what the
  class registered for the command decodes from its payload.\<close>

theorem responses_come_from_the_vm:
  assumes "create_session vm HANDSHAKE = Inr (s0, vm', dbg')" and "run system_step (system_init s0 vm') acts s"
    and "system_step s (Client (Command_Returns i a cmd (Inr resp))) s'"
  shows "\<exists>reply cls. ReplyPacket reply \<in> set (fst (packets.dec_all (vm' @ concat (map from_machine acts)))) \<and>
    JdwpReplyPacket.id' reply = i \<and> error_field_value (error_code reply) = 0 \<and>
    get_response_class (command_class_of cmd) = Some cls \<and>
    from_bytes (response_deserialize cls) (JdwpReplyPacket.data reply) (connection.spec (client s)) = Inr resp"
proof -
  have "conn_inv (client s)" using reachable_inv [OF client_reachable [OF assms(2)]] .
  moreover have "connection_step (client s) (Command_Returns i a cmd (Inr resp)) (client s')"
    using assms(3) by cases simp
  ultimately show ?thesis
    using finished_from_machine [OF assms(1,2)] by (elim returned_response) blast+
qed

text \<open>C32: events reach the application in the order in which the VM sent them: the commands delivered by
  \<open>receive_command\<close> are what the first command packets of the VM parse to, none skipped, repeated
  or invented, whatever the replies between them.\<close>

theorem events_come_from_the_vm_in_order:
  assumes "create_session vm HANDSHAKE = Inr (s0, vm', dbg')" and "run system_step (system_init s0 vm') acts s"
  shows "\<exists>ps. list_all2 parses_to ps (concat (map delivered (concat (map client_part acts)))) \<and>
    (\<exists>rest. command_packets (fst (packets.dec_all (vm' @ concat (map from_machine acts)))) = ps @ rest)"
  using assms by (rule delivered_from_machine)

lemma events_come_from_the_vm_in_order_witness:
  "\<exists>ps. list_all2 parses_to ps (concat (map delivered (concat (map client_part passing_acts)))) \<and>
    (\<exists>rest. command_packets (fst (packets.dec_all ([] @ concat (map from_machine passing_acts)))) = ps @ rest)"
  by (rule events_come_from_the_vm_in_order [OF create_open_session passing_run])

text \<open>C33: a reply gets through: when a call waits, the connection's background task is running, the loop
  of the proxy that reads the VM waits for a packet, and nothing else is on the way from the VM, then the
  bytes of a reply with the call's id, sent by the VM, can travel through the proxy and the network
  until the call returns, with what \<open>handle_reply\<close> makes of the reply; five steps do it. The proxy
  must not withhold the reply, which it does for unusable sizes of identifiers only.\<close>

theorem reply_reaches_the_caller:
  assumes "create_session vm HANDSHAKE = Inr (s0, vm', dbg')" and "run system_step (system_init s0 vm') acts s"
    and "(i, a) \<in> set (calls (packets (client s)))" and "(a, cmd) \<in> set (requests (client s))"
    and "futures (conn (packets (client s))) ! a = Pending" and "read_task (client s) = Running"
    and "get_response_class (command_class_of cmd) = Some cls"
    and "handle_reply cmd cls r (connection.spec (client s)) = (out, w, sp)"
    and "inbox s = []" and "down_count s = length (dbg_wire s)" and "vm_in (middle s) = []"
    and "vm_loop (middle s) = Receiving" and "vm_packet_begin (ReplyPacket r) (session (middle s)) = (Inr (), t)"
    and "JdwpReplyPacket.id' r = i" and "packet_ok (ReplyPacket r)" and "packet_to_bytes (ReplyPacket r) = Inr bs"
  shows "\<exists>s'. run system_step s [Machine bs, Middle (Vm_Packet (ReplyPacket r)), Downlink bs,
      Client_Reads (Loop_Reply r), Client (Command_Returns i a cmd out)] s' \<and>
    connection.spec (client s') = sp"
proof -
  have "conn_inv (client s)" using reachable_inv [OF client_reachable [OF assms(2)]] .
  from reply_completes [OF this assms(3-6,14,7,8)] obtain c c' where
      "connection_step (client s) (Loop_Reply r) c" "connection_step c (Command_Returns i a cmd out) c'"
      "connection.spec c' = sp" by blast
  moreover from reply_gets_through [OF this(1,2) assms(9-13,15,16)] obtain s' where
      "run system_step s [Machine bs, Middle (Vm_Packet (ReplyPacket r)), Downlink bs,
        Client_Reads (Loop_Reply r), Client (Command_Returns i a cmd out)] s'" "client s' = c'" by (elim exE conjE)
  ultimately show ?thesis by (intro exI [of _ s'] conjI) simp_all
qed

lemma dispose_reply_bytes:
  "packet_ok (ReplyPacket dispose_reply)"
  "packet_to_bytes (ReplyPacket dispose_reply) = Inr [0, 0, 0, 11, 0, 0, 0, 1, 128, 0, 0]"
  using error_field_of_known [of ERR_NONE]
  by (simp_all add: packet_ok_def is_reply_def dispose_reply_def JdwpReplyPacket.make_def
      packet_length_def header_structs pack_def be_bytes_numeral)

lemma dispose_handled:
  "handle_reply dispose (vm_response_cls DisposeResponse_cls) dispose_reply sp =
    (Inr (vm_response_obj (DisposeResponse_obj DisposeResponse)), False, sp)"
  by (simp add: handle_reply_def dispose_reply_def JdwpReplyPacket.make_def from_bytes_def of_class_def
      DisposeResponse_deserialize_def rbind_def rreturn_def update_spec_def)

lemma passing_reply:
  "vm_packet_begin (ReplyPacket dispose_reply) passing_session =
    (Inr (), passing_session\<lparr>to_dbg := HANDSHAKE @ [0, 0, 0, 11, 0, 0, 0, 1, 128, 0, 0]\<rparr>)"
  using dispose_reply_bytes(2)
  by (simp add: vm_packet_begin_def intercept_idsizes_def passing_session_def open_session_def session_init_def
      del: packet_to_bytes.simps)

lemma reply_reaches_the_caller_witness:
  "\<exists>s'. run system_step passing_system [Machine [0, 0, 0, 11, 0, 0, 0, 1, 128, 0, 0],
      Middle (Vm_Packet (ReplyPacket dispose_reply)), Downlink [0, 0, 0, 11, 0, 0, 0, 1, 128, 0, 0],
      Client_Reads (Loop_Reply dispose_reply),
      Client (Command_Returns 1 0 dispose (Inr (vm_response_obj (DisposeResponse_obj DisposeResponse))))] s' \<and>
    connection.spec (client s') = connection.spec (client passing_system)"
proof (rule reply_reaches_the_caller [OF create_open_session passing_run])
  show "handle_reply dispose (vm_response_cls DisposeResponse_cls) dispose_reply
      (connection.spec (client passing_system)) =
    (Inr (vm_response_obj (DisposeResponse_obj DisposeResponse)), False, connection.spec (client passing_system))"
    by (rule dispose_handled)
  show "vm_packet_begin (ReplyPacket dispose_reply) (session (middle passing_system)) =
      (Inr (), passing_session\<lparr>to_dbg := HANDSHAKE @ [0, 0, 0, 11, 0, 0, 0, 1, 128, 0, 0]\<rparr>)"
    using passing_reply by (simp add: passing_system_def)
  show "get_response_class (command_class_of dispose) = Some (vm_response_cls DisposeResponse_cls)"
    by (simp add: dispose_class)
qed (simp_all only: dispose_reply_bytes dispose_reply_id,
    simp_all add: passing_system_def system_init_def sent_turn passing_session_def open_session_def,
    simp_all add: sent_state_def)

lemma responses_come_from_the_vm_witness:
  "\<exists>s acts reply cls. run system_step (system_init open_session []) acts s \<and>
    ReplyPacket reply \<in> set (fst (packets.dec_all ([] @ concat (map from_machine acts)))) \<and>
    JdwpReplyPacket.id' reply = 1 \<and> error_field_value (error_code reply) = 0 \<and>
    get_response_class (command_class_of dispose) = Some cls \<and>
    from_bytes (response_deserialize cls) (JdwpReplyPacket.data reply) (connection.spec (client s)) =
      Inr (vm_response_obj (DisposeResponse_obj DisposeResponse))"
proof -
  let ?out = "Inr (vm_response_obj (DisposeResponse_obj DisposeResponse))"
  let ?bs = "[0, 0, 0, 11, 0, 0, 0, 1, 128, 0, 0] :: bytes"
  have turn: "conn_inv (loop_turn sent_state)" using run_turned by (rule reachable_inv)
  obtain c c' where c: "connection_step (loop_turn sent_state) (Loop_Reply dispose_reply) c"
      "connection_step c (Command_Returns 1 0 dispose ?out) c'"
    using reply_completes [where a = 0, OF turn _ _ _ _ dispose_reply_id _ dispose_handled]
    by (auto simp: sent_turn dispose_class) (auto simp: sent_state_def)
  have "\<exists>s'. run system_step passing_system [Machine ?bs, Middle (Vm_Packet (ReplyPacket dispose_reply)),
      Downlink ?bs, Client_Reads (Loop_Reply dispose_reply), Client (Command_Returns 1 0 dispose ?out)] s' \<and>
      client s' = c'"
    by (rule reply_gets_through [OF _ c(2)])
      (simp_all only: dispose_reply_bytes,
        simp_all add: c passing_reply passing_system_def system_init_def,
        simp add: passing_session_def open_session_def)
  then obtain s' where "run system_step passing_system ([Machine ?bs, Middle (Vm_Packet (ReplyPacket dispose_reply)),
      Downlink ?bs, Client_Reads (Loop_Reply dispose_reply)] @ [Client (Command_Returns 1 0 dispose ?out)]) s'"
    unfolding append.simps by (elim exE conjE)
  then obtain s where "run system_step passing_system [Machine ?bs,
      Middle (Vm_Packet (ReplyPacket dispose_reply)), Downlink ?bs, Client_Reads (Loop_Reply dispose_reply)] s"
    and last: "system_step s (Client (Command_Returns 1 0 dispose ?out)) s'"
    unfolding run_append run_one by (elim exE conjE)
  with passing_run have "run system_step (system_init open_session []) (passing_acts @ [Machine ?bs,
      Middle (Vm_Packet (ReplyPacket dispose_reply)), Downlink ?bs, Client_Reads (Loop_Reply dispose_reply)]) s"
    unfolding run_append [of _ _ passing_acts] by (intro exI conjI)
  with responses_come_from_the_vm [OF create_open_session this last] show ?thesis by blast
qed

section \<open>The connections of a proxy session\<close>



section \<open>The proxy with many clients\<close>

text \<open>However the tasks of the server interleave, a client that is being served is relayed as a session
  of its own: on the connection made for it the VM is sent what this client has sent, and the client
  is sent what the VM sent on that connection.\<close>

lemma served_client_is_relayed:
  assumes "run server_step [] acts s" and "i < length s" and "stage (s ! i) = Relaying"
  shows "to_vm_inv (concat (map client_bytes (actions_at i acts))) (relay (s ! i))"
    and "to_dbg_inv (concat (map target_bytes (actions_at i acts))) (relay (s ! i))"
proof -
  obtain vm dbg pacts where "relaying (actions_at i acts) vm dbg pacts (s ! i)"
    using server_visit [OF assms(1,2)] assms(3) by (auto simp: visit_trace_def)
  from relaying_transparent [OF this]
  show "to_vm_inv (concat (map client_bytes (actions_at i acts))) (relay (s ! i))"
    "to_dbg_inv (concat (map target_bytes (actions_at i acts))) (relay (s ! i))" by simp_all
qed








section \<open>Programs that use the library\<close>

text \<open>A peer that answers with the next message of a list.\<close>

definition scripted :: "(JdwpResponse + JdwpCommand) list peer" where
  "scripted = \<lparr>answer = (\<lambda>cmd v. case v of Inl resp # v' \<Rightarrow> (Some (Inr resp), v') | _ \<Rightarrow> (None, v)),
     announce = (\<lambda>v. case v of Inr cmd # v' \<Rightarrow> (Some (Inr cmd), v') | _ \<Rightarrow> (None, v))\<rparr>"

text \<open>A VM with the class, the method and the variable the example looks for; its ids are 5, 7, 9, 3 and 11.\<close>

definition example_script :: "(JdwpResponse + JdwpCommand) list" where
  "example_script =
     (let set_resp = Inl (event_request_response_obj (SetResponse_obj (SetResponse.make 1)));
          resumed = Inl (vm_response_obj (VM_ResumeResponse_obj VM_ResumeResponse));
          event = \<lambda>ev. Inr (event_command_obj (CompositeCommand_obj (CompositeCommand.make SUSPEND_ALL [ev])))
      in [event (VMStartEvent_obj (VMStartEvent.make 0 9)),
          Inl (vm_response_obj (IDSizesResponse_obj (IDSizesResponse.make 8 8 8 8 8))),
          set_resp, resumed,
          event (ClassPrepareEvent_obj (ClassPrepareEvent.make 1 9 TYPE_CLASS 5 (py ''LSimpleApp;'') 7)),
          Inl (reference_type_response_obj (MethodsResponse_obj (MethodsResponse.make
            [MethodsEntry.make 6 (py ''main'') (py ''()V'') 9, MethodsEntry.make 7 (py ''testMethod'') (py ''(I)V'') 1]))),
          Inl (method_response_obj (VariableTableResponse_obj (VariableTableResponse.make 2
            [VariableTableEntry.make 0 (py ''iteration'') (py ''I'') 20 3]))),
          set_resp, resumed,
          event (BreakpointEvent_obj (BreakpointEvent.make 1 9 (Location.make TYPE_CLASS 5 7 0))),
          Inl (thread_reference_response_obj (FramesResponse_obj (FramesResponse.make
            [FramesEntry.make 11 (Location.make TYPE_CLASS 5 7 0)]))),
          Inl (stack_frame_response_obj (StackFrame_GetValuesResponse_obj (StackFrame_GetValuesResponse.make
            [JdwpValue.make TAG_INT (PyInt 4)]))),
          resumed])"

lemma example_script_completes: "fst (run_client scripted breakpoint_example example_script) = Completed"
  by (simp add: example_script_def Let_def breakpoint_example_def class_prepared_def breakpoint_hit_def
      run_client.simps scripted_def first_event_def first_item_def first_matching_def py_index_def
      assert_breakpoint_def assert_class_prepare_def attr_methods_def attr_slots_def attr_frames_def
      attr_values_def CompositeCommand.make_def MethodsResponse.make_def MethodsEntry.make_def
      VariableTableResponse.make_def VariableTableEntry.make_def FramesResponse.make_def
      StackFrame_GetValuesResponse.make_def py_def)

text \<open>C36: the breakpoint example does what it says, whatever the VM: when it ends with status 0, its
  exchange with the VM was this. It asked for the sizes, requested the preparation of the class
  and resumed; it looked up the first method named \<open>testMethod\<close> of the class that was prepared and
  the first variable named \<open>iteration\<close> of that method; it set a breakpoint at the start of that
  method and resumed; it read that variable's slot in the top frame of the thread that hit the
  breakpoint, printed the value it got, and resumed a third time, once for every stop. The
  connection was closed last.\<close>

theorem breakpoint_example_reads_the_variable:
  assumes "run_main P breakpoint_example connecting closing v = (Exit 0, tr)"
  shows "\<exists>start r0 r1 r2 pc prep ms m mr vs u vr r3 r4 bc bp f fr x xr r5.
    composite_of (ClassPrepareEvent_obj prep) pc \<and> methods_of ms mr \<and>
    find (\<lambda>m. MethodsEntry.name m = py ''testMethod'') ms = Some m \<and> slots_of vs vr \<and>
    find (\<lambda>u. VariableTableEntry.name u = py ''iteration'') vs = Some u \<and>
    composite_of (BreakpointEvent_obj bp) bc \<and> top_frame_of f fr \<and> first_value_of x xr \<and>
    exchange tr = [Opened_Connection, Got start, Sent id_sizes_command r0,
      Sent (set_command EVENT_CLASS_PREPARE
        (ClassMatchModifier_obj (ClassMatchModifier.make (py ''SimpleApp'')))) r1,
      Sent resume_command r2, Got pc,
      Sent (methods_command (ClassPrepareEvent.type_id prep)) mr,
      Sent (variable_table_command (ClassPrepareEvent.type_id prep) (MethodsEntry.method_id m)) vr,
      Sent (set_command EVENT_BREAKPOINT (breakpoint_at prep m)) r3, Sent resume_command r4, Got bc,
      Sent (top_frame_command (BreakpointEvent.thread bp)) fr,
      Sent (int_slot_command (BreakpointEvent.thread bp) (FramesEntry.frame_id f) (VariableTableEntry.slot u)) xr,
      Sent resume_command r5, Closed_Connection] \<and>
    Printed (Shown_Value (py ''[+] Value of 'iteration': '') (JdwpValue.value x)) \<in> set tr"
proof -
  obtain body where b: "run_client P breakpoint_example v = (Completed, body)"
    and tr: "tr = Opened_Connection # body @ [Closed_Connection]"
    using assms by (rule run_main_exit_0)
  obtain start r0 r1 r2 pc prep v1 t1 where 1: "composite_of (ClassPrepareEvent_obj prep) pc"
      "run_client P (class_prepared prep) v1 = (Completed, t1)" "set t1 \<subseteq> set body"
      "exchange body = [Got start, Sent id_sizes_command r0, Sent (set_command EVENT_CLASS_PREPARE
        (ClassMatchModifier_obj (ClassMatchModifier.make (py ''SimpleApp'')))) r1,
        Sent resume_command r2, Got pc] @ exchange t1"
    using breakpoint_example_ended [OF b] by blast
  obtain ms m mr vs u vr r3 r4 v2 t2 where 2: "methods_of ms mr"
      "find (\<lambda>m. MethodsEntry.name m = py ''testMethod'') ms = Some m" "slots_of vs vr"
      "find (\<lambda>u. VariableTableEntry.name u = py ''iteration'') vs = Some u"
      "run_client P (breakpoint_hit (VariableTableEntry.slot u)) v2 = (Completed, t2)" "set t2 \<subseteq> set t1"
      "exchange t1 = [Sent (methods_command (ClassPrepareEvent.type_id prep)) mr,
        Sent (variable_table_command (ClassPrepareEvent.type_id prep) (MethodsEntry.method_id m)) vr,
        Sent (set_command EVENT_BREAKPOINT (breakpoint_at prep m)) r3, Sent resume_command r4] @ exchange t2"
    using class_prepared_ended [OF 1(2)] by blast
  obtain bc bp fr f xr x r5 where 3: "composite_of (BreakpointEvent_obj bp) bc" "top_frame_of f fr"
      "first_value_of x xr" "exchange t2 = [Got bc, Sent (top_frame_command (BreakpointEvent.thread bp)) fr,
        Sent (int_slot_command (BreakpointEvent.thread bp) (FramesEntry.frame_id f) (VariableTableEntry.slot u)) xr,
        Sent resume_command r5]"
      "Printed (Shown_Value (py ''[+] Value of 'iteration': '') (JdwpValue.value x)) \<in> set t2"
    using breakpoint_hit_ended [OF 2(5)] by blast
  have "exchange tr = Opened_Connection # exchange body @ [Closed_Connection]" using tr by simp
  moreover have "Printed (Shown_Value (py ''[+] Value of 'iteration': '') (JdwpValue.value x)) \<in> set tr"
    using 3(5) 2(6) 1(3) tr by auto
  ultimately have last: "exchange tr = Opened_Connection # [Got start, Sent id_sizes_command r0,
      Sent (set_command EVENT_CLASS_PREPARE
        (ClassMatchModifier_obj (ClassMatchModifier.make (py ''SimpleApp'')))) r1,
      Sent resume_command r2, Got pc] @ exchange t1 @ [Closed_Connection]"
    "Printed (Shown_Value (py ''[+] Value of 'iteration': '') (JdwpValue.value x)) \<in> set tr"
    using 1(4) by simp_all
  show ?thesis
    by (rule exI [of _ start], rule exI [of _ r0], rule exI [of _ r1], rule exI [of _ r2], rule exI [of _ pc],
        rule exI [of _ prep], rule exI [of _ ms], rule exI [of _ m], rule exI [of _ mr], rule exI [of _ vs],
        rule exI [of _ u], rule exI [of _ vr], rule exI [of _ r3], rule exI [of _ r4], rule exI [of _ bc],
        rule exI [of _ bp], rule exI [of _ f], rule exI [of _ fr], rule exI [of _ x], rule exI [of _ xr],
        rule exI [of _ r5]) (simp add: 1(1) 2(1-4) 3(1-3) last 2(7) 3(4))
qed

lemma breakpoint_example_reads_the_variable_witness:
  "fst (run_main scripted breakpoint_example None None example_script) = Exit 0 \<and>
    (\<exists>x :: JdwpValue. Printed (Shown_Value (py ''[+] Value of 'iteration': '') (JdwpValue.value x)) \<in>
      set (snd (run_main scripted breakpoint_example None None example_script)))"
proof -
  let ?r = "run_main scripted breakpoint_example None None example_script"
  obtain body where "run_client scripted breakpoint_example example_script = (Completed, body)"
    using example_script_completes by (metis prod.collapse)
  then have exit: "fst ?r = Exit 0" by (simp add: run_main_def)
  have "?r = (Exit 0, snd ?r)" unfolding exit [symmetric] by (rule prod.collapse [symmetric])
  from breakpoint_example_reads_the_variable [OF this]
  have "\<exists>x :: JdwpValue. Printed (Shown_Value (py ''[+] Value of 'iteration': '') (JdwpValue.value x)) \<in> set (snd ?r)"
    by blast
  with exit show ?thesis by (rule conjI)
qed

text \<open>C37: no example sends anything before it asks for the sizes: whatever the peer does, and however the
  program ends, the first command it sends is \<open>IDSizes\<close>; and the connection is closed whenever it
  was opened, unless the program waits for ever. It exits with status 0 exactly when nothing raised.\<close>

theorem examples_ask_for_the_sizes_first:
  assumes "program \<in> {get_version, breakpoint_example}"
    and "run_main P program connecting closing v = (ex, tr)"
  shows "(sent_commands tr = [] \<or> (\<exists>rest. sent_commands tr = id_sizes_command # rest)) \<and>
    (ex \<noteq> Blocked \<longrightarrow> (Closed_Connection \<in> set tr \<longleftrightarrow> connecting = None) \<and>
      (ex = Exit 0 \<longleftrightarrow> connecting = None \<and> closing = None \<and> fst (run_client P program v) = Completed))"
  using examples_ask_sizes_first [OF assms(1), of P v] run_main_sent [of P program connecting closing v]
    run_main_closes [OF assms(2)] assms(2)
  by (auto simp: asks_sizes_first_def)

lemma examples_ask_for_the_sizes_first_witness:
  "(sent_commands (snd (run_main scripted breakpoint_example None None example_script)) = [] \<or>
      (\<exists>rest. sent_commands (snd (run_main scripted breakpoint_example None None example_script)) =
        id_sizes_command # rest)) \<and>
    Closed_Connection \<in> set (snd (run_main scripted breakpoint_example None None example_script))"
proof -
  have "fst (run_main scripted breakpoint_example None None example_script) = Exit 0"
    using example_script_completes
    by (cases "run_client scripted breakpoint_example example_script") (simp add: run_main_def)
  with examples_ask_for_the_sizes_first [OF _ prod.collapse [symmetric],
      of breakpoint_example scripted None None example_script]
  show ?thesis by simp
qed

text \<open>C38: waiting for a port ends: if every turn of the loop takes a tenth of a second at least, \<open>wait_for_port\<close>
  returns after a bounded number of polls (for the default timeout, at most fifty). The result is true
  when a poll in time finds a listener, the exception of a poll that raises, and false when the time
  is over; every poll before found nobody.\<close>

theorem wait_for_port_bounded:
  assumes "clock_advances w"
  shows "\<exists>n. real n < max 0 (10 * limit) + 1 \<and>
    (\<forall>j<n. in_time w limit j \<and> (\<exists>c. lsof w j = Inr c \<and> c \<noteq> 0)) \<and>
    wait_for_port w limit = Some (if in_time w limit n then (case lsof w n of Inl e \<Rightarrow> Inl e | Inr _ \<Rightarrow> Inr True)
      else Inr False) \<and>
    (in_time w limit n \<longrightarrow> lsof w n = Inr 0 \<or> (\<exists>e. lsof w n = Inl e))"
proof (intro exI conjI)
  let ?n = "quiet_polls w limit"
  show "real ?n < max 0 (10 * limit) + 1"
    "wait_for_port w limit = Some (if in_time w limit ?n then (case lsof w ?n of Inl e \<Rightarrow> Inl e | Inr _ \<Rightarrow> Inr True)
      else Inr False)"
    using wait_for_port_result [OF assms, of limit] by auto
  show "\<forall>j<?n. in_time w limit j \<and> (\<exists>c. lsof w j = Inr c \<and> c \<noteq> 0)"
    using quiet_polls_least(3) [OF assms, where limit = limit] by (simp add: quiet_def)
  show "in_time w limit ?n \<longrightarrow> lsof w ?n = Inr 0 \<or> (\<exists>e. lsof w ?n = Inl e)"
    using quiet_polls_least(1) [OF assms, where limit = limit]
    by (cases "lsof w ?n") (auto simp: quiet_def)
qed

text \<open>A server that is found by the fourth poll.\<close>

definition late_server :: poller where
  "late_server = \<lparr>clock = (\<lambda>k. real k / 10), lsof = (\<lambda>k. Inr (if k < 3 then 1 else 0))\<rparr>"

lemma late_server_advances: "clock_advances late_server"
  by (simp add: clock_advances_def late_server_def field_simps)

lemma wait_for_port_bounded_witness: "wait_for_port late_server 5 = Some (Inr True)"
proof -
  obtain n where n: "\<forall>j<n. \<exists>c. lsof late_server j = Inr c \<and> c \<noteq> 0"
      "wait_for_port late_server 5 = Some (if in_time late_server 5 n
        then (case lsof late_server n of Inl e \<Rightarrow> Inl e | Inr _ \<Rightarrow> Inr True) else Inr False)"
    using wait_for_port_bounded [OF late_server_advances, of 5] by blast
  have "n \<le> 3" using n(1) [rule_format, of 3] by (force simp: late_server_def not_le)
  with n(2) show ?thesis by (simp add: in_time_def late_server_def)
qed


text \<open>Both processes are stubborn, and the second wait for the proxy is interrupted as well.\<close>

definition stubborn_outside :: outside where
  "stubborn_outside = \<lparr>os_environ = (\<lambda>_. None), python = ''python3'', root_dir = ''/repo'',
     session_dir = ''/tmp/session'', source_exists = True, mkdir_raises = None, javac = Inr 0,
     jvm_port_pick = (\<lambda>_. Inr 8000), proxy_port_pick = (\<lambda>_. Inr 5005), popen_raises = (\<lambda>_. None),
     run_raises = (\<lambda>_. Some KeyboardInterrupt), is_stubborn = (\<lambda>_. True),
     wait_interrupted = (\<lambda>cmd. hd cmd = ''java''), last_wait_interrupted = (\<lambda>cmd. hd cmd \<noteq> ''java''),
     exits_early = (\<lambda>_. False), jvm_poller = late_server, proxy_poller = late_server, has_tmux = True\<rparr>"


text \<open>The exception happens: an interrupt while \<open>terminate_process\<close> waits for a stubborn process leaves
  the process alive.\<close>

lemma interrupted_termination_leaves_process:
  assumes "p < length (processes s)" and "alive (processes s ! p)" and "stubborn (processes s ! p)"
    and "wait_interrupted os (argv (processes s ! p))"
  shows "\<exists>t. terminate_process os p s = (Raises KeyboardInterrupt, t) \<and> alive (processes t ! p)"
  using assms by (simp add: terminate_process_def Let_def send_terminate_def change_process_def)

text \<open>C40: the programs of a session are connected: when the session script returns, it has started a JVM
  and a proxy and has attached \<^verbatim>\<open>jdb\<close>; the proxy reads its command line as listening on the port
  \<^verbatim>\<open>jdb\<close> was attached to and forwarding, on the same machine, to the port the JVM was told to
  listen on. Ports are the 16-bit numbers the system picks.\<close>

theorem jdb_session_is_connected:
  assumes "jdb_session_main os script_init = (Returns, s)"
    and "\<forall>used p. jvm_port_pick os used = Inr p \<longrightarrow> p < 2 ^ 16"
    and "\<forall>used p. proxy_port_pick os used = Inr p \<longrightarrow> p < 2 ^ 16"
  shows "\<exists>jvm_port proxy_port. map argv (processes s) =
      [jvm_cmd (session_dir os @ ''/classes'') jvm_port, proxy_cmd (python os) proxy_port jvm_port] \<and>
    parse_args (drop 4 (proxy_cmd (python os) proxy_port jvm_port)) = Parsed_Options
      \<lparr>listen_port = int proxy_port, target_host = ''127.0.0.1'', target_port = int jvm_port\<rparr> \<and>
    attach_command os proxy_port \<in> set (map fst (commands s))"
proof -
  obtain j p used where j: "fst (find_free_port (jvm_port_pick os) {}) = Inr j"
    and p: "fst (find_free_port (proxy_port_pick os) used) = Inr p"
    and s: "started s = started script_init @ [jvm_cmd (session_dir os @ ''/classes'') j, proxy_cmd (python os) p j]"
      "attach_command os p \<in> set (ran s)"
    using assms(1) by (rule main_started)
  have "j < 2 ^ 16" "p < 2 ^ 16"
    using j p assms(2,3) by (auto simp: find_free_port_def Let_def split: sum.splits)
  moreover have "(2 :: nat) ^ 16 \<le> 10 ^ 4300"
    by (rule order_trans [of _ "10 ^ 5"], simp, rule power_increasing) simp_all
  ultimately have "j < 10 ^ 4300" "p < 10 ^ 4300" by (meson order.strict_trans2)+
  moreover have "drop 4 (proxy_cmd (python os) p j) = [''--listen-port'', show_nat p, ''--target-port'', show_nat j]"
    by (simp add: proxy_cmd_def)
  ultimately have "parse_args (drop 4 (proxy_cmd (python os) p j)) = Parsed_Options
      \<lparr>listen_port = int p, target_host = ''127.0.0.1'', target_port = int j\<rparr>"
    using parse_ports [of p j] by (simp only:)
  with s show ?thesis by (auto simp: started_def ran_def script_init_def)
qed

definition ready_outside :: outside where
  "ready_outside = stubborn_outside\<lparr>run_raises := (\<lambda>_. None), wait_interrupted := (\<lambda>_. False),
     last_wait_interrupted := (\<lambda>_. False), has_tmux := False,
     jvm_poller := late_server\<lparr>lsof := (\<lambda>_. Inr 0)\<rparr>, proxy_poller := late_server\<lparr>lsof := (\<lambda>_. Inr 0)\<rparr>\<rparr>"

lemma ready_outside_returns: "fst (jdb_session_main ready_outside script_init) = Returns"
proof -
  have w: "wait_for_port (late_server\<lparr>lsof := (\<lambda>_. Inr 0)\<rparr>) 5 = Some (Inr True)"
    unfolding wait_for_port_def by (subst poll_from.simps) (simp add: late_server_def)
  show ?thesis
    by (simp add: ready_outside_def stubborn_outside_def jdb_session_main_def with_temp_dir_def finally_run_def
        then_run_def compile_debuggee_def compile_java_def find_free_port_def with_logs_def Let_def
        running_jvm_debuggee_def running_jdwp_proxy_def with_process_def popen_def run_session_def early_exits_def
        ports_ready_def w launch_fallback_session_def subprocess_run_def terminate_process_def
        send_terminate_def send_kill_def wait_process_def change_process_def script_init_def)
qed

lemma jdb_session_is_connected_witness:
  "\<exists>jvm_port proxy_port. map argv (processes (snd (jdb_session_main ready_outside script_init))) =
      [jvm_cmd ''/tmp/session/classes'' jvm_port, proxy_cmd ''python3'' proxy_port jvm_port] \<and>
    parse_args (drop 4 (proxy_cmd ''python3'' proxy_port jvm_port)) = Parsed_Options
      \<lparr>listen_port = int proxy_port, target_host = ''127.0.0.1'', target_port = int jvm_port\<rparr>"
proof -
  have "jdb_session_main ready_outside script_init = (Returns, snd (jdb_session_main ready_outside script_init))"
    unfolding ready_outside_returns [symmetric] by (rule prod.collapse [symmetric])
  from jdb_session_is_connected [OF this] show ?thesis
    by (force simp: ready_outside_def stubborn_outside_def)
qed

section \<open>Malformed payloads\<close>

text \<open>A negative length of a string moves the reader back. Four bytes, the length -4, are as many
  empty strings as asked for, and the reader stays where it was.\<close>

lemma negative_string_length_rewinds:
  "read_n n read_string (reader_init (be_bytes 4 (- 4) @ rest) sp) =
    Inr (replicate n [], reader_init (be_bytes 4 (- 4) @ rest) sp)"
proof -
  let ?r = "reader_init (be_bytes 4 (- 4) @ rest) sp"
  have "unpack_from (Signed 4) ([] @ be_bytes 4 (- 4) @ rest) (int (length ([] :: bytes))) = Inr (- 4)"
    by (intro unpack_from_pack) (simp add: pack_eq_Inr)
  then have "read_int ?r = Inr (- 4, ?r\<lparr>offset := 4\<rparr>)"
    by (simp add: read_int_def read_struct_def reader_init_def)
  then have "read_string ?r = Inr ([], ?r)"
    by (simp add: read_string_def rbind_def reader_init_def py_slice_reversed utf8_decode.simps)
  then show ?thesis
    by (induction n) (simp_all add: rbind_def rreturn_def)
qed

text \<open>A string whose bytes are cut off is read without an exception: what is left of the payload is
  the string, and the reader stands beyond the end.\<close>

lemma truncated_string_accepted:
  assumes "utf8_encode s = Inr bs" and "length bs \<le> n" and "n < 2 ^ 31"
  shows "read_string (reader_init (be_bytes 4 (int n) @ bs) sp) =
    Inr (s, (reader_init (be_bytes 4 (int n) @ bs) sp)\<lparr>offset := 4 + int n\<rparr>)"
proof -
  let ?r = "reader_init (be_bytes 4 (int n) @ bs) sp"
  have "unpack_from (Signed 4) ([] @ be_bytes 4 (int n) @ bs) (int (length ([] :: bytes))) = Inr (int n)"
    using assms(3) by (intro unpack_from_pack) (simp add: pack_eq_Inr)
  then have "read_int ?r = Inr (int n, ?r\<lparr>offset := 4\<rparr>)"
    by (simp add: read_int_def read_struct_def reader_init_def)
  moreover have "py_slice (be_bytes 4 (int n) @ bs) 4 (4 + int n) = bs"
    using assms(2) by (simp add: py_slice_def slice_bound_def nat_add_distrib)
  ultimately show ?thesis
    using utf8_decode_encode [OF assms(1)]
    by (simp add: read_string_def rbind_def) (simp add: reader_init_def)
qed

text \<open>Reading an event dispatches on its kind: the four kinds of the protocol that have no class
  (frame pop, user defined, class load, exception catch) raise \<open>ValueError\<close>, whatever follows; every
  other kind is read by the class of its own, which gets the request id and the rest.\<close>

lemma event_dispatch:
  assumes "fits (Signed 4) i"
  shows "deserialize_event (reader_init (word_of_int (event_kind_value k) # be_bytes 4 i @ rest) sp) =
    (if k \<in> {EVENT_FRAME_POP, EVENT_USER_DEFINED, EVENT_CLASS_LOAD, EVENT_EXCEPTION_CATCH} then Inl ValueError
     else the (EVENT_CLASSES k) i
       ((reader_init (word_of_int (event_kind_value k) # be_bytes 4 i @ rest) sp)\<lparr>offset := 5\<rparr>))"
proof -
  let ?r = "reader_init (word_of_int (event_kind_value k) # be_bytes 4 i @ rest) sp"
  have kind: "read_enum read_byte JdwpEventKind_of ?r = Inr (k, ?r\<lparr>offset := 1\<rparr>)"
    by (simp add: read_enum_def rbind_def rlift_def read_byte_def reader_init_def py_index_def
        uint_byte_of_int)
  have "unpack_from (Signed 4) ([word_of_int (event_kind_value k)] @ be_bytes 4 i @ rest)
      (int (length [word_of_int (event_kind_value k) :: byte])) = Inr i"
    using assms by (intro unpack_from_pack) (simp add: pack_eq_Inr)
  then have id: "read_int (?r\<lparr>offset := 1\<rparr>) = Inr (i, ?r\<lparr>offset := 5\<rparr>)"
    by (simp add: read_int_def read_struct_def reader_init_def)
  have "EVENT_CLASSES k = None \<longleftrightarrow>
      k \<in> {EVENT_FRAME_POP, EVENT_USER_DEFINED, EVENT_CLASS_LOAD, EVENT_EXCEPTION_CATCH}"
    by (cases k) (simp_all add: EVENT_CLASSES_def)
  then show ?thesis
    by (auto simp: deserialize_event_def rbind_def kind id rlift_def split: option.split)
qed

end
